(* ===== verification/Prelude.thy ===== *)
theory Prelude
  imports Main "HOL-Library.Word" "HOL-Library.Monad_Syntax"
begin

text \<open>
  Shared vocabulary of the development: the machine integer types of the Rust code, the
  result type with its combinators (the \<open>?\<close> operator, \<open>ok_or\<close>, \<open>map_err\<close>, \<open>require!\<close>),
  checked and narrowing arithmetic, bounds-checked slices, little-endian byte codecs, and the
  lemma collections the component theories use.

  Conventions.  A \<open>uN\<close> is an \<open>N word\<close>; an \<open>iN\<close> is the same word read with \<open>sint\<close>.  A
  \<open>Pubkey\<close> is its 32 bytes read as one big-endian number, so equality and order are those of
  the byte array.  \<open>Result<T>\<close> is \<open>'e + 'a\<close> with \<open>Inl\<close> for the error.
\<close>

type_synonym u8 = "8 word"
type_synonym u16 = "16 word"
type_synonym u32 = "32 word"
type_synonym u64 = "64 word"
type_synonym u128 = "128 word"
type_synonym i64 = "64 word"
type_synonym i128 = "128 word"
type_synonym bytes = "8 word list"
type_synonym pubkey = "256 word"

named_theorems res_simps \<open>inversion of the result combinators\<close>
named_theorems codec_simps \<open>round trips and lengths of the byte codecs\<close>

section \<open>Results\<close>

definition and_then :: "'e + 'a \<Rightarrow> ('a \<Rightarrow> 'e + 'b) \<Rightarrow> 'e + 'b" where
  "and_then r f = (case r of Inl e \<Rightarrow> Inl e | Inr x \<Rightarrow> f x)"

definition require :: "bool \<Rightarrow> 'e \<Rightarrow> 'e + unit" where
  "require b e = (if b then Inr () else Inl e)"

definition ok_or :: "'a option \<Rightarrow> 'e \<Rightarrow> 'e + 'a" where
  "ok_or x e = (case x of None \<Rightarrow> Inl e | Some y \<Rightarrow> Inr y)"

definition map_err :: "'e + 'a \<Rightarrow> 'f \<Rightarrow> 'f + 'a" where
  "map_err r e = (case r of Inl _ \<Rightarrow> Inl e | Inr x \<Rightarrow> Inr x)"

definition is_ok :: "'e + 'a \<Rightarrow> bool" where
  "is_ok r = (case r of Inl _ \<Rightarrow> False | Inr _ \<Rightarrow> True)"

lemma and_then_simps [simp]:
  "and_then (Inl e) f = Inl e"
  "and_then (Inr x) f = f x"
  by (simp_all add: and_then_def)

lemma and_then_eq_Inr [res_simps]:
  "and_then r f = Inr y \<longleftrightarrow> (\<exists>x. r = Inr x \<and> f x = Inr y)"
  by (cases r) simp_all

lemma and_then_eq_Inl:
  "and_then r f = Inl e \<longleftrightarrow> r = Inl e \<or> (\<exists>x. r = Inr x \<and> f x = Inl e)"
  by (cases r) simp_all

lemma require_simps [simp]:
  "require True e = Inr ()"
  "require False e = Inl e"
  by (simp_all add: require_def)

lemma require_eq_Inr [res_simps]: "require b e = Inr u \<longleftrightarrow> b"
  by (cases b) simp_all

lemma require_eq_Inl: "require b e = Inl e' \<longleftrightarrow> \<not> b \<and> e' = e"
  by (cases b) auto

lemma ok_or_simps [simp]:
  "ok_or None e = Inl e"
  "ok_or (Some x) e = Inr x"
  by (simp_all add: ok_or_def)

lemma ok_or_eq_Inr [res_simps]: "ok_or x e = Inr y \<longleftrightarrow> x = Some y"
  by (cases x) simp_all

lemma ok_or_eq_Inl: "ok_or x e = Inl e' \<longleftrightarrow> x = None \<and> e' = e"
  by (cases x) auto

lemma map_err_simps [simp]:
  "map_err (Inl e) f = Inl f"
  "map_err (Inr x) f = Inr x"
  by (simp_all add: map_err_def)

lemma map_err_eq_Inr [res_simps]: "map_err r e = Inr y \<longleftrightarrow> r = Inr y"
  by (cases r) simp_all

lemma is_ok_simps [simp]:
  "is_ok (Inl e) = False"
  "is_ok (Inr x) = True"
  by (simp_all add: is_ok_def)

lemma is_ok_iff: "is_ok r \<longleftrightarrow> (\<exists>x. r = Inr x)"
  by (cases r) simp_all

section \<open>Checked and narrowing integer operations\<close>

definition checked_add :: "'a::len word \<Rightarrow> 'a word \<Rightarrow> 'a word option" where
  "checked_add x y = (if unat x + unat y < 2 ^ LENGTH('a) then Some (x + y) else None)"

definition checked_sub :: "'a::len word \<Rightarrow> 'a word \<Rightarrow> 'a word option" where
  "checked_sub x y = (if y \<le> x then Some (x - y) else None)"

definition checked_mul :: "'a::len word \<Rightarrow> 'a word \<Rightarrow> 'a word option" where
  "checked_mul x y = (if unat x * unat y < 2 ^ LENGTH('a) then Some (x * y) else None)"

definition checked_div :: "'a::len word \<Rightarrow> 'a word \<Rightarrow> 'a word option" where
  "checked_div x y = (if y = 0 then None else Some (x div y))"

text \<open>\<open>U::try_from(x)\<close> between unsigned types: the value when it fits.\<close>

definition try_from :: "'a::len word \<Rightarrow> 'b::len word option" where
  "try_from x = (if unat x < 2 ^ LENGTH('b) then Some (ucast x) else None)"

lemma checked_add_Some:
  "checked_add (x :: 'a::len word) y = Some z \<longleftrightarrow>
     unat x + unat y < 2 ^ LENGTH('a) \<and> unat z = unat x + unat y"
  unfolding checked_add_def
  by (auto simp: unat_word_ariths word_unat_eq_iff)

lemma checked_add_None:
  "checked_add (x :: 'a::len word) y = None \<longleftrightarrow> 2 ^ LENGTH('a) \<le> unat x + unat y"
  by (auto simp: checked_add_def)

lemma checked_sub_Some:
  "checked_sub x y = Some z \<longleftrightarrow> unat y \<le> unat x \<and> unat z = unat x - unat y"
proof -
  have "unat (x - y) = unat x - unat y" if "y \<le> x"
    using that by (simp add: unat_sub)
  then show ?thesis
    unfolding checked_sub_def by (auto simp: word_le_nat_alt word_unat_eq_iff)
qed

lemma checked_sub_None: "checked_sub x y = None \<longleftrightarrow> unat x < unat y"
  by (auto simp: checked_sub_def word_le_nat_alt)

lemma checked_mul_Some:
  "checked_mul (x :: 'a::len word) y = Some z \<longleftrightarrow>
     unat x * unat y < 2 ^ LENGTH('a) \<and> unat z = unat x * unat y"
  unfolding checked_mul_def
  by (auto simp: unat_word_ariths word_unat_eq_iff)

lemma checked_mul_None:
  "checked_mul (x :: 'a::len word) y = None \<longleftrightarrow> 2 ^ LENGTH('a) \<le> unat x * unat y"
  by (auto simp: checked_mul_def)

lemma checked_div_Some:
  "checked_div x y = Some z \<longleftrightarrow> y \<noteq> 0 \<and> unat z = unat x div unat y"
  by (auto simp: checked_div_def word_unat_eq_iff unat_div_distrib)

lemma try_from_Some:
  "(try_from (x :: 'a::len word) :: 'b::len word option) = Some z \<longleftrightarrow>
     unat x < 2 ^ LENGTH('b) \<and> unat z = unat x"
  by (auto simp: try_from_def word_unat_eq_iff unsigned_ucast_eq take_bit_nat_eq_self)

lemma try_from_None:
  "(try_from (x :: 'a::len word) :: 'b::len word option) = None \<longleftrightarrow> 2 ^ LENGTH('b) \<le> unat x"
  by (auto simp: try_from_def)

text \<open>The unsigned widening cast \<open>x as uN\<close> loses nothing.\<close>

lemma unat_ucast_up:
  "LENGTH('a::len) \<le> LENGTH('b::len) \<Longrightarrow> unat (ucast (x :: 'a word) :: 'b word) = unat x"
  by (simp add: unsigned_ucast_eq take_bit_nat_eq_self order_less_le_trans [OF unsigned_less])

lemma unat_ucast_64_128 [simp]: "unat (ucast (x :: u64) :: u128) = unat x"
  by (rule unat_ucast_up) simp

lemma unat_drop_bit: "unat (drop_bit n (x :: 'a::len word)) = unat x div 2 ^ n"
  by (simp add: unsigned_drop_bit_eq drop_bit_nat_def drop_bit_take_bit take_bit_nat_eq_self)

lemma unat_u64_less: "unat (x :: u64) < 2 ^ 64"
  using unsigned_less [of x] by simp

lemma unat_u128_less: "unat (x :: u128) < 2 ^ 128"
  using unsigned_less [of x] by simp

section \<open>Slices\<close>

text \<open>\<open>data.get(off..off + len)\<close> and \<open>data.get(i)\<close>.\<close>

definition slice_get :: "nat \<Rightarrow> nat \<Rightarrow> 'a list \<Rightarrow> 'a list option" where
  "slice_get off len xs =
     (if off + len \<le> length xs then Some (take len (drop off xs)) else None)"

definition list_get :: "'a list \<Rightarrow> nat \<Rightarrow> 'a option" where
  "list_get xs i = (if i < length xs then Some (xs ! i) else None)"

lemma slice_get_Some_length: "slice_get off len xs = Some ys \<Longrightarrow> length ys = len"
  by (auto simp: slice_get_def split: if_splits)

lemma slice_get_None: "slice_get off len xs = None \<longleftrightarrow> length xs < off + len"
  by (auto simp: slice_get_def)

lemma slice_get_append:
  "length pre = off \<Longrightarrow> length ys = len \<Longrightarrow> slice_get off len (pre @ ys @ post) = Some ys"
  by (simp add: slice_get_def)

section \<open>Little-endian integers\<close>

text \<open>
  \<open>to_le_bytes\<close> and \<open>from_le_bytes\<close>.  The byte count is an argument because a word's length is
  in bits; the widths in use are 1, 2, 4, 8, 16 and (for a \<open>Pubkey\<close>) 32 bytes.
\<close>

primrec nat_to_le :: "nat \<Rightarrow> nat \<Rightarrow> bytes" where
  "nat_to_le 0 x = []"
| "nat_to_le (Suc n) x = word_of_nat (x mod 256) # nat_to_le n (x div 256)"

primrec le_to_nat :: "bytes \<Rightarrow> nat" where
  "le_to_nat [] = 0"
| "le_to_nat (b # bs) = unat b + 256 * le_to_nat bs"

definition to_le_bytes :: "nat \<Rightarrow> 'a::len word \<Rightarrow> bytes" where
  "to_le_bytes n x = nat_to_le n (unat x)"

definition from_le_bytes :: "bytes \<Rightarrow> 'a::len word" where
  "from_le_bytes bs = word_of_nat (le_to_nat bs)"

lemma length_nat_to_le [simp]: "length (nat_to_le n x) = n"
  by (induction n arbitrary: x) simp_all

lemma length_to_le_bytes [simp]: "length (to_le_bytes n x) = n"
  by (simp add: to_le_bytes_def)

lemma le_to_nat_nat_to_le: "le_to_nat (nat_to_le n x) = x mod 256 ^ n"
proof (induction n arbitrary: x)
  case 0
  then show ?case by simp
next
  case (Suc n)
  have "unat (word_of_nat (x mod 256) :: u8) = x mod 256"
    by (simp add: unat_of_nat)
  with Suc show ?case
    by (simp add: mod_mult2_eq)
qed

lemma le_to_nat_less: "le_to_nat bs < 256 ^ length bs"
proof (induction bs)
  case Nil
  then show ?case by simp
next
  case (Cons b bs)
  have "unat b < 256" using unsigned_less [of b] by simp
  with Cons show ?case by simp
qed

lemma nat_to_le_le_to_nat: "nat_to_le (length bs) (le_to_nat bs) = bs"
proof (induction bs)
  case Nil
  then show ?case by simp
next
  case (Cons b bs)
  have b: "unat b < 256" using unsigned_less [of b] by simp
  then have "(unat b + 256 * le_to_nat bs) mod 256 = unat b"
    and "(unat b + 256 * le_to_nat bs) div 256 = le_to_nat bs"
    by simp_all
  with Cons show ?case by simp
qed

lemma from_le_to_le_bytes:
  assumes "LENGTH('a::len) = 8 * n"
  shows "from_le_bytes (to_le_bytes n (x :: 'a word)) = x"
proof -
  have "(256::nat) ^ n = 2 ^ LENGTH('a)"
    by (simp add: assms power_mult)
  moreover have "unat x < 2 ^ LENGTH('a)" by (rule unsigned_less)
  ultimately show ?thesis
    by (simp add: from_le_bytes_def to_le_bytes_def le_to_nat_nat_to_le)
qed

lemma to_le_from_le_bytes:
  assumes "LENGTH('a::len) = 8 * n" and "length bs = n"
  shows "to_le_bytes n (from_le_bytes bs :: 'a word) = bs"
proof -
  have "(256::nat) ^ n = 2 ^ LENGTH('a)"
    by (simp add: assms(1) power_mult)
  then have "unat (word_of_nat (le_to_nat bs) :: 'a word) = le_to_nat bs"
    using le_to_nat_less [of bs] assms(2) by (simp add: unat_of_nat)
  then show ?thesis
    using nat_to_le_le_to_nat [of bs] assms(2)
    by (simp add: to_le_bytes_def from_le_bytes_def)
qed

lemma from_to_le_widths [codec_simps]:
  "from_le_bytes (to_le_bytes 1 (x1 :: u8)) = x1"
  "from_le_bytes (to_le_bytes 2 (x2 :: u16)) = x2"
  "from_le_bytes (to_le_bytes 4 (x4 :: u32)) = x4"
  "from_le_bytes (to_le_bytes 8 (x8 :: u64)) = x8"
  "from_le_bytes (to_le_bytes 16 (x16 :: u128)) = x16"
  "from_le_bytes (to_le_bytes 32 (x32 :: pubkey)) = x32"
  by (rule from_le_to_le_bytes, simp)+

section \<open>Public keys\<close>

text \<open>The 32 bytes of a key (\<open>as_ref()\<close>) and a key from 32 bytes.\<close>

definition pubkey_bytes :: "pubkey \<Rightarrow> bytes" where
  "pubkey_bytes k = rev (to_le_bytes 32 k)"

definition pubkey_of_bytes :: "bytes \<Rightarrow> pubkey" where
  "pubkey_of_bytes bs = from_le_bytes (rev bs)"

lemma length_pubkey_bytes [simp]: "length (pubkey_bytes k) = 32"
  by (simp add: pubkey_bytes_def)

lemma pubkey_of_bytes_bytes [codec_simps, simp]: "pubkey_of_bytes (pubkey_bytes k) = k"
  by (simp add: pubkey_bytes_def pubkey_of_bytes_def codec_simps)

lemma pubkey_bytes_inject [simp]: "pubkey_bytes k = pubkey_bytes k' \<longleftrightarrow> k = k'"
  by (metis pubkey_of_bytes_bytes)

text \<open>\<open>pubkey!("...")\<close> and \<open>declare_id!("...")\<close>: a base-58 literal, most significant digit first.\<close>

definition b58_alphabet :: string where
  "b58_alphabet = ''123456789ABCDEFGHJKLMNPQRSTUVWXYZabcdefghijkmnopqrstuvwxyz''"

fun index_of :: "'a \<Rightarrow> 'a list \<Rightarrow> nat" where
  "index_of x [] = 0"
| "index_of x (y # ys) = (if x = y then 0 else Suc (index_of x ys))"

definition b58_value :: "string \<Rightarrow> nat" where
  "b58_value s = foldl (\<lambda>acc c. acc * 58 + index_of c b58_alphabet) 0 s"

definition pubkey_of_b58 :: "string \<Rightarrow> pubkey" where
  "pubkey_of_b58 s = word_of_nat (b58_value s)"

end
