(* ===== verification/Errors.thy ===== *)
theory Errors
  imports Prelude
begin

text \<open>
  The error values of the programs.  \<open>adapter_error\<close> and \<open>dispatcher_error\<close> are the two
  \<open>#[error_code]\<close> enums (crates/adapter-interface/src/lib.rs and
  programs/dispatcher/src/error.rs); \<open>anchor_error\<close> names the framework errors the account
  attributes of the source can raise; \<open>ProgramErr\<close> stands for any error that a system call or
  a called program returns.  Constructors are used qualified, as the enums are in Rust
  (\<open>adapter_error.ZeroAmount\<close> is \<open>AdapterError::ZeroAmount\<close>).
\<close>

datatype adapter_error =
    Unauthorized
  | ZeroAmount
  | InsufficientShares
  | MathOverflow
  | VersionMismatch
  | StaleOracle
  | AdapterStateUninit
  | AdapterDataTooLarge
  | CpiFailed

datatype dispatcher_error =
    Unauthorized
  | AdapterInactive
  | VersionMismatch
  | RegistryFull
  | NameTooLong
  | ZeroAmount
  | MathOverflow
  | NotExecutable
  | MissingReturnData
  | AdapterMismatch
  | StaleValue

datatype anchor_error =
    ConstraintMut
  | ConstraintHasOne
  | ConstraintSeeds
  | ConstraintExecutable
  | ConstraintAddress
  | ConstraintTokenMint
  | ConstraintTokenOwner
  | AccountDiscriminatorNotFound
  | AccountDiscriminatorMismatch
  | AccountDidNotDeserialize
  | AccountDidNotSerialize
  | AccountNotEnoughKeys
  | AccountOwnedByWrongProgram
  | InvalidProgramId
  | InvalidProgramExecutable
  | AccountNotSigner
  | AccountNotInitialized
  | InstructionDidNotDeserialize
  | InstructionFallbackNotFound

datatype error =
    AdapterErr adapter_error
  | DispatcherErr dispatcher_error
  | AnchorErr anchor_error
  | ProgramErr string

type_synonym 'a res = "error + 'a"

section \<open>Error codes\<close>

text \<open>
  \<open>#[error_code]\<close> numbers the variants from 6000 in declaration order.  The declaration order
  is written out as the list of variants, and the code is the position in it.
\<close>

definition adapter_error_order :: "adapter_error list" where
  "adapter_error_order =
     [adapter_error.Unauthorized, adapter_error.ZeroAmount, InsufficientShares,
      adapter_error.MathOverflow, adapter_error.VersionMismatch, StaleOracle,
      AdapterStateUninit, AdapterDataTooLarge, CpiFailed]"

definition dispatcher_error_order :: "dispatcher_error list" where
  "dispatcher_error_order =
     [dispatcher_error.Unauthorized, AdapterInactive, dispatcher_error.VersionMismatch,
      RegistryFull, NameTooLong, dispatcher_error.ZeroAmount, dispatcher_error.MathOverflow,
      NotExecutable, MissingReturnData, AdapterMismatch, StaleValue]"

definition adapter_error_code :: "adapter_error \<Rightarrow> nat" where
  "adapter_error_code e = 6000 + index_of e adapter_error_order"

definition dispatcher_error_code :: "dispatcher_error \<Rightarrow> nat" where
  "dispatcher_error_code e = 6000 + index_of e dispatcher_error_order"

lemma index_of_inj:
  "x \<in> set xs \<Longrightarrow> index_of x xs = index_of y xs \<Longrightarrow> x = y"
  by (induction xs) (auto split: if_splits)

lemma adapter_error_order_complete: "e \<in> set adapter_error_order"
  by (cases e) (simp_all add: adapter_error_order_def)

lemma dispatcher_error_order_complete: "e \<in> set dispatcher_error_order"
  by (cases e) (simp_all add: dispatcher_error_order_def)

lemma adapter_error_code_inject [simp]:
  "adapter_error_code e = adapter_error_code e' \<longleftrightarrow> e = e'"
  using index_of_inj [OF adapter_error_order_complete]
  by (auto simp: adapter_error_code_def)

lemma dispatcher_error_code_inject [simp]:
  "dispatcher_error_code e = dispatcher_error_code e' \<longleftrightarrow> e = e'"
  using index_of_inj [OF dispatcher_error_order_complete]
  by (auto simp: dispatcher_error_code_def)

text \<open>The variants are ordered by their codes, as a C-like Rust enum is.\<close>

instantiation adapter_error :: linorder
begin

definition less_eq_adapter_error :: "adapter_error \<Rightarrow> adapter_error \<Rightarrow> bool" where
  "e \<le> e' \<longleftrightarrow> adapter_error_code e \<le> adapter_error_code e'"

definition less_adapter_error :: "adapter_error \<Rightarrow> adapter_error \<Rightarrow> bool" where
  "e < e' \<longleftrightarrow> adapter_error_code e < adapter_error_code e'"

instance
  by standard (auto simp: less_eq_adapter_error_def less_adapter_error_def)

end

instantiation dispatcher_error :: linorder
begin

definition less_eq_dispatcher_error :: "dispatcher_error \<Rightarrow> dispatcher_error \<Rightarrow> bool" where
  "e \<le> e' \<longleftrightarrow> dispatcher_error_code e \<le> dispatcher_error_code e'"

definition less_dispatcher_error :: "dispatcher_error \<Rightarrow> dispatcher_error \<Rightarrow> bool" where
  "e < e' \<longleftrightarrow> dispatcher_error_code e < dispatcher_error_code e'"

instance
  by standard (auto simp: less_eq_dispatcher_error_def less_dispatcher_error_def)

end

section \<open>Properties\<close>

text \<open>
  The error codes are the Anchor codes from 6000 in declaration order, and distinct variants of
  one enum have distinct codes.
\<close>

lemma error_codes:
  "(adapter_error_code a = adapter_error_code a' \<longleftrightarrow> a = a') \<and>
   (dispatcher_error_code d = dispatcher_error_code d' \<longleftrightarrow> d = d') \<and>
   adapter_error_code a \<in> {6000..6008} \<and> dispatcher_error_code d \<in> {6000..6010}"
  by (cases a; cases d) (simp_all add: adapter_error_code_def adapter_error_order_def
      dispatcher_error_code_def dispatcher_error_order_def)

end
