(* ===== verification/Runtime.thy ===== *)
theory Runtime
  imports Errors
begin

text \<open>
  The platform the programs run on.

  The state a transaction works on is a \<open>world\<close>: the accounts (owner program, executable flag,
  data bytes), the return-data register and the log of emitted events.  What the programs use
  of the Solana runtime, the System, Token and Associated-Token programs and of Anchor's SPL
  wrappers is not code of the repository: it is the argument \<open>rt :: runtime\<close> of every operation
  that needs it.  Lamports (rent) and compute units are not modelled.

  \<open>account_info\<close> is the handle an instruction receives: key, signer and writable flags; owner,
  executable flag and data of an \<open>AccountInfo\<close> are shared references into the world and are
  read from it at the time of the read.
\<close>

section \<open>Accounts, instructions, events\<close>

record account =
  acc_owner :: pubkey
  acc_executable :: bool
  acc_data :: bytes

record account_info =
  ai_key :: pubkey
  ai_signer :: bool
  ai_writable :: bool

record account_meta =
  am_pubkey :: pubkey
  am_signer :: bool
  am_writable :: bool

definition meta_new :: "pubkey \<Rightarrow> bool \<Rightarrow> account_meta" where
  "meta_new k s = \<lparr>am_pubkey = k, am_signer = s, am_writable = True\<rparr>"

definition meta_readonly :: "pubkey \<Rightarrow> bool \<Rightarrow> account_meta" where
  "meta_readonly k s = \<lparr>am_pubkey = k, am_signer = s, am_writable = False\<rparr>"

record instruction =
  ix_program :: pubkey
  ix_accounts :: "account_meta list"
  ix_data :: bytes

text \<open>
  The \<open>#[event]\<close> structs: six of the dispatcher and three that every adapter declares with the
  same fields.  An emitted event is logged with the program that emitted it.
\<close>

datatype event =
    AdapterWhitelisted pubkey bytes u8
  | AdapterPaused pubkey bool
  | PositionOpened pubkey pubkey pubkey
  | Deposited pubkey u64 u64
  | Withdrawn pubkey u64 u64
  | ValueRead pubkey u64
  | AdapterDepositEvent pubkey u64 u64
  | AdapterWithdrawEvent pubkey u64 u64
  | AdapterValueEvent pubkey u64 u64

record world =
  accounts :: "pubkey \<rightharpoonup> account"
  return_data :: "(pubkey \<times> bytes) option"
  events :: "(pubkey \<times> event) list"

section \<open>The runtime parameter\<close>

record clock =
  clock_slot :: u64
  clock_unix_timestamp :: i64

record token_account =
  tok_mint :: pubkey
  tok_owner :: pubkey
  tok_amount :: u64

text \<open>
  Seeds are lists of byte strings.  \<open>rt_invoke caller ix infos seeds w\<close> is
  \<open>invoke_signed(ix, infos, seeds)\<close> executed by the program \<open>caller\<close>; plain \<open>invoke\<close> passes no
  seeds.  \<open>rt_create_account\<close> and \<open>rt_create_ata\<close> are the System and Associated-Token calls that
  Anchor's \<open>init\<close> makes; \<open>rt_token_transfer\<close> is \<open>anchor_spl::token::transfer\<close>.
\<close>

record runtime =
  rt_clock :: clock
  rt_system_program :: pubkey
  rt_token_program :: pubkey
  rt_ata_program :: pubkey
  rt_instructions_sysvar :: pubkey
  rt_rent_sysvar :: pubkey
  rt_load_current_index :: "pubkey \<Rightarrow> u16 res"
  rt_load_instruction_at :: "nat \<Rightarrow> pubkey \<Rightarrow> instruction res"
  rt_find_program_address :: "bytes list \<Rightarrow> pubkey \<Rightarrow> pubkey \<times> u8"
  rt_create_program_address :: "bytes list \<Rightarrow> pubkey \<Rightarrow> pubkey option"
  rt_create_account :: "pubkey \<Rightarrow> pubkey \<Rightarrow> nat \<Rightarrow> pubkey \<Rightarrow> world \<Rightarrow> world res"
  rt_create_ata :: "pubkey \<Rightarrow> pubkey \<Rightarrow> pubkey \<Rightarrow> pubkey \<Rightarrow> world \<Rightarrow> world res"
  rt_token_unpack :: "bytes \<Rightarrow> token_account option"
  rt_mint_unpack :: "bytes \<Rightarrow> unit option"
  rt_token_transfer ::
    "pubkey \<Rightarrow> account_info \<Rightarrow> account_info \<Rightarrow> account_info \<Rightarrow> u64 \<Rightarrow> bytes list list \<Rightarrow> world \<Rightarrow> world res"
  rt_invoke ::
    "pubkey \<Rightarrow> instruction \<Rightarrow> account_info list \<Rightarrow> bytes list list \<Rightarrow> world \<Rightarrow> world res"

section \<open>World access\<close>

definition account_owner :: "world \<Rightarrow> pubkey \<Rightarrow> pubkey option" where
  "account_owner w k = map_option acc_owner (accounts w k)"

definition account_executable :: "world \<Rightarrow> pubkey \<Rightarrow> bool" where
  "account_executable w k = (case accounts w k of None \<Rightarrow> False | Some a \<Rightarrow> acc_executable a)"

text \<open>\<open>try_borrow_data\<close>: an account that does not exist has no data.\<close>

definition account_data :: "world \<Rightarrow> pubkey \<Rightarrow> bytes" where
  "account_data w k = (case accounts w k of None \<Rightarrow> [] | Some a \<Rightarrow> acc_data a)"

definition emit_event :: "pubkey \<Rightarrow> event \<Rightarrow> world \<Rightarrow> world" where
  "emit_event pid e w = w\<lparr>events := events w @ [(pid, e)]\<rparr>"

definition set_return_data :: "pubkey \<Rightarrow> bytes \<Rightarrow> world \<Rightarrow> world" where
  "set_return_data pid bs w = w\<lparr>return_data := Some (pid, bs)\<rparr>"

definition set_account_data :: "pubkey \<Rightarrow> account \<Rightarrow> world \<Rightarrow> world" where
  "set_account_data k a w = w\<lparr>accounts := (accounts w)(k \<mapsto> a)\<rparr>"

lemma emit_event_simps [simp]:
  "accounts (emit_event pid e w) = accounts w"
  "return_data (emit_event pid e w) = return_data w"
  "events (emit_event pid e w) = events w @ [(pid, e)]"
  by (simp_all add: emit_event_def)

lemma set_return_data_simps [simp]:
  "accounts (set_return_data pid bs w) = accounts w"
  "return_data (set_return_data pid bs w) = Some (pid, bs)"
  "events (set_return_data pid bs w) = events w"
  by (simp_all add: set_return_data_def)

lemma set_account_data_simps [simp]:
  "accounts (set_account_data k a w) = (accounts w)(k \<mapsto> a)"
  "return_data (set_account_data k a w) = return_data w"
  "events (set_account_data k a w) = events w"
  by (simp_all add: set_account_data_def)

section \<open>Byte-string literals\<close>

definition ascii :: "string \<Rightarrow> bytes" where
  "ascii s = map of_char s"

lemma length_ascii [simp]: "length (ascii s) = length s"
  by (simp add: ascii_def)

end
