(* ===== verification/Anchor.thy ===== *)
theory Anchor
  imports Runtime
begin

text \<open>
  What the source uses of Anchor: Borsh fields, \<open>#[account]\<close> types with their discriminator and
  \<open>InitSpace\<close>, the account wrappers of \<open>#[derive(Accounts)]\<close> (\<open>AccountInfo\<close>, \<open>Signer\<close>,
  \<open>Program\<close>, \<open>Account<T>\<close>), the constraint attributes, and the write-back of mutable accounts at
  the end of an instruction.  A derived \<open>try_accounts\<close> first takes the accounts off the list in
  field order, checking each wrapper; then creates the \<open>init\<close> accounts; then checks the
  constraints of the other fields in order.

  The locale \<open>borsh_type\<close> is the contract of a serialisable type and \<open>anchor_account\<close> extends it
  to an account type; each account type of the programs is an interpretation.
\<close>

section \<open>Borsh fields\<close>

definition dec_word :: "nat \<Rightarrow> bytes \<Rightarrow> ('a::len word \<times> bytes) option" where
  "dec_word n bs =
     (if n \<le> length bs then Some (from_le_bytes (take n bs), drop n bs) else None)"

definition dec_pubkey :: "bytes \<Rightarrow> (pubkey \<times> bytes) option" where
  "dec_pubkey bs =
     (if 32 \<le> length bs then Some (pubkey_of_bytes (take 32 bs), drop 32 bs) else None)"

definition enc_bool :: "bool \<Rightarrow> bytes" where
  "enc_bool b = [if b then 1 else 0]"

fun dec_bool :: "bytes \<Rightarrow> (bool \<times> bytes) option" where
  "dec_bool [] = None"
| "dec_bool (b # bs) = (if b = 0 then Some (False, bs) else if b = 1 then Some (True, bs) else None)"

text \<open>\<open>Vec<u8>\<close> and \<open>String\<close>: a \<open>u32\<close> length and the bytes.\<close>

definition enc_vec :: "bytes \<Rightarrow> bytes" where
  "enc_vec xs = to_le_bytes 4 (word_of_nat (length xs) :: u32) @ xs"

definition dec_vec :: "bytes \<Rightarrow> (bytes \<times> bytes) option" where
  "dec_vec bs =
     (case dec_word 4 bs :: (u32 \<times> bytes) option of
        None \<Rightarrow> None
      | Some (n, rest) \<Rightarrow>
          (if unat n \<le> length rest then Some (take (unat n) rest, drop (unat n) rest) else None))"

lemma dec_word_prefix: "length xs = n \<Longrightarrow> dec_word n (xs @ r) = Some (from_le_bytes xs, r)"
  by (simp add: dec_word_def)

lemma dec_word_append [codec_simps]:
  "dec_word 1 (to_le_bytes 1 (x1 :: u8) @ r) = Some (x1, r)"
  "dec_word 4 (to_le_bytes 4 (x4 :: u32) @ r) = Some (x4, r)"
  "dec_word 8 (to_le_bytes 8 (x8 :: u64) @ r) = Some (x8, r)"
  by (simp_all add: dec_word_prefix from_to_le_widths del: One_nat_def)

lemma dec_pubkey_append [codec_simps]: "dec_pubkey (pubkey_bytes k @ r) = Some (k, r)"
  by (simp add: dec_pubkey_def)

lemma dec_bool_append [codec_simps]: "dec_bool (enc_bool b @ r) = Some (b, r)"
  by (simp add: enc_bool_def)

lemma length_enc_bool [simp]: "length (enc_bool b) = 1"
  by (simp add: enc_bool_def)

lemma length_enc_vec [simp]: "length (enc_vec xs) = 4 + length xs"
  by (simp add: enc_vec_def)

lemma dec_vec_append [codec_simps]:
  assumes "length xs < 2 ^ 32"
  shows "dec_vec (enc_vec xs @ r) = Some (xs, r)"
proof -
  have "unat (word_of_nat (length xs) :: u32) = length xs"
    using assms by (simp add: unat_of_nat)
  then show ?thesis
    by (simp add: enc_vec_def dec_vec_def codec_simps)
qed

section \<open>Account types\<close>

record 'a codec =
  co_disc :: bytes
  co_space :: nat
  co_enc :: "'a \<Rightarrow> bytes"
  co_dec :: "bytes \<Rightarrow> ('a \<times> bytes) option"

text \<open>\<open>try_deserialize\<close>: the 8 discriminator bytes, then the fields; trailing bytes are ignored.\<close>

definition try_deserialize :: "'a codec \<Rightarrow> bytes \<Rightarrow> 'a res" where
  "try_deserialize c data =
     (if length data < 8 then Inl (AnchorErr AccountDiscriminatorNotFound)
      else if take 8 data \<noteq> co_disc c then Inl (AnchorErr AccountDiscriminatorMismatch)
      else case co_dec c (drop 8 data) of
             None \<Rightarrow> Inl (AnchorErr AccountDidNotDeserialize)
           | Some (x, _) \<Rightarrow> Inr x)"

definition account_image :: "'a codec \<Rightarrow> 'a \<Rightarrow> bytes" where
  "account_image c x = co_disc c @ co_enc c x"

text \<open>\<open>Account<T>::try_from\<close>, with \<open>pid = T::owner()\<close>.\<close>

definition load_account :: "'a codec \<Rightarrow> pubkey \<Rightarrow> pubkey \<Rightarrow> world \<Rightarrow> 'a res" where
  "load_account c pid k w =
     (case accounts w k of
        None \<Rightarrow> Inl (AnchorErr AccountNotInitialized)
      | Some a \<Rightarrow>
          (if acc_owner a \<noteq> pid then Inl (AnchorErr AccountOwnedByWrongProgram)
           else try_deserialize c (acc_data a)))"

text \<open>
  \<open>exit\<close> of a mutable \<open>Account<T>\<close>: the image is written over the front of the data, which
  keeps its length; an image that does not fit is an error.
\<close>

definition store_account :: "'a codec \<Rightarrow> pubkey \<Rightarrow> 'a \<Rightarrow> world \<Rightarrow> world res" where
  "store_account c k x w =
     (let img = account_image c x in
      case accounts w k of
        None \<Rightarrow> Inl (AnchorErr AccountDidNotSerialize)
      | Some a \<Rightarrow>
          (if length img \<le> length (acc_data a)
           then Inr (set_account_data k (a\<lparr>acc_data := img @ drop (length img) (acc_data a)\<rparr>) w)
           else Inl (AnchorErr AccountDidNotSerialize)))"

lemma store_account_eq_Inr [res_simps]:
  "store_account c k x w = Inr w' \<longleftrightarrow>
     (\<exists>a. accounts w k = Some a \<and> length (account_image c x) \<le> length (acc_data a) \<and>
        w' = set_account_data k
               (a\<lparr>acc_data := account_image c x @ drop (length (account_image c x)) (acc_data a)\<rparr>) w)"
proof (cases "accounts w k")
  case None
  then show ?thesis by (simp add: store_account_def)
next
  case (Some a)
  then show ?thesis
    by (cases "length (account_image c x) \<le> length (acc_data a)")
      (auto simp add: store_account_def Let_def)
qed

lemma load_account_eq_Inr [res_simps]:
  "load_account c pid k w = Inr x \<longleftrightarrow>
     (\<exists>a. accounts w k = Some a \<and> acc_owner a = pid \<and> try_deserialize c (acc_data a) = Inr x)"
  by (auto simp: load_account_def split: option.splits if_splits)

locale borsh_type =
  fixes enc :: "'a \<Rightarrow> bytes" and dec :: "bytes \<Rightarrow> ('a \<times> bytes) option" and wf :: "'a \<Rightarrow> bool"
  assumes dec_enc: "wf x \<Longrightarrow> dec (enc x @ r) = Some (x, r)"
begin

lemma enc_inject: "wf x \<Longrightarrow> wf y \<Longrightarrow> enc x = enc y \<Longrightarrow> x = y"
  by (metis dec_enc option.inject prod.inject)

lemma enc_prefix_free: "wf x \<Longrightarrow> wf y \<Longrightarrow> enc x @ r = enc y @ s \<Longrightarrow> x = y \<and> r = s"
  by (metis dec_enc option.inject prod.inject)

end

locale anchor_account = borsh_type "co_enc c" "co_dec c" wf
  for c :: "'a codec" and wf :: "'a \<Rightarrow> bool" +
  assumes disc_length: "length (co_disc c) = 8"
    and disc_nonzero: "co_disc c \<noteq> replicate 8 0"
    and image_fits: "wf x \<Longrightarrow> 8 + length (co_enc c x) \<le> co_space c"
begin

lemma deserialize_image: "wf x \<Longrightarrow> try_deserialize c (account_image c x @ r) = Inr x"
  by (simp add: try_deserialize_def account_image_def disc_length dec_enc)

lemma image_length: "length (account_image c x) = 8 + length (co_enc c x)"
  by (simp add: account_image_def disc_length)

lemma load_after_store:
  assumes "store_account c k x w = Inr w'" and "wf x" and "account_owner w k = Some pid"
  shows "load_account c pid k w' = Inr x"
proof -
  from assms(1) obtain a where a: "accounts w k = Some a" and
    w': "w' = set_account_data k
               (a\<lparr>acc_data := account_image c x @ drop (length (account_image c x)) (acc_data a)\<rparr>) w"
    by (auto simp: res_simps)
  from assms(3) a have "acc_owner a = pid" by (simp add: account_owner_def)
  with w' show ?thesis
    by (simp add: load_account_def deserialize_image assms(2))
qed

lemma store_in_allocated:
  assumes "accounts w k = Some a" and "length (acc_data a) = co_space c" and "wf x"
  shows "\<exists>w'. store_account c k x w = Inr w'"
  using assms image_fits [OF assms(3)] by (simp add: res_simps image_length)

end

lemma replicate_8: "replicate 8 x = [x, x, x, x, x, x, x, x]"
  by (simp add: numeral_eq_Suc)

lemma store_other_account:
  "store_account c k x w = Inr w' \<Longrightarrow> k' \<noteq> k \<Longrightarrow> accounts w' k' = accounts w k'"
  by (auto simp: res_simps)

lemma store_keeps_log:
  "store_account c k x w = Inr w' \<Longrightarrow> events w' = events w \<and> return_data w' = return_data w"
  by (auto simp: res_simps)

section \<open>Account wrappers\<close>

datatype 'a typed = Typed (ty_info: account_info) (ty_val: 'a)

abbreviation ty_key :: "'a typed \<Rightarrow> pubkey" where
  "ty_key t \<equiv> ai_key (ty_info t)"

text \<open>Each wrapper takes one account off the front of the list.\<close>

fun take_info :: "account_info list \<Rightarrow> (account_info \<times> account_info list) res" where
  "take_info [] = Inl (AnchorErr AccountNotEnoughKeys)"
| "take_info (a # rest) = Inr (a, rest)"

fun take_signer :: "account_info list \<Rightarrow> (account_info \<times> account_info list) res" where
  "take_signer [] = Inl (AnchorErr AccountNotEnoughKeys)"
| "take_signer (a # rest) =
     (if ai_signer a then Inr (a, rest) else Inl (AnchorErr AccountNotSigner))"

fun take_program :: "pubkey \<Rightarrow> world \<Rightarrow> account_info list \<Rightarrow> (account_info \<times> account_info list) res" where
  "take_program pid w [] = Inl (AnchorErr AccountNotEnoughKeys)"
| "take_program pid w (a # rest) =
     (if ai_key a \<noteq> pid then Inl (AnchorErr InvalidProgramId)
      else if \<not> account_executable w (ai_key a) then Inl (AnchorErr InvalidProgramExecutable)
      else Inr (a, rest))"

fun take_account ::
  "'a codec \<Rightarrow> pubkey \<Rightarrow> world \<Rightarrow> account_info list \<Rightarrow> ('a typed \<times> account_info list) res" where
  "take_account c pid w [] = Inl (AnchorErr AccountNotEnoughKeys)"
| "take_account c pid w (a # rest) =
     and_then (load_account c pid (ai_key a) w) (\<lambda>x. Inr (Typed a x, rest))"

text \<open>\<open>Account<TokenAccount>\<close> and \<open>Account<Mint>\<close>: owned by the token program, unpacked by it.\<close>

definition load_token :: "runtime \<Rightarrow> pubkey \<Rightarrow> world \<Rightarrow> token_account res" where
  "load_token rt k w =
     (case accounts w k of
        None \<Rightarrow> Inl (AnchorErr AccountNotInitialized)
      | Some a \<Rightarrow>
          (if acc_owner a \<noteq> rt_token_program rt then Inl (AnchorErr AccountOwnedByWrongProgram)
           else ok_or (rt_token_unpack rt (acc_data a)) (ProgramErr ''InvalidAccountData'')))"

definition load_mint :: "runtime \<Rightarrow> pubkey \<Rightarrow> world \<Rightarrow> unit res" where
  "load_mint rt k w =
     (case accounts w k of
        None \<Rightarrow> Inl (AnchorErr AccountNotInitialized)
      | Some a \<Rightarrow>
          (if acc_owner a \<noteq> rt_token_program rt then Inl (AnchorErr AccountOwnedByWrongProgram)
           else ok_or (rt_mint_unpack rt (acc_data a)) (ProgramErr ''InvalidAccountData'')))"

text \<open>\<open>reload()\<close> of a token account reads the data again, after a CPI.\<close>

definition reload_token :: "runtime \<Rightarrow> pubkey \<Rightarrow> world \<Rightarrow> token_account res" where
  "reload_token rt k w =
     ok_or (rt_token_unpack rt (account_data w k)) (ProgramErr ''InvalidAccountData'')"

fun take_token ::
  "runtime \<Rightarrow> world \<Rightarrow> account_info list \<Rightarrow> (token_account typed \<times> account_info list) res" where
  "take_token rt w [] = Inl (AnchorErr AccountNotEnoughKeys)"
| "take_token rt w (a # rest) =
     and_then (load_token rt (ai_key a) w) (\<lambda>x. Inr (Typed a x, rest))"

fun take_mint :: "runtime \<Rightarrow> world \<Rightarrow> account_info list \<Rightarrow> (account_info \<times> account_info list) res" where
  "take_mint rt w [] = Inl (AnchorErr AccountNotEnoughKeys)"
| "take_mint rt w (a # rest) = and_then (load_mint rt (ai_key a) w) (\<lambda>_. Inr (a, rest))"

lemma take_info_eq_Inr [res_simps]: "take_info xs = Inr (a, rest) \<longleftrightarrow> xs = a # rest"
  by (cases xs) auto

lemma take_signer_eq_Inr [res_simps]:
  "take_signer xs = Inr (a, rest) \<longleftrightarrow> xs = a # rest \<and> ai_signer a"
  by (cases xs) auto

lemma take_program_eq_Inr [res_simps]:
  "take_program pid w xs = Inr (a, rest) \<longleftrightarrow>
     xs = a # rest \<and> ai_key a = pid \<and> account_executable w pid"
  by (cases xs) auto

lemma take_account_eq_Inr [res_simps]:
  "take_account c pid w xs = Inr (t, rest) \<longleftrightarrow>
     xs = ty_info t # rest \<and> load_account c pid (ty_key t) w = Inr (ty_val t)"
  by (cases xs; cases t) (auto simp: and_then_eq_Inr)

lemma take_token_eq_Inr [res_simps]:
  "take_token rt w xs = Inr (t, rest) \<longleftrightarrow>
     xs = ty_info t # rest \<and> load_token rt (ty_key t) w = Inr (ty_val t)"
  by (cases xs; cases t) (auto simp: and_then_eq_Inr)

lemma take_mint_eq_Inr [res_simps]:
  "take_mint rt w xs = Inr (a, rest) \<longleftrightarrow> xs = a # rest \<and> load_mint rt (ai_key a) w = Inr ()"
  by (cases xs) (auto simp: and_then_eq_Inr)

lemma load_token_eq_Inr [res_simps]:
  "load_token rt k w = Inr t \<longleftrightarrow>
     (\<exists>a. accounts w k = Some a \<and> acc_owner a = rt_token_program rt \<and>
        rt_token_unpack rt (acc_data a) = Some t)"
  by (auto simp: load_token_def ok_or_eq_Inr split: option.splits if_splits)

lemma reload_token_eq_Inr [res_simps]:
  "reload_token rt k w = Inr t \<longleftrightarrow> rt_token_unpack rt (account_data w k) = Some t"
  by (simp add: reload_token_def res_simps)

section \<open>Constraint attributes\<close>

text \<open>\<open>mut\<close>\<close>

definition c_mut :: "account_info \<Rightarrow> unit res" where
  "c_mut a = require (ai_writable a) (AnchorErr ConstraintMut)"

text \<open>\<open>seeds = [...], bump = b\<close>: the address is the one the seeds and the bump derive.\<close>

definition c_seeds :: "runtime \<Rightarrow> bytes list \<Rightarrow> pubkey \<Rightarrow> account_info \<Rightarrow> unit res" where
  "c_seeds rt seeds pid a =
     require (rt_create_program_address rt seeds pid = Some (ai_key a)) (AnchorErr ConstraintSeeds)"

text \<open>\<open>executable\<close>\<close>

definition c_executable :: "world \<Rightarrow> account_info \<Rightarrow> unit res" where
  "c_executable w a = require (account_executable w (ai_key a)) (AnchorErr ConstraintExecutable)"

text \<open>\<open>address = k\<close>, with the error of the attribute or the framework's own.\<close>

definition c_address :: "account_info \<Rightarrow> pubkey \<Rightarrow> error \<Rightarrow> unit res" where
  "c_address a k e = require (ai_key a = k) e"

text \<open>\<open>token::authority = o, token::mint = m\<close>\<close>

definition c_token :: "token_account \<Rightarrow> pubkey \<Rightarrow> pubkey \<Rightarrow> unit res" where
  "c_token t authority mint =
     and_then (require (tok_owner t = authority) (AnchorErr ConstraintTokenOwner)) (\<lambda>_.
     require (tok_mint t = mint) (AnchorErr ConstraintTokenMint))"

text \<open>
  \<open>init, payer = p, space = n, seeds = [...], bump\<close>: the address must be the canonical one; the
  System program creates the account; the bump is kept for \<open>ctx.bumps\<close>.
\<close>

definition c_init ::
  "runtime \<Rightarrow> account_info \<Rightarrow> account_info \<Rightarrow> nat \<Rightarrow> bytes list \<Rightarrow> pubkey \<Rightarrow> world \<Rightarrow> (u8 \<times> world) res" where
  "c_init rt payer a space seeds pid w =
     (case rt_find_program_address rt seeds pid of (pda, bump) \<Rightarrow>
        and_then (require (ai_key a = pda) (AnchorErr ConstraintSeeds)) (\<lambda>_.
        and_then (rt_create_account rt (ai_key payer) (ai_key a) space pid w) (\<lambda>w1.
        and_then (c_mut a) (\<lambda>_.
        Inr (bump, w1)))))"

text \<open>\<open>init, payer = p, associated_token::mint = m, associated_token::authority = o\<close>\<close>

definition c_init_ata ::
  "runtime \<Rightarrow> account_info \<Rightarrow> account_info \<Rightarrow> pubkey \<Rightarrow> pubkey \<Rightarrow> world \<Rightarrow> (token_account \<times> world) res" where
  "c_init_ata rt payer a authority mint w =
     and_then (rt_create_ata rt (ai_key payer) (ai_key a) authority mint w) (\<lambda>w1.
     and_then (load_token rt (ai_key a) w1) (\<lambda>t.
     and_then (c_mut a) (\<lambda>_.
     Inr (t, w1))))"

lemma constraint_eq_Inr [res_simps]:
  "c_mut a = Inr u \<longleftrightarrow> ai_writable a"
  "c_seeds rt seeds pid a = Inr u \<longleftrightarrow> rt_create_program_address rt seeds pid = Some (ai_key a)"
  "c_executable w a = Inr u \<longleftrightarrow> account_executable w (ai_key a)"
  "c_address a k e = Inr u \<longleftrightarrow> ai_key a = k"
  "c_token t authority mint = Inr u \<longleftrightarrow> tok_owner t = authority \<and> tok_mint t = mint"
  by (simp_all add: c_mut_def c_seeds_def c_executable_def c_address_def c_token_def res_simps)

lemma c_init_eq_Inr [res_simps]:
  "c_init rt payer a space seeds pid w = Inr (bump, w') \<longleftrightarrow>
     rt_find_program_address rt seeds pid = (ai_key a, bump) \<and> ai_writable a \<and>
     rt_create_account rt (ai_key payer) (ai_key a) space pid w = Inr w'"
  by (cases "rt_find_program_address rt seeds pid") (auto simp: c_init_def res_simps)

lemma c_init_ata_eq_Inr [res_simps]:
  "c_init_ata rt payer a authority mint w = Inr (t, w') \<longleftrightarrow>
     rt_create_ata rt (ai_key payer) (ai_key a) authority mint w = Inr w' \<and>
     load_token rt (ai_key a) w' = Inr t \<and> ai_writable a"
  by (auto simp: c_init_ata_def and_then_eq_Inr constraint_eq_Inr)

section \<open>Documented behaviour of the System program\<close>

text \<open>
  \<open>create_account\<close> succeeds on an address that holds no account, and leaves an account of the
  given owner and size, all zero; no other account, return data or event changes.
\<close>

definition system_creates :: "runtime \<Rightarrow> bool" where
  "system_creates rt \<longleftrightarrow>
     (\<forall>payer k space owner w w'.
        rt_create_account rt payer k space owner w = Inr w' \<longrightarrow>
        accounts w k = None \<and>
        w' = set_account_data k
               \<lparr>acc_owner = owner, acc_executable = False, acc_data = replicate space 0\<rparr> w)"

lemma system_createsD:
  assumes "system_creates rt" and "rt_create_account rt payer k space owner w = Inr w'"
  shows "accounts w k = None"
    and "w' = set_account_data k
               \<lparr>acc_owner = owner, acc_executable = False, acc_data = replicate space 0\<rparr> w"
  using assms by (auto simp: system_creates_def)

section \<open>Views: the accounts of one type\<close>

text \<open>
  The accounts of type \<open>T\<close> that program \<open>pid\<close> owns, as a map from address to value.  The
  invariants of the programs are stated over views; a view changes only by the program's own
  stores.
\<close>

definition account_view :: "'a codec \<Rightarrow> pubkey \<Rightarrow> world \<Rightarrow> pubkey \<rightharpoonup> 'a" where
  "account_view c pid w k =
     (case load_account c pid k w of Inl _ \<Rightarrow> None | Inr x \<Rightarrow> Some x)"

lemma account_view_eq_Some: "account_view c pid w k = Some x \<longleftrightarrow> load_account c pid k w = Inr x"
  by (simp add: account_view_def split: sum.splits)

lemma account_view_cong:
  "accounts w k = accounts w' k \<Longrightarrow> account_view c pid w k = account_view c pid w' k"
  by (simp add: account_view_def load_account_def)

lemma account_view_same: "accounts w = accounts w' \<Longrightarrow> account_view c pid w = account_view c pid w'"
  by (rule ext) (simp add: account_view_def load_account_def)

text \<open>
  The runtime lets only the owner of an account change its data, and an account handed to
  another owner must have zeroed data: what code outside \<open>pid\<close> can do to \<open>pid\<close>'s accounts.
\<close>

definition isolated :: "pubkey \<Rightarrow> world \<Rightarrow> world \<Rightarrow> bool" where
  "isolated pid w w' \<longleftrightarrow>
     (\<forall>k a. accounts w k = Some a \<and> acc_owner a = pid \<longrightarrow> accounts w' k = Some a) \<and>
     (\<forall>k a. accounts w' k = Some a \<and> acc_owner a = pid \<and> accounts w k \<noteq> Some a \<longrightarrow>
        (\<exists>n. acc_data a = replicate n 0))"

lemma isolated_same: "accounts w' = accounts w \<Longrightarrow> isolated pid w w'"
  by (auto simp: isolated_def)

lemma isolated_trans:
  assumes "isolated pid w1 w2" and "isolated pid w2 w3"
  shows "isolated pid w1 w3"
  using assms unfolding isolated_def by metis

context anchor_account
begin

lemma zeroed_not_loaded: "try_deserialize c (replicate n 0) \<noteq> Inr x"
proof (cases "n < 8")
  case True
  then show ?thesis by (simp add: try_deserialize_def)
next
  case False
  then show ?thesis using disc_nonzero by (simp add: try_deserialize_def min_def)
qed

lemma view_store:
  assumes "store_account c k x w = Inr w'" and "wf x" and "account_owner w k = Some pid"
  shows "account_view c pid w' = (account_view c pid w)(k \<mapsto> x)"
proof
  fix j
  show "account_view c pid w' j = ((account_view c pid w)(k \<mapsto> x)) j"
  proof (cases "j = k")
    case True
    then show ?thesis using load_after_store [OF assms] by (simp add: account_view_def)
  next
    case False
    then show ?thesis
      using account_view_cong [OF store_other_account [OF assms(1) False], of c pid] by simp
  qed
qed

lemma view_create:
  assumes "accounts w k = None"
  shows "account_view c pid
           (set_account_data k \<lparr>acc_owner = p, acc_executable = b, acc_data = replicate n 0\<rparr> w)
         = account_view c pid w"
proof
  fix j
  show "account_view c pid
          (set_account_data k \<lparr>acc_owner = p, acc_executable = b, acc_data = replicate n 0\<rparr> w) j
        = account_view c pid w j"
    using assms zeroed_not_loaded [of n]
    by (auto simp: account_view_def load_account_def split: sum.splits)
qed

lemma view_isolated:
  assumes "isolated pid w w'"
  shows "account_view c pid w' = account_view c pid w"
proof
  fix k
  show "account_view c pid w' k = account_view c pid w k"
  proof (cases "accounts w' k = accounts w k")
    case True
    then show ?thesis by (rule account_view_cong)
  next
    case False
    have "account_view c pid w k = None"
      using assms False by (auto simp: isolated_def account_view_def load_account_def
          split: option.splits sum.splits)
    moreover have "account_view c pid w' k = None"
      using assms False zeroed_not_loaded
      by (fastforce simp: isolated_def account_view_def load_account_def
          split: option.splits sum.splits)
    ultimately show ?thesis by simp
  qed
qed

end

lemma load_excludes_other_type:
  "load_account c pid k w = Inr x \<Longrightarrow> co_disc c' \<noteq> co_disc c \<Longrightarrow> account_view c' pid w k = None"
  by (auto simp: account_view_def load_account_def try_deserialize_def
      split: sum.splits option.splits if_splits)

lemma view_absent: "accounts w k = None \<Longrightarrow> account_view c pid w k = None"
  by (simp add: account_view_def load_account_def)

lemma load_account_owner: "load_account c pid k w = Inr x \<Longrightarrow> account_owner w k = Some pid"
  by (auto simp: res_simps account_owner_def)

lemma account_owner_store:
  "store_account c k x w = Inr w' \<Longrightarrow> account_owner w' j = account_owner w j"
  by (auto simp: res_simps account_owner_def)

lemma view_store_other_type:
  assumes "store_account c' k x w = Inr w'" and "account_view c pid w k = None"
    and "length (co_disc c') = 8" and "co_disc c \<noteq> co_disc c'"
  shows "account_view c pid w' = account_view c pid w"
proof
  fix j
  show "account_view c pid w' j = account_view c pid w j"
  proof (cases "j = k")
    case True
    from assms(1) obtain a where "accounts w' k = Some a" and "take 8 (acc_data a) = co_disc c'"
      by (auto simp: res_simps account_image_def assms(3))
    then have "account_view c pid w' k = None"
      using assms(4) by (auto simp: account_view_def load_account_def try_deserialize_def
          split: sum.splits)
    with True assms(2) show ?thesis by simp
  next
    case False
    show ?thesis by (rule account_view_cong [OF store_other_account [OF assms(1) False]])
  qed
qed

text \<open>The events a program emits are logged under its own id, and the log is append-only.\<close>

definition silent :: "pubkey \<Rightarrow> world \<Rightarrow> world \<Rightarrow> bool" where
  "silent pid w w' \<longleftrightarrow> (\<exists>es. events w' = events w @ es \<and> pid \<notin> fst ` set es)"

lemma silent_refl: "silent pid w w"
  by (simp add: silent_def)

lemma silent_trans:
  assumes "silent pid w1 w2" and "silent pid w2 w3"
  shows "silent pid w1 w3"
proof -
  from assms obtain es1 es2 where "events w2 = events w1 @ es1" and "pid \<notin> fst ` set es1"
    and "events w3 = events w2 @ es2" and "pid \<notin> fst ` set es2"
    by (auto simp: silent_def)
  then show ?thesis unfolding silent_def by (intro exI [of _ "es1 @ es2"]) auto
qed

lemma isolated_emit_right:
  "isolated p w w' \<Longrightarrow> isolated p w (emit_event q e w')"
  "isolated p w w' \<Longrightarrow> isolated p w (set_return_data q bs w')"
  by (auto simp: isolated_def)

lemma isolated_keeps:
  "isolated p w w' \<Longrightarrow> load_account c p k w = Inr x \<Longrightarrow> accounts w' k = accounts w k"
  by (auto simp: isolated_def res_simps)

lemma isolated_owner:
  assumes "isolated p w w'" and "account_owner w k = Some p"
  shows "account_owner w' k = Some p"
proof -
  from assms(2) obtain a where "accounts w k = Some a" and "acc_owner a = p"
    by (auto simp: account_owner_def)
  with assms(1) have "accounts w' k = Some a" by (simp add: isolated_def)
  with \<open>acc_owner a = p\<close> show ?thesis by (simp add: account_owner_def)
qed

text \<open>
  Nothing a program calls can write to the program's own accounts or log in its name: the calls
  go to other programs, the runtime refuses re-entrance, and a direct call of a program by itself
  fails, since none declares an instruction that it calls on others.
\<close>

definition calls_isolate :: "runtime \<Rightarrow> pubkey \<Rightarrow> bool" where
  "calls_isolate rt pid \<longleftrightarrow>
     (\<forall>payer k authority mint w w'.
        rt_create_ata rt payer k authority mint w = Inr w' \<longrightarrow>
        isolated pid w w' \<and> silent pid w w') \<and>
     (\<forall>src dst auth n seeds w w'.
        rt_token_transfer rt pid src dst auth n seeds w = Inr w' \<longrightarrow>
        isolated pid w w' \<and> silent pid w w') \<and>
     (\<forall>ix infos seeds w w'.
        rt_invoke rt pid ix infos seeds w = Inr w' \<longrightarrow> isolated pid w w' \<and> silent pid w w')"

lemma calls_isolateD:
  assumes "calls_isolate rt pid"
  shows "rt_create_ata rt payer k authority mint w = Inr w' \<Longrightarrow> isolated pid w w'"
    and "rt_token_transfer rt pid src dst auth n seeds w = Inr w' \<Longrightarrow> isolated pid w w'"
    and "rt_invoke rt pid ix infos seeds w = Inr w' \<Longrightarrow> isolated pid w w'"
  using assms by (auto simp: calls_isolate_def)

lemma calls_silentD:
  assumes "calls_isolate rt pid"
  shows "rt_create_ata rt payer k authority mint w = Inr w' \<Longrightarrow> silent pid w w'"
    and "rt_token_transfer rt pid src dst auth n seeds w = Inr w' \<Longrightarrow> silent pid w w'"
    and "rt_invoke rt pid ix infos seeds w = Inr w' \<Longrightarrow> silent pid w w'"
  using assms by (auto simp: calls_isolate_def)

text \<open>
  A run spans many transactions, and the clock, the transaction in progress and the other
  programs differ from one to the next: \<open>R\<close> is the set of runtimes its instructions see.  They
  derive the same addresses, and each behaves as documented towards program \<open>pid\<close>.
\<close>

definition chain :: "pubkey \<Rightarrow> runtime \<Rightarrow> runtime set \<Rightarrow> bool" where
  "chain pid rt R \<longleftrightarrow>
     (\<forall>r\<in>R. system_creates r \<and> calls_isolate r pid \<and>
        rt_find_program_address r = rt_find_program_address rt)"

lemma chainD:
  assumes "chain pid rt R" and "r \<in> R"
  shows "system_creates r" and "calls_isolate r pid"
    and "rt_find_program_address r = rt_find_program_address rt"
  using assms by (auto simp: chain_def)

text \<open>What an instruction does to its own state account: write it back, or create and write it.\<close>

context anchor_account
begin

lemma view_write_back:
  assumes "isolated pid w w2" and "load_account c pid k w = Inr x"
    and "store_account c k y w2 = Inr w'" and "wf y"
  shows "account_view c pid w' = (account_view c pid w)(k \<mapsto> y)"
  using view_store [OF assms(3,4) isolated_owner [OF assms(1) load_account_owner [OF assms(2)]]]
    view_isolated [OF assms(1)] by simp

lemma view_create_write:
  assumes "system_creates rt" and "rt_create_account rt payer k space pid w = Inr w1"
    and "isolated pid w1 w2" and "store_account c k y w2 = Inr w'" and "wf y"
  shows "account_view c pid w' = (account_view c pid w)(k \<mapsto> y)" and "accounts w k = None"
proof -
  note w1 = system_createsD [OF assms(1,2)]
  have "account_owner w1 k = Some pid" by (simp add: w1(2) account_owner_def)
  then have "account_owner w2 k = Some pid" by (rule isolated_owner [OF assms(3)])
  from view_store [OF assms(4,5) this]
  have "account_view c pid w' = (account_view c pid w1)(k \<mapsto> y)"
    by (simp add: view_isolated [OF assms(3)])
  then show "account_view c pid w' = (account_view c pid w)(k \<mapsto> y)"
    unfolding w1(2) view_create [OF w1(1)] .
  show "accounts w k = None" by (rule w1(1))
qed

end

end
