(* ===== verification/Interface.thy ===== *)
theory Interface
  imports Anchor
begin

text \<open>
  The shared interface crate (crates/adapter-interface/src/lib.rs): limits and identifiers, the
  adapter-state header, the four instruction discriminators with the argument encoders the
  dispatcher uses, the decoder that Anchor derives from the signatures in each adapter's
  \<open>#[program]\<close> module, the return-data codec and the caller check.
\<close>

section \<open>Limits and identifiers\<close>

definition ADAPTER_INTERFACE_VERSION :: u8 where
  "ADAPTER_INTERFACE_VERSION = 1"

definition ADAPTER_STATE_SEED :: bytes where
  "ADAPTER_STATE_SEED = ascii ''adapter_state''"

definition MAX_ADAPTER_DATA_LEN :: nat where
  "MAX_ADAPTER_DATA_LEN = 256"

definition MAX_VALUE_STALENESS_SLOTS :: u64 where
  "MAX_VALUE_STALENESS_SLOTS = 60"

definition DISPATCHER_ID :: pubkey where
  "DISPATCHER_ID = pubkey_of_b58 ''CDit4o9LeqFaxEMkS7mHDKkUxrhhr8K9kH4CYfqZxEok''"

section \<open>The adapter-state header\<close>

record adapter_state_header =
  hdr_position :: pubkey
  hdr_adapter_program :: pubkey
  hdr_created_at :: i64
  hdr_total_shares :: u64

definition enc_header :: "adapter_state_header \<Rightarrow> bytes" where
  "enc_header h =
     pubkey_bytes (hdr_position h) @ pubkey_bytes (hdr_adapter_program h) @
     to_le_bytes 8 (hdr_created_at h) @ to_le_bytes 8 (hdr_total_shares h)"

definition dec_header :: "bytes \<Rightarrow> (adapter_state_header \<times> bytes) option" where
  "dec_header bs = do {
     (p, bs) \<leftarrow> dec_pubkey bs;
     (a, bs) \<leftarrow> dec_pubkey bs;
     (c, bs) \<leftarrow> dec_word 8 bs;
     (s, bs) \<leftarrow> dec_word 8 bs;
     Some (\<lparr>hdr_position = p, hdr_adapter_program = a, hdr_created_at = c,
            hdr_total_shares = s\<rparr>, bs)
   }"

lemma dec_header_append [codec_simps]: "dec_header (enc_header h @ r) = Some (h, r)"
  by (simp add: enc_header_def dec_header_def codec_simps)

lemma length_enc_header [simp]: "length (enc_header h) = 80"
  by (simp add: enc_header_def)

interpretation header: borsh_type enc_header dec_header "\<lambda>_. True"
  by unfold_locales (simp add: codec_simps)

text \<open>
  What an off-chain reader does with any adapter's state account: skip the 8 discriminator
  bytes and read the header, ignoring whatever follows.
\<close>

definition read_header :: "bytes \<Rightarrow> adapter_state_header option" where
  "read_header data = map_option fst (dec_header (drop 8 data))"

lemma read_header_image:
  "length disc = 8 \<Longrightarrow> read_header (disc @ enc_header h @ tail) = Some h"
  by (simp add: read_header_def codec_simps)

section \<open>Instruction data\<close>

definition ADAPTER_INITIALIZE :: bytes where
  "ADAPTER_INITIALIZE = [125, 160, 35, 249, 117, 179, 167, 76]"

definition ADAPTER_DEPOSIT :: bytes where
  "ADAPTER_DEPOSIT = [190, 207, 72, 186, 232, 106, 46, 72]"

definition ADAPTER_WITHDRAW :: bytes where
  "ADAPTER_WITHDRAW = [121, 55, 72, 46, 185, 100, 173, 236]"

definition ADAPTER_CURRENT_VALUE :: bytes where
  "ADAPTER_CURRENT_VALUE = [67, 200, 59, 238, 163, 138, 170, 179]"

text \<open>\<open>data.len() as u32\<close> truncates.\<close>

definition encode_vec :: "bytes \<Rightarrow> bytes \<Rightarrow> bytes" where
  "encode_vec disc data = disc @ to_le_bytes 4 (word_of_nat (length data) :: u32) @ data"

definition encode_u64_vec :: "bytes \<Rightarrow> u64 \<Rightarrow> bytes \<Rightarrow> bytes" where
  "encode_u64_vec disc n data =
     disc @ to_le_bytes 8 n @ to_le_bytes 4 (word_of_nat (length data) :: u32) @ data"

definition encode_initialize :: "bytes \<Rightarrow> bytes" where
  "encode_initialize adapter_data = encode_vec ADAPTER_INITIALIZE adapter_data"

definition encode_deposit :: "u64 \<Rightarrow> bytes \<Rightarrow> bytes" where
  "encode_deposit amount adapter_data = encode_u64_vec ADAPTER_DEPOSIT amount adapter_data"

definition encode_withdraw :: "u64 \<Rightarrow> bytes \<Rightarrow> bytes" where
  "encode_withdraw shares adapter_data = encode_u64_vec ADAPTER_WITHDRAW shares adapter_data"

definition encode_current_value :: "bytes \<Rightarrow> bytes" where
  "encode_current_value adapter_data = encode_vec ADAPTER_CURRENT_VALUE adapter_data"

text \<open>
  The receiving side.  Every adapter's \<open>#[program]\<close> module declares the same four instructions
  with the same argument types, so Anchor derives the same dispatch: match the discriminator,
  then read the arguments.
\<close>

datatype adapter_ix =
    IxInitialize bytes
  | IxDeposit u64 bytes
  | IxWithdraw u64 bytes
  | IxCurrentValue bytes

definition dec_args_vec :: "bytes \<Rightarrow> bytes res" where
  "dec_args_vec bs =
     (case dec_vec bs of
        None \<Rightarrow> Inl (AnchorErr InstructionDidNotDeserialize)
      | Some (v, _) \<Rightarrow> Inr v)"

definition dec_args_u64_vec :: "bytes \<Rightarrow> (u64 \<times> bytes) res" where
  "dec_args_u64_vec bs =
     (case dec_word 8 bs of
        None \<Rightarrow> Inl (AnchorErr InstructionDidNotDeserialize)
      | Some (n, rest) \<Rightarrow> and_then (dec_args_vec rest) (\<lambda>v. Inr (n, v)))"

definition decode_adapter_ix :: "bytes \<Rightarrow> adapter_ix res" where
  "decode_adapter_ix data =
     (let disc = take 8 data; args = drop 8 data in
      if disc = ADAPTER_INITIALIZE then
        and_then (dec_args_vec args) (\<lambda>v. Inr (IxInitialize v))
      else if disc = ADAPTER_DEPOSIT then
        and_then (dec_args_u64_vec args) (\<lambda>(n, v). Inr (IxDeposit n v))
      else if disc = ADAPTER_WITHDRAW then
        and_then (dec_args_u64_vec args) (\<lambda>(n, v). Inr (IxWithdraw n v))
      else if disc = ADAPTER_CURRENT_VALUE then
        and_then (dec_args_vec args) (\<lambda>v. Inr (IxCurrentValue v))
      else Inl (AnchorErr InstructionFallbackNotFound))"

lemmas adapter_discs =
  ADAPTER_INITIALIZE_def ADAPTER_DEPOSIT_def ADAPTER_WITHDRAW_def ADAPTER_CURRENT_VALUE_def

lemma length_adapter_discs [simp]:
  "length ADAPTER_INITIALIZE = 8" "length ADAPTER_DEPOSIT = 8"
  "length ADAPTER_WITHDRAW = 8" "length ADAPTER_CURRENT_VALUE = 8"
  by (simp_all add: adapter_discs)

lemma adapter_discs_distinct:
  "distinct [ADAPTER_INITIALIZE, ADAPTER_DEPOSIT, ADAPTER_WITHDRAW, ADAPTER_CURRENT_VALUE]"
  by (simp add: adapter_discs)

lemma dec_args_vec_enc: "length v < 2 ^ 32 \<Longrightarrow> dec_args_vec (enc_vec v @ r) = Inr v"
  by (simp add: dec_args_vec_def codec_simps)

lemma dec_args_u64_vec_enc:
  "length v < 2 ^ 32 \<Longrightarrow> dec_args_u64_vec (to_le_bytes 8 n @ enc_vec v @ r) = Inr (n, v)"
  by (simp add: dec_args_u64_vec_def dec_args_vec_enc codec_simps)

lemma encode_as_enc_vec:
  "encode_vec disc v = disc @ enc_vec v"
  "encode_u64_vec disc n v = disc @ to_le_bytes 8 n @ enc_vec v"
  by (simp_all add: encode_vec_def encode_u64_vec_def enc_vec_def)

lemma decode_encode:
  assumes "length v < 2 ^ 32"
  shows "decode_adapter_ix (encode_initialize v) = Inr (IxInitialize v)"
    and "decode_adapter_ix (encode_deposit n v) = Inr (IxDeposit n v)"
    and "decode_adapter_ix (encode_withdraw n v) = Inr (IxWithdraw n v)"
    and "decode_adapter_ix (encode_current_value v) = Inr (IxCurrentValue v)"
  using adapter_discs_distinct dec_args_vec_enc [OF assms, of "[]"]
    dec_args_u64_vec_enc [OF assms, of n "[]"]
  by (auto simp: decode_adapter_ix_def Let_def encode_initialize_def encode_deposit_def
      encode_withdraw_def encode_current_value_def encode_as_enc_vec)

section \<open>Return data\<close>

text \<open>The first argument is the program that executes the call.\<close>

definition set_u64_return :: "pubkey \<Rightarrow> u64 \<Rightarrow> world \<Rightarrow> world" where
  "set_u64_return self value w = set_return_data self (to_le_bytes 8 value) w"

definition get_u64_return :: "pubkey \<Rightarrow> world \<Rightarrow> u64 option" where
  "get_u64_return expected w =
     (case return_data w of
        None \<Rightarrow> None
      | Some (program, data) \<Rightarrow>
          (if program \<noteq> expected \<or> length data \<noteq> 8 then None else Some (from_le_bytes data)))"

lemma get_set_u64_return:
  "get_u64_return p (set_u64_return q v w) = (if p = q then Some v else None)"
  by (simp add: get_u64_return_def set_u64_return_def codec_simps)

lemma get_u64_return_emit [simp]: "get_u64_return p (emit_event q e w) = get_u64_return p w"
  by (simp add: get_u64_return_def)

lemma set_u64_return_simps [simp]:
  "accounts (set_u64_return p v w) = accounts w"
  "events (set_u64_return p v w) = events w"
  "return_data (set_u64_return p v w) = Some (p, to_le_bytes 8 v)"
  by (simp_all add: set_u64_return_def)

section \<open>The caller check\<close>

definition verify_caller_is_dispatcher :: "runtime \<Rightarrow> account_info \<Rightarrow> pubkey \<Rightarrow> unit res" where
  "verify_caller_is_dispatcher rt instructions_sysvar dispatcher =
     and_then (rt_load_current_index rt (ai_key instructions_sysvar)) (\<lambda>idx.
     and_then (rt_load_instruction_at rt (unat idx) (ai_key instructions_sysvar)) (\<lambda>parent.
     require (ix_program parent = dispatcher) (AdapterErr adapter_error.Unauthorized)))"

text \<open>
  Documented behaviour of the instructions sysvar: it lists the \<^emph>\<open>top-level\<close> instructions \<open>tx\<close> of
  the transaction, and the current index is that of the top-level instruction being executed,
  whatever the depth of the CPI that reads it.
\<close>

definition sysvar_reports :: "runtime \<Rightarrow> instruction list \<Rightarrow> nat \<Rightarrow> bool" where
  "sysvar_reports rt tx i \<longleftrightarrow>
     i < length tx \<and>
     (\<exists>idx. rt_load_current_index rt (rt_instructions_sysvar rt) = Inr idx \<and> unat idx = i) \<and>
     rt_load_instruction_at rt i (rt_instructions_sysvar rt) = Inr (tx ! i)"

lemma verify_caller_top_level:
  assumes "sysvar_reports rt tx i" and "ai_key sysvar = rt_instructions_sysvar rt"
  shows "verify_caller_is_dispatcher rt sysvar d =
           require (ix_program (tx ! i) = d) (AdapterErr adapter_error.Unauthorized)"
  using assms by (auto simp: sysvar_reports_def verify_caller_is_dispatcher_def)

section \<open>Properties\<close>

text \<open>
  C25: an adapter decodes exactly what the dispatcher encodes, for all four instructions.
\<close>

theorem instruction_round_trip:
  assumes "length v < 2 ^ 32"
  shows "decode_adapter_ix (encode_initialize v) = Inr (IxInitialize v) \<and>
         decode_adapter_ix (encode_deposit n v) = Inr (IxDeposit n v) \<and>
         decode_adapter_ix (encode_withdraw n v) = Inr (IxWithdraw n v) \<and>
         decode_adapter_ix (encode_current_value v) = Inr (IxCurrentValue v)"
  using decode_encode [OF assms] by simp

text \<open>
  C26: a result is read from the return data exactly when the register holds the eight bytes of that
  result under the expected program: stale, foreign or malformed data is never taken for one.
\<close>

theorem return_data_exact:
  "get_u64_return p w = Some v \<longleftrightarrow> return_data w = Some (p, to_le_bytes 8 v)"
proof -
  have "to_le_bytes 8 (from_le_bytes bs :: u64) = bs" if "length bs = 8" for bs
    using that by (intro to_le_from_le_bytes) simp_all
  then show ?thesis
    by (auto simp: get_u64_return_def from_to_le_widths split: option.splits)
qed

end
