(* ===== verification/Dispatcher_State.thy ===== *)
theory Dispatcher_State
  imports Interface
begin

text \<open>
  The dispatcher's account types (programs/dispatcher/src/state.rs), constants
  (programs/dispatcher/src/constants.rs) and program id (\<open>declare_id!\<close> in lib.rs), with their
  Borsh codecs.  A \<open>String\<close> is its UTF-8 bytes, whose number is Rust's \<open>len()\<close>.
\<close>

section \<open>Constants\<close>

definition REGISTRY_SEED :: bytes where
  "REGISTRY_SEED = ascii ''registry''"

definition ENTRY_SEED :: bytes where
  "ENTRY_SEED = ascii ''adapter_entry''"

definition POSITION_SEED :: bytes where
  "POSITION_SEED = ascii ''position''"

definition MAX_NAME_LEN :: nat where
  "MAX_NAME_LEN = 32"

definition MAX_ADAPTERS :: u32 where
  "MAX_ADAPTERS = 256"

definition dispatcher_id :: pubkey where
  "dispatcher_id = pubkey_of_b58 ''CDit4o9LeqFaxEMkS7mHDKkUxrhhr8K9kH4CYfqZxEok''"

section \<open>Account types\<close>

record registry =
  reg_admin :: pubkey
  reg_adapter_count :: u32
  reg_bump :: u8

record adapter_entry =
  ent_adapter_program :: pubkey
  ent_interface_version :: u8
  ent_name :: bytes
  ent_is_active :: bool
  ent_added_at :: i64
  ent_bump :: u8

record position =
  pos_owner :: pubkey
  pos_adapter_program :: pubkey
  pos_usdc_pool :: pubkey
  pos_usdc_mint :: pubkey
  pos_created_at :: i64
  pos_bump :: u8

section \<open>Codecs\<close>

text \<open>
  The discriminators are the ones in target/idl/dispatcher.json; the space is \<open>8 + INIT_SPACE\<close>
  (32 per key, 4 + 32 for the name).
\<close>

definition registry_codec :: "registry codec" where
  "registry_codec =
     \<lparr>co_disc = [47, 174, 110, 246, 184, 182, 252, 218],
      co_space = 8 + (32 + 4 + 1),
      co_enc = (\<lambda>r. pubkey_bytes (reg_admin r) @ to_le_bytes 4 (reg_adapter_count r) @
                    to_le_bytes 1 (reg_bump r)),
      co_dec = (\<lambda>bs. do {
        (a, bs) \<leftarrow> dec_pubkey bs;
        (n, bs) \<leftarrow> dec_word 4 bs;
        (b, bs) \<leftarrow> dec_word 1 bs;
        Some (\<lparr>reg_admin = a, reg_adapter_count = n, reg_bump = b\<rparr>, bs)})\<rparr>"

definition entry_codec :: "adapter_entry codec" where
  "entry_codec =
     \<lparr>co_disc = [204, 228, 11, 242, 235, 250, 45, 145],
      co_space = 8 + (32 + 1 + (4 + MAX_NAME_LEN) + 1 + 8 + 1),
      co_enc = (\<lambda>e. pubkey_bytes (ent_adapter_program e) @
                    to_le_bytes 1 (ent_interface_version e) @ enc_vec (ent_name e) @
                    enc_bool (ent_is_active e) @ to_le_bytes 8 (ent_added_at e) @
                    to_le_bytes 1 (ent_bump e)),
      co_dec = (\<lambda>bs. do {
        (p, bs) \<leftarrow> dec_pubkey bs;
        (v, bs) \<leftarrow> dec_word 1 bs;
        (n, bs) \<leftarrow> dec_vec bs;
        (a, bs) \<leftarrow> dec_bool bs;
        (t, bs) \<leftarrow> dec_word 8 bs;
        (b, bs) \<leftarrow> dec_word 1 bs;
        Some (\<lparr>ent_adapter_program = p, ent_interface_version = v, ent_name = n,
               ent_is_active = a, ent_added_at = t, ent_bump = b\<rparr>, bs)})\<rparr>"

definition position_codec :: "position codec" where
  "position_codec =
     \<lparr>co_disc = [170, 188, 143, 228, 122, 64, 247, 208],
      co_space = 8 + (32 + 32 + 32 + 32 + 8 + 1),
      co_enc = (\<lambda>p. pubkey_bytes (pos_owner p) @ pubkey_bytes (pos_adapter_program p) @
                    pubkey_bytes (pos_usdc_pool p) @ pubkey_bytes (pos_usdc_mint p) @
                    to_le_bytes 8 (pos_created_at p) @ to_le_bytes 1 (pos_bump p)),
      co_dec = (\<lambda>bs. do {
        (k1, bs) \<leftarrow> dec_pubkey bs;
        (k2, bs) \<leftarrow> dec_pubkey bs;
        (k3, bs) \<leftarrow> dec_pubkey bs;
        (k4, bs) \<leftarrow> dec_pubkey bs;
        (t, bs) \<leftarrow> dec_word 8 bs;
        (b, bs) \<leftarrow> dec_word 1 bs;
        Some (\<lparr>pos_owner = k1, pos_adapter_program = k2, pos_usdc_pool = k3,
               pos_usdc_mint = k4, pos_created_at = t, pos_bump = b\<rparr>, bs)})\<rparr>"

text \<open>The name guard of \<open>whitelist_adapter\<close> is what makes an entry serialisable.\<close>

definition entry_wf :: "adapter_entry \<Rightarrow> bool" where
  "entry_wf e \<longleftrightarrow> length (ent_name e) \<le> MAX_NAME_LEN"

lemma codec_discs [simp]:
  "co_disc registry_codec = [47, 174, 110, 246, 184, 182, 252, 218]"
  "co_disc entry_codec = [204, 228, 11, 242, 235, 250, 45, 145]"
  "co_disc position_codec = [170, 188, 143, 228, 122, 64, 247, 208]"
  by (simp_all add: registry_codec_def entry_codec_def position_codec_def)

interpretation registry: anchor_account registry_codec "\<lambda>_. True"
proof unfold_locales
  fix x :: registry and r
  show "co_dec registry_codec (co_enc registry_codec x @ r) = Some (x, r)"
    by (simp add: registry_codec_def codec_simps del: One_nat_def)
qed (simp_all add: registry_codec_def replicate_8)

interpretation entry: anchor_account entry_codec entry_wf
proof unfold_locales
  fix x :: adapter_entry and r
  assume "entry_wf x"
  then have "length (ent_name x) < 2 ^ 32" by (simp add: entry_wf_def MAX_NAME_LEN_def)
  then show "co_dec entry_codec (co_enc entry_codec x @ r) = Some (x, r)"
    by (simp add: entry_codec_def codec_simps del: One_nat_def)
next
  fix x :: adapter_entry
  assume "entry_wf x"
  then show "8 + length (co_enc entry_codec x) \<le> co_space entry_codec"
    by (simp add: entry_codec_def entry_wf_def)
qed (simp_all add: entry_codec_def replicate_8)

interpretation position: anchor_account position_codec "\<lambda>_. True"
proof unfold_locales
  fix x :: position and r
  show "co_dec position_codec (co_enc position_codec x @ r) = Some (x, r)"
    by (simp add: position_codec_def codec_simps del: One_nat_def)
qed (simp_all add: position_codec_def replicate_8)

section \<open>Properties\<close>

text \<open>
  a whitelist entry with a name of at most \<open>MAX_NAME_LEN\<close> bytes is read back as it was written.
\<close>

lemma entry_round_trip:
  assumes "store_account entry_codec k e w = Inr w'" and "account_owner w k = Some dispatcher_id"
    and "length (ent_name e) \<le> MAX_NAME_LEN"
  shows "load_account entry_codec dispatcher_id k w' = Inr e"
  using assms by (intro entry.load_after_store) (simp_all add: entry_wf_def)

end
