(* ===== verification/Registry.thy ===== *)
theory Registry
  imports Dispatcher_State
begin

text \<open>
  The governance registry of the dispatcher: \<open>initialize_registry\<close>, \<open>whitelist_adapter\<close> and
  \<open>pause_adapter\<close> (programs/dispatcher/src/instructions/).  Each instruction is its derived
  account validation (\<open>..._accounts\<close>), its handler, and their composition with the write-back of
  the mutable accounts (the entry point in lib.rs).

  The abstract specification is \<open>governance\<close>: which registry and which whitelist entries exist,
  and the three signed steps that may change them.  Every instruction refines a step, and the
  invariant of the steps is lifted to the accounts.
\<close>

section \<open>initialize_registry\<close>

record initialize_registry_ctx =
  ir_admin :: account_info
  ir_registry :: account_info
  ir_bump :: u8

definition initialize_registry_accounts ::
  "runtime \<Rightarrow> account_info list \<Rightarrow> world \<Rightarrow> (initialize_registry_ctx \<times> world) res" where
  "initialize_registry_accounts rt infos w =
     and_then (take_signer infos) (\<lambda>(admin, infos).
     and_then (take_info infos) (\<lambda>(registry, infos).
     and_then (take_program (rt_system_program rt) w infos) (\<lambda>(system_program, infos).
     and_then (c_init rt admin registry (co_space registry_codec) [REGISTRY_SEED] dispatcher_id w)
       (\<lambda>(bump, w).
     and_then (c_mut admin) (\<lambda>_.
     Inr (\<lparr>ir_admin = admin, ir_registry = registry, ir_bump = bump\<rparr>, w))))))"

definition initialize_registry_handler :: "initialize_registry_ctx \<Rightarrow> registry" where
  "initialize_registry_handler ctx =
     \<lparr>reg_admin = ai_key (ir_admin ctx), reg_adapter_count = 0, reg_bump = ir_bump ctx\<rparr>"

definition initialize_registry :: "runtime \<Rightarrow> account_info list \<Rightarrow> world \<Rightarrow> world res" where
  "initialize_registry rt infos w =
     and_then (initialize_registry_accounts rt infos w) (\<lambda>(ctx, w).
     store_account registry_codec (ai_key (ir_registry ctx)) (initialize_registry_handler ctx) w)"

section \<open>whitelist_adapter\<close>

record whitelist_ctx =
  wl_admin :: account_info
  wl_registry :: "registry typed"
  wl_adapter_entry :: account_info
  wl_adapter_program :: account_info
  wl_entry_bump :: u8

definition whitelist_adapter_accounts ::
  "runtime \<Rightarrow> account_info list \<Rightarrow> world \<Rightarrow> (whitelist_ctx \<times> world) res" where
  "whitelist_adapter_accounts rt infos w =
     and_then (take_signer infos) (\<lambda>(admin, infos).
     and_then (take_account registry_codec dispatcher_id w infos) (\<lambda>(registry, infos).
     and_then (take_info infos) (\<lambda>(adapter_entry, infos).
     and_then (take_info infos) (\<lambda>(adapter_program, infos).
     and_then (take_program (rt_system_program rt) w infos) (\<lambda>(system_program, infos).
     and_then (c_init rt admin adapter_entry (co_space entry_codec)
                 [ENTRY_SEED, pubkey_bytes (ai_key adapter_program)] dispatcher_id w) (\<lambda>(bump, w).
     and_then (c_mut admin) (\<lambda>_.
     and_then (c_seeds rt [REGISTRY_SEED, [reg_bump (ty_val registry)]] dispatcher_id
                 (ty_info registry)) (\<lambda>_.
     and_then (c_mut (ty_info registry)) (\<lambda>_.
     and_then (require (reg_admin (ty_val registry) = ai_key admin)
                 (DispatcherErr dispatcher_error.Unauthorized)) (\<lambda>_.
     and_then (c_executable w adapter_program) (\<lambda>_.
     Inr (\<lparr>wl_admin = admin, wl_registry = registry, wl_adapter_entry = adapter_entry,
           wl_adapter_program = adapter_program, wl_entry_bump = bump\<rparr>, w))))))))))))"

definition whitelist_adapter_handler ::
  "runtime \<Rightarrow> whitelist_ctx \<Rightarrow> bytes \<Rightarrow> u8 \<Rightarrow> world \<Rightarrow> ((registry \<times> adapter_entry) \<times> world) res" where
  "whitelist_adapter_handler rt ctx name interface_version w =
     and_then (require (length name \<le> MAX_NAME_LEN) (DispatcherErr NameTooLong)) (\<lambda>_.
     and_then (require (interface_version = ADAPTER_INTERFACE_VERSION)
                 (DispatcherErr dispatcher_error.VersionMismatch)) (\<lambda>_.
     and_then (require (reg_adapter_count (ty_val (wl_registry ctx)) < MAX_ADAPTERS)
                 (DispatcherErr RegistryFull)) (\<lambda>_.
     let entry = \<lparr>ent_adapter_program = ai_key (wl_adapter_program ctx),
                  ent_interface_version = interface_version, ent_name = name,
                  ent_is_active = True, ent_added_at = clock_unix_timestamp (rt_clock rt),
                  ent_bump = wl_entry_bump ctx\<rparr>
     in and_then (ok_or (checked_add (reg_adapter_count (ty_val (wl_registry ctx))) 1)
                    (DispatcherErr dispatcher_error.MathOverflow)) (\<lambda>count.
        Inr (((ty_val (wl_registry ctx))\<lparr>reg_adapter_count := count\<rparr>, entry),
             emit_event dispatcher_id
               (AdapterWhitelisted (ent_adapter_program entry) name interface_version) w)))))"

definition whitelist_adapter ::
  "runtime \<Rightarrow> account_info list \<Rightarrow> bytes \<Rightarrow> u8 \<Rightarrow> world \<Rightarrow> world res" where
  "whitelist_adapter rt infos name interface_version w =
     and_then (whitelist_adapter_accounts rt infos w) (\<lambda>(ctx, w).
     and_then (whitelist_adapter_handler rt ctx name interface_version w) (\<lambda>((registry, entry), w).
     and_then (store_account registry_codec (ty_key (wl_registry ctx)) registry w) (\<lambda>w.
     store_account entry_codec (ai_key (wl_adapter_entry ctx)) entry w)))"

section \<open>pause_adapter\<close>

record pause_ctx =
  pa_admin :: account_info
  pa_registry :: "registry typed"
  pa_adapter_entry :: "adapter_entry typed"

definition pause_adapter_accounts ::
  "runtime \<Rightarrow> account_info list \<Rightarrow> world \<Rightarrow> pause_ctx res" where
  "pause_adapter_accounts rt infos w =
     and_then (take_signer infos) (\<lambda>(admin, infos).
     and_then (take_account registry_codec dispatcher_id w infos) (\<lambda>(registry, infos).
     and_then (take_account entry_codec dispatcher_id w infos) (\<lambda>(adapter_entry, infos).
     and_then (c_seeds rt [REGISTRY_SEED, [reg_bump (ty_val registry)]] dispatcher_id
                 (ty_info registry)) (\<lambda>_.
     and_then (require (reg_admin (ty_val registry) = ai_key admin)
                 (DispatcherErr dispatcher_error.Unauthorized)) (\<lambda>_.
     and_then (c_seeds rt [ENTRY_SEED, pubkey_bytes (ent_adapter_program (ty_val adapter_entry)),
                           [ent_bump (ty_val adapter_entry)]] dispatcher_id
                 (ty_info adapter_entry)) (\<lambda>_.
     and_then (c_mut (ty_info adapter_entry)) (\<lambda>_.
     Inr \<lparr>pa_admin = admin, pa_registry = registry, pa_adapter_entry = adapter_entry\<rparr>)))))))"

definition pause_adapter_handler ::
  "pause_ctx \<Rightarrow> bool \<Rightarrow> world \<Rightarrow> adapter_entry \<times> world" where
  "pause_adapter_handler ctx paused w =
     (let entry = (ty_val (pa_adapter_entry ctx))\<lparr>ent_is_active := \<not> paused\<rparr>
      in (entry, emit_event dispatcher_id
                   (AdapterPaused (ent_adapter_program entry) (ent_is_active entry)) w))"

definition pause_adapter ::
  "runtime \<Rightarrow> account_info list \<Rightarrow> bool \<Rightarrow> world \<Rightarrow> world res" where
  "pause_adapter rt infos paused w =
     and_then (pause_adapter_accounts rt infos w) (\<lambda>ctx.
     case pause_adapter_handler ctx paused w of (entry, w) \<Rightarrow>
     store_account entry_codec (ty_key (pa_adapter_entry ctx)) entry w)"

section \<open>What success means\<close>

lemma initialize_registry_ok:
  "initialize_registry rt infos w = Inr w' \<longleftrightarrow>
     (\<exists>admin registry system rest bump w1.
        infos = admin # registry # system # rest \<and> ai_signer admin \<and> ai_writable admin \<and>
        ai_writable registry \<and> ai_key system = rt_system_program rt \<and>
        account_executable w (rt_system_program rt) \<and>
        rt_find_program_address rt [REGISTRY_SEED] dispatcher_id = (ai_key registry, bump) \<and>
        rt_create_account rt (ai_key admin) (ai_key registry) (co_space registry_codec)
          dispatcher_id w = Inr w1 \<and>
        store_account registry_codec (ai_key registry)
          \<lparr>reg_admin = ai_key admin, reg_adapter_count = 0, reg_bump = bump\<rparr> w1 = Inr w')"
  unfolding initialize_registry_def initialize_registry_accounts_def initialize_registry_handler_def
  by (auto simp: and_then_eq_Inr take_signer_eq_Inr take_info_eq_Inr take_program_eq_Inr
      c_init_eq_Inr constraint_eq_Inr split: prod.splits)

lemma whitelist_accounts_ok:
  "whitelist_adapter_accounts rt infos w = Inr (ctx, w1) \<longleftrightarrow>
     (\<exists>system rest.
        infos = wl_admin ctx # ty_info (wl_registry ctx) # wl_adapter_entry ctx #
                wl_adapter_program ctx # system # rest \<and>
        ai_key system = rt_system_program rt) \<and>
        ai_signer (wl_admin ctx) \<and> ai_writable (wl_admin ctx) \<and>
        load_account registry_codec dispatcher_id (ty_key (wl_registry ctx)) w =
          Inr (ty_val (wl_registry ctx)) \<and>
        account_executable w (rt_system_program rt) \<and>
        rt_find_program_address rt
          [ENTRY_SEED, pubkey_bytes (ai_key (wl_adapter_program ctx))] dispatcher_id =
          (ai_key (wl_adapter_entry ctx), wl_entry_bump ctx) \<and>
        ai_writable (wl_adapter_entry ctx) \<and>
        rt_create_account rt (ai_key (wl_admin ctx)) (ai_key (wl_adapter_entry ctx))
          (co_space entry_codec) dispatcher_id w = Inr w1 \<and>
        rt_create_program_address rt [REGISTRY_SEED, [reg_bump (ty_val (wl_registry ctx))]]
          dispatcher_id = Some (ty_key (wl_registry ctx)) \<and>
        ai_writable (ty_info (wl_registry ctx)) \<and>
        reg_admin (ty_val (wl_registry ctx)) = ai_key (wl_admin ctx) \<and>
        account_executable w1 (ai_key (wl_adapter_program ctx))"
  unfolding whitelist_adapter_accounts_def
  by (cases ctx) (auto simp: and_then_eq_Inr take_signer_eq_Inr take_info_eq_Inr
      take_account_eq_Inr take_program_eq_Inr c_init_eq_Inr constraint_eq_Inr require_eq_Inr
      split: prod.splits)

definition whitelisted_entry :: "runtime \<Rightarrow> whitelist_ctx \<Rightarrow> bytes \<Rightarrow> adapter_entry" where
  "whitelisted_entry rt ctx name =
     \<lparr>ent_adapter_program = ai_key (wl_adapter_program ctx),
      ent_interface_version = ADAPTER_INTERFACE_VERSION, ent_name = name,
      ent_is_active = True, ent_added_at = clock_unix_timestamp (rt_clock rt),
      ent_bump = wl_entry_bump ctx\<rparr>"

lemma below_max_adapters:
  "n < MAX_ADAPTERS \<longleftrightarrow> unat n < 256"
  by (simp add: MAX_ADAPTERS_def word_less_nat_alt)

lemma count_increment:
  assumes "unat (n :: u32) < 256"
  shows "checked_add n 1 = Some (n + 1)" and "unat (n + 1) = unat n + 1"
  using assms by (simp_all add: checked_add_def unat_word_ariths)

lemma whitelist_handler_ok:
  "whitelist_adapter_handler rt ctx name v w = Inr ((r, e), w') \<longleftrightarrow>
     length name \<le> MAX_NAME_LEN \<and> v = ADAPTER_INTERFACE_VERSION \<and>
     unat (reg_adapter_count (ty_val (wl_registry ctx))) < 256 \<and>
     r = (ty_val (wl_registry ctx))
           \<lparr>reg_adapter_count := reg_adapter_count (ty_val (wl_registry ctx)) + 1\<rparr> \<and>
     e = whitelisted_entry rt ctx name \<and>
     w' = emit_event dispatcher_id (AdapterWhitelisted (ai_key (wl_adapter_program ctx)) name v) w"
  unfolding whitelist_adapter_handler_def whitelisted_entry_def
  by (auto simp: and_then_eq_Inr require_eq_Inr ok_or_eq_Inr below_max_adapters Let_def
      count_increment)

lemma pause_accounts_ok:
  "pause_adapter_accounts rt infos w = Inr ctx \<longleftrightarrow>
     (\<exists>rest. infos = pa_admin ctx # ty_info (pa_registry ctx) # ty_info (pa_adapter_entry ctx) # rest) \<and>
        ai_signer (pa_admin ctx) \<and>
        load_account registry_codec dispatcher_id (ty_key (pa_registry ctx)) w =
          Inr (ty_val (pa_registry ctx)) \<and>
        load_account entry_codec dispatcher_id (ty_key (pa_adapter_entry ctx)) w =
          Inr (ty_val (pa_adapter_entry ctx)) \<and>
        rt_create_program_address rt [REGISTRY_SEED, [reg_bump (ty_val (pa_registry ctx))]]
          dispatcher_id = Some (ty_key (pa_registry ctx)) \<and>
        reg_admin (ty_val (pa_registry ctx)) = ai_key (pa_admin ctx) \<and>
        rt_create_program_address rt
          [ENTRY_SEED, pubkey_bytes (ent_adapter_program (ty_val (pa_adapter_entry ctx))),
           [ent_bump (ty_val (pa_adapter_entry ctx))]] dispatcher_id =
          Some (ty_key (pa_adapter_entry ctx)) \<and>
        ai_writable (ty_info (pa_adapter_entry ctx))"
  unfolding pause_adapter_accounts_def
  by (cases ctx) (auto simp: and_then_eq_Inr take_signer_eq_Inr
      take_account_eq_Inr constraint_eq_Inr require_eq_Inr split: prod.splits)

section \<open>Abstract specification\<close>

record governance =
  gov_registries :: "pubkey \<rightharpoonup> registry"
  gov_entries :: "pubkey \<rightharpoonup> adapter_entry"

definition governance_of :: "world \<Rightarrow> governance" where
  "governance_of w =
     \<lparr>gov_registries = account_view registry_codec dispatcher_id w,
      gov_entries = account_view entry_codec dispatcher_id w\<rparr>"

definition registry_address :: "runtime \<Rightarrow> pubkey" where
  "registry_address rt = fst (rt_find_program_address rt [REGISTRY_SEED] dispatcher_id)"

definition entry_address :: "runtime \<Rightarrow> pubkey \<Rightarrow> pubkey" where
  "entry_address rt p = fst (rt_find_program_address rt [ENTRY_SEED, pubkey_bytes p] dispatcher_id)"

text \<open>\<open>governance_step rt s g g'\<close>: the step signed by \<open>s\<close> takes \<open>g\<close> to \<open>g'\<close>.\<close>

inductive governance_step :: "runtime \<Rightarrow> pubkey \<Rightarrow> governance \<Rightarrow> governance \<Rightarrow> bool"
  for rt :: runtime where
  create:
    "gov_registries g (registry_address rt) = None \<Longrightarrow>
     reg_admin r = s \<Longrightarrow> reg_adapter_count r = 0 \<Longrightarrow>
     governance_step rt s g
       (g\<lparr>gov_registries := (gov_registries g)(registry_address rt \<mapsto> r)\<rparr>)"
| approve:
    "gov_registries g k = Some r \<Longrightarrow> reg_admin r = s \<Longrightarrow>
     unat (reg_adapter_count r) < 256 \<Longrightarrow>
     gov_entries g (entry_address rt (ent_adapter_program e)) = None \<Longrightarrow>
     ent_interface_version e = ADAPTER_INTERFACE_VERSION \<Longrightarrow> entry_wf e \<Longrightarrow>
     ent_is_active e \<Longrightarrow>
     governance_step rt s g
       (g\<lparr>gov_registries := (gov_registries g)
            (k \<mapsto> r\<lparr>reg_adapter_count := reg_adapter_count r + 1\<rparr>),
          gov_entries := (gov_entries g)
            (entry_address rt (ent_adapter_program e) \<mapsto> e)\<rparr>)"
| toggle:
    "gov_registries g j = Some r \<Longrightarrow> reg_admin r = s \<Longrightarrow> gov_entries g k = Some e \<Longrightarrow>
     governance_step rt s g
       (g\<lparr>gov_entries := (gov_entries g)(k \<mapsto> e\<lparr>ent_is_active := b\<rparr>)\<rparr>)"

text \<open>
  The invariant: the only registry is the canonical one; it counts the entries, of which there
  are at most \<open>MAX_ADAPTERS\<close>; every entry sits at the address of the program it approves, has
  this interface's version and a name that fits.
\<close>

definition governance_inv :: "runtime \<Rightarrow> governance \<Rightarrow> bool" where
  "governance_inv rt g \<longleftrightarrow>
     dom (gov_registries g) \<subseteq> {registry_address rt} \<and>
     finite (dom (gov_entries g)) \<and>
     card (dom (gov_entries g)) \<le> 256 \<and>
     (case gov_registries g (registry_address rt) of
        None \<Rightarrow> gov_entries g = Map.empty
      | Some r \<Rightarrow> unat (reg_adapter_count r) = card (dom (gov_entries g))) \<and>
     (\<forall>k e. gov_entries g k = Some e \<longrightarrow>
        k = entry_address rt (ent_adapter_program e) \<and>
        ent_interface_version e = ADAPTER_INTERFACE_VERSION \<and> entry_wf e)"

lemma governance_inv_empty:
  "governance_inv rt \<lparr>gov_registries = Map.empty, gov_entries = Map.empty\<rparr>"
  by (simp add: governance_inv_def)

lemma governance_step_inv:
  assumes "governance_step rt s g g'" and "governance_inv rt g"
  shows "governance_inv rt g'"
  using assms
proof (induction rule: governance_step.induct)
  case (create g r s)
  then show ?case by (auto simp: governance_inv_def)
next
  case (approve g k r s e)
  then have k: "k = registry_address rt" by (auto simp: governance_inv_def)
  have fresh: "entry_address rt (ent_adapter_program e) \<notin> dom (gov_entries g)"
    using approve by auto
  from approve k have count: "unat (reg_adapter_count r) = card (dom (gov_entries g))"
    by (simp add: governance_inv_def)
  have "unat (reg_adapter_count r + 1) = unat (reg_adapter_count r) + 1"
    using approve by (simp add: count_increment)
  with approve k fresh count show ?case
    by (auto simp: governance_inv_def)
next
  case (toggle g j r s k e b)
  then have "insert k (dom (gov_entries g)) = dom (gov_entries g)" by auto
  with toggle show ?case
    by (auto simp: governance_inv_def entry_wf_def split: option.splits)
qed

inductive_cases governance_stepE: "governance_step rt s g g'"

section \<open>Refinement\<close>

lemma governance_of_emit [simp]: "governance_of (emit_event p e w) = governance_of w"
  by (simp add: governance_of_def cong: account_view_same)

text \<open>What creating an account and then storing into it does to the two views.\<close>

lemma created_owner:
  "account_owner (set_account_data k \<lparr>acc_owner = p, acc_executable = b, acc_data = d\<rparr> w) k = Some p"
  by (simp add: account_owner_def)

lemma governance_create:
  assumes "accounts w k = None"
  shows "governance_of
           (set_account_data k \<lparr>acc_owner = p, acc_executable = b, acc_data = replicate n 0\<rparr> w)
         = governance_of w"
  by (simp add: governance_of_def registry.view_create [OF assms] entry.view_create [OF assms])

lemma governance_store_registry:
  assumes "store_account registry_codec k r w = Inr w'" and "account_owner w k = Some dispatcher_id"
    and "gov_entries (governance_of w) k = None"
  shows "governance_of w' =
           (governance_of w)\<lparr>gov_registries := (gov_registries (governance_of w))(k \<mapsto> r)\<rparr>"
  using registry.view_store [OF assms(1) _ assms(2)]
    view_store_other_type [OF assms(1), of entry_codec dispatcher_id] assms(3)
  by (simp add: governance_of_def)

lemma governance_store_entry:
  assumes "store_account entry_codec k e w = Inr w'" and "account_owner w k = Some dispatcher_id"
    and "gov_registries (governance_of w) k = None" and "entry_wf e"
  shows "governance_of w' =
           (governance_of w)\<lparr>gov_entries := (gov_entries (governance_of w))(k \<mapsto> e)\<rparr>"
  using entry.view_store [OF assms(1,4,2)]
    view_store_other_type [OF assms(1), of registry_codec dispatcher_id] assms(3)
  by (simp add: governance_of_def)

lemma governance_lookup:
  "gov_registries (governance_of w) k = Some r \<longleftrightarrow> load_account registry_codec dispatcher_id k w = Inr r"
  "gov_entries (governance_of w) k = Some e \<longleftrightarrow> load_account entry_codec dispatcher_id k w = Inr e"
  by (simp_all add: governance_of_def account_view_eq_Some)

lemma governance_types_disjoint:
  "load_account registry_codec dispatcher_id k w = Inr r \<Longrightarrow> gov_entries (governance_of w) k = None"
  "load_account entry_codec dispatcher_id k w = Inr e \<Longrightarrow> gov_registries (governance_of w) k = None"
  by (simp_all add: governance_of_def load_excludes_other_type)

lemma governance_absent:
  "accounts w k = None \<Longrightarrow> gov_registries (governance_of w) k = None"
  "accounts w k = None \<Longrightarrow> gov_entries (governance_of w) k = None"
  by (simp_all add: governance_of_def view_absent)

lemma initialize_registry_refines:
  assumes "system_creates rt" and "initialize_registry rt infos w = Inr w'"
  shows "\<exists>admin rest. infos = admin # rest \<and> ai_signer admin \<and>
           governance_step rt (ai_key admin) (governance_of w) (governance_of w')"
proof -
  from assms(2) obtain admin registry system rest bump w1 where
    infos: "infos = admin # registry # system # rest" "ai_signer admin" and
    pda: "rt_find_program_address rt [REGISTRY_SEED] dispatcher_id = (ai_key registry, bump)" and
    cr: "rt_create_account rt (ai_key admin) (ai_key registry) (co_space registry_codec)
           dispatcher_id w = Inr w1" and
    st: "store_account registry_codec (ai_key registry)
           \<lparr>reg_admin = ai_key admin, reg_adapter_count = 0, reg_bump = bump\<rparr> w1 = Inr w'"
    unfolding initialize_registry_ok by blast
  note fresh = system_createsD(1) [OF assms(1) cr] and w1 = system_createsD(2) [OF assms(1) cr]
  have g1: "governance_of w1 = governance_of w"
    unfolding w1 by (rule governance_create [OF fresh])
  have "governance_of w' = (governance_of w1)\<lparr>gov_registries := (gov_registries (governance_of w1))
          (ai_key registry \<mapsto> \<lparr>reg_admin = ai_key admin, reg_adapter_count = 0, reg_bump = bump\<rparr>)\<rparr>"
    by (rule governance_store_registry [OF st])
      (simp_all only: g1 governance_absent [OF fresh], simp add: w1 created_owner)
  moreover have "registry_address rt = ai_key registry" by (simp add: registry_address_def pda)
  ultimately have "governance_step rt (ai_key admin) (governance_of w) (governance_of w')"
    using governance_step.create [of "governance_of w" rt
        "\<lparr>reg_admin = ai_key admin, reg_adapter_count = 0, reg_bump = bump\<rparr>" "ai_key admin"]
      governance_absent [OF fresh] by (simp add: g1)
  with infos show ?thesis by blast
qed

lemma whitelist_adapter_effect:
  assumes "system_creates rt" and "whitelist_adapter rt infos name v w = Inr w'"
  obtains ctx w1 where "whitelist_adapter_accounts rt infos w = Inr (ctx, w1)"
    and "unat (reg_adapter_count (ty_val (wl_registry ctx))) < 256"
    and "entry_wf (whitelisted_entry rt ctx name)" and "v = ADAPTER_INTERFACE_VERSION"
    and "accounts w (ai_key (wl_adapter_entry ctx)) = None"
    and "governance_of w' = (governance_of w)
           \<lparr>gov_registries := (gov_registries (governance_of w))
              (ty_key (wl_registry ctx) \<mapsto> (ty_val (wl_registry ctx))
                 \<lparr>reg_adapter_count := reg_adapter_count (ty_val (wl_registry ctx)) + 1\<rparr>),
            gov_entries := (gov_entries (governance_of w))
              (ai_key (wl_adapter_entry ctx) \<mapsto> whitelisted_entry rt ctx name)\<rparr>"
proof -
  from assms(2) obtain ctx w1 w2 w3 r where
    acc: "whitelist_adapter_accounts rt infos w = Inr (ctx, w1)" and
    h: "whitelist_adapter_handler rt ctx name v w1 = Inr ((r, whitelisted_entry rt ctx name), w2)" and
    s1: "store_account registry_codec (ty_key (wl_registry ctx)) r w2 = Inr w3" and
    s2: "store_account entry_codec (ai_key (wl_adapter_entry ctx))
           (whitelisted_entry rt ctx name) w3 = Inr w'"
    unfolding whitelist_adapter_def
    by (auto simp: and_then_eq_Inr whitelist_handler_ok split: prod.splits)
  let ?kr = "ty_key (wl_registry ctx)" and ?ke = "ai_key (wl_adapter_entry ctx)"
  from acc have ld: "load_account registry_codec dispatcher_id ?kr w = Inr (ty_val (wl_registry ctx))"
    and cr: "rt_create_account rt (ai_key (wl_admin ctx)) ?ke (co_space entry_codec)
          dispatcher_id w = Inr w1"
    by (simp_all add: whitelist_accounts_ok)
  note fresh = system_createsD(1) [OF assms(1) cr] and w1 = system_createsD(2) [OF assms(1) cr]
  have ne: "?kr \<noteq> ?ke" using ld fresh by (auto simp: load_account_def)
  from h have w2: "governance_of w2 = governance_of w1" and acc2: "accounts w2 = accounts w1"
    and wf: "entry_wf (whitelisted_entry rt ctx name)"
    by (auto simp: whitelist_handler_ok entry_wf_def whitelisted_entry_def)
  have g2: "governance_of w2 = governance_of w"
    unfolding w2 w1 by (rule governance_create [OF fresh])
  have own_e: "account_owner w2 ?ke = Some dispatcher_id"
    using acc2 by (simp add: w1 account_owner_def)
  have own_r: "account_owner w2 ?kr = Some dispatcher_id"
    using load_account_owner [OF ld] ne acc2 by (simp add: w1 account_owner_def)
  have g3: "governance_of w3 = (governance_of w2)\<lparr>gov_registries :=
              (gov_registries (governance_of w2))(?kr \<mapsto> r)\<rparr>"
    by (rule governance_store_registry [OF s1 own_r])
      (simp add: g2 governance_types_disjoint(1) [OF ld])
  have "governance_of w' = (governance_of w3)\<lparr>gov_entries :=
          (gov_entries (governance_of w3))(?ke \<mapsto> whitelisted_entry rt ctx name)\<rparr>"
    by (rule governance_store_entry [OF s2 _ _ wf])
      (use ne in \<open>simp_all add: g3 g2 governance_absent [OF fresh]
          account_owner_store [OF s1] own_e\<close>)
  with g2 g3 h acc wf fresh show ?thesis
    by (intro that [of ctx w1]) (auto simp: whitelist_handler_ok)
qed

lemma whitelist_adapter_refines:
  assumes "system_creates rt" and "whitelist_adapter rt infos name v w = Inr w'"
  shows "\<exists>admin rest. infos = admin # rest \<and> ai_signer admin \<and>
           governance_step rt (ai_key admin) (governance_of w) (governance_of w')"
proof -
  from assms obtain ctx w1 where
    acc: "whitelist_adapter_accounts rt infos w = Inr (ctx, w1)" and
    cnt: "unat (reg_adapter_count (ty_val (wl_registry ctx))) < 256" and
    wf: "entry_wf (whitelisted_entry rt ctx name)" and
    fresh: "accounts w (ai_key (wl_adapter_entry ctx)) = None" and
    g: "governance_of w' = (governance_of w)
           \<lparr>gov_registries := (gov_registries (governance_of w))
              (ty_key (wl_registry ctx) \<mapsto> (ty_val (wl_registry ctx))
                 \<lparr>reg_adapter_count := reg_adapter_count (ty_val (wl_registry ctx)) + 1\<rparr>),
            gov_entries := (gov_entries (governance_of w))
              (ai_key (wl_adapter_entry ctx) \<mapsto> whitelisted_entry rt ctx name)\<rparr>"
    by (rule whitelist_adapter_effect)
  have addr: "entry_address rt (ent_adapter_program (whitelisted_entry rt ctx name)) =
                ai_key (wl_adapter_entry ctx)"
    using acc by (simp add: whitelist_accounts_ok entry_address_def whitelisted_entry_def)
  have "governance_step rt (ai_key (wl_admin ctx)) (governance_of w) (governance_of w')"
    unfolding g addr [symmetric]
    by (rule governance_step.approve)
      (use acc cnt wf governance_absent(2) [OF fresh] addr in
        \<open>simp_all add: whitelist_accounts_ok governance_lookup whitelisted_entry_def\<close>)
  with acc show ?thesis by (auto simp: whitelist_accounts_ok)
qed

lemma pause_adapter_effect:
  assumes "pause_adapter rt infos paused w = Inr w'"
    and inv: "governance_inv rt (governance_of w)"
  obtains ctx where "pause_adapter_accounts rt infos w = Inr ctx"
    and "governance_of w' = (governance_of w)
           \<lparr>gov_entries := (gov_entries (governance_of w))
              (ty_key (pa_adapter_entry ctx) \<mapsto>
                 (ty_val (pa_adapter_entry ctx))\<lparr>ent_is_active := \<not> paused\<rparr>)\<rparr>"
proof -
  define wp where "wp ctx = emit_event dispatcher_id
      (AdapterPaused (ent_adapter_program (ty_val (pa_adapter_entry ctx))) (\<not> paused)) w" for ctx :: pause_ctx
  from assms(1) obtain ctx where
    acc: "pause_adapter_accounts rt infos w = Inr ctx" and
    st: "store_account entry_codec (ty_key (pa_adapter_entry ctx))
           ((ty_val (pa_adapter_entry ctx))\<lparr>ent_is_active := \<not> paused\<rparr>) (wp ctx) = Inr w'"
    unfolding pause_adapter_def wp_def
    by (auto simp: and_then_eq_Inr pause_adapter_handler_def Let_def)
  have w1: "governance_of (wp ctx) = governance_of w" "accounts (wp ctx) = accounts w"
    by (simp_all add: wp_def)
  from acc have ld: "load_account entry_codec dispatcher_id (ty_key (pa_adapter_entry ctx)) w =
                       Inr (ty_val (pa_adapter_entry ctx))"
    by (simp add: pause_accounts_ok)
  with inv have "entry_wf (ty_val (pa_adapter_entry ctx))"
    by (auto simp: governance_inv_def governance_lookup)
  then have wf: "entry_wf ((ty_val (pa_adapter_entry ctx))\<lparr>ent_is_active := \<not> paused\<rparr>)"
    by (simp add: entry_wf_def)
  have "governance_of w' = (governance_of (wp ctx))\<lparr>gov_entries := (gov_entries (governance_of (wp ctx)))
          (ty_key (pa_adapter_entry ctx) \<mapsto>
             (ty_val (pa_adapter_entry ctx))\<lparr>ent_is_active := \<not> paused\<rparr>)\<rparr>"
    by (rule governance_store_entry [OF st _ _ wf])
      (use load_account_owner [OF ld] w1 governance_types_disjoint(2) [OF ld] in
        \<open>simp_all add: account_owner_def\<close>)
  with w1 acc show ?thesis by (intro that) simp_all
qed

lemma pause_adapter_refines:
  assumes "pause_adapter rt infos paused w = Inr w'"
    and "governance_inv rt (governance_of w)"
  shows "\<exists>admin rest. infos = admin # rest \<and> ai_signer admin \<and>
           governance_step rt (ai_key admin) (governance_of w) (governance_of w')"
proof -
  from assms obtain ctx where
    acc: "pause_adapter_accounts rt infos w = Inr ctx" and
    g: "governance_of w' = (governance_of w)
           \<lparr>gov_entries := (gov_entries (governance_of w))
              (ty_key (pa_adapter_entry ctx) \<mapsto>
                 (ty_val (pa_adapter_entry ctx))\<lparr>ent_is_active := \<not> paused\<rparr>)\<rparr>"
    by (rule pause_adapter_effect)
  have "governance_step rt (ai_key (pa_admin ctx)) (governance_of w) (governance_of w')"
    unfolding g
    by (rule governance_step.toggle [where j = "ty_key (pa_registry ctx)" and r = "ty_val (pa_registry ctx)"])
      (use acc in \<open>simp_all add: pause_accounts_ok governance_lookup\<close>)
  with acc show ?thesis by (auto simp: pause_accounts_ok)
qed

lemma registry_image_fits:
  assumes "load_account registry_codec dispatcher_id k w = Inr r"
  obtains a where "accounts w k = Some a" and "length (account_image registry_codec q) \<le> length (acc_data a)"
proof -
  from assms obtain a where a: "accounts w k = Some a" and
    d: "try_deserialize registry_codec (acc_data a) = Inr r"
    by (auto simp: load_account_eq_Inr)
  have "length (account_image registry_codec q) = 45"
    by (simp add: registry.image_length) (simp add: registry_codec_def)
  moreover from d have "45 \<le> length (acc_data a)"
    by (auto simp: try_deserialize_def registry_codec_def dec_pubkey_def dec_word_def
        split: if_splits option.splits)
  ultimately show ?thesis using a by (intro that) simp_all
qed

section \<open>Properties\<close>

text \<open>
  C29: every outcome of the whitelist handler: a long name, a foreign interface version and a full
  registry are refused in this order, otherwise the count grows by one and the entry is active;
  the \<open>MathOverflow\<close> branch of the source is unreachable.
\<close>

theorem whitelist_handler_cases:
  "whitelist_adapter_handler rt ctx name v w =
     (if 32 < length name then Inl (DispatcherErr NameTooLong)
      else if v \<noteq> 1 then Inl (DispatcherErr dispatcher_error.VersionMismatch)
      else if 256 \<le> unat (reg_adapter_count (ty_val (wl_registry ctx)))
      then Inl (DispatcherErr RegistryFull)
      else Inr (((ty_val (wl_registry ctx))
                   \<lparr>reg_adapter_count := reg_adapter_count (ty_val (wl_registry ctx)) + 1\<rparr>,
                 whitelisted_entry rt ctx name),
                emit_event dispatcher_id
                  (AdapterWhitelisted (ai_key (wl_adapter_program ctx)) name v) w))"
  by (auto simp: whitelist_adapter_handler_def whitelisted_entry_def MAX_NAME_LEN_def
      ADAPTER_INTERFACE_VERSION_def below_max_adapters count_increment Let_def)

text \<open>Writing the registry and the new entry back never fails.\<close>

lemma whitelist_write_back:
  assumes "system_creates rt" and "whitelist_adapter_accounts rt infos w = Inr (ctx, w1)"
    and "entry_wf e" and "accounts u = accounts w1"
  shows "\<exists>w'. and_then (store_account registry_codec (ty_key (wl_registry ctx)) r u)
           (store_account entry_codec (ai_key (wl_adapter_entry ctx)) e) = Inr w'"
proof -
  let ?kr = "ty_key (wl_registry ctx)" and ?ke = "ai_key (wl_adapter_entry ctx)"
  from assms(2) have ld: "load_account registry_codec dispatcher_id ?kr w = Inr (ty_val (wl_registry ctx))"
    and cr: "rt_create_account rt (ai_key (wl_admin ctx)) ?ke (co_space entry_codec) dispatcher_id w = Inr w1"
    by (simp_all add: whitelist_accounts_ok)
  note w1 = system_createsD [OF assms(1) cr]
  have ne: "?kr \<noteq> ?ke" using ld w1(1) by (auto simp: load_account_def)
  obtain a where "accounts w ?kr = Some a" and "length (account_image registry_codec r) \<le> length (acc_data a)"
    using registry_image_fits [OF ld] by metis
  then have "\<exists>u'. store_account registry_codec ?kr r u = Inr u'"
    using assms(4) ne by (simp add: w1(2) store_account_eq_Inr)
  then obtain u' where u': "store_account registry_codec ?kr r u = Inr u'" by blast
  have "accounts u' ?ke = accounts u ?ke" using store_other_account [OF u'] ne by metis
  then have "accounts u' ?ke = Some \<lparr>acc_owner = dispatcher_id, acc_executable = False,
      acc_data = replicate (co_space entry_codec) 0\<rparr>"
    using assms(4) by (simp add: w1(2))
  from entry.store_in_allocated [OF this _ assms(3)]
  have "\<exists>w'. store_account entry_codec ?ke e u' = Inr w'" by simp
  with u' show ?thesis by simp
qed

text \<open>
  C30: with valid accounts, whitelisting succeeds exactly when the name fits, the version matches and
  the registry has room: writing the two accounts back never fails.
\<close>

theorem whitelist_progress:
  assumes "system_creates rt" and "whitelist_adapter_accounts rt infos w = Inr (ctx, w1)"
  shows "is_ok (whitelist_adapter rt infos name v w) \<longleftrightarrow>
     length name \<le> 32 \<and> v = 1 \<and> unat (reg_adapter_count (ty_val (wl_registry ctx))) < 256"
proof (cases "length name \<le> MAX_NAME_LEN \<and> v = ADAPTER_INTERFACE_VERSION \<and>
      unat (reg_adapter_count (ty_val (wl_registry ctx))) < 256")
  case True
  then obtain r w2 where "whitelist_adapter_handler rt ctx name v w1 =
      Inr ((r, whitelisted_entry rt ctx name), w2)" and "accounts w2 = accounts w1"
    using whitelist_handler_ok by fastforce
  moreover have "entry_wf (whitelisted_entry rt ctx name)"
    using True by (simp add: entry_wf_def whitelisted_entry_def)
  ultimately show ?thesis using whitelist_write_back [OF assms] True assms(2)
    by (simp add: whitelist_adapter_def is_ok_iff MAX_NAME_LEN_def ADAPTER_INTERFACE_VERSION_def)
next
  case False
  then show ?thesis using assms(2)
    by (auto simp: whitelist_adapter_def is_ok_iff and_then_eq_Inr whitelist_handler_ok
        MAX_NAME_LEN_def ADAPTER_INTERFACE_VERSION_def split: prod.splits)
qed

end
