(* ===== verification/Routing.thy ===== *)
theory Routing
  imports Dispatcher_State
begin

text \<open>
  The CPIs of the dispatcher to an adapter (programs/dispatcher/src/routing.rs): the fixed
  account prefix of each instruction, the accounts forwarded verbatim after it, the instruction
  data, and the result read back from the return data.  Any failure of the call is reported as
  \<open>AdapterMismatch\<close>, a missing result as \<open>MissingReturnData\<close>.
\<close>

definition meta_of_info :: "account_info \<Rightarrow> account_meta" where
  "meta_of_info acc =
     \<lparr>am_pubkey = ai_key acc, am_signer = ai_signer acc, am_writable = ai_writable acc\<rparr>"

fun forward ::
  "account_meta list \<Rightarrow> account_info list \<Rightarrow> account_info list \<Rightarrow> account_meta list \<times> account_info list" where
  "forward metas infos [] = (metas, infos)"
| "forward metas infos (acc # remaining) =
     forward (metas @ [meta_of_info acc]) (infos @ [acc]) remaining"

lemma forward_eq: "forward metas infos rem = (metas @ map meta_of_info rem, infos @ rem)"
  by (induction rem arbitrary: metas infos) simp_all

definition route_initialize ::
  "runtime \<Rightarrow> account_info \<Rightarrow> account_info \<Rightarrow> account_info \<Rightarrow> account_info \<Rightarrow> account_info \<Rightarrow>
   account_info \<Rightarrow> account_info list \<Rightarrow> bytes list list \<Rightarrow> world \<Rightarrow> world res" where
  "route_initialize rt adapter_program instructions_sysvar position adapter_state rent_payer
      system_program remaining signer_seeds w =
     (case forward
        [meta_readonly (ai_key instructions_sysvar) False,
         meta_readonly (ai_key position) True,
         meta_new (ai_key adapter_state) False,
         meta_new (ai_key rent_payer) True,
         meta_readonly (ai_key system_program) False]
        [adapter_program, instructions_sysvar, position, adapter_state, rent_payer, system_program]
        remaining of (metas, infos) \<Rightarrow>
      map_err
        (rt_invoke rt dispatcher_id
          \<lparr>ix_program = ai_key adapter_program, ix_accounts = metas,
           ix_data = encode_initialize []\<rparr> infos signer_seeds w)
        (DispatcherErr AdapterMismatch))"

definition fund_movement_ix ::
  "runtime \<Rightarrow> bytes \<Rightarrow> account_info \<Rightarrow> account_info \<Rightarrow> account_info \<Rightarrow> account_info \<Rightarrow> account_info \<Rightarrow>
   account_info list \<Rightarrow> bytes list list \<Rightarrow> world \<Rightarrow> world res" where
  "fund_movement_ix rt data adapter_program instructions_sysvar position position_usdc_pool
      adapter_state remaining signer_seeds w =
     (case forward
        [meta_readonly (ai_key instructions_sysvar) False,
         meta_new (ai_key position) True,
         meta_new (ai_key position_usdc_pool) False,
         meta_new (ai_key adapter_state) False]
        [adapter_program, instructions_sysvar, position, position_usdc_pool, adapter_state]
        remaining of (metas, infos) \<Rightarrow>
      map_err
        (rt_invoke rt dispatcher_id
          \<lparr>ix_program = ai_key adapter_program, ix_accounts = metas, ix_data = data\<rparr>
          infos signer_seeds w)
        (DispatcherErr AdapterMismatch))"

definition route_deposit ::
  "runtime \<Rightarrow> account_info \<Rightarrow> account_info \<Rightarrow> account_info \<Rightarrow> account_info \<Rightarrow> account_info \<Rightarrow>
   account_info list \<Rightarrow> u64 \<Rightarrow> bytes list list \<Rightarrow> world \<Rightarrow> (u64 \<times> world) res" where
  "route_deposit rt adapter_program instructions_sysvar position position_usdc_pool adapter_state
      remaining amount signer_seeds w =
     and_then (fund_movement_ix rt (encode_deposit amount []) adapter_program instructions_sysvar
                 position position_usdc_pool adapter_state remaining signer_seeds w) (\<lambda>w.
     and_then (ok_or (get_u64_return (ai_key adapter_program) w)
                 (DispatcherErr MissingReturnData)) (\<lambda>v.
     Inr (v, w)))"

definition route_withdraw ::
  "runtime \<Rightarrow> account_info \<Rightarrow> account_info \<Rightarrow> account_info \<Rightarrow> account_info \<Rightarrow> account_info \<Rightarrow>
   account_info list \<Rightarrow> u64 \<Rightarrow> bytes list list \<Rightarrow> world \<Rightarrow> (u64 \<times> world) res" where
  "route_withdraw rt adapter_program instructions_sysvar position position_usdc_pool adapter_state
      remaining shares signer_seeds w =
     and_then (fund_movement_ix rt (encode_withdraw shares []) adapter_program instructions_sysvar
                 position position_usdc_pool adapter_state remaining signer_seeds w) (\<lambda>w.
     and_then (ok_or (get_u64_return (ai_key adapter_program) w)
                 (DispatcherErr MissingReturnData)) (\<lambda>v.
     Inr (v, w)))"

definition route_current_value ::
  "runtime \<Rightarrow> account_info \<Rightarrow> account_info \<Rightarrow> account_info \<Rightarrow> account_info \<Rightarrow>
   account_info list \<Rightarrow> world \<Rightarrow> (u64 \<times> world) res" where
  "route_current_value rt adapter_program instructions_sysvar position adapter_state remaining w =
     (case forward
        [meta_readonly (ai_key instructions_sysvar) False,
         meta_readonly (ai_key position) False,
         meta_readonly (ai_key adapter_state) False]
        [adapter_program, instructions_sysvar, position, adapter_state]
        remaining of (metas, infos) \<Rightarrow>
      and_then
        (map_err
          (rt_invoke rt dispatcher_id
            \<lparr>ix_program = ai_key adapter_program, ix_accounts = metas,
             ix_data = encode_current_value []\<rparr> infos [] w)
          (DispatcherErr AdapterMismatch)) (\<lambda>w.
      and_then (ok_or (get_u64_return (ai_key adapter_program) w)
                  (DispatcherErr MissingReturnData)) (\<lambda>v.
      Inr (v, w))))"

section \<open>The instructions that are built\<close>

text \<open>The call as the adapter sees it: program, account metas in order, data.\<close>

definition deposit_call ::
  "account_info \<Rightarrow> account_info \<Rightarrow> account_info \<Rightarrow> account_info \<Rightarrow> account_info \<Rightarrow>
   account_info list \<Rightarrow> bytes \<Rightarrow> instruction" where
  "deposit_call adapter_program instructions_sysvar position pool adapter_state remaining data =
     \<lparr>ix_program = ai_key adapter_program,
      ix_accounts =
        [meta_readonly (ai_key instructions_sysvar) False, meta_new (ai_key position) True,
         meta_new (ai_key pool) False, meta_new (ai_key adapter_state) False] @
        map meta_of_info remaining,
      ix_data = data\<rparr>"

lemma fund_movement_ix_eq:
  "fund_movement_ix rt data ap sv ps pool st rem seeds w =
     map_err (rt_invoke rt dispatcher_id (deposit_call ap sv ps pool st rem data)
                ([ap, sv, ps, pool, st] @ rem) seeds w) (DispatcherErr AdapterMismatch)"
  by (simp add: fund_movement_ix_def forward_eq deposit_call_def)

lemma route_deposit_ok:
  "route_deposit rt ap sv ps pool st rem amount seeds w = Inr (v, w') \<longleftrightarrow>
     rt_invoke rt dispatcher_id (deposit_call ap sv ps pool st rem (encode_deposit amount []))
       ([ap, sv, ps, pool, st] @ rem) seeds w = Inr w' \<and>
     get_u64_return (ai_key ap) w' = Some v"
  by (auto simp: route_deposit_def fund_movement_ix_eq res_simps)

lemma route_withdraw_ok:
  "route_withdraw rt ap sv ps pool st rem shares seeds w = Inr (v, w') \<longleftrightarrow>
     rt_invoke rt dispatcher_id (deposit_call ap sv ps pool st rem (encode_withdraw shares []))
       ([ap, sv, ps, pool, st] @ rem) seeds w = Inr w' \<and>
     get_u64_return (ai_key ap) w' = Some v"
  by (auto simp: route_withdraw_def fund_movement_ix_eq res_simps)

definition value_call ::
  "account_info \<Rightarrow> account_info \<Rightarrow> account_info \<Rightarrow> account_info \<Rightarrow> account_info list \<Rightarrow> instruction" where
  "value_call adapter_program instructions_sysvar position adapter_state remaining =
     \<lparr>ix_program = ai_key adapter_program,
      ix_accounts =
        [meta_readonly (ai_key instructions_sysvar) False, meta_readonly (ai_key position) False,
         meta_readonly (ai_key adapter_state) False] @ map meta_of_info remaining,
      ix_data = encode_current_value []\<rparr>"

lemma route_current_value_ok:
  "route_current_value rt ap sv ps st rem w = Inr (v, w') \<longleftrightarrow>
     rt_invoke rt dispatcher_id (value_call ap sv ps st rem) ([ap, sv, ps, st] @ rem) [] w = Inr w' \<and>
     get_u64_return (ai_key ap) w' = Some v"
  by (auto simp: route_current_value_def value_call_def forward_eq res_simps)

definition initialize_call ::
  "account_info \<Rightarrow> account_info \<Rightarrow> account_info \<Rightarrow> account_info \<Rightarrow> account_info \<Rightarrow>
   account_info \<Rightarrow> account_info list \<Rightarrow> instruction" where
  "initialize_call adapter_program instructions_sysvar position adapter_state rent_payer
      system_program remaining =
     \<lparr>ix_program = ai_key adapter_program,
      ix_accounts =
        [meta_readonly (ai_key instructions_sysvar) False, meta_readonly (ai_key position) True,
         meta_new (ai_key adapter_state) False, meta_new (ai_key rent_payer) True,
         meta_readonly (ai_key system_program) False] @ map meta_of_info remaining,
      ix_data = encode_initialize []\<rparr>"

lemma route_initialize_ok:
  "route_initialize rt ap sv ps st rp sp rem seeds w = Inr w' \<longleftrightarrow>
     rt_invoke rt dispatcher_id (initialize_call ap sv ps st rp sp rem)
       ([ap, sv, ps, st, rp, sp] @ rem) seeds w = Inr w'"
  by (simp add: route_initialize_def initialize_call_def forward_eq res_simps)

text \<open>Failures of the called program never surface as themselves.\<close>

lemma route_errors:
  "route_deposit rt ap sv ps pool st rem amount seeds w = Inl e \<Longrightarrow>
     e = DispatcherErr AdapterMismatch \<or> e = DispatcherErr MissingReturnData"
  "route_withdraw rt ap sv ps pool st rem amount seeds w = Inl e \<Longrightarrow>
     e = DispatcherErr AdapterMismatch \<or> e = DispatcherErr MissingReturnData"
  "route_current_value rt ap sv ps st rem w = Inl e \<Longrightarrow>
     e = DispatcherErr AdapterMismatch \<or> e = DispatcherErr MissingReturnData"
  by (auto simp: route_deposit_def route_withdraw_def route_current_value_def fund_movement_ix_eq
      forward_eq and_then_eq_Inl ok_or_eq_Inl map_err_def split: sum.splits)

section \<open>The bytes of a routed deposit\<close>

lemma nat_to_le_zero: "nat_to_le n 0 = replicate n 0"
  by (induction n) simp_all

lemma no_adapter_data: "to_le_bytes 4 (0 :: u32) = [0, 0, 0, 0]"
  by (simp add: to_le_bytes_def nat_to_le_zero numeral_eq_Suc)

lemma deposit_call_bytes:
  "deposit_call ap sv ps pool st rem (encode_deposit amount []) =
     \<lparr>ix_program = ai_key ap,
      ix_accounts =
        [\<lparr>am_pubkey = ai_key sv, am_signer = False, am_writable = False\<rparr>,
         \<lparr>am_pubkey = ai_key ps, am_signer = True, am_writable = True\<rparr>,
         \<lparr>am_pubkey = ai_key pool, am_signer = False, am_writable = True\<rparr>,
         \<lparr>am_pubkey = ai_key st, am_signer = False, am_writable = True\<rparr>] @
        map meta_of_info rem,
      ix_data = ADAPTER_DEPOSIT @ to_le_bytes 8 amount @ [0, 0, 0, 0]\<rparr>"
  by (simp add: deposit_call_def encode_deposit_def encode_u64_vec_def no_adapter_data meta_new_def
      meta_readonly_def)

lemma route_deposit_cases:
  "route_deposit rt ap sv ps pool st rem amount seeds w =
     (case rt_invoke rt dispatcher_id (deposit_call ap sv ps pool st rem (encode_deposit amount []))
             ([ap, sv, ps, pool, st] @ rem) seeds w of
        Inl _ \<Rightarrow> Inl (DispatcherErr AdapterMismatch)
      | Inr w' \<Rightarrow>
          (case get_u64_return (ai_key ap) w' of
             None \<Rightarrow> Inl (DispatcherErr MissingReturnData)
           | Some shares \<Rightarrow> Inr (shares, w')))"
  unfolding route_deposit_def fund_movement_ix_eq
  by (cases "rt_invoke rt dispatcher_id (deposit_call ap sv ps pool st rem (encode_deposit amount []))
       ([ap, sv, ps, pool, st] @ rem) seeds w") (simp_all split: option.splits)

section \<open>Properties\<close>

text \<open>
  C27: a routed deposit is one call of the adapter with the sysvar, the position as writable signer, the
  pool and the state in front of the forwarded accounts, and the instruction bytes written out; a
  failed call is reported as \<open>AdapterMismatch\<close>, a missing result as \<open>MissingReturnData\<close>.
\<close>

theorem route_deposit_outcome:
  "route_deposit rt ap sv ps pool st rem amount seeds w =
     (case rt_invoke rt dispatcher_id
             \<lparr>ix_program = ai_key ap,
              ix_accounts =
                [\<lparr>am_pubkey = ai_key sv, am_signer = False, am_writable = False\<rparr>,
                 \<lparr>am_pubkey = ai_key ps, am_signer = True, am_writable = True\<rparr>,
                 \<lparr>am_pubkey = ai_key pool, am_signer = False, am_writable = True\<rparr>,
                 \<lparr>am_pubkey = ai_key st, am_signer = False, am_writable = True\<rparr>] @
                map meta_of_info rem,
              ix_data = ADAPTER_DEPOSIT @ to_le_bytes 8 amount @ [0, 0, 0, 0]\<rparr>
             ([ap, sv, ps, pool, st] @ rem) seeds w of
        Inl _ \<Rightarrow> Inl (DispatcherErr AdapterMismatch)
      | Inr w' \<Rightarrow>
          (case get_u64_return (ai_key ap) w' of
             None \<Rightarrow> Inl (DispatcherErr MissingReturnData)
           | Some shares \<Rightarrow> Inr (shares, w')))"
  using route_deposit_cases by (simp only: deposit_call_bytes)

end
