(* ===== verification/Dispatcher.thy ===== *)
theory Dispatcher
  imports Registry Routing
begin

text \<open>
  The routed instructions of the dispatcher (programs/dispatcher/src/instructions/
  open_position.rs, deposit.rs, withdraw.rs, current_value.rs): account validation, handler,
  and the entry point that composes them with the write-back of the \<open>Position\<close>.
\<close>

section \<open>open_position\<close>

record open_position_ctx =
  op_owner :: account_info
  op_adapter_entry :: "adapter_entry typed"
  op_adapter_program :: account_info
  op_position :: account_info
  op_usdc_mint :: account_info
  op_position_usdc_pool :: account_info
  op_adapter_state :: account_info
  op_instructions_sysvar :: account_info
  op_system_program :: account_info
  op_position_bump :: u8
  op_remaining :: "account_info list"

definition open_position_accounts ::
  "runtime \<Rightarrow> account_info list \<Rightarrow> world \<Rightarrow> (open_position_ctx \<times> world) res" where
  "open_position_accounts rt infos w =
     and_then (take_signer infos) (\<lambda>(owner, infos).
     and_then (take_account entry_codec dispatcher_id w infos) (\<lambda>(adapter_entry, infos).
     and_then (take_info infos) (\<lambda>(adapter_program, infos).
     and_then (take_info infos) (\<lambda>(position, infos).
     and_then (take_mint rt w infos) (\<lambda>(usdc_mint, infos).
     and_then (take_info infos) (\<lambda>(position_usdc_pool, infos).
     and_then (take_info infos) (\<lambda>(adapter_state, infos).
     and_then (take_info infos) (\<lambda>(instructions_sysvar, infos).
     and_then (take_program (rt_system_program rt) w infos) (\<lambda>(system_program, infos).
     and_then (take_program (rt_token_program rt) w infos) (\<lambda>(token_program, infos).
     and_then (take_program (rt_ata_program rt) w infos) (\<lambda>(associated_token_program, infos).
     and_then (c_init rt owner position (co_space position_codec)
                 [POSITION_SEED, pubkey_bytes (ai_key owner), pubkey_bytes (ai_key adapter_program)]
                 dispatcher_id w) (\<lambda>(bump, w).
     and_then (c_init_ata rt owner position_usdc_pool (ai_key position) (ai_key usdc_mint) w)
       (\<lambda>(pool, w).
     and_then (c_mut owner) (\<lambda>_.
     and_then (c_seeds rt [ENTRY_SEED, pubkey_bytes (ai_key adapter_program),
                           [ent_bump (ty_val adapter_entry)]] dispatcher_id
                 (ty_info adapter_entry)) (\<lambda>_.
     and_then (require (ent_is_active (ty_val adapter_entry)) (DispatcherErr AdapterInactive)) (\<lambda>_.
     and_then (c_executable w adapter_program) (\<lambda>_.
     and_then (c_mut adapter_state) (\<lambda>_.
     and_then (c_address instructions_sysvar (rt_instructions_sysvar rt)
                 (AnchorErr ConstraintAddress)) (\<lambda>_.
     Inr (\<lparr>op_owner = owner, op_adapter_entry = adapter_entry,
           op_adapter_program = adapter_program, op_position = position,
           op_usdc_mint = usdc_mint, op_position_usdc_pool = position_usdc_pool,
           op_adapter_state = adapter_state, op_instructions_sysvar = instructions_sysvar,
           op_system_program = system_program, op_position_bump = bump,
           op_remaining = infos\<rparr>, w))))))))))))))))))))"

definition open_position_handler ::
  "runtime \<Rightarrow> open_position_ctx \<Rightarrow> world \<Rightarrow> (position \<times> world) res" where
  "open_position_handler rt ctx w =
     and_then (require (ent_interface_version (ty_val (op_adapter_entry ctx)) = ADAPTER_INTERFACE_VERSION)
                 (DispatcherErr dispatcher_error.VersionMismatch)) (\<lambda>_.
     let position_key = ai_key (op_position ctx);
         owner_key = ai_key (op_owner ctx);
         adapter_key = ai_key (op_adapter_program ctx);
         bump = op_position_bump ctx;
         p = \<lparr>pos_owner = owner_key, pos_adapter_program = adapter_key,
              pos_usdc_pool = ai_key (op_position_usdc_pool ctx),
              pos_usdc_mint = ai_key (op_usdc_mint ctx),
              pos_created_at = clock_unix_timestamp (rt_clock rt), pos_bump = bump\<rparr>;
         seeds = [POSITION_SEED, pubkey_bytes owner_key, pubkey_bytes adapter_key, [bump]]
     in and_then (route_initialize rt (op_adapter_program ctx) (op_instructions_sysvar ctx)
                    (op_position ctx) (op_adapter_state ctx) (op_owner ctx)
                    (op_system_program ctx) (op_remaining ctx) [seeds] w) (\<lambda>w.
        Inr (p, emit_event dispatcher_id (PositionOpened owner_key adapter_key position_key) w)))"

definition open_position :: "runtime \<Rightarrow> account_info list \<Rightarrow> world \<Rightarrow> world res" where
  "open_position rt infos w =
     and_then (open_position_accounts rt infos w) (\<lambda>(ctx, w).
     and_then (open_position_handler rt ctx w) (\<lambda>(position, w).
     store_account position_codec (ai_key (op_position ctx)) position w))"

section \<open>deposit and withdraw\<close>

text \<open>\<open>Deposit\<close> and \<open>Withdraw\<close> declare the same accounts with the same constraints.\<close>

record fund_ctx =
  fu_owner :: account_info
  fu_adapter_entry :: "adapter_entry typed"
  fu_adapter_program :: account_info
  fu_position :: "position typed"
  fu_position_usdc_pool :: "token_account typed"
  fu_owner_usdc_ata :: "token_account typed"
  fu_adapter_state :: account_info
  fu_instructions_sysvar :: account_info
  fu_remaining :: "account_info list"

definition fund_accounts ::
  "runtime \<Rightarrow> account_info list \<Rightarrow> world \<Rightarrow> fund_ctx res" where
  "fund_accounts rt infos w =
     and_then (take_signer infos) (\<lambda>(owner, infos).
     and_then (take_account entry_codec dispatcher_id w infos) (\<lambda>(adapter_entry, infos).
     and_then (take_info infos) (\<lambda>(adapter_program, infos).
     and_then (take_account position_codec dispatcher_id w infos) (\<lambda>(position, infos).
     and_then (take_token rt w infos) (\<lambda>(position_usdc_pool, infos).
     and_then (take_token rt w infos) (\<lambda>(owner_usdc_ata, infos).
     and_then (take_info infos) (\<lambda>(adapter_state, infos).
     and_then (take_info infos) (\<lambda>(instructions_sysvar, infos).
     and_then (take_program (rt_token_program rt) w infos) (\<lambda>(token_program, infos).
     and_then (c_mut owner) (\<lambda>_.
     and_then (c_seeds rt [ENTRY_SEED, pubkey_bytes (ai_key adapter_program),
                           [ent_bump (ty_val adapter_entry)]] dispatcher_id
                 (ty_info adapter_entry)) (\<lambda>_.
     and_then (require (ent_is_active (ty_val adapter_entry)) (DispatcherErr AdapterInactive)) (\<lambda>_.
     and_then (require (ai_key adapter_program = pos_adapter_program (ty_val position))
                 (DispatcherErr AdapterMismatch)) (\<lambda>_.
     and_then (c_executable w adapter_program) (\<lambda>_.
     and_then (c_seeds rt [POSITION_SEED, pubkey_bytes (ai_key owner),
                           pubkey_bytes (ai_key adapter_program), [pos_bump (ty_val position)]]
                 dispatcher_id (ty_info position)) (\<lambda>_.
     and_then (c_mut (ty_info position)) (\<lambda>_.
     and_then (require (pos_owner (ty_val position) = ai_key owner)
                 (DispatcherErr dispatcher_error.Unauthorized)) (\<lambda>_.
     and_then (c_mut (ty_info position_usdc_pool)) (\<lambda>_.
     and_then (c_address (ty_info position_usdc_pool) (pos_usdc_pool (ty_val position))
                 (DispatcherErr AdapterMismatch)) (\<lambda>_.
     and_then (c_mut (ty_info owner_usdc_ata)) (\<lambda>_.
     and_then (c_token (ty_val owner_usdc_ata) (ai_key owner) (pos_usdc_mint (ty_val position))) (\<lambda>_.
     and_then (c_mut adapter_state) (\<lambda>_.
     and_then (c_address instructions_sysvar (rt_instructions_sysvar rt)
                 (AnchorErr ConstraintAddress)) (\<lambda>_.
     Inr \<lparr>fu_owner = owner, fu_adapter_entry = adapter_entry,
          fu_adapter_program = adapter_program, fu_position = position,
          fu_position_usdc_pool = position_usdc_pool, fu_owner_usdc_ata = owner_usdc_ata,
          fu_adapter_state = adapter_state, fu_instructions_sysvar = instructions_sysvar,
          fu_remaining = infos\<rparr>)))))))))))))))))))))))"

definition deposit_accounts :: "runtime \<Rightarrow> account_info list \<Rightarrow> world \<Rightarrow> fund_ctx res" where
  "deposit_accounts rt infos w = fund_accounts rt infos w"

definition withdraw_accounts :: "runtime \<Rightarrow> account_info list \<Rightarrow> world \<Rightarrow> fund_ctx res" where
  "withdraw_accounts rt infos w = fund_accounts rt infos w"

definition deposit_handler :: "runtime \<Rightarrow> fund_ctx \<Rightarrow> u64 \<Rightarrow> world \<Rightarrow> world res" where
  "deposit_handler rt ctx amount w =
     and_then (require (amount > 0) (DispatcherErr dispatcher_error.ZeroAmount)) (\<lambda>_.
     and_then (require (ent_interface_version (ty_val (fu_adapter_entry ctx)) = ADAPTER_INTERFACE_VERSION)
                 (DispatcherErr dispatcher_error.VersionMismatch)) (\<lambda>_.
     and_then (rt_token_transfer rt dispatcher_id (ty_info (fu_owner_usdc_ata ctx))
                 (ty_info (fu_position_usdc_pool ctx)) (fu_owner ctx) amount [] w) (\<lambda>w.
     let owner_key = pos_owner (ty_val (fu_position ctx));
         adapter_key = pos_adapter_program (ty_val (fu_position ctx));
         bump = [pos_bump (ty_val (fu_position ctx))];
         seeds = [POSITION_SEED, pubkey_bytes owner_key, pubkey_bytes adapter_key, bump]
     in and_then (route_deposit rt (fu_adapter_program ctx) (fu_instructions_sysvar ctx)
                    (ty_info (fu_position ctx)) (ty_info (fu_position_usdc_pool ctx))
                    (fu_adapter_state ctx) (fu_remaining ctx) amount [seeds] w) (\<lambda>(shares, w).
        Inr (emit_event dispatcher_id (Deposited (ty_key (fu_position ctx)) amount shares) w)))))"

definition deposit :: "runtime \<Rightarrow> account_info list \<Rightarrow> u64 \<Rightarrow> world \<Rightarrow> world res" where
  "deposit rt infos amount w =
     and_then (deposit_accounts rt infos w) (\<lambda>ctx.
     and_then (deposit_handler rt ctx amount w) (\<lambda>w.
     store_account position_codec (ty_key (fu_position ctx)) (ty_val (fu_position ctx)) w))"

definition withdraw_handler :: "runtime \<Rightarrow> fund_ctx \<Rightarrow> u64 \<Rightarrow> world \<Rightarrow> world res" where
  "withdraw_handler rt ctx shares w =
     and_then (require (shares > 0) (DispatcherErr dispatcher_error.ZeroAmount)) (\<lambda>_.
     and_then (require (ent_interface_version (ty_val (fu_adapter_entry ctx)) = ADAPTER_INTERFACE_VERSION)
                 (DispatcherErr dispatcher_error.VersionMismatch)) (\<lambda>_.
     let owner_key = pos_owner (ty_val (fu_position ctx));
         adapter_key = pos_adapter_program (ty_val (fu_position ctx));
         bump = [pos_bump (ty_val (fu_position ctx))];
         seeds = [POSITION_SEED, pubkey_bytes owner_key, pubkey_bytes adapter_key, bump]
     in and_then (route_withdraw rt (fu_adapter_program ctx) (fu_instructions_sysvar ctx)
                    (ty_info (fu_position ctx)) (ty_info (fu_position_usdc_pool ctx))
                    (fu_adapter_state ctx) (fu_remaining ctx) shares [seeds] w) (\<lambda>(amount_out, w).
        and_then (if amount_out > 0
                  then rt_token_transfer rt dispatcher_id (ty_info (fu_position_usdc_pool ctx))
                         (ty_info (fu_owner_usdc_ata ctx)) (ty_info (fu_position ctx))
                         amount_out [seeds] w
                  else Inr w) (\<lambda>w.
        Inr (emit_event dispatcher_id (Withdrawn (ty_key (fu_position ctx)) shares amount_out) w)))))"

definition withdraw :: "runtime \<Rightarrow> account_info list \<Rightarrow> u64 \<Rightarrow> world \<Rightarrow> world res" where
  "withdraw rt infos shares w =
     and_then (withdraw_accounts rt infos w) (\<lambda>ctx.
     and_then (withdraw_handler rt ctx shares w) (\<lambda>w.
     store_account position_codec (ty_key (fu_position ctx)) (ty_val (fu_position ctx)) w))"

section \<open>current_value\<close>

record current_value_ctx =
  cv_adapter_entry :: "adapter_entry typed"
  cv_adapter_program :: account_info
  cv_position :: "position typed"
  cv_adapter_state :: account_info
  cv_instructions_sysvar :: account_info
  cv_remaining :: "account_info list"

definition current_value_accounts ::
  "runtime \<Rightarrow> account_info list \<Rightarrow> world \<Rightarrow> current_value_ctx res" where
  "current_value_accounts rt infos w =
     and_then (take_account entry_codec dispatcher_id w infos) (\<lambda>(adapter_entry, infos).
     and_then (take_info infos) (\<lambda>(adapter_program, infos).
     and_then (take_account position_codec dispatcher_id w infos) (\<lambda>(position, infos).
     and_then (take_info infos) (\<lambda>(adapter_state, infos).
     and_then (take_info infos) (\<lambda>(instructions_sysvar, infos).
     and_then (c_seeds rt [ENTRY_SEED, pubkey_bytes (ai_key adapter_program),
                           [ent_bump (ty_val adapter_entry)]] dispatcher_id
                 (ty_info adapter_entry)) (\<lambda>_.
     and_then (require (ent_is_active (ty_val adapter_entry)) (DispatcherErr AdapterInactive)) (\<lambda>_.
     and_then (require (ai_key adapter_program = pos_adapter_program (ty_val position))
                 (DispatcherErr AdapterMismatch)) (\<lambda>_.
     and_then (c_executable w adapter_program) (\<lambda>_.
     and_then (c_seeds rt [POSITION_SEED, pubkey_bytes (pos_owner (ty_val position)),
                           pubkey_bytes (ai_key adapter_program), [pos_bump (ty_val position)]]
                 dispatcher_id (ty_info position)) (\<lambda>_.
     and_then (c_address instructions_sysvar (rt_instructions_sysvar rt)
                 (AnchorErr ConstraintAddress)) (\<lambda>_.
     Inr \<lparr>cv_adapter_entry = adapter_entry, cv_adapter_program = adapter_program,
          cv_position = position, cv_adapter_state = adapter_state,
          cv_instructions_sysvar = instructions_sysvar, cv_remaining = infos\<rparr>)))))))))))"

definition current_value_handler :: "runtime \<Rightarrow> current_value_ctx \<Rightarrow> world \<Rightarrow> world res" where
  "current_value_handler rt ctx w =
     and_then (require (ent_interface_version (ty_val (cv_adapter_entry ctx)) = ADAPTER_INTERFACE_VERSION)
                 (DispatcherErr dispatcher_error.VersionMismatch)) (\<lambda>_.
     and_then (route_current_value rt (cv_adapter_program ctx) (cv_instructions_sysvar ctx)
                 (ty_info (cv_position ctx)) (cv_adapter_state ctx) (cv_remaining ctx) w)
       (\<lambda>(value, w).
     Inr (emit_event dispatcher_id (ValueRead (ty_key (cv_position ctx)) value)
            (set_return_data dispatcher_id (to_le_bytes 8 value) w))))"

definition current_value :: "runtime \<Rightarrow> account_info list \<Rightarrow> world \<Rightarrow> world res" where
  "current_value rt infos w =
     and_then (current_value_accounts rt infos w) (\<lambda>ctx.
     current_value_handler rt ctx w)"

section \<open>What success means\<close>

lemma open_position_accounts_ok:
  "open_position_accounts rt infos w = Inr (ctx, w2) \<longleftrightarrow>
     (\<exists>token ata.
        infos = op_owner ctx # ty_info (op_adapter_entry ctx) # op_adapter_program ctx #
                op_position ctx # op_usdc_mint ctx # op_position_usdc_pool ctx #
                op_adapter_state ctx # op_instructions_sysvar ctx # op_system_program ctx #
                token # ata # op_remaining ctx \<and>
        ai_key token = rt_token_program rt \<and> ai_key ata = rt_ata_program rt) \<and>
     ai_signer (op_owner ctx) \<and> ai_writable (op_owner ctx) \<and>
     load_account entry_codec dispatcher_id (ty_key (op_adapter_entry ctx)) w =
       Inr (ty_val (op_adapter_entry ctx)) \<and>
     load_mint rt (ai_key (op_usdc_mint ctx)) w = Inr () \<and>
     ai_key (op_system_program ctx) = rt_system_program rt \<and>
     account_executable w (rt_system_program rt) \<and>
     account_executable w (rt_token_program rt) \<and>
     account_executable w (rt_ata_program rt) \<and>
     rt_find_program_address rt
       [POSITION_SEED, pubkey_bytes (ai_key (op_owner ctx)),
        pubkey_bytes (ai_key (op_adapter_program ctx))] dispatcher_id =
       (ai_key (op_position ctx), op_position_bump ctx) \<and>
     ai_writable (op_position ctx) \<and>
     (\<exists>w1 pool.
        rt_create_account rt (ai_key (op_owner ctx)) (ai_key (op_position ctx))
          (co_space position_codec) dispatcher_id w = Inr w1 \<and>
        rt_create_ata rt (ai_key (op_owner ctx)) (ai_key (op_position_usdc_pool ctx))
          (ai_key (op_position ctx)) (ai_key (op_usdc_mint ctx)) w1 = Inr w2 \<and>
        load_token rt (ai_key (op_position_usdc_pool ctx)) w2 = Inr pool) \<and>
     ai_writable (op_position_usdc_pool ctx) \<and>
     rt_create_program_address rt
       [ENTRY_SEED, pubkey_bytes (ai_key (op_adapter_program ctx)),
        [ent_bump (ty_val (op_adapter_entry ctx))]] dispatcher_id =
       Some (ty_key (op_adapter_entry ctx)) \<and>
     ent_is_active (ty_val (op_adapter_entry ctx)) \<and>
     account_executable w2 (ai_key (op_adapter_program ctx)) \<and>
     ai_writable (op_adapter_state ctx) \<and>
     ai_key (op_instructions_sysvar ctx) = rt_instructions_sysvar rt"
  unfolding open_position_accounts_def
  by (cases ctx) (auto simp: and_then_eq_Inr take_signer_eq_Inr take_info_eq_Inr take_mint_eq_Inr
      take_account_eq_Inr take_program_eq_Inr c_init_eq_Inr c_init_ata_eq_Inr constraint_eq_Inr
      require_eq_Inr split: prod.splits)

lemma fund_accounts_ok:
  "fund_accounts rt infos w = Inr ctx \<longleftrightarrow>
     (\<exists>token.
        infos = fu_owner ctx # ty_info (fu_adapter_entry ctx) # fu_adapter_program ctx #
                ty_info (fu_position ctx) # ty_info (fu_position_usdc_pool ctx) #
                ty_info (fu_owner_usdc_ata ctx) # fu_adapter_state ctx #
                fu_instructions_sysvar ctx # token # fu_remaining ctx \<and>
        ai_key token = rt_token_program rt) \<and>
     account_executable w (rt_token_program rt) \<and>
     ai_signer (fu_owner ctx) \<and> ai_writable (fu_owner ctx) \<and>
     load_account entry_codec dispatcher_id (ty_key (fu_adapter_entry ctx)) w =
       Inr (ty_val (fu_adapter_entry ctx)) \<and>
     load_account position_codec dispatcher_id (ty_key (fu_position ctx)) w =
       Inr (ty_val (fu_position ctx)) \<and>
     load_token rt (ty_key (fu_position_usdc_pool ctx)) w = Inr (ty_val (fu_position_usdc_pool ctx)) \<and>
     load_token rt (ty_key (fu_owner_usdc_ata ctx)) w = Inr (ty_val (fu_owner_usdc_ata ctx)) \<and>
     rt_create_program_address rt
       [ENTRY_SEED, pubkey_bytes (ai_key (fu_adapter_program ctx)),
        [ent_bump (ty_val (fu_adapter_entry ctx))]] dispatcher_id =
       Some (ty_key (fu_adapter_entry ctx)) \<and>
     ent_is_active (ty_val (fu_adapter_entry ctx)) \<and>
     ai_key (fu_adapter_program ctx) = pos_adapter_program (ty_val (fu_position ctx)) \<and>
     account_executable w (ai_key (fu_adapter_program ctx)) \<and>
     rt_create_program_address rt
       [POSITION_SEED, pubkey_bytes (ai_key (fu_owner ctx)),
        pubkey_bytes (ai_key (fu_adapter_program ctx)), [pos_bump (ty_val (fu_position ctx))]]
       dispatcher_id = Some (ty_key (fu_position ctx)) \<and>
     ai_writable (ty_info (fu_position ctx)) \<and>
     pos_owner (ty_val (fu_position ctx)) = ai_key (fu_owner ctx) \<and>
     ai_writable (ty_info (fu_position_usdc_pool ctx)) \<and>
     ty_key (fu_position_usdc_pool ctx) = pos_usdc_pool (ty_val (fu_position ctx)) \<and>
     ai_writable (ty_info (fu_owner_usdc_ata ctx)) \<and>
     tok_owner (ty_val (fu_owner_usdc_ata ctx)) = ai_key (fu_owner ctx) \<and>
     tok_mint (ty_val (fu_owner_usdc_ata ctx)) = pos_usdc_mint (ty_val (fu_position ctx)) \<and>
     ai_writable (fu_adapter_state ctx) \<and>
     ai_key (fu_instructions_sysvar ctx) = rt_instructions_sysvar rt"
  unfolding fund_accounts_def
  by (cases ctx) (auto simp: and_then_eq_Inr take_signer_eq_Inr take_info_eq_Inr take_token_eq_Inr
      take_account_eq_Inr take_program_eq_Inr constraint_eq_Inr require_eq_Inr split: prod.splits)

lemma current_value_accounts_ok:
  "current_value_accounts rt infos w = Inr ctx \<longleftrightarrow>
     infos = ty_info (cv_adapter_entry ctx) # cv_adapter_program ctx # ty_info (cv_position ctx) #
             cv_adapter_state ctx # cv_instructions_sysvar ctx # cv_remaining ctx \<and>
     load_account entry_codec dispatcher_id (ty_key (cv_adapter_entry ctx)) w =
       Inr (ty_val (cv_adapter_entry ctx)) \<and>
     load_account position_codec dispatcher_id (ty_key (cv_position ctx)) w =
       Inr (ty_val (cv_position ctx)) \<and>
     rt_create_program_address rt
       [ENTRY_SEED, pubkey_bytes (ai_key (cv_adapter_program ctx)),
        [ent_bump (ty_val (cv_adapter_entry ctx))]] dispatcher_id =
       Some (ty_key (cv_adapter_entry ctx)) \<and>
     ent_is_active (ty_val (cv_adapter_entry ctx)) \<and>
     ai_key (cv_adapter_program ctx) = pos_adapter_program (ty_val (cv_position ctx)) \<and>
     account_executable w (ai_key (cv_adapter_program ctx)) \<and>
     rt_create_program_address rt
       [POSITION_SEED, pubkey_bytes (pos_owner (ty_val (cv_position ctx))),
        pubkey_bytes (ai_key (cv_adapter_program ctx)), [pos_bump (ty_val (cv_position ctx))]]
       dispatcher_id = Some (ty_key (cv_position ctx)) \<and>
     ai_key (cv_instructions_sysvar ctx) = rt_instructions_sysvar rt"
  unfolding current_value_accounts_def
  by (cases ctx) (auto simp: and_then_eq_Inr take_info_eq_Inr
      take_account_eq_Inr constraint_eq_Inr require_eq_Inr split: prod.splits)

text \<open>The seeds that the handlers sign the adapter's call and the payout with.\<close>

definition position_seeds :: "position \<Rightarrow> bytes list" where
  "position_seeds p =
     [POSITION_SEED, pubkey_bytes (pos_owner p), pubkey_bytes (pos_adapter_program p), [pos_bump p]]"

lemma deposit_handler_ok:
  "deposit_handler rt ctx amount w = Inr w' \<longleftrightarrow>
     amount > 0 \<and>
     ent_interface_version (ty_val (fu_adapter_entry ctx)) = ADAPTER_INTERFACE_VERSION \<and>
     (\<exists>w1 w2 shares.
        rt_token_transfer rt dispatcher_id (ty_info (fu_owner_usdc_ata ctx))
          (ty_info (fu_position_usdc_pool ctx)) (fu_owner ctx) amount [] w = Inr w1 \<and>
        route_deposit rt (fu_adapter_program ctx) (fu_instructions_sysvar ctx)
          (ty_info (fu_position ctx)) (ty_info (fu_position_usdc_pool ctx)) (fu_adapter_state ctx)
          (fu_remaining ctx) amount [position_seeds (ty_val (fu_position ctx))] w1 =
          Inr (shares, w2) \<and>
        w' = emit_event dispatcher_id (Deposited (ty_key (fu_position ctx)) amount shares) w2)"
  unfolding deposit_handler_def position_seeds_def
  by (auto simp: and_then_eq_Inr require_eq_Inr Let_def)

lemma withdraw_handler_ok:
  "withdraw_handler rt ctx shares w = Inr w' \<longleftrightarrow>
     shares > 0 \<and>
     ent_interface_version (ty_val (fu_adapter_entry ctx)) = ADAPTER_INTERFACE_VERSION \<and>
     (\<exists>w1 w2 amount_out.
        route_withdraw rt (fu_adapter_program ctx) (fu_instructions_sysvar ctx)
          (ty_info (fu_position ctx)) (ty_info (fu_position_usdc_pool ctx)) (fu_adapter_state ctx)
          (fu_remaining ctx) shares [position_seeds (ty_val (fu_position ctx))] w =
          Inr (amount_out, w1) \<and>
        (if amount_out > 0
         then rt_token_transfer rt dispatcher_id (ty_info (fu_position_usdc_pool ctx))
                (ty_info (fu_owner_usdc_ata ctx)) (ty_info (fu_position ctx)) amount_out
                [position_seeds (ty_val (fu_position ctx))] w1
         else Inr w1) = Inr w2 \<and>
        w' = emit_event dispatcher_id (Withdrawn (ty_key (fu_position ctx)) shares amount_out) w2)"
  unfolding withdraw_handler_def position_seeds_def
  by (auto simp: and_then_eq_Inr require_eq_Inr Let_def split del: if_split)

lemma current_value_handler_ok:
  "current_value_handler rt ctx w = Inr w' \<longleftrightarrow>
     ent_interface_version (ty_val (cv_adapter_entry ctx)) = ADAPTER_INTERFACE_VERSION \<and>
     (\<exists>w1 value.
        route_current_value rt (cv_adapter_program ctx) (cv_instructions_sysvar ctx)
          (ty_info (cv_position ctx)) (cv_adapter_state ctx) (cv_remaining ctx) w = Inr (value, w1) \<and>
        w' = emit_event dispatcher_id (ValueRead (ty_key (cv_position ctx)) value)
               (set_return_data dispatcher_id (to_le_bytes 8 value) w1))"
  unfolding current_value_handler_def
  by (auto simp: and_then_eq_Inr require_eq_Inr)

definition opened_position :: "runtime \<Rightarrow> open_position_ctx \<Rightarrow> position" where
  "opened_position rt ctx =
     \<lparr>pos_owner = ai_key (op_owner ctx), pos_adapter_program = ai_key (op_adapter_program ctx),
      pos_usdc_pool = ai_key (op_position_usdc_pool ctx), pos_usdc_mint = ai_key (op_usdc_mint ctx),
      pos_created_at = clock_unix_timestamp (rt_clock rt), pos_bump = op_position_bump ctx\<rparr>"

lemma open_position_handler_ok:
  "open_position_handler rt ctx w = Inr (p, w') \<longleftrightarrow>
     ent_interface_version (ty_val (op_adapter_entry ctx)) = ADAPTER_INTERFACE_VERSION \<and>
     p = opened_position rt ctx \<and>
     (\<exists>w1. route_initialize rt (op_adapter_program ctx) (op_instructions_sysvar ctx)
              (op_position ctx) (op_adapter_state ctx) (op_owner ctx) (op_system_program ctx)
              (op_remaining ctx) [position_seeds (opened_position rt ctx)] w = Inr w1 \<and>
        w' = emit_event dispatcher_id
               (PositionOpened (ai_key (op_owner ctx)) (ai_key (op_adapter_program ctx))
                  (ai_key (op_position ctx))) w1)"
  unfolding open_position_handler_def position_seeds_def opened_position_def
  by (auto simp: and_then_eq_Inr require_eq_Inr Let_def)

end
