(* ===== verification/Dispatcher_Safety.thy ===== *)
theory Dispatcher_Safety
  imports Dispatcher
begin

text \<open>
  The dispatcher as a transition system over worlds: any of its seven instructions with any
  accounts and arguments, interleaved with anything the rest of the chain may do.  The registry
  invariant and the immutability of positions hold in every reachable world.
\<close>

definition positions_of :: "world \<Rightarrow> pubkey \<rightharpoonup> position" where
  "positions_of w = account_view position_codec dispatcher_id w"

lemma isolated_views:
  assumes "isolated dispatcher_id w w'"
  shows "governance_of w' = governance_of w" and "positions_of w' = positions_of w"
  using registry.view_isolated [OF assms] entry.view_isolated [OF assms]
    position.view_isolated [OF assms]
  by (simp_all add: governance_of_def positions_of_def)

lemma load_position_excludes:
  assumes "load_account position_codec dispatcher_id k w = Inr p"
  shows "gov_registries (governance_of w) k = None" and "gov_entries (governance_of w) k = None"
  using load_excludes_other_type [OF assms, of registry_codec]
    load_excludes_other_type [OF assms, of entry_codec]
  by (simp_all add: governance_of_def)

lemma governance_store_position:
  assumes "store_account position_codec k p w = Inr w'"
    and "gov_registries (governance_of w) k = None" and "gov_entries (governance_of w) k = None"
  shows "governance_of w' = governance_of w"
  using view_store_other_type [OF assms(1), of registry_codec dispatcher_id]
    view_store_other_type [OF assms(1), of entry_codec dispatcher_id] assms(2,3)
  by (simp add: governance_of_def)

lemma positions_store_other:
  assumes "store_account c k x w = Inr w'" and "positions_of w k = None"
    and "length (co_disc c) = 8" and "co_disc position_codec \<noteq> co_disc c"
  shows "positions_of w' = positions_of w"
  using view_store_other_type [OF assms(1), of position_codec dispatcher_id] assms(2-4)
  by (simp add: positions_of_def)

text \<open>Writing a position back after an isolated run of calls changes nothing the dispatcher owns.\<close>

lemma write_back_position:
  assumes iso: "isolated dispatcher_id w w2"
    and ld: "load_account position_codec dispatcher_id k w = Inr p"
    and st: "store_account position_codec k p w2 = Inr w'"
  shows "governance_of w' = governance_of w" and "positions_of w' = positions_of w"
proof -
  have ld2: "load_account position_codec dispatcher_id k w2 = Inr p"
    using ld isolated_keeps [OF iso ld] by (simp add: load_account_def)
  have "governance_of w' = governance_of w2"
    by (rule governance_store_position [OF st load_position_excludes [OF ld2]])
  then show "governance_of w' = governance_of w" by (simp add: isolated_views [OF iso])
  have "positions_of w' = (positions_of w2)(k \<mapsto> p)"
    using position.view_store [OF st _ load_account_owner [OF ld2]] by (simp add: positions_of_def)
  also have "\<dots> = positions_of w2"
    using ld2 by (simp add: positions_of_def account_view_eq_Some [symmetric] fun_upd_idem)
  finally show "positions_of w' = positions_of w" by (simp add: isolated_views [OF iso])
qed

section \<open>The routed instructions\<close>

lemma deposit_core:
  assumes "calls_isolate rt dispatcher_id" and "deposit rt infos amount w = Inr w'"
  obtains ctx w2 where "fund_accounts rt infos w = Inr ctx"
    and "deposit_handler rt ctx amount w = Inr w2"
    and "isolated dispatcher_id w w2"
    and "store_account position_codec (ty_key (fu_position ctx)) (ty_val (fu_position ctx)) w2 = Inr w'"
proof -
  from assms(2) obtain ctx w2 where
    acc: "fund_accounts rt infos w = Inr ctx" and
    h: "deposit_handler rt ctx amount w = Inr w2" and
    st: "store_account position_codec (ty_key (fu_position ctx)) (ty_val (fu_position ctx)) w2 = Inr w'"
    by (auto simp: deposit_def deposit_accounts_def and_then_eq_Inr)
  from h have "isolated dispatcher_id w w2"
    by (auto simp: deposit_handler_ok route_deposit_ok
        intro!: isolated_emit_right intro: isolated_trans calls_isolateD [OF assms(1)])
  with acc h show ?thesis using st by (rule that)
qed

lemma withdraw_core:
  assumes "calls_isolate rt dispatcher_id" and "withdraw rt infos shares w = Inr w'"
  obtains ctx w2 where "fund_accounts rt infos w = Inr ctx"
    and "withdraw_handler rt ctx shares w = Inr w2"
    and "isolated dispatcher_id w w2"
    and "store_account position_codec (ty_key (fu_position ctx)) (ty_val (fu_position ctx)) w2 = Inr w'"
proof -
  from assms(2) obtain ctx w2 where
    acc: "fund_accounts rt infos w = Inr ctx" and
    h: "withdraw_handler rt ctx shares w = Inr w2" and
    st: "store_account position_codec (ty_key (fu_position ctx)) (ty_val (fu_position ctx)) w2 = Inr w'"
    by (auto simp: withdraw_def withdraw_accounts_def and_then_eq_Inr)
  from h have "isolated dispatcher_id w w2"
    by (auto simp: withdraw_handler_ok route_withdraw_ok split: if_splits
        intro!: isolated_emit_right intro: isolated_trans calls_isolateD [OF assms(1)])
  with acc h show ?thesis using st by (rule that)
qed

lemma deposit_keeps:
  assumes "calls_isolate rt dispatcher_id" and "deposit rt infos amount w = Inr w'"
  shows "governance_of w' = governance_of w" and "positions_of w' = positions_of w"
  using assms by (auto elim!: deposit_core simp: fund_accounts_ok dest: write_back_position)

lemma withdraw_keeps:
  assumes "calls_isolate rt dispatcher_id" and "withdraw rt infos shares w = Inr w'"
  shows "governance_of w' = governance_of w" and "positions_of w' = positions_of w"
  using assms by (auto elim!: withdraw_core simp: fund_accounts_ok dest: write_back_position)

lemma current_value_keeps:
  assumes "calls_isolate rt dispatcher_id" and "current_value rt infos w = Inr w'"
  shows "governance_of w' = governance_of w" and "positions_of w' = positions_of w"
proof -
  from assms have "isolated dispatcher_id w w'"
    by (auto simp: current_value_def and_then_eq_Inr current_value_handler_ok route_current_value_ok
        intro!: isolated_emit_right intro: calls_isolateD [OF assms(1)])
  then show "governance_of w' = governance_of w" and "positions_of w' = positions_of w"
    by (simp_all add: isolated_views)
qed

lemma open_position_effect:
  assumes sys: "system_creates rt" and iso: "calls_isolate rt dispatcher_id" and ok: "open_position rt infos w = Inr w'"
  obtains ctx w2 w3 where "open_position_accounts rt infos w = Inr (ctx, w2)"
    and "open_position_handler rt ctx w2 = Inr (opened_position rt ctx, w3)"
    and "accounts w (ai_key (op_position ctx)) = None"
    and "governance_of w' = governance_of w"
    and "positions_of w' = (positions_of w)(ai_key (op_position ctx) \<mapsto> opened_position rt ctx)"
proof -
  from ok obtain ctx w2 w3 where
    acc: "open_position_accounts rt infos w = Inr (ctx, w2)" and
    h: "open_position_handler rt ctx w2 = Inr (opened_position rt ctx, w3)" and
    st: "store_account position_codec (ai_key (op_position ctx)) (opened_position rt ctx) w3 = Inr w'"
    by (auto simp: open_position_def and_then_eq_Inr open_position_handler_ok)
  let ?k = "ai_key (op_position ctx)"
  from acc obtain w1 where
    cr: "rt_create_account rt (ai_key (op_owner ctx)) ?k (co_space position_codec)
           dispatcher_id w = Inr w1" and
    i12: "isolated dispatcher_id w1 w2"
    by (auto simp: open_position_accounts_ok dest: calls_isolateD(1) [OF iso])
  from h have i23: "isolated dispatcher_id w2 w3"
    by (auto simp: open_position_handler_ok route_initialize_ok
        intro!: isolated_emit_right intro: calls_isolateD [OF iso])
  note i13 = isolated_trans [OF i12 i23]
  note fresh = system_createsD(1) [OF sys cr] and w1 = system_createsD(2) [OF sys cr]
  have g1: "governance_of w1 = governance_of w" unfolding w1 by (rule governance_create [OF fresh])
  have p1: "positions_of w1 = positions_of w"
    unfolding w1 positions_of_def by (rule position.view_create [OF fresh])
  have own: "account_owner w3 ?k = Some dispatcher_id"
    by (rule isolated_owner [OF i13]) (simp add: w1 created_owner)
  have none: "gov_registries (governance_of w3) ?k = None" "gov_entries (governance_of w3) ?k = None"
    by (simp_all add: isolated_views [OF i13] g1 governance_absent [OF fresh])
  have "governance_of w' = governance_of w"
    by (simp add: governance_store_position [OF st none] isolated_views [OF i13] g1)
  moreover have "positions_of w' = (positions_of w3)(?k \<mapsto> opened_position rt ctx)"
    using position.view_store [OF st _ own] by (simp add: positions_of_def)
  ultimately show ?thesis
    using acc h fresh by (intro that) (simp_all add: isolated_views [OF i13] p1)
qed

lemma registry_ops_keep_positions:
  assumes sys: "system_creates rt"
  shows "initialize_registry rt infos w = Inr w' \<Longrightarrow> positions_of w' = positions_of w"
    and "whitelist_adapter rt infos name v w = Inr w' \<Longrightarrow> positions_of w' = positions_of w"
    and "pause_adapter rt infos paused w = Inr w' \<Longrightarrow> positions_of w' = positions_of w"
proof -
  have create: "positions_of (set_account_data k
      \<lparr>acc_owner = p, acc_executable = b, acc_data = replicate n 0\<rparr> u) = positions_of u"
    if "accounts u k = None" for k p b n u
    using position.view_create [OF that] by (simp add: positions_of_def)
  have emit: "positions_of (emit_event q e u) = positions_of u" for q e u
    unfolding positions_of_def by (rule account_view_same) simp
  have absent: "positions_of u k = None" if "accounts u k = None" for u k
    using that by (simp add: positions_of_def view_absent)
  {
    assume "initialize_registry rt infos w = Inr w'"
    then obtain k payer r w1 where
      cr: "rt_create_account rt payer k (co_space registry_codec) dispatcher_id w = Inr w1" and
      st: "store_account registry_codec k r w1 = Inr w'"
      unfolding initialize_registry_ok by blast
    note w1 = system_createsD [OF sys cr]
    have "positions_of w1 = positions_of w" unfolding w1(2) by (rule create [OF w1(1)])
    then show "positions_of w' = positions_of w"
      using positions_store_other [OF st] absent [OF w1(1)] by simp
  next
    assume "whitelist_adapter rt infos name v w = Inr w'"
    then obtain ctx w1 w2 w3 r e ev where
      acc: "whitelist_adapter_accounts rt infos w = Inr (ctx, w1)" and
      w2: "w2 = emit_event dispatcher_id ev w1" and
      s1: "store_account registry_codec (ty_key (wl_registry ctx)) r w2 = Inr w3" and
      s2: "store_account entry_codec (ai_key (wl_adapter_entry ctx)) e w3 = Inr w'"
      unfolding whitelist_adapter_def by (auto simp: and_then_eq_Inr whitelist_handler_ok)
    from acc have cr: "rt_create_account rt (ai_key (wl_admin ctx)) (ai_key (wl_adapter_entry ctx))
        (co_space entry_codec) dispatcher_id w = Inr w1" and
      ld: "load_account registry_codec dispatcher_id (ty_key (wl_registry ctx)) w =
             Inr (ty_val (wl_registry ctx))"
      by (simp_all add: whitelist_accounts_ok)
    note w1 = system_createsD [OF sys cr]
    have p2: "positions_of w2 = positions_of w"
      unfolding w2 emit w1(2) by (rule create [OF w1(1)])
    have "positions_of w (ty_key (wl_registry ctx)) = None"
      using load_excludes_other_type [OF ld, of position_codec] by (simp add: positions_of_def)
    then have p3: "positions_of w3 = positions_of w"
      using positions_store_other [OF s1] p2 by simp
    then show "positions_of w' = positions_of w"
      using positions_store_other [OF s2] absent [OF w1(1)] by simp
  next
    assume "pause_adapter rt infos paused w = Inr w'"
    then obtain ctx e w1 where
      acc: "pause_adapter_accounts rt infos w = Inr ctx" and
      w1: "positions_of w1 = positions_of w" and
      st: "store_account entry_codec (ty_key (pa_adapter_entry ctx)) e w1 = Inr w'"
      unfolding pause_adapter_def using emit
      by (fastforce simp: and_then_eq_Inr pause_adapter_handler_def Let_def)
    from acc have ld: "load_account entry_codec dispatcher_id (ty_key (pa_adapter_entry ctx)) w =
        Inr (ty_val (pa_adapter_entry ctx))"
      by (simp add: pause_accounts_ok)
    have "positions_of w1 (ty_key (pa_adapter_entry ctx)) = None"
      using load_excludes_other_type [OF ld, of position_codec] w1 by (simp add: positions_of_def)
    then show "positions_of w' = positions_of w"
      using positions_store_other [OF st] w1 by simp
  }
qed

section \<open>Reachable worlds\<close>

inductive dispatcher_step :: "runtime \<Rightarrow> world \<Rightarrow> world \<Rightarrow> bool" for rt :: runtime where
  initialize_registry: "initialize_registry rt infos w = Inr w' \<Longrightarrow> dispatcher_step rt w w'"
| whitelist_adapter: "whitelist_adapter rt infos name v w = Inr w' \<Longrightarrow> dispatcher_step rt w w'"
| pause_adapter: "pause_adapter rt infos paused w = Inr w' \<Longrightarrow> dispatcher_step rt w w'"
| open_position: "open_position rt infos w = Inr w' \<Longrightarrow> dispatcher_step rt w w'"
| deposit: "deposit rt infos amount w = Inr w' \<Longrightarrow> dispatcher_step rt w w'"
| withdraw: "withdraw rt infos shares w = Inr w' \<Longrightarrow> dispatcher_step rt w w'"
| current_value: "current_value rt infos w = Inr w' \<Longrightarrow> dispatcher_step rt w w'"
| environment: "isolated dispatcher_id w w' \<Longrightarrow> dispatcher_step rt w w'"

text \<open>Deployment: no account of the dispatcher holds any of its types yet.\<close>

definition undeployed :: "world \<Rightarrow> bool" where
  "undeployed w \<longleftrightarrow>
     governance_of w = \<lparr>gov_registries = Map.empty, gov_entries = Map.empty\<rparr> \<and>
     positions_of w = Map.empty"

inductive dispatcher_reachable :: "runtime set \<Rightarrow> world \<Rightarrow> bool" for R :: "runtime set" where
  start: "undeployed w \<Longrightarrow> dispatcher_reachable R w"
| step: "dispatcher_reachable R w \<Longrightarrow> rt \<in> R \<Longrightarrow> dispatcher_step rt w w' \<Longrightarrow>
         dispatcher_reachable R w'"

text \<open>Every step of the dispatcher refines a governance step or leaves governance alone.\<close>

lemma dispatcher_step_refines:
  assumes "system_creates rt" and "calls_isolate rt dispatcher_id"
    and "dispatcher_step rt w w'" and "governance_inv rt (governance_of w)"
  shows "governance_of w' = governance_of w \<or>
         (\<exists>s. governance_step rt s (governance_of w) (governance_of w'))"
  using assms(3,4)
proof (induction rule: dispatcher_step.induct)
  case (initialize_registry infos w w')
  then show ?case using initialize_registry_refines [OF assms(1)] by blast
next
  case (whitelist_adapter infos name v w w')
  then show ?case using whitelist_adapter_refines [OF assms(1)] by blast
next
  case (pause_adapter infos paused w w')
  then show ?case using pause_adapter_refines by blast
next
  case (open_position infos w w')
  then show ?case by (auto elim!: open_position_effect [OF assms(1,2)])
qed (simp_all add: deposit_keeps [OF assms(2)] withdraw_keeps [OF assms(2)]
    current_value_keeps [OF assms(2)] isolated_views)

lemma governance_inv_cong:
  "rt_find_program_address r = rt_find_program_address rt \<Longrightarrow> governance_inv r g = governance_inv rt g"
  by (simp add: governance_inv_def registry_address_def entry_address_def)

lemma dispatcher_reachable_inv:
  assumes "chain dispatcher_id rt R" and "dispatcher_reachable R w"
  shows "governance_inv rt (governance_of w)"
  using assms(2)
proof (induction rule: dispatcher_reachable.induct)
  case (start w)
  then show ?case by (simp add: undeployed_def governance_inv_empty)
next
  case (step w r w')
  note r = chainD [OF assms(1) step.hyps(2)]
  have "governance_inv r (governance_of w)" using step.IH by (simp add: governance_inv_cong [OF r(3)])
  then have "governance_inv r (governance_of w')"
    using dispatcher_step_refines [OF r(1,2) step.hyps(3)] governance_step_inv by metis
  then show ?case by (simp add: governance_inv_cong [OF r(3)])
qed

text \<open>A position, once opened, never changes and never disappears.\<close>

lemma dispatcher_step_positions:
  assumes "system_creates rt" and "calls_isolate rt dispatcher_id" and "dispatcher_step rt w w'"
  shows "positions_of w \<subseteq>\<^sub>m positions_of w'"
  using assms(3)
proof (induction rule: dispatcher_step.induct)
  case (open_position infos w w')
  then obtain ctx where fresh: "accounts w (ai_key (op_position ctx)) = None" and
    p: "positions_of w' = (positions_of w)(ai_key (op_position ctx) \<mapsto> opened_position rt ctx)"
    by (auto elim!: open_position_effect [OF assms(1,2)])
  from fresh have "positions_of w (ai_key (op_position ctx)) = None"
    by (simp add: positions_of_def view_absent)
  with p show ?case by (auto simp: map_le_def)
qed (simp_all add: registry_ops_keep_positions [OF assms(1)] deposit_keeps [OF assms(2)]
    withdraw_keeps [OF assms(2)] current_value_keeps [OF assms(2)] isolated_views)

section \<open>Writing back never fails\<close>

lemma position_image_fits:
  assumes "load_account position_codec dispatcher_id k w = Inr p"
  obtains a where "accounts w k = Some a" and "length (account_image position_codec q) \<le> length (acc_data a)"
proof -
  from assms obtain a where a: "accounts w k = Some a" and
    d: "try_deserialize position_codec (acc_data a) = Inr p"
    by (auto simp: load_account_eq_Inr)
  have "length (account_image position_codec q) = 145"
    by (simp add: position.image_length) (simp add: position_codec_def)
  moreover from d have "145 \<le> length (acc_data a)"
    by (auto simp: try_deserialize_def position_codec_def dec_pubkey_def dec_word_def
        split: if_splits option.splits)
  ultimately show ?thesis using a by (intro that) simp_all
qed

lemma deposit_handler_isolated:
  "calls_isolate rt dispatcher_id \<Longrightarrow> deposit_handler rt ctx amount w = Inr w2 \<Longrightarrow>
     isolated dispatcher_id w w2"
  by (auto simp: deposit_handler_ok route_deposit_ok intro!: isolated_emit_right
      intro: isolated_trans calls_isolateD)

lemma withdraw_handler_isolated:
  "calls_isolate rt dispatcher_id \<Longrightarrow> withdraw_handler rt ctx shares w = Inr w2 \<Longrightarrow>
     isolated dispatcher_id w w2"
  by (auto simp: withdraw_handler_ok route_withdraw_ok split: if_splits
      intro!: isolated_emit_right intro: isolated_trans calls_isolateD)

lemma position_written_back:
  assumes "load_account position_codec dispatcher_id k w = Inr p" and "isolated dispatcher_id w w2"
  shows "\<exists>w'. store_account position_codec k q w2 = Inr w'"
proof -
  obtain a where "accounts w k = Some a" and "length (account_image position_codec q) \<le> length (acc_data a)"
    using position_image_fits [OF assms(1)] by metis
  then show ?thesis using isolated_keeps [OF assms(2,1)] by (simp add: store_account_eq_Inr)
qed

lemma fund_instructions_run:
  assumes "fund_accounts rt infos w = Inr ctx" and "calls_isolate rt dispatcher_id"
  shows "is_ok (deposit rt infos n w) = is_ok (deposit_handler rt ctx n w)"
    and "is_ok (withdraw rt infos n w) = is_ok (withdraw_handler rt ctx n w)"
proof -
  have ld: "load_account position_codec dispatcher_id (ty_key (fu_position ctx)) w =
      Inr (ty_val (fu_position ctx))"
    using assms(1) by (simp add: fund_accounts_ok)
  show "is_ok (deposit rt infos n w) = is_ok (deposit_handler rt ctx n w)"
    and "is_ok (withdraw rt infos n w) = is_ok (withdraw_handler rt ctx n w)"
    using position_written_back [OF ld] deposit_handler_isolated [OF assms(2)]
      withdraw_handler_isolated [OF assms(2)]
    by (auto simp: is_ok_iff deposit_def withdraw_def deposit_accounts_def withdraw_accounts_def
        assms(1) and_then_eq_Inr)
qed

section \<open>Properties\<close>

text \<open>
  C31: with valid accounts, a deposit succeeds exactly when the amount is not zero, the entry is at
  this interface version, the amount can be moved from the owner into the pool, and the call of the
  adapter on the world after that succeeds and leaves a result of that program; a withdrawal exactly
  when the number of shares is not zero, the version is right, the call succeeds with a result, and
  a result other than zero can be paid from the pool to the owner.  Nothing after that can fail.
\<close>

theorem fund_instructions_progress:
  assumes "fund_accounts rt infos w = Inr ctx" and "calls_isolate rt dispatcher_id"
  shows "(is_ok (deposit rt infos n w) \<longleftrightarrow>
       0 < n \<and> ent_interface_version (ty_val (fu_adapter_entry ctx)) = ADAPTER_INTERFACE_VERSION \<and>
       (\<exists>w1 w2 m.
          rt_token_transfer rt dispatcher_id (ty_info (fu_owner_usdc_ata ctx))
            (ty_info (fu_position_usdc_pool ctx)) (fu_owner ctx) n [] w = Inr w1 \<and>
          rt_invoke rt dispatcher_id
            (deposit_call (fu_adapter_program ctx) (fu_instructions_sysvar ctx) (ty_info (fu_position ctx))
               (ty_info (fu_position_usdc_pool ctx)) (fu_adapter_state ctx) (fu_remaining ctx)
               (encode_deposit n []))
            ([fu_adapter_program ctx, fu_instructions_sysvar ctx, ty_info (fu_position ctx),
              ty_info (fu_position_usdc_pool ctx), fu_adapter_state ctx] @ fu_remaining ctx)
            [position_seeds (ty_val (fu_position ctx))] w1 = Inr w2 \<and>
          get_u64_return (ai_key (fu_adapter_program ctx)) w2 = Some m)) \<and>
     (is_ok (withdraw rt infos n w) \<longleftrightarrow>
       0 < n \<and> ent_interface_version (ty_val (fu_adapter_entry ctx)) = ADAPTER_INTERFACE_VERSION \<and>
       (\<exists>w1 a.
          rt_invoke rt dispatcher_id
            (deposit_call (fu_adapter_program ctx) (fu_instructions_sysvar ctx) (ty_info (fu_position ctx))
               (ty_info (fu_position_usdc_pool ctx)) (fu_adapter_state ctx) (fu_remaining ctx)
               (encode_withdraw n []))
            ([fu_adapter_program ctx, fu_instructions_sysvar ctx, ty_info (fu_position ctx),
              ty_info (fu_position_usdc_pool ctx), fu_adapter_state ctx] @ fu_remaining ctx)
            [position_seeds (ty_val (fu_position ctx))] w = Inr w1 \<and>
          get_u64_return (ai_key (fu_adapter_program ctx)) w1 = Some a \<and>
          (a = 0 \<or> is_ok (rt_token_transfer rt dispatcher_id (ty_info (fu_position_usdc_pool ctx))
             (ty_info (fu_owner_usdc_ata ctx)) (ty_info (fu_position ctx)) a
             [position_seeds (ty_val (fu_position ctx))] w1))))"
proof -
  have deposits: "is_ok (deposit_handler rt ctx n w) \<longleftrightarrow>
       0 < n \<and> ent_interface_version (ty_val (fu_adapter_entry ctx)) = ADAPTER_INTERFACE_VERSION \<and>
       (\<exists>w1 w2 m.
          rt_token_transfer rt dispatcher_id (ty_info (fu_owner_usdc_ata ctx))
            (ty_info (fu_position_usdc_pool ctx)) (fu_owner ctx) n [] w = Inr w1 \<and>
          route_deposit rt (fu_adapter_program ctx) (fu_instructions_sysvar ctx)
            (ty_info (fu_position ctx)) (ty_info (fu_position_usdc_pool ctx)) (fu_adapter_state ctx)
            (fu_remaining ctx) n [position_seeds (ty_val (fu_position ctx))] w1 = Inr (m, w2))"
    by (auto simp: is_ok_iff deposit_handler_ok)
  have withdrawals: "is_ok (withdraw_handler rt ctx n w) \<longleftrightarrow>
       0 < n \<and> ent_interface_version (ty_val (fu_adapter_entry ctx)) = ADAPTER_INTERFACE_VERSION \<and>
       (\<exists>w1 a.
          route_withdraw rt (fu_adapter_program ctx) (fu_instructions_sysvar ctx)
            (ty_info (fu_position ctx)) (ty_info (fu_position_usdc_pool ctx)) (fu_adapter_state ctx)
            (fu_remaining ctx) n [position_seeds (ty_val (fu_position ctx))] w = Inr (a, w1) \<and>
          (a = 0 \<or> is_ok (rt_token_transfer rt dispatcher_id (ty_info (fu_position_usdc_pool ctx))
             (ty_info (fu_owner_usdc_ata ctx)) (ty_info (fu_position ctx)) a
             [position_seeds (ty_val (fu_position ctx))] w1)))"
    unfolding withdraw_handler_ok is_ok_iff by (fastforce simp: word_gt_0)
  show ?thesis
    unfolding fund_instructions_run [OF assms] deposits withdrawals
    by (simp only: route_deposit_ok route_withdraw_ok conj_assoc)
qed

end
