(* ===== verification/Pricing.thy ===== *)
theory Pricing
  imports Interface
begin

text \<open>
  Reading integers out of account data and pricing shares, as the protocol modules of the
  adapters do (klend_cpi.rs, jup_cpi.rs, orca_cpi.rs, drift_cpi.rs, marginfi_cpi.rs).  Every read
  is bounds-checked and every failure is \<open>MathOverflow\<close>.

  \<open>pro_rata\<close> is the reference: the floor of \<open>shares * assets / supply\<close> over the naturals, or an
  error when the product leaves 128 bits, the supply is zero, or the result leaves 64 bits.  The
  locale \<open>share_pricing\<close> is the contract of a price function of shares and what holders may
  conclude from it.
\<close>

definition mo :: error where
  "mo = AdapterErr adapter_error.MathOverflow"

text \<open>\<open>data.get(off..off + n).ok_or(..)?.try_into().map_err(..)?\<close>\<close>

definition try_into_array :: "nat \<Rightarrow> bytes \<Rightarrow> bytes option" where
  "try_into_array n bs = (if length bs = n then Some bs else None)"

definition read_u64 :: "bytes \<Rightarrow> nat \<Rightarrow> u64 res" where
  "read_u64 data off =
     and_then (ok_or (slice_get off 8 data) mo) (\<lambda>s.
     and_then (ok_or (try_into_array 8 s) mo) (\<lambda>b.
     Inr (from_le_bytes b)))"

definition read_u128 :: "bytes \<Rightarrow> nat \<Rightarrow> u128 res" where
  "read_u128 data off =
     and_then (ok_or (slice_get off 16 data) mo) (\<lambda>s.
     and_then (ok_or (try_into_array 16 s) mo) (\<lambda>b.
     Inr (from_le_bytes b)))"

lemma read_u64_eq:
  "read_u64 data off =
     (if off + 8 \<le> length data then Inr (from_le_bytes (take 8 (drop off data))) else Inl mo)"
  by (simp add: read_u64_def slice_get_def try_into_array_def)

lemma read_u128_eq:
  "read_u128 data off =
     (if off + 16 \<le> length data then Inr (from_le_bytes (take 16 (drop off data))) else Inl mo)"
  by (simp add: read_u128_def slice_get_def try_into_array_def)

lemma read_u64_at:
  "length pre = off \<Longrightarrow> read_u64 (pre @ to_le_bytes 8 x @ post) off = Inr x"
  by (simp add: read_u64_eq codec_simps)

lemma read_u128_at:
  "length pre = off \<Longrightarrow> read_u128 (pre @ to_le_bytes 16 x @ post) off = Inr x"
  by (simp add: read_u128_eq codec_simps)

lemma unat_from_le_bytes:
  assumes "LENGTH('a::len) = 8 * length bs"
  shows "unat (from_le_bytes bs :: 'a word) = le_to_nat bs"
proof -
  have "(256::nat) ^ length bs = 2 ^ LENGTH('a)" by (simp add: assms power_mult)
  then show ?thesis
    using le_to_nat_less [of bs] by (simp add: from_le_bytes_def unat_of_nat)
qed

section \<open>Pro-rata pricing\<close>

definition pro_rata :: "nat \<Rightarrow> nat \<Rightarrow> nat \<Rightarrow> u64 res" where
  "pro_rata shares assets supply =
     (if shares * assets < 2 ^ 128 \<and> supply \<noteq> 0 \<and> shares * assets div supply < 2 ^ 64
      then Inr (word_of_nat (shares * assets div supply)) else Inl mo)"

text \<open>The chain of checked operations the adapters write.\<close>

lemma mul_div_chain:
  "and_then (ok_or (checked_mul x y) mo) (\<lambda>p.
   and_then (ok_or (checked_div p z) mo) (\<lambda>v.
   ok_or (try_from v) mo)) =
   pro_rata (unat (x :: u128)) (unat (y :: u128)) (unat (z :: u128))"
proof (cases "unat x * unat y < 2 ^ 128 \<and> z \<noteq> 0")
  case True
  then have p: "unat (x * y) = unat x * unat y"
    by (simp add: unat_word_ariths)
  have d: "unat (x * y div z) = unat x * unat y div unat z"
    by (simp add: unat_div_distrib p)
  have z: "unat z \<noteq> 0" using True by (simp add: unat_eq_0)
  have t: "(try_from (x * y div z) :: u64 option) =
      (if unat x * unat y div unat z < 2 ^ 64
       then Some (word_of_nat (unat x * unat y div unat z)) else None)"
  proof -
    have "(ucast (x * y div z) :: u64) = word_of_nat (unat (x * y div z))"
      by (simp add: unsigned_of_nat)
    then show ?thesis by (simp add: try_from_def d)
  qed
  from True z show ?thesis
    by (simp add: checked_mul_def checked_div_def t pro_rata_def)
next
  case False
  then show ?thesis
    by (auto simp: checked_mul_def checked_div_def pro_rata_def)
qed

lemma pro_rata_Inr:
  "pro_rata s t n = Inr v \<longleftrightarrow>
     s * t < 2 ^ 128 \<and> n \<noteq> 0 \<and> s * t div n < 2 ^ 64 \<and> unat v = s * t div n"
  by (auto simp: pro_rata_def unat_of_nat word_unat_eq_iff)

lemma div_superadd: "(a::nat) div n + b div n \<le> (a + b) div n"
  by (cases "n = 0") (simp_all add: less_eq_div_iff_mult_less_eq distrib_right add_mono)

section \<open>The contract of a price\<close>

locale share_pricing =
  fixes price :: "u64 \<Rightarrow> u64 res"
  assumes zero: "price 0 = Inr v \<Longrightarrow> v = 0"
    and downward: "price s = Inr v \<Longrightarrow> s' \<le> s \<Longrightarrow> \<exists>v'. price s' = Inr v'"
    and superadd: "price s1 = Inr v1 \<Longrightarrow> price s2 = Inr v2 \<Longrightarrow> price s = Inr v \<Longrightarrow>
                   unat s = unat s1 + unat s2 \<Longrightarrow> unat v1 + unat v2 \<le> unat v"
begin

lemma mono:
  assumes "price s1 = Inr v1" and "price s = Inr v" and "s1 \<le> s"
  shows "v1 \<le> v"
proof -
  have "s - s1 \<le> s" using assms(3) by (simp add: word_sub_le)
  with assms(2) obtain v2 where v2: "price (s - s1) = Inr v2" using downward by blast
  have "unat s = unat s1 + unat (s - s1)"
    using assms(3) by (simp add: unat_sub word_le_nat_alt)
  with superadd [OF assms(1) v2 assms(2)] show ?thesis by (simp add: word_le_nat_alt)
qed

text \<open>Splitting a holding among several positions never raises its total value.\<close>

lemma split_sum:
  assumes "price s = Inr v" and "unat s = sum_list (map unat parts)"
  shows "\<exists>vs. list_all2 (\<lambda>p x. price p = Inr x) parts vs \<and> sum_list (map unat vs) \<le> unat v"
  using assms
proof (induction parts arbitrary: s v)
  case Nil
  then show ?case by simp
next
  case (Cons p parts)
  have p: "p \<le> s" using Cons.prems(2) by (simp add: word_le_nat_alt)
  then have rest: "unat (s - p) = sum_list (map unat parts)"
    using Cons.prems(2) by (simp add: unat_sub word_le_nat_alt)
  obtain x where x: "price p = Inr x" using downward [OF Cons.prems(1) p] by blast
  have "s - p \<le> s" using p by (simp add: word_sub_le)
  then obtain y where y: "price (s - p) = Inr y" using downward [OF Cons.prems(1)] by blast
  obtain vs where "list_all2 (\<lambda>p x. price p = Inr x) parts vs" and "sum_list (map unat vs) \<le> unat y"
    using Cons.IH [OF y rest] by blast
  moreover have "unat x + unat y \<le> unat v"
    using superadd [OF x y Cons.prems(1)] rest Cons.prems(2) by simp
  ultimately show ?case using x by (intro exI [of _ "x # vs"]) simp
qed

end

text \<open>Pro-rata pricing satisfies the contract, whatever the pool and the supply.\<close>

interpretation pro_rata: share_pricing "\<lambda>s. pro_rata (unat s) assets supply"
proof unfold_locales
  fix v :: u64
  assume "pro_rata (unat (0 :: u64)) assets supply = Inr v"
  then show "v = 0" by (simp add: pro_rata_Inr word_unat_eq_iff)
next
  fix s v s' :: u64
  assume p: "pro_rata (unat s) assets supply = Inr v" and le: "s' \<le> s"
  from le have m: "unat s' * assets \<le> unat s * assets" by (simp add: word_le_nat_alt)
  then have "unat s' * assets div supply \<le> unat s * assets div supply" by (rule div_le_mono)
  moreover have "unat s * assets < 2 ^ 128" and "supply \<noteq> 0" and "unat s * assets div supply < 2 ^ 64"
    using p by (simp_all add: pro_rata_Inr)
  ultimately have "unat s' * assets < 2 ^ 128 \<and> supply \<noteq> 0 \<and> unat s' * assets div supply < 2 ^ 64"
    using m by linarith
  then show "\<exists>v'. pro_rata (unat s') assets supply = Inr v'"
    by (simp add: pro_rata_def)
next
  fix s1 v1 s2 v2 s v :: u64
  assume "pro_rata (unat s1) assets supply = Inr v1" and "pro_rata (unat s2) assets supply = Inr v2"
    and "pro_rata (unat s) assets supply = Inr v" and "unat s = unat s1 + unat s2"
  then show "unat v1 + unat v2 \<le> unat v"
    using div_superadd [of "unat s1 * assets" "supply" "unat s2 * assets"]
    by (simp add: pro_rata_Inr distrib_right)
qed

text \<open>The price functions take a shortcut at zero shares.\<close>

lemma zero_or_pro_rata:
  "share_pricing (\<lambda>s. if s = 0 then Inr 0 else pro_rata (unat s) assets n)"
proof
  fix v :: u64
  assume "(if (0::u64) = 0 then Inr 0 else pro_rata (unat (0 :: u64)) assets n) = Inr v"
  then show "v = 0" by simp
next
  fix s v s' :: u64
  assume "(if s = 0 then Inr 0 else pro_rata (unat s) assets n) = Inr v" and "s' \<le> s"
  then show "\<exists>v'. (if s' = 0 then Inr 0 else pro_rata (unat s') assets n) = Inr v'"
    using pro_rata.downward [of s assets n v s'] by (auto split: if_splits)
next
  fix s1 v1 s2 v2 s v :: u64
  assume a: "(if s1 = 0 then Inr 0 else pro_rata (unat s1) assets n) = Inr v1"
    "(if s2 = 0 then Inr 0 else pro_rata (unat s2) assets n) = Inr v2"
    "(if s = 0 then Inr 0 else pro_rata (unat s) assets n) = Inr v"
    "unat s = unat s1 + unat s2"
  have z: "x = y" if "unat (x :: u64) = unat y" for x y using that by (simp add: word_unat_eq_iff)
  show "unat v1 + unat v2 \<le> unat v"
    using a pro_rata.superadd [of s1 assets n v1 s2 v2 s v] z [of s s1] z [of s s2]
    by (auto split: if_splits)
qed

end
