(* ===== verification/Adapter.thy ===== *)
theory Adapter
  imports Pricing
begin

text \<open>
  The standard that every adapter program implements (docs/SPEC.md, and the shape shared by the
  five programs under programs/): four instructions over a per-position state account that
  begins with the common header, each refusing callers other than the dispatcher, with the
  result in the return data and an event in the log.

  An adapter is a value of the record \<open>adapter\<close>.  The abstract specification is a share ledger,
  one row per position, with four kinds of entry; the locale \<open>adapter_standard\<close> states what an
  implementation must promise about its instructions, and derives, for every world the adapter
  can reach, that the state accounts are that ledger and that the ledger is what its own event
  log replays to.  Its extension \<open>guarded_adapter\<close> adds that a withdrawal burns exactly what it is
  given, and derives that the ledger is the plain sum of the log.  Each adapter theory interprets
  one of the two on its model of the code.
\<close>

section \<open>Shared by the adapters\<close>

text \<open>\<open>seeds = [ADAPTER_STATE_SEED, crate::ID.as_ref(), position.key().as_ref()]\<close>\<close>

definition adapter_seeds :: "pubkey \<Rightarrow> pubkey \<Rightarrow> bytes list" where
  "adapter_seeds program position =
     [ADAPTER_STATE_SEED, pubkey_bytes program, pubkey_bytes position]"

definition adapter_address :: "runtime \<Rightarrow> pubkey \<Rightarrow> pubkey \<Rightarrow> pubkey" where
  "adapter_address rt program position =
     fst (rt_find_program_address rt (adapter_seeds program position) program)"

text \<open>\<open>info.owner\<close>: an address without an account belongs to the System program.\<close>

definition info_owner :: "runtime \<Rightarrow> world \<Rightarrow> pubkey \<Rightarrow> pubkey" where
  "info_owner rt w k =
     (case accounts w k of None \<Rightarrow> rt_system_program rt | Some a \<Rightarrow> acc_owner a)"

text \<open>Slot 1 of every instruction is the position.\<close>

definition slot_position :: "account_info list \<Rightarrow> pubkey" where
  "slot_position infos = ai_key (infos ! 1)"

definition unauthorized :: error where
  "unauthorized = AdapterErr adapter_error.Unauthorized"

definition cpi_failed :: error where
  "cpi_failed = AdapterErr CpiFailed"

text \<open>The argument checks that open the handlers.\<close>

definition data_fits :: "bytes \<Rightarrow> bool" where
  "data_fits adapter_data \<longleftrightarrow> length adapter_data \<le> MAX_ADAPTER_DATA_LEN"

definition caller_ok :: "runtime \<Rightarrow> bool" where
  "caller_ok rt \<longleftrightarrow>
     (\<exists>idx parent.
        rt_load_current_index rt (rt_instructions_sysvar rt) = Inr idx \<and>
        rt_load_instruction_at rt (unat idx) (rt_instructions_sysvar rt) = Inr parent \<and>
        ix_program parent = DISPATCHER_ID)"

lemma verify_caller_ok:
  "ai_key sysvar = rt_instructions_sysvar rt \<Longrightarrow>
     verify_caller_is_dispatcher rt sysvar DISPATCHER_ID = Inr u \<longleftrightarrow> caller_ok rt"
  by (auto simp: verify_caller_is_dispatcher_def caller_ok_def and_then_eq_Inr require_eq_Inr)

section \<open>Adapter programs\<close>

record 'a adapter =
  ad_id :: pubkey
  ad_codec :: "'a codec"
  ad_header :: "'a \<Rightarrow> adapter_state_header"
  ad_initialize :: "runtime \<Rightarrow> account_info list \<Rightarrow> bytes \<Rightarrow> world \<Rightarrow> world res"
  ad_deposit :: "runtime \<Rightarrow> account_info list \<Rightarrow> u64 \<Rightarrow> bytes \<Rightarrow> world \<Rightarrow> world res"
  ad_withdraw :: "runtime \<Rightarrow> account_info list \<Rightarrow> u64 \<Rightarrow> bytes \<Rightarrow> world \<Rightarrow> world res"
  ad_current_value :: "runtime \<Rightarrow> account_info list \<Rightarrow> bytes \<Rightarrow> world \<Rightarrow> world res"

text \<open>The \<open>#[program]\<close> module: decode the instruction, run it.\<close>

definition adapter_entry ::
  "'a adapter \<Rightarrow> runtime \<Rightarrow> account_info list \<Rightarrow> bytes \<Rightarrow> world \<Rightarrow> world res" where
  "adapter_entry A rt infos data w =
     and_then (decode_adapter_ix data) (\<lambda>ix.
     case ix of
       IxInitialize v \<Rightarrow> ad_initialize A rt infos v w
     | IxDeposit amount v \<Rightarrow> ad_deposit A rt infos amount v w
     | IxWithdraw shares v \<Rightarrow> ad_withdraw A rt infos shares v w
     | IxCurrentValue v \<Rightarrow> ad_current_value A rt infos v w)"

section \<open>The share ledger\<close>

type_synonym ledger = "pubkey \<rightharpoonup> adapter_state_header"

definition ledger_of :: "'a adapter \<Rightarrow> world \<Rightarrow> ledger" where
  "ledger_of A w k = map_option (ad_header A) (account_view (ad_codec A) (ad_id A) w k)"

lemma ledger_update:
  "account_view (ad_codec A) (ad_id A) w' = (account_view (ad_codec A) (ad_id A) w)(k \<mapsto> x) \<Longrightarrow>
     ledger_of A w' = (ledger_of A w)(k \<mapsto> ad_header A x)"
  by (rule ext) (simp add: ledger_of_def)

lemma ledger_load:
  "load_account (ad_codec A) (ad_id A) k w = Inr x \<Longrightarrow> ledger_of A w k = Some (ad_header A x)"
  by (simp add: ledger_of_def account_view_def)

lemma ledger_fresh: "accounts w k = None \<Longrightarrow> ledger_of A w k = None"
  by (simp add: ledger_of_def view_absent)

definition book :: "u64 \<Rightarrow> adapter_state_header \<Rightarrow> adapter_state_header" where
  "book n h = h\<lparr>hdr_total_shares := n\<rparr>"

lemma book_simps [simp]:
  "hdr_position (book n h) = hdr_position h"
  "hdr_adapter_program (book n h) = hdr_adapter_program h"
  "hdr_created_at (book n h) = hdr_created_at h"
  "hdr_total_shares (book n h) = n"
  by (simp_all add: book_def)

text \<open>
  The four kinds of entry.  \<open>addr p\<close> is the row of position \<open>p\<close>.  A burn of \<open>s\<close> shares takes
  \<open>b\<close> shares off the row: all of them, or, when fewer are booked, what is there.
\<close>

inductive ledger_step :: "pubkey \<Rightarrow> (pubkey \<Rightarrow> pubkey) \<Rightarrow> ledger \<Rightarrow> event option \<Rightarrow> ledger \<Rightarrow> bool"
  for pid :: pubkey and addr :: "pubkey \<Rightarrow> pubkey" where
  opens:
    "l (addr p) = None \<Longrightarrow> hdr_position h = p \<Longrightarrow> hdr_adapter_program h = pid \<Longrightarrow>
     hdr_total_shares h = 0 \<Longrightarrow>
     ledger_step pid addr l None (l(addr p \<mapsto> h))"
| mints:
    "l k = Some h \<Longrightarrow> 0 < a \<Longrightarrow> unat n = unat (hdr_total_shares h) + unat m \<Longrightarrow>
     ledger_step pid addr l (Some (AdapterDepositEvent (hdr_position h) a m)) (l(k \<mapsto> book n h))"
| burns:
    "l k = Some h \<Longrightarrow> 0 < s \<Longrightarrow> unat n + unat b = unat (hdr_total_shares h) \<Longrightarrow>
     b = s \<or> b < s \<and> n = 0 \<Longrightarrow>
     ledger_step pid addr l (Some (AdapterWithdrawEvent (hdr_position h) s a)) (l(k \<mapsto> book n h))"
| reads:
    "l k = Some h \<Longrightarrow>
     ledger_step pid addr l (Some (AdapterValueEvent (hdr_position h) v slot)) l"

text \<open>
  What an indexer computes from the events of one program for one position.  \<open>minted\<close> and
  \<open>requested\<close> are the sums over its deposits and over its withdrawals.  \<open>replay\<close> books the events one
  after the other, a withdrawal taking what it asks for or, when less is there, all that is there;
  \<open>overdrawn\<close> is the sum of what the withdrawals asked for beyond that.
\<close>

definition event_mints :: "pubkey \<Rightarrow> pubkey \<Rightarrow> pubkey \<times> event \<Rightarrow> nat" where
  "event_mints pid p pe =
     (case snd pe of
        AdapterDepositEvent q a m \<Rightarrow> if fst pe = pid \<and> q = p then unat m else 0
      | _ \<Rightarrow> 0)"

definition event_burns :: "pubkey \<Rightarrow> pubkey \<Rightarrow> pubkey \<times> event \<Rightarrow> nat" where
  "event_burns pid p pe =
     (case snd pe of
        AdapterWithdrawEvent q s a \<Rightarrow> if fst pe = pid \<and> q = p then unat s else 0
      | _ \<Rightarrow> 0)"

definition minted :: "pubkey \<Rightarrow> pubkey \<Rightarrow> (pubkey \<times> event) list \<Rightarrow> nat" where
  "minted pid p es = sum_list (map (event_mints pid p) es)"

definition requested :: "pubkey \<Rightarrow> pubkey \<Rightarrow> (pubkey \<times> event) list \<Rightarrow> nat" where
  "requested pid p es = sum_list (map (event_burns pid p) es)"

definition replay_event :: "pubkey \<Rightarrow> pubkey \<Rightarrow> pubkey \<times> event \<Rightarrow> nat \<Rightarrow> nat" where
  "replay_event pid p pe n = n + event_mints pid p pe - min n (event_burns pid p pe)"

definition replay :: "pubkey \<Rightarrow> pubkey \<Rightarrow> (pubkey \<times> event) list \<Rightarrow> nat" where
  "replay pid p es = fold (replay_event pid p) es 0"

primrec overdrawn_from :: "pubkey \<Rightarrow> pubkey \<Rightarrow> nat \<Rightarrow> (pubkey \<times> event) list \<Rightarrow> nat" where
  "overdrawn_from pid p n [] = 0"
| "overdrawn_from pid p n (e # es) =
     event_burns pid p e - min n (event_burns pid p e) +
     overdrawn_from pid p (replay_event pid p e n) es"

definition overdrawn :: "pubkey \<Rightarrow> pubkey \<Rightarrow> (pubkey \<times> event) list \<Rightarrow> nat" where
  "overdrawn pid p es = overdrawn_from pid p 0 es"

lemma event_silent:
  "fst e \<noteq> pid \<Longrightarrow> event_mints pid p e = 0" "fst e \<noteq> pid \<Longrightarrow> event_burns pid p e = 0"
  by (simp_all add: event_mints_def event_burns_def split: event.splits)

lemma event_simps [simp]:
  "event_mints pid p (pid, AdapterDepositEvent q a m) = (if q = p then unat m else 0)"
  "event_burns pid p (pid, AdapterDepositEvent q a m) = 0"
  "event_mints pid p (pid, AdapterWithdrawEvent q s a) = 0"
  "event_burns pid p (pid, AdapterWithdrawEvent q s a) = (if q = p then unat s else 0)"
  "event_mints pid p (pid, AdapterValueEvent q v slot) = 0"
  "event_burns pid p (pid, AdapterValueEvent q v slot) = 0"
  by (simp_all add: event_mints_def event_burns_def)

lemma fold_replay_silent:
  "pid \<notin> fst ` set es \<Longrightarrow> fold (replay_event pid p) es n = n"
  by (induction es arbitrary: n) (auto simp: replay_event_def event_silent)

lemma replay_append_silent: "pid \<notin> fst ` set es \<Longrightarrow> replay pid p (xs @ es) = replay pid p xs"
  by (simp add: replay_def fold_replay_silent)

lemma replay_snoc: "replay pid p (xs @ [e]) = replay_event pid p e (replay pid p xs)"
  by (simp add: replay_def)

lemma overdrawn_append:
  "overdrawn_from pid p n (xs @ ys) =
     overdrawn_from pid p n xs + overdrawn_from pid p (fold (replay_event pid p) xs n) ys"
  by (induction xs arbitrary: n) simp_all

lemma overdrawn_silent: "pid \<notin> fst ` set es \<Longrightarrow> overdrawn_from pid p n es = 0"
  by (induction es arbitrary: n) (auto simp: event_silent)

lemma overdrawn_snoc:
  "overdrawn pid p (xs @ [e]) =
     overdrawn pid p xs + (event_burns pid p e - min (replay pid p xs) (event_burns pid p e))"
  by (simp add: overdrawn_def overdrawn_append replay_def)

lemma overdrawn_entry:
  "pid \<notin> fst ` set es \<Longrightarrow> event_burns pid p e \<le> replay pid p xs \<Longrightarrow>
     overdrawn pid p (xs @ es @ [e]) = overdrawn pid p xs"
  by (simp add: overdrawn_def overdrawn_append overdrawn_silent fold_replay_silent replay_def)

lemma overdrawn_append_silent: "pid \<notin> fst ` set es \<Longrightarrow> overdrawn pid p (xs @ es) = overdrawn pid p xs"
  by (simp add: overdrawn_def overdrawn_append overdrawn_silent)

text \<open>No event both mints and burns, so the replay is the balance of the sums.\<close>

lemma one_sided: "event_mints pid p e = 0 \<or> event_burns pid p e = 0"
  by (simp add: event_mints_def event_burns_def split: event.splits)

lemma replay_from_sum:
  "fold (replay_event pid p) es n + requested pid p es =
     n + minted pid p es + overdrawn_from pid p n es"
proof (induction es arbitrary: n)
  case (Cons e es)
  from Cons.IH [of "replay_event pid p e n"] one_sided [of pid p e] show ?case
    by (auto simp: requested_def minted_def replay_event_def min_def)
qed (simp add: requested_def minted_def)

lemma replay_sum: "replay pid p es + requested pid p es = minted pid p es + overdrawn pid p es"
  using replay_from_sum [of pid p es 0] by (simp add: replay_def overdrawn_def)

text \<open>
  The invariant of a ledger with its log: every row names this program and sits at the address
  of its position, holds what the log replays to, and a position without a row has no entries.
\<close>

definition ledger_inv ::
  "pubkey \<Rightarrow> (pubkey \<Rightarrow> pubkey) \<Rightarrow> ledger \<Rightarrow> (pubkey \<times> event) list \<Rightarrow> bool" where
  "ledger_inv pid addr l es \<longleftrightarrow>
     (\<forall>k h. l k = Some h \<longrightarrow>
        hdr_adapter_program h = pid \<and> k = addr (hdr_position h) \<and>
        unat (hdr_total_shares h) = replay pid (hdr_position h) es) \<and>
     (\<forall>p. l (addr p) = None \<longrightarrow> replay pid p es = 0)"

definition logged :: "pubkey \<Rightarrow> event option \<Rightarrow> (pubkey \<times> event) list" where
  "logged pid e = (case e of None \<Rightarrow> [] | Some x \<Rightarrow> [(pid, x)])"

lemma ledger_inv_book:
  assumes inv: "ledger_inv pid addr l es" and row: "l k = Some h"
    and own: "unat n = replay pid (hdr_position h) es'"
    and others: "\<And>p. p \<noteq> hdr_position h \<Longrightarrow> replay pid p es' = replay pid p es"
  shows "ledger_inv pid addr (l(k \<mapsto> book n h)) es'"
proof -
  have k: "k = addr (hdr_position h)" and pid: "hdr_adapter_program h = pid"
    using inv row by (auto simp: ledger_inv_def)
  have "hdr_adapter_program g = pid \<and> j = addr (hdr_position g) \<and>
        unat (hdr_total_shares g) = replay pid (hdr_position g) es'"
    if g: "(l(k \<mapsto> book n h)) j = Some g" for j g
  proof (cases "j = k")
    case True
    then show ?thesis using g own pid k by auto
  next
    case False
    then have "l j = Some g" using g by simp
    with inv have "hdr_adapter_program g = pid" "j = addr (hdr_position g)"
      "unat (hdr_total_shares g) = replay pid (hdr_position g) es"
      by (auto simp: ledger_inv_def)
    moreover have "hdr_position g \<noteq> hdr_position h" using calculation(2) False k by auto
    ultimately show ?thesis using others by simp
  qed
  moreover have "replay pid p es' = 0" if "(l(k \<mapsto> book n h)) (addr p) = None" for p
  proof -
    have "addr p \<noteq> k" and "l (addr p) = None" using that by (simp_all split: if_splits)
    then show ?thesis using inv others [of p] k by (auto simp: ledger_inv_def)
  qed
  ultimately show ?thesis by (simp add: ledger_inv_def)
qed

lemma ledger_step_inv:
  assumes "ledger_step pid addr l e l'" and inv: "ledger_inv pid addr l es"
  shows "ledger_inv pid addr l' (es @ logged pid e)"
  using assms(1)
proof cases
  case (opens p h)
  then show ?thesis using inv by (auto simp: ledger_inv_def logged_def)
next
  case (mints k h a n m)
  then show ?thesis using inv
    by (simp, intro ledger_inv_book [OF inv])
      (auto simp: ledger_inv_def logged_def replay_snoc replay_event_def)
next
  case (burns k h s n b a)
  have own: "unat (hdr_total_shares h) = replay pid (hdr_position h) es"
    using inv burns(3) by (simp add: ledger_inv_def)
  have "unat n = unat (hdr_total_shares h) - min (unat (hdr_total_shares h)) (unat s)"
    using burns(5,6) by (auto simp: min_def word_less_nat_alt)
  then show ?thesis unfolding burns
    by (intro ledger_inv_book [OF inv burns(3)])
      (simp_all add: logged_def replay_snoc replay_event_def own)
next
  case (reads k h v slot)
  then show ?thesis using inv
    by (simp add: ledger_inv_def logged_def replay_snoc replay_event_def)
qed

lemma ledger_inv_silent:
  "ledger_inv pid addr l es \<Longrightarrow> pid \<notin> fst ` set xs \<Longrightarrow> ledger_inv pid addr l (es @ xs)"
  by (simp add: ledger_inv_def replay_append_silent)

section \<open>Runs of an adapter\<close>

inductive adapter_step :: "'a adapter \<Rightarrow> runtime \<Rightarrow> world \<Rightarrow> world \<Rightarrow> bool"
  for A :: "'a adapter" and rt :: runtime where
  instruction: "adapter_entry A rt infos data w = Inr w' \<Longrightarrow> adapter_step A rt w w'"
| environment: "isolated (ad_id A) w w' \<Longrightarrow> silent (ad_id A) w w' \<Longrightarrow> adapter_step A rt w w'"

inductive adapter_reachable :: "'a adapter \<Rightarrow> runtime set \<Rightarrow> world \<Rightarrow> bool"
  for A :: "'a adapter" and R :: "runtime set" where
  start: "ledger_of A w = Map.empty \<Longrightarrow> ad_id A \<notin> fst ` set (events w) \<Longrightarrow> adapter_reachable A R w"
| step: "adapter_reachable A R w \<Longrightarrow> rt \<in> R \<Longrightarrow> adapter_step A rt w w' \<Longrightarrow>
         adapter_reachable A R w'"

section \<open>The standard\<close>

text \<open>
  What each instruction promises when it succeeds, as a relation between the world before and
  after.  Of the \<open>shares\<close> a withdrawal is asked to burn, it takes \<open>b\<close> off the row: all of them, or
  the whole row when it holds fewer.  \<open>caller_ok\<close> is the dispatcher check; the result is in the return data.
\<close>

definition opens_row :: "'a adapter \<Rightarrow> runtime \<Rightarrow> pubkey \<Rightarrow> world \<Rightarrow> world \<Rightarrow> bool" where
  "opens_row A rt p w w' \<longleftrightarrow>
     accounts w (adapter_address rt (ad_id A) p) = None \<and>
     ledger_of A w' = (ledger_of A w)(adapter_address rt (ad_id A) p \<mapsto>
       \<lparr>hdr_position = p, hdr_adapter_program = ad_id A,
        hdr_created_at = clock_unix_timestamp (rt_clock rt), hdr_total_shares = 0\<rparr>) \<and>
     silent (ad_id A) w w'"

definition mints_shares :: "'a adapter \<Rightarrow> pubkey \<Rightarrow> u64 \<Rightarrow> world \<Rightarrow> world \<Rightarrow> bool" where
  "mints_shares A p amount w w' \<longleftrightarrow>
     (\<exists>k h m n es.
        ledger_of A w k = Some h \<and> hdr_position h = p \<and> unat n = unat (hdr_total_shares h) + unat m \<and>
        ledger_of A w' = (ledger_of A w)(k \<mapsto> book n h) \<and>
        return_data w' = Some (ad_id A, to_le_bytes 8 m) \<and>
        events w' = events w @ es @ [(ad_id A, AdapterDepositEvent p amount m)] \<and>
        ad_id A \<notin> fst ` set es)"

definition burns_shares ::
  "'a adapter \<Rightarrow> pubkey \<Rightarrow> u64 \<Rightarrow> u64 \<Rightarrow> world \<Rightarrow> world \<Rightarrow> bool" where
  "burns_shares A p shares b w w' \<longleftrightarrow>
     (\<exists>k h a n es.
        ledger_of A w k = Some h \<and> hdr_position h = p \<and>
        unat n + unat b = unat (hdr_total_shares h) \<and> (b = shares \<or> b < shares \<and> n = 0) \<and>
        ledger_of A w' = (ledger_of A w)(k \<mapsto> book n h) \<and>
        return_data w' = Some (ad_id A, to_le_bytes 8 a) \<and>
        events w' = events w @ es @ [(ad_id A, AdapterWithdrawEvent p shares a)] \<and>
        ad_id A \<notin> fst ` set es)"

definition reports_value :: "'a adapter \<Rightarrow> pubkey \<Rightarrow> world \<Rightarrow> world \<Rightarrow> bool" where
  "reports_value A p w w' \<longleftrightarrow>
     (\<exists>k h v slot es.
        ledger_of A w k = Some h \<and> hdr_position h = p \<and> ledger_of A w' = ledger_of A w \<and>
        return_data w' = Some (ad_id A, to_le_bytes 8 v) \<and>
        events w' = events w @ es @ [(ad_id A, AdapterValueEvent p v slot)] \<and>
        ad_id A \<notin> fst ` set es)"

text \<open>An adapter that burns exactly what it is given burns some number of shares.\<close>

lemma exact_burns:
  "c \<and> d \<and> z \<and> (i \<longrightarrow> burns_shares A p shares shares w w') \<Longrightarrow>
     c \<and> d \<and> z \<and> (i \<longrightarrow> (\<exists>b. burns_shares A p shares b w w'))"
  by blast

lemma burnt_cases:
  assumes "unat n + unat b = unat (t :: u64)" and "b = s \<or> b < s \<and> n = 0"
  shows "s \<le> t \<Longrightarrow> unat n + unat s = unat t" and "t < s \<Longrightarrow> n = 0" and "b = s \<Longrightarrow> s \<le> t"
  using assms by (auto simp: word_less_nat_alt word_le_nat_alt)

lemma isolated_cong: "accounts w3 = accounts w2 \<Longrightarrow> isolated p w w3 = isolated p w w2"
  by (simp add: isolated_def)

text \<open>How the instructions of an adapter establish the promises.\<close>

context anchor_account
begin

lemma ledger_write_back:
  assumes "ad_codec A = c" and "wf y" and "isolated (ad_id A) w w2"
    and "load_account c (ad_id A) k w = Inr x" and "store_account c k y w3 = Inr w'"
    and "accounts w3 = accounts w2"
  shows "ledger_of A w' = (ledger_of A w)(k \<mapsto> ad_header A y)"
proof -
  have "isolated (ad_id A) w w3" using assms(3) isolated_cong [OF assms(6)] by blast
  from view_write_back [OF this assms(4,5,2)] show ?thesis
    using ledger_update [of A w' w k y] assms(1) by simp
qed

lemma mints_sharesI:
  assumes "ad_codec A = c" and "wf y" and "isolated (ad_id A) w w2" and "silent (ad_id A) w w2"
    and "load_account c (ad_id A) k w = Inr x"
    and "store_account c k y (emit_event (ad_id A) (AdapterDepositEvent (hdr_position (ad_header A x)) amount m)
           (set_u64_return (ad_id A) m w2)) = Inr w'"
    and "ad_header A y = book n (ad_header A x)"
    and "unat n = unat (hdr_total_shares (ad_header A x)) + unat m"
    and p: "p = hdr_position (ad_header A x)"
  shows "mints_shares A p amount w w'"
proof -
  from assms(4) obtain es where "events w2 = events w @ es" "ad_id A \<notin> fst ` set es"
    by (auto simp: silent_def)
  with ledger_write_back [OF assms(1,2,3,5,6)] store_keeps_log [OF assms(6)] assms(7,8)
    ledger_load [of A k w x] assms(1,5)
  show ?thesis unfolding mints_shares_def p
    by (intro exI [of _ k] exI [of _ "ad_header A x"] exI [of _ m] exI [of _ n] exI [of _ es]) simp
qed

lemma burns_sharesI:
  assumes "ad_codec A = c" and "wf y" and "isolated (ad_id A) w w2" and "silent (ad_id A) w w2"
    and "load_account c (ad_id A) k w = Inr x"
    and "store_account c k y (emit_event (ad_id A) (AdapterWithdrawEvent (hdr_position (ad_header A x)) shares a)
           (set_u64_return (ad_id A) a w2)) = Inr w'"
    and "ad_header A y = book n (ad_header A x)"
    and "unat n + unat b = unat (hdr_total_shares (ad_header A x))"
    and "b = shares \<or> b < shares \<and> n = 0"
    and p: "p = hdr_position (ad_header A x)"
  shows "burns_shares A p shares b w w'"
proof -
  from assms(4) obtain es where "events w2 = events w @ es" "ad_id A \<notin> fst ` set es"
    by (auto simp: silent_def)
  with ledger_write_back [OF assms(1,2,3,5,6)] store_keeps_log [OF assms(6)] assms(7,8,9)
    ledger_load [of A k w x] assms(1,5)
  show ?thesis unfolding burns_shares_def p
    by (intro exI [of _ k] exI [of _ "ad_header A x"] exI [of _ a] exI [of _ n] exI [of _ es]) simp
qed

lemma isolated_ledgerI: "ad_codec A = c \<Longrightarrow> isolated (ad_id A) w w' \<Longrightarrow> ledger_of A w' = ledger_of A w"
  by (rule ext) (simp add: ledger_of_def view_isolated)

lemma reports_valueI:
  assumes "ad_codec A = c" and "isolated (ad_id A) w w2" and "silent (ad_id A) w w2"
    and "load_account c (ad_id A) k w = Inr x"
    and "w' = emit_event (ad_id A) (AdapterValueEvent (hdr_position (ad_header A x)) v slot)
                (set_u64_return (ad_id A) v w2)"
    and p: "p = hdr_position (ad_header A x)"
  shows "reports_value A p w w'"
proof -
  from assms(3) obtain es where "events w2 = events w @ es" "ad_id A \<notin> fst ` set es"
    by (auto simp: silent_def)
  moreover have "isolated (ad_id A) w w'"
    using assms(2) isolated_cong [of w' w2] by (simp add: assms(5))
  ultimately show ?thesis unfolding reports_value_def p
    using ledger_load [of A k w x] assms(1,4,5) isolated_ledgerI [of A w w']
    by (intro exI [of _ k] exI [of _ "ad_header A x"] exI [of _ v] exI [of _ slot] exI [of _ es]) simp
qed

lemma opens_rowI:
  assumes "ad_codec A = c" and "wf y" and "system_creates rt"
    and "rt_find_program_address rt (adapter_seeds (ad_id A) p) (ad_id A) = (k, bump)"
    and "rt_create_account rt payer k space (ad_id A) w = Inr w1"
    and "isolated (ad_id A) w1 w2" and "silent (ad_id A) w1 w2"
    and "store_account c k y w2 = Inr w'"
    and "ad_header A y = \<lparr>hdr_position = p, hdr_adapter_program = ad_id A,
           hdr_created_at = clock_unix_timestamp (rt_clock rt), hdr_total_shares = 0\<rparr>"
  shows "opens_row A rt p w w'"
proof -
  note v = view_create_write [OF assms(3,5,6,8,2)]
  have k: "adapter_address rt (ad_id A) p = k" by (simp add: adapter_address_def assms(4))
  have "silent (ad_id A) w w1" using system_createsD(2) [OF assms(3,5)] by (simp add: silent_def)
  with assms(7) store_keeps_log [OF assms(8)] have "silent (ad_id A) w w'"
    by (metis silent_def silent_trans)
  with v ledger_update [of A w' w k y] assms(1,9) k show ?thesis
    unfolding opens_row_def by auto
qed

end

locale adapter_standard =
  fixes A :: "'a adapter"
  assumes header_first: "\<exists>tail. account_image (ad_codec A) x = co_disc (ad_codec A) @
            enc_header (ad_header A x) @ tail"
    and disc_8: "length (co_disc (ad_codec A)) = 8"
    and initialize_law:
      "ad_initialize A rt infos data w = Inr w' \<Longrightarrow> caller_ok rt \<and> data_fits data \<and>
         (system_creates rt \<longrightarrow> calls_isolate rt (ad_id A) \<longrightarrow> opens_row A rt (slot_position infos) w w')"
    and deposit_law:
      "ad_deposit A rt infos amount data w = Inr w' \<Longrightarrow>
         caller_ok rt \<and> data_fits data \<and> 0 < amount \<and>
         (calls_isolate rt (ad_id A) \<longrightarrow> mints_shares A (slot_position infos) amount w w')"
    and withdraw_law:
      "ad_withdraw A rt infos shares data w = Inr w' \<Longrightarrow>
         caller_ok rt \<and> data_fits data \<and> 0 < shares \<and>
         (calls_isolate rt (ad_id A) \<longrightarrow> (\<exists>b. burns_shares A (slot_position infos) shares b w w'))"
    and current_value_law:
      "ad_current_value A rt infos data w = Inr w' \<Longrightarrow> caller_ok rt \<and> data_fits data \<and>
         (calls_isolate rt (ad_id A) \<longrightarrow> reports_value A (slot_position infos) w w')"
    and isolated_ledger: "isolated (ad_id A) w w' \<Longrightarrow> ledger_of A w' = ledger_of A w"
begin

lemma entry_caller:
  assumes "adapter_entry A rt infos data w = Inr w'"
  shows "caller_ok rt"
proof -
  from assms obtain ix where "(case ix of
       IxInitialize v \<Rightarrow> ad_initialize A rt infos v w
     | IxDeposit amount v \<Rightarrow> ad_deposit A rt infos amount v w
     | IxWithdraw shares v \<Rightarrow> ad_withdraw A rt infos shares v w
     | IxCurrentValue v \<Rightarrow> ad_current_value A rt infos v w) = Inr w'"
    by (auto simp: adapter_entry_def and_then_eq_Inr)
  then show ?thesis
    by (cases ix) (auto dest: initialize_law deposit_law withdraw_law current_value_law)
qed

text \<open>Every instruction is one entry of the abstract ledger, logged as its own event.\<close>

lemma entry_refines:
  assumes "adapter_entry A rt infos data w = Inr w'"
    and "system_creates rt" and "calls_isolate rt (ad_id A)"
  shows "\<exists>e es. ledger_step (ad_id A) (adapter_address rt (ad_id A)) (ledger_of A w) e (ledger_of A w') \<and>
           events w' = events w @ es @ logged (ad_id A) e \<and> ad_id A \<notin> fst ` set es"
proof -
  from assms(1) obtain ix where "decode_adapter_ix data = Inr ix" and
    run: "(case ix of
       IxInitialize v \<Rightarrow> ad_initialize A rt infos v w
     | IxDeposit amount v \<Rightarrow> ad_deposit A rt infos amount v w
     | IxWithdraw shares v \<Rightarrow> ad_withdraw A rt infos shares v w
     | IxCurrentValue v \<Rightarrow> ad_current_value A rt infos v w) = Inr w'"
    by (auto simp: adapter_entry_def and_then_eq_Inr)
  show ?thesis
  proof (cases ix)
    case (IxInitialize v)
    with run assms(2,3) have "opens_row A rt (slot_position infos) w w'" using initialize_law by simp
    then obtain es where "accounts w (adapter_address rt (ad_id A) (slot_position infos)) = None" and
      l: "ledger_of A w' = (ledger_of A w)(adapter_address rt (ad_id A) (slot_position infos) \<mapsto>
          \<lparr>hdr_position = slot_position infos, hdr_adapter_program = ad_id A,
           hdr_created_at = clock_unix_timestamp (rt_clock rt), hdr_total_shares = 0\<rparr>)" and
      "events w' = events w @ es" "ad_id A \<notin> fst ` set es"
      by (auto simp: opens_row_def silent_def)
    then show ?thesis unfolding l
      by (intro exI [of _ None] exI [of _ es]) (simp add: ledger_step.opens ledger_fresh logged_def)
  next
    case (IxDeposit amount v)
    with run assms(3) have "0 < amount" and "mints_shares A (slot_position infos) amount w w'" using deposit_law by simp_all
    then show ?thesis by (fastforce simp: mints_shares_def logged_def intro: ledger_step.mints)
  next
    case (IxWithdraw shares v)
    with run have run: "ad_withdraw A rt infos shares v w = Inr w'" by simp
    from withdraw_law [OF this] assms(3) obtain b where
      "0 < shares" and "burns_shares A (slot_position infos) shares b w w'" by blast
    then show ?thesis by (fastforce simp: burns_shares_def logged_def intro: ledger_step.burns)
  next
    case (IxCurrentValue v)
    with run assms(3) have "reports_value A (slot_position infos) w w'" using current_value_law by simp
    then show ?thesis by (fastforce simp: reports_value_def logged_def intro: ledger_step.reads)
  qed
qed

lemma reachable_inv:
  assumes "chain (ad_id A) rt R" and "adapter_reachable A R w"
  shows "ledger_inv (ad_id A) (adapter_address rt (ad_id A)) (ledger_of A w) (events w)"
  using assms(2)
proof (induction rule: adapter_reachable.induct)
  case (start w)
  then show ?case using replay_append_silent [of "ad_id A" "events w" _ "[]"]
    by (simp add: ledger_inv_def replay_def)
next
  case (step w r w')
  note r = chainD [OF assms(1) step.hyps(2)]
  from step.hyps(3) show ?case
  proof cases
    case (instruction infos data)
    have "adapter_address r (ad_id A) = adapter_address rt (ad_id A)"
      by (rule ext) (simp add: adapter_address_def r(3))
    with entry_refines [OF instruction r(1,2)] obtain e es where
      st: "ledger_step (ad_id A) (adapter_address rt (ad_id A)) (ledger_of A w) e (ledger_of A w')"
      and ev: "events w' = (events w @ es) @ logged (ad_id A) e" and q: "ad_id A \<notin> fst ` set es"
      by auto
    from ledger_step_inv [OF st ledger_inv_silent [OF step.IH q]] show ?thesis unfolding ev .
  next
    case environment
    then show ?thesis using ledger_inv_silent [OF step.IH]
      by (auto simp: isolated_ledger silent_def)
  qed
qed

text \<open>The shares of a position are what its events replay to, in every reachable world.\<close>

lemma shares_are_replay:
  assumes "chain (ad_id A) rt R" and "adapter_reachable A R w" and "ledger_of A w k = Some h"
  shows "unat (hdr_total_shares h) = replay (ad_id A) (hdr_position h) (events w)"
    and "hdr_adapter_program h = ad_id A"
    and "k = adapter_address rt (ad_id A) (hdr_position h)"
  using reachable_inv [OF assms(1,2)] assms(3) by (auto simp: ledger_inv_def)

lemma header_readable: "read_header (account_image (ad_codec A) x) = Some (ad_header A x)"
  using header_first [of x] read_header_image [OF disc_8] by metis

end

section \<open>The standard with a guard on withdrawals\<close>

text \<open>
  docs/SPEC.md asks a withdrawal of more shares than are booked to fail.  An adapter that does so
  takes off exactly the shares it is given, and then the shares of a position are the plain
  difference of its deposit events and its withdrawal events.
\<close>

locale guarded_adapter = adapter_standard +
  assumes withdraw_exact: "ad_withdraw A rt infos shares data w = Inr w' \<Longrightarrow>
      calls_isolate rt (ad_id A) \<Longrightarrow> burns_shares A (slot_position infos) shares shares w w'"
begin

lemma entry_overdrawn:
  assumes "adapter_entry A rt infos data w = Inr w'"
    and "system_creates rt" and "calls_isolate rt (ad_id A)"
    and inv: "ledger_inv (ad_id A) addr (ledger_of A w) (events w)"
  shows "overdrawn (ad_id A) p (events w') = overdrawn (ad_id A) p (events w)"
proof -
  from assms(1) obtain ix where run: "(case ix of
       IxInitialize v \<Rightarrow> ad_initialize A rt infos v w
     | IxDeposit amount v \<Rightarrow> ad_deposit A rt infos amount v w
     | IxWithdraw shares v \<Rightarrow> ad_withdraw A rt infos shares v w
     | IxCurrentValue v \<Rightarrow> ad_current_value A rt infos v w) = Inr w'"
    by (auto simp: adapter_entry_def and_then_eq_Inr)
  show ?thesis
  proof (cases ix)
    case (IxInitialize v)
    with run assms(2,3) have "opens_row A rt (slot_position infos) w w'" using initialize_law by simp
    then show ?thesis by (auto simp: opens_row_def silent_def overdrawn_append_silent)
  next
    case (IxDeposit amount v)
    with run assms(3) have "mints_shares A (slot_position infos) amount w w'" using deposit_law by simp
    then show ?thesis by (auto simp: mints_shares_def overdrawn_entry)
  next
    case (IxWithdraw shares v)
    with run have "ad_withdraw A rt infos shares v w = Inr w'" by simp
    from withdraw_exact [OF this assms(3)] obtain k h a and n :: u64 and es where
      row: "ledger_of A w k = Some h" and p: "hdr_position h = slot_position infos" and
      n: "unat n + unat shares = unat (hdr_total_shares h)" and
      ev: "events w' = events w @ es @ [(ad_id A, AdapterWithdrawEvent (slot_position infos) shares a)]"
      and q: "ad_id A \<notin> fst ` set es"
      unfolding burns_shares_def by blast
    have "unat (hdr_total_shares h) = replay (ad_id A) (slot_position infos) (events w)"
      using inv row p by (auto simp: ledger_inv_def)
    with n show ?thesis unfolding ev by (intro overdrawn_entry [OF q]) auto
  next
    case (IxCurrentValue v)
    with run assms(3) have "reports_value A (slot_position infos) w w'" using current_value_law by simp
    then show ?thesis by (auto simp: reports_value_def overdrawn_entry)
  qed
qed

lemma never_overdrawn:
  assumes "chain (ad_id A) rt R" and "adapter_reachable A R w"
  shows "overdrawn (ad_id A) p (events w) = 0"
  using assms(2)
proof (induction rule: adapter_reachable.induct)
  case (start w)
  then show ?case using overdrawn_silent by (simp add: overdrawn_def)
next
  case (step w r w')
  note r = chainD [OF assms(1) step.hyps(2)]
  from step.hyps(3) show ?case
  proof cases
    case (instruction infos data)
    from entry_overdrawn [OF this r(1,2) reachable_inv [OF assms(1) step.hyps(1)]] step.IH
    show ?thesis by simp
  next
    case environment
    then show ?thesis using step.IH by (auto simp: silent_def overdrawn_append_silent)
  qed
qed

lemma shares_are_sum:
  assumes "chain (ad_id A) rt R" and "adapter_reachable A R w" and "ledger_of A w k = Some h"
  shows "unat (hdr_total_shares h) + requested (ad_id A) (hdr_position h) (events w) =
         minted (ad_id A) (hdr_position h) (events w)"
  using replay_sum [of "ad_id A" "hdr_position h" "events w"] shares_are_replay(1) [OF assms]
    never_overdrawn [OF assms(1,2)]
  by simp

end

end
