(* ===== verification/Klend.thy ===== *)
theory Klend
  imports Adapter
begin

text \<open>
  programs/kamino-usdc/src/klend_cpi.rs: pricing cTokens from the bytes of a klend reserve, and
  the three klend calls.  klend itself is not code of the repository: the calls go through
  \<open>rt_invoke\<close>, and every failure is reported as \<open>CpiFailed\<close>.
\<close>

definition kamino_id :: pubkey where
  "kamino_id = pubkey_of_b58 ''BSwbiwogeLmYLYXfYb3t4WWNDD3x5tJHCZyZJLVRLuf9''"

section \<open>Pricing\<close>

definition OFF_LAST_UPDATE_SLOT :: nat where "OFF_LAST_UPDATE_SLOT = 16"
definition OFF_TOTAL_AVAILABLE :: nat where "OFF_TOTAL_AVAILABLE = 224"
definition OFF_BORROWED_SF :: nat where "OFF_BORROWED_SF = 232"
definition OFF_COLLATERAL_SUPPLY :: nat where "OFF_COLLATERAL_SUPPLY = 2592"
definition SF_SHIFT :: nat where "SF_SHIFT = 60"

lemmas reserve_offsets =
  OFF_LAST_UPDATE_SLOT_def OFF_TOTAL_AVAILABLE_def OFF_BORROWED_SF_def OFF_COLLATERAL_SUPPLY_def
  SF_SHIFT_def

definition reserve_last_update_slot :: "bytes \<Rightarrow> u64 res" where
  "reserve_last_update_slot reserve_data = read_u64 reserve_data OFF_LAST_UPDATE_SLOT"

definition collateral_value_usdc :: "bytes \<Rightarrow> u64 \<Rightarrow> u64 res" where
  "collateral_value_usdc reserve_data shares =
     and_then (read_u64 reserve_data OFF_TOTAL_AVAILABLE) (\<lambda>a.
     let available = ucast a :: u128 in
     and_then (read_u128 reserve_data OFF_BORROWED_SF) (\<lambda>borrowed_sf.
     let borrowed = drop_bit SF_SHIFT borrowed_sf in
     and_then (read_u64 reserve_data OFF_COLLATERAL_SUPPLY) (\<lambda>c.
     let collateral_supply = ucast c :: u128 in
     if shares = 0 then Inr 0
     else if collateral_supply = 0 then Inl mo
     else and_then (ok_or (checked_add available borrowed) mo) (\<lambda>total_liquidity.
          and_then (ok_or (checked_mul (ucast shares) total_liquidity) mo) (\<lambda>p.
          and_then (ok_or (checked_div p collateral_supply) mo) (\<lambda>value.
          ok_or (try_from value) mo))))))"

text \<open>The three numbers a reserve is priced from.\<close>

definition reserve_liquidity :: "bytes \<Rightarrow> nat" where
  "reserve_liquidity d =
     le_to_nat (take 8 (drop 224 d)) + le_to_nat (take 16 (drop 232 d)) div 2 ^ 60"

definition reserve_supply :: "bytes \<Rightarrow> nat" where
  "reserve_supply d = le_to_nat (take 8 (drop 2592 d))"

lemma collateral_value_usdc_spec:
  "collateral_value_usdc d shares =
     (if 2600 \<le> length d
      then if shares = 0 then Inr 0
           else pro_rata (unat shares) (reserve_liquidity d) (reserve_supply d)
      else Inl mo)"
proof (cases "2600 \<le> length d")
  case False
  then show ?thesis
    by (auto simp: collateral_value_usdc_def reserve_offsets read_u64_eq read_u128_eq)
next
  case True
  define a :: u64 where "a = from_le_bytes (take 8 (drop 224 d))"
  define b :: u128 where "b = from_le_bytes (take 16 (drop 232 d))"
  define c :: u64 where "c = from_le_bytes (take 8 (drop 2592 d))"
  have ua: "unat a = le_to_nat (take 8 (drop 224 d))" and uc: "unat c = reserve_supply d"
    and ub: "unat b = le_to_nat (take 16 (drop 232 d))"
    unfolding a_def b_def c_def reserve_supply_def using True
    by (simp_all add: unat_from_le_bytes)
  have db: "unat (drop_bit 60 b) = unat b div 2 ^ 60" by (rule unat_drop_bit)
  have "unat b div 2 ^ 60 < 2 ^ 68" using unat_u128_less [of b] by (simp add: less_mult_imp_div_less)
  then have sum: "unat a + unat b div 2 ^ 60 < 2 ^ 128" using unat_u64_less [of a] by simp
  then have add: "checked_add (ucast a :: u128) (drop_bit 60 b) = Some (ucast a + drop_bit 60 b)"
    by (simp add: checked_add_def db)
  have tot: "unat (ucast a + drop_bit 60 b :: u128) = reserve_liquidity d"
    using sum by (simp add: unat_word_ariths db reserve_liquidity_def ua ub)
  have reads: "read_u64 d OFF_TOTAL_AVAILABLE = Inr a" "read_u128 d OFF_BORROWED_SF = Inr b"
    "read_u64 d OFF_COLLATERAL_SUPPLY = Inr c"
    using True by (simp_all add: read_u64_eq read_u128_eq reserve_offsets a_def b_def c_def)
  have c0: "(ucast c :: u128) = 0 \<longleftrightarrow> reserve_supply d = 0"
    by (simp add: word_unat_eq_iff uc)
  show ?thesis
    using True c0
    by (simp add: collateral_value_usdc_def reads Let_def add SF_SHIFT_def mul_div_chain tot uc)
      (simp add: pro_rata_def)
qed

text \<open>The sum of the two liquidity parts never overflows: only the product can.\<close>

lemma reserve_liquidity_bound:
  assumes "2600 \<le> length d"
  shows "reserve_liquidity d < 2 ^ 69"
proof -
  have "le_to_nat (take 8 (drop 224 d)) < 256 ^ 8" and "le_to_nat (take 16 (drop 232 d)) < 256 ^ 16"
    using le_to_nat_less [of "take 8 (drop 224 d)"] le_to_nat_less [of "take 16 (drop 232 d)"] assms
    by simp_all
  then show ?thesis unfolding reserve_liquidity_def
    by (simp add: less_mult_imp_div_less)
qed

interpretation klend: share_pricing "collateral_value_usdc d"
proof (cases "2600 \<le> length d")
  case True
  then have "collateral_value_usdc d =
      (\<lambda>s. if s = 0 then Inr 0 else pro_rata (unat s) (reserve_liquidity d) (reserve_supply d))"
    by (intro ext) (simp add: collateral_value_usdc_spec)
  then show "share_pricing (collateral_value_usdc d)" by (simp only: zero_or_pro_rata)
next
  case False
  then have "collateral_value_usdc d = (\<lambda>_. Inl mo)"
    by (intro ext) (simp add: collateral_value_usdc_spec)
  then show "share_pricing (collateral_value_usdc d)" by unfold_locales auto
qed

section \<open>The klend calls\<close>

definition KLEND_REFRESH_RESERVE :: bytes where
  "KLEND_REFRESH_RESERVE = [2, 218, 138, 235, 79, 201, 25, 102]"

definition KLEND_DEPOSIT_RESERVE_LIQUIDITY :: bytes where
  "KLEND_DEPOSIT_RESERVE_LIQUIDITY = [169, 201, 30, 126, 6, 205, 102, 68]"

definition KLEND_REDEEM_RESERVE_COLLATERAL :: bytes where
  "KLEND_REDEEM_RESERVE_COLLATERAL = [234, 117, 181, 125, 185, 142, 220, 29]"

definition u64_data :: "bytes \<Rightarrow> u64 \<Rightarrow> bytes" where
  "u64_data disc amount = disc @ to_le_bytes 8 amount"

record klend_accounts =
  kl_program :: account_info
  kl_owner :: account_info
  kl_reserve :: account_info
  kl_lending_market :: account_info
  kl_lending_market_authority :: account_info
  kl_reserve_liquidity_mint :: account_info
  kl_reserve_liquidity_supply :: account_info
  kl_reserve_collateral_mint :: account_info
  kl_user_liquidity :: account_info
  kl_user_collateral :: account_info
  kl_collateral_token_program :: account_info
  kl_liquidity_token_program :: account_info
  kl_instruction_sysvar :: account_info
  kl_scope_prices :: account_info

definition refresh_reserve ::
  "runtime \<Rightarrow> account_info \<Rightarrow> account_info \<Rightarrow> account_info \<Rightarrow> account_info \<Rightarrow> world \<Rightarrow> world res" where
  "refresh_reserve rt klend_program reserve lending_market scope_prices w =
     map_err
       (rt_invoke rt kamino_id
         \<lparr>ix_program = ai_key klend_program,
          ix_accounts =
            [meta_new (ai_key reserve) False,
             meta_readonly (ai_key lending_market) False,
             meta_readonly (ai_key klend_program) False,
             meta_readonly (ai_key klend_program) False,
             meta_readonly (ai_key klend_program) False,
             meta_readonly (ai_key scope_prices) False],
          ix_data = KLEND_REFRESH_RESERVE\<rparr>
         [reserve, lending_market, klend_program, scope_prices] [] w)
       cpi_failed"

definition deposit_reserve_liquidity ::
  "runtime \<Rightarrow> klend_accounts \<Rightarrow> u64 \<Rightarrow> world \<Rightarrow> world res" where
  "deposit_reserve_liquidity rt a liquidity_amount w =
     map_err
       (rt_invoke rt kamino_id
         \<lparr>ix_program = ai_key (kl_program a),
          ix_accounts =
            [meta_readonly (ai_key (kl_owner a)) True,
             meta_new (ai_key (kl_reserve a)) False,
             meta_readonly (ai_key (kl_lending_market a)) False,
             meta_readonly (ai_key (kl_lending_market_authority a)) False,
             meta_readonly (ai_key (kl_reserve_liquidity_mint a)) False,
             meta_new (ai_key (kl_reserve_liquidity_supply a)) False,
             meta_new (ai_key (kl_reserve_collateral_mint a)) False,
             meta_new (ai_key (kl_user_liquidity a)) False,
             meta_new (ai_key (kl_user_collateral a)) False,
             meta_readonly (ai_key (kl_collateral_token_program a)) False,
             meta_readonly (ai_key (kl_liquidity_token_program a)) False,
             meta_readonly (ai_key (kl_instruction_sysvar a)) False],
          ix_data = u64_data KLEND_DEPOSIT_RESERVE_LIQUIDITY liquidity_amount\<rparr>
         [kl_owner a, kl_reserve a, kl_lending_market a, kl_lending_market_authority a,
          kl_reserve_liquidity_mint a, kl_reserve_liquidity_supply a,
          kl_reserve_collateral_mint a, kl_user_liquidity a, kl_user_collateral a,
          kl_collateral_token_program a, kl_liquidity_token_program a, kl_instruction_sysvar a]
         [] w)
       cpi_failed"

definition redeem_reserve_collateral ::
  "runtime \<Rightarrow> klend_accounts \<Rightarrow> u64 \<Rightarrow> world \<Rightarrow> world res" where
  "redeem_reserve_collateral rt a collateral_amount w =
     map_err
       (rt_invoke rt kamino_id
         \<lparr>ix_program = ai_key (kl_program a),
          ix_accounts =
            [meta_readonly (ai_key (kl_owner a)) True,
             meta_readonly (ai_key (kl_lending_market a)) False,
             meta_new (ai_key (kl_reserve a)) False,
             meta_readonly (ai_key (kl_lending_market_authority a)) False,
             meta_readonly (ai_key (kl_reserve_liquidity_mint a)) False,
             meta_new (ai_key (kl_reserve_collateral_mint a)) False,
             meta_new (ai_key (kl_reserve_liquidity_supply a)) False,
             meta_new (ai_key (kl_user_collateral a)) False,
             meta_new (ai_key (kl_user_liquidity a)) False,
             meta_readonly (ai_key (kl_collateral_token_program a)) False,
             meta_readonly (ai_key (kl_liquidity_token_program a)) False,
             meta_readonly (ai_key (kl_instruction_sysvar a)) False],
          ix_data = u64_data KLEND_REDEEM_RESERVE_COLLATERAL collateral_amount\<rparr>
         [kl_owner a, kl_lending_market a, kl_reserve a, kl_lending_market_authority a,
          kl_reserve_liquidity_mint a, kl_reserve_collateral_mint a,
          kl_reserve_liquidity_supply a, kl_user_collateral a, kl_user_liquidity a,
          kl_collateral_token_program a, kl_liquidity_token_program a, kl_instruction_sysvar a]
         [] w)
       cpi_failed"

section \<open>Properties\<close>

text \<open>
  C21: the value of cTokens is the floor of shares times reserve liquidity over cToken supply, computed
  exactly over the naturals; a short reserve, an empty supply, a product beyond 128 bits and a
  value beyond 64 bits are all \<open>MathOverflow\<close>, and nothing else fails.
\<close>

theorem kamino_price:
  "collateral_value_usdc d shares =
     (if length d < 2600 then Inl mo
      else if shares = 0 then Inr 0
      else
        let product = unat shares * reserve_liquidity d; supply = reserve_supply d in
        if supply = 0 \<or> 2 ^ 128 \<le> product \<or> 2 ^ 64 \<le> product div supply then Inl mo
        else Inr (word_of_nat (product div supply)))"
  by (auto simp: collateral_value_usdc_spec pro_rata_def Let_def not_le)

text \<open>
  C34: splitting a priced holding of cTokens among positions prices every part and never raises the
  total value.
\<close>

theorem kamino_split_value:
  assumes "collateral_value_usdc d s = Inr v" and "unat s = sum_list (map unat parts)"
  shows "\<exists>vs. list_all2 (\<lambda>p x. collateral_value_usdc d p = Inr x) parts vs \<and>
              sum_list (map unat vs) \<le> unat v"
  using assms by (rule klend.split_sum)

end
