(* ===== verification/Kamino.thy ===== *)
theory Kamino
  imports Klend
begin

text \<open>
  The Kamino Lend adapter (programs/kamino-usdc): its state account, the four instructions with
  their account validation, and the interpretation of the adapter standard on them.
\<close>

section \<open>State\<close>

record kamino_state =
  ks_header :: adapter_state_header
  ks_kamino_reserve :: pubkey
  ks_collateral_vault :: pubkey
  ks_bump :: u8

definition kamino_codec :: "kamino_state codec" where
  "kamino_codec =
     \<lparr>co_disc = [88, 130, 126, 170, 183, 106, 151, 212],
      co_space = 8 + (80 + 32 + 32 + 1),
      co_enc = (\<lambda>s. enc_header (ks_header s) @ pubkey_bytes (ks_kamino_reserve s) @
                    pubkey_bytes (ks_collateral_vault s) @ to_le_bytes 1 (ks_bump s)),
      co_dec = (\<lambda>bs. do {
        (h, bs) \<leftarrow> dec_header bs;
        (r, bs) \<leftarrow> dec_pubkey bs;
        (v, bs) \<leftarrow> dec_pubkey bs;
        (b, bs) \<leftarrow> dec_word 1 bs;
        Some (\<lparr>ks_header = h, ks_kamino_reserve = r, ks_collateral_vault = v, ks_bump = b\<rparr>, bs)})\<rparr>"

interpretation kamino_state: anchor_account kamino_codec "\<lambda>_. True"
proof unfold_locales
  fix x :: kamino_state and r
  show "co_dec kamino_codec (co_enc kamino_codec x @ r) = Some (x, r)"
    by (simp add: kamino_codec_def codec_simps del: One_nat_def)
qed (simp_all add: kamino_codec_def replicate_8)

section \<open>adapter_initialize\<close>

record kamino_initialize_ctx =
  ki_instructions_sysvar :: account_info
  ki_position :: account_info
  ki_adapter_state :: account_info
  ki_rent_payer :: account_info
  ki_reserve :: account_info
  ki_reserve_collateral_mint :: account_info
  ki_collateral_vault :: account_info
  ki_bump :: u8

definition kamino_initialize_accounts ::
  "runtime \<Rightarrow> account_info list \<Rightarrow> world \<Rightarrow> (kamino_initialize_ctx \<times> world) res" where
  "kamino_initialize_accounts rt infos w =
     and_then (take_info infos) (\<lambda>(instructions_sysvar, infos).
     and_then (take_info infos) (\<lambda>(position, infos).
     and_then (take_info infos) (\<lambda>(adapter_state, infos).
     and_then (take_signer infos) (\<lambda>(rent_payer, infos).
     and_then (take_program (rt_system_program rt) w infos) (\<lambda>(system_program, infos).
     and_then (take_info infos) (\<lambda>(reserve, infos).
     and_then (take_mint rt w infos) (\<lambda>(reserve_collateral_mint, infos).
     and_then (take_info infos) (\<lambda>(collateral_vault, infos).
     and_then (take_program (rt_token_program rt) w infos) (\<lambda>(token_program, infos).
     and_then (take_program (rt_ata_program rt) w infos) (\<lambda>(associated_token_program, infos).
     and_then (c_init rt rent_payer adapter_state (co_space kamino_codec)
                 (adapter_seeds kamino_id (ai_key position)) kamino_id w) (\<lambda>(bump, w).
     and_then (c_init_ata rt rent_payer collateral_vault (ai_key position)
                 (ai_key reserve_collateral_mint) w) (\<lambda>(vault, w).
     and_then (c_address instructions_sysvar (rt_instructions_sysvar rt)
                 (AnchorErr ConstraintAddress)) (\<lambda>_.
     and_then (c_mut rent_payer) (\<lambda>_.
     Inr (\<lparr>ki_instructions_sysvar = instructions_sysvar, ki_position = position,
           ki_adapter_state = adapter_state, ki_rent_payer = rent_payer, ki_reserve = reserve,
           ki_reserve_collateral_mint = reserve_collateral_mint,
           ki_collateral_vault = collateral_vault, ki_bump = bump\<rparr>, w)))))))))))))))"

definition kamino_initialize_handler ::
  "runtime \<Rightarrow> kamino_initialize_ctx \<Rightarrow> bytes \<Rightarrow> kamino_state res" where
  "kamino_initialize_handler rt ctx adapter_data =
     and_then (require (length adapter_data \<le> MAX_ADAPTER_DATA_LEN)
                 (AdapterErr AdapterDataTooLarge)) (\<lambda>_.
     and_then (verify_caller_is_dispatcher rt (ki_instructions_sysvar ctx) DISPATCHER_ID) (\<lambda>_.
     Inr \<lparr>ks_header = \<lparr>hdr_position = ai_key (ki_position ctx), hdr_adapter_program = kamino_id,
                       hdr_created_at = clock_unix_timestamp (rt_clock rt),
                       hdr_total_shares = 0\<rparr>,
          ks_kamino_reserve = ai_key (ki_reserve ctx),
          ks_collateral_vault = ai_key (ki_collateral_vault ctx),
          ks_bump = ki_bump ctx\<rparr>))"

definition kamino_initialize ::
  "runtime \<Rightarrow> account_info list \<Rightarrow> bytes \<Rightarrow> world \<Rightarrow> world res" where
  "kamino_initialize rt infos adapter_data w =
     and_then (kamino_initialize_accounts rt infos w) (\<lambda>(ctx, w).
     and_then (kamino_initialize_handler rt ctx adapter_data) (\<lambda>state.
     store_account kamino_codec (ai_key (ki_adapter_state ctx)) state w))"

section \<open>adapter_deposit and adapter_withdraw\<close>

text \<open>The two instructions declare the same fifteen accounts with the same constraints.\<close>

record kamino_fund_ctx =
  kf_instructions_sysvar :: account_info
  kf_position :: account_info
  kf_position_usdc_pool :: "token_account typed"
  kf_adapter_state :: "kamino_state typed"
  kf_reserve :: account_info
  kf_lending_market :: account_info
  kf_lending_market_authority :: account_info
  kf_reserve_liquidity_mint :: account_info
  kf_reserve_liquidity_supply :: account_info
  kf_reserve_collateral_mint :: account_info
  kf_collateral_vault :: "token_account typed"
  kf_collateral_token_program :: account_info
  kf_liquidity_token_program :: account_info
  kf_scope_prices :: account_info
  kf_klend_program :: account_info

definition kamino_fund_accounts ::
  "runtime \<Rightarrow> account_info list \<Rightarrow> world \<Rightarrow> kamino_fund_ctx res" where
  "kamino_fund_accounts rt infos w =
     and_then (take_info infos) (\<lambda>(instructions_sysvar, infos).
     and_then (take_info infos) (\<lambda>(position, infos).
     and_then (take_token rt w infos) (\<lambda>(position_usdc_pool, infos).
     and_then (take_account kamino_codec kamino_id w infos) (\<lambda>(adapter_state, infos).
     and_then (take_info infos) (\<lambda>(reserve, infos).
     and_then (take_info infos) (\<lambda>(lending_market, infos).
     and_then (take_info infos) (\<lambda>(lending_market_authority, infos).
     and_then (take_info infos) (\<lambda>(reserve_liquidity_mint, infos).
     and_then (take_info infos) (\<lambda>(reserve_liquidity_supply, infos).
     and_then (take_info infos) (\<lambda>(reserve_collateral_mint, infos).
     and_then (take_token rt w infos) (\<lambda>(collateral_vault, infos).
     and_then (take_info infos) (\<lambda>(collateral_token_program, infos).
     and_then (take_info infos) (\<lambda>(liquidity_token_program, infos).
     and_then (take_info infos) (\<lambda>(scope_prices, infos).
     and_then (take_info infos) (\<lambda>(klend_program, infos).
     and_then (c_address instructions_sysvar (rt_instructions_sysvar rt)
                 (AnchorErr ConstraintAddress)) (\<lambda>_.
     and_then (c_mut (ty_info position_usdc_pool)) (\<lambda>_.
     and_then (c_seeds rt (adapter_seeds kamino_id (ai_key position) @ [[ks_bump (ty_val adapter_state)]])
                 kamino_id (ty_info adapter_state)) (\<lambda>_.
     and_then (c_mut (ty_info adapter_state)) (\<lambda>_.
     and_then (require (hdr_position (ks_header (ty_val adapter_state)) = ai_key position)
                 unauthorized) (\<lambda>_.
     and_then (c_mut reserve) (\<lambda>_.
     and_then (c_address reserve (ks_kamino_reserve (ty_val adapter_state)) unauthorized) (\<lambda>_.
     and_then (c_mut reserve_liquidity_supply) (\<lambda>_.
     and_then (c_mut reserve_collateral_mint) (\<lambda>_.
     and_then (c_mut (ty_info collateral_vault)) (\<lambda>_.
     and_then (c_address (ty_info collateral_vault) (ks_collateral_vault (ty_val adapter_state))
                 unauthorized) (\<lambda>_.
     and_then (require (info_owner rt w (ai_key reserve) = ai_key klend_program) unauthorized) (\<lambda>_.
     and_then (c_executable w klend_program) (\<lambda>_.
     Inr \<lparr>kf_instructions_sysvar = instructions_sysvar, kf_position = position,
          kf_position_usdc_pool = position_usdc_pool, kf_adapter_state = adapter_state,
          kf_reserve = reserve, kf_lending_market = lending_market,
          kf_lending_market_authority = lending_market_authority,
          kf_reserve_liquidity_mint = reserve_liquidity_mint,
          kf_reserve_liquidity_supply = reserve_liquidity_supply,
          kf_reserve_collateral_mint = reserve_collateral_mint,
          kf_collateral_vault = collateral_vault,
          kf_collateral_token_program = collateral_token_program,
          kf_liquidity_token_program = liquidity_token_program, kf_scope_prices = scope_prices,
          kf_klend_program = klend_program\<rparr>))))))))))))))))))))))))))))"

definition kamino_klend_accounts :: "kamino_fund_ctx \<Rightarrow> klend_accounts" where
  "kamino_klend_accounts ctx =
     \<lparr>kl_program = kf_klend_program ctx, kl_owner = kf_position ctx, kl_reserve = kf_reserve ctx,
      kl_lending_market = kf_lending_market ctx,
      kl_lending_market_authority = kf_lending_market_authority ctx,
      kl_reserve_liquidity_mint = kf_reserve_liquidity_mint ctx,
      kl_reserve_liquidity_supply = kf_reserve_liquidity_supply ctx,
      kl_reserve_collateral_mint = kf_reserve_collateral_mint ctx,
      kl_user_liquidity = ty_info (kf_position_usdc_pool ctx),
      kl_user_collateral = ty_info (kf_collateral_vault ctx),
      kl_collateral_token_program = kf_collateral_token_program ctx,
      kl_liquidity_token_program = kf_liquidity_token_program ctx,
      kl_instruction_sysvar = kf_instructions_sysvar ctx,
      kl_scope_prices = kf_scope_prices ctx\<rparr>"

definition kamino_book :: "u64 \<Rightarrow> kamino_state \<Rightarrow> kamino_state" where
  "kamino_book n s = s\<lparr>ks_header := (ks_header s)\<lparr>hdr_total_shares := n\<rparr>\<rparr>"

definition kamino_deposit_handler ::
  "runtime \<Rightarrow> kamino_fund_ctx \<Rightarrow> u64 \<Rightarrow> bytes \<Rightarrow> world \<Rightarrow> (kamino_state \<times> world) res" where
  "kamino_deposit_handler rt ctx amount adapter_data w =
     and_then (require (amount > 0) (AdapterErr adapter_error.ZeroAmount)) (\<lambda>_.
     and_then (require (length adapter_data \<le> MAX_ADAPTER_DATA_LEN)
                 (AdapterErr AdapterDataTooLarge)) (\<lambda>_.
     and_then (verify_caller_is_dispatcher rt (kf_instructions_sysvar ctx) DISPATCHER_ID) (\<lambda>_.
     let klend = kamino_klend_accounts ctx;
         state = ty_val (kf_adapter_state ctx) in
     and_then (refresh_reserve rt (kl_program klend) (kl_reserve klend) (kl_lending_market klend)
                 (kl_scope_prices klend) w) (\<lambda>w.
     let shares_before = tok_amount (ty_val (kf_collateral_vault ctx)) in
     and_then (deposit_reserve_liquidity rt klend amount w) (\<lambda>w.
     and_then (reload_token rt (ty_key (kf_collateral_vault ctx)) w) (\<lambda>vault.
     let shares_after = tok_amount vault in
     and_then (ok_or (checked_sub shares_after shares_before) mo) (\<lambda>shares_minted.
     and_then (ok_or (checked_add (hdr_total_shares (ks_header state)) shares_minted) mo) (\<lambda>n.
     Inr (kamino_book n state,
          emit_event kamino_id
            (AdapterDepositEvent (hdr_position (ks_header state)) amount shares_minted)
            (set_u64_return kamino_id shares_minted w))))))))))"

definition kamino_withdraw_handler ::
  "runtime \<Rightarrow> kamino_fund_ctx \<Rightarrow> u64 \<Rightarrow> bytes \<Rightarrow> world \<Rightarrow> (kamino_state \<times> world) res" where
  "kamino_withdraw_handler rt ctx shares adapter_data w =
     and_then (require (shares > 0) (AdapterErr adapter_error.ZeroAmount)) (\<lambda>_.
     and_then (require (length adapter_data \<le> MAX_ADAPTER_DATA_LEN)
                 (AdapterErr AdapterDataTooLarge)) (\<lambda>_.
     let state = ty_val (kf_adapter_state ctx) in
     and_then (require (shares \<le> hdr_total_shares (ks_header state))
                 (AdapterErr InsufficientShares)) (\<lambda>_.
     and_then (verify_caller_is_dispatcher rt (kf_instructions_sysvar ctx) DISPATCHER_ID) (\<lambda>_.
     let klend = kamino_klend_accounts ctx in
     and_then (refresh_reserve rt (kl_program klend) (kl_reserve klend) (kl_lending_market klend)
                 (kl_scope_prices klend) w) (\<lambda>w.
     let usdc_before = tok_amount (ty_val (kf_position_usdc_pool ctx)) in
     and_then (redeem_reserve_collateral rt klend shares w) (\<lambda>w.
     and_then (reload_token rt (ty_key (kf_position_usdc_pool ctx)) w) (\<lambda>pool.
     let usdc_after = tok_amount pool in
     and_then (ok_or (checked_sub usdc_after usdc_before) mo) (\<lambda>amount_out.
     and_then (ok_or (checked_sub (hdr_total_shares (ks_header state)) shares) mo) (\<lambda>n.
     Inr (kamino_book n state,
          emit_event kamino_id
            (AdapterWithdrawEvent (hdr_position (ks_header state)) shares amount_out)
            (set_u64_return kamino_id amount_out w)))))))))))"

text \<open>
  \<open>AdapterDeposit\<close> and \<open>AdapterWithdraw\<close> are two structs with the same fields and the same
  constraints in the same order.
\<close>

definition kamino_deposit_accounts ::
  "runtime \<Rightarrow> account_info list \<Rightarrow> world \<Rightarrow> kamino_fund_ctx res" where
  "kamino_deposit_accounts rt infos w = kamino_fund_accounts rt infos w"

definition kamino_withdraw_accounts ::
  "runtime \<Rightarrow> account_info list \<Rightarrow> world \<Rightarrow> kamino_fund_ctx res" where
  "kamino_withdraw_accounts rt infos w = kamino_fund_accounts rt infos w"

definition kamino_deposit ::
  "runtime \<Rightarrow> account_info list \<Rightarrow> u64 \<Rightarrow> bytes \<Rightarrow> world \<Rightarrow> world res" where
  "kamino_deposit rt infos amount adapter_data w =
     and_then (kamino_deposit_accounts rt infos w) (\<lambda>ctx.
     and_then (kamino_deposit_handler rt ctx amount adapter_data w) (\<lambda>(state, w).
     store_account kamino_codec (ty_key (kf_adapter_state ctx)) state w))"

definition kamino_withdraw ::
  "runtime \<Rightarrow> account_info list \<Rightarrow> u64 \<Rightarrow> bytes \<Rightarrow> world \<Rightarrow> world res" where
  "kamino_withdraw rt infos shares adapter_data w =
     and_then (kamino_withdraw_accounts rt infos w) (\<lambda>ctx.
     and_then (kamino_withdraw_handler rt ctx shares adapter_data w) (\<lambda>(state, w).
     store_account kamino_codec (ty_key (kf_adapter_state ctx)) state w))"

section \<open>adapter_current_value\<close>

record kamino_value_ctx =
  kv_instructions_sysvar :: account_info
  kv_position :: account_info
  kv_adapter_state :: "kamino_state typed"
  kv_reserve :: account_info
  kv_lending_market :: account_info
  kv_scope_prices :: account_info
  kv_klend_program :: account_info

definition kamino_value_accounts ::
  "runtime \<Rightarrow> account_info list \<Rightarrow> world \<Rightarrow> kamino_value_ctx res" where
  "kamino_value_accounts rt infos w =
     and_then (take_info infos) (\<lambda>(instructions_sysvar, infos).
     and_then (take_info infos) (\<lambda>(position, infos).
     and_then (take_account kamino_codec kamino_id w infos) (\<lambda>(adapter_state, infos).
     and_then (take_info infos) (\<lambda>(reserve, infos).
     and_then (take_info infos) (\<lambda>(lending_market, infos).
     and_then (take_info infos) (\<lambda>(scope_prices, infos).
     and_then (take_info infos) (\<lambda>(klend_program, infos).
     and_then (c_address instructions_sysvar (rt_instructions_sysvar rt)
                 (AnchorErr ConstraintAddress)) (\<lambda>_.
     and_then (c_seeds rt (adapter_seeds kamino_id (ai_key position) @ [[ks_bump (ty_val adapter_state)]])
                 kamino_id (ty_info adapter_state)) (\<lambda>_.
     and_then (require (hdr_position (ks_header (ty_val adapter_state)) = ai_key position)
                 unauthorized) (\<lambda>_.
     and_then (c_mut reserve) (\<lambda>_.
     and_then (c_address reserve (ks_kamino_reserve (ty_val adapter_state)) unauthorized) (\<lambda>_.
     and_then (require (info_owner rt w (ai_key reserve) = ai_key klend_program) unauthorized) (\<lambda>_.
     and_then (c_executable w klend_program) (\<lambda>_.
     Inr \<lparr>kv_instructions_sysvar = instructions_sysvar, kv_position = position,
          kv_adapter_state = adapter_state, kv_reserve = reserve,
          kv_lending_market = lending_market, kv_scope_prices = scope_prices,
          kv_klend_program = klend_program\<rparr>))))))))))))))"

definition kamino_value_handler ::
  "runtime \<Rightarrow> kamino_value_ctx \<Rightarrow> bytes \<Rightarrow> world \<Rightarrow> world res" where
  "kamino_value_handler rt ctx adapter_data w =
     and_then (require (length adapter_data \<le> MAX_ADAPTER_DATA_LEN)
                 (AdapterErr AdapterDataTooLarge)) (\<lambda>_.
     and_then (verify_caller_is_dispatcher rt (kv_instructions_sysvar ctx) DISPATCHER_ID) (\<lambda>_.
     and_then (refresh_reserve rt (kv_klend_program ctx) (kv_reserve ctx) (kv_lending_market ctx)
                 (kv_scope_prices ctx) w) (\<lambda>w.
     let header = ks_header (ty_val (kv_adapter_state ctx));
         shares = hdr_total_shares header;
         data = account_data w (ai_key (kv_reserve ctx)) in
     and_then (collateral_value_usdc data shares) (\<lambda>value.
     and_then (reserve_last_update_slot data) (\<lambda>reserve_slot.
     let as_of_slot = min (clock_slot (rt_clock rt)) reserve_slot in
     Inr (emit_event kamino_id (AdapterValueEvent (hdr_position header) value as_of_slot)
            (set_u64_return kamino_id value w)))))))"

definition kamino_current_value ::
  "runtime \<Rightarrow> account_info list \<Rightarrow> bytes \<Rightarrow> world \<Rightarrow> world res" where
  "kamino_current_value rt infos adapter_data w =
     and_then (kamino_value_accounts rt infos w) (\<lambda>ctx.
     kamino_value_handler rt ctx adapter_data w)"

definition kamino :: "kamino_state adapter" where
  "kamino =
     \<lparr>ad_id = kamino_id, ad_codec = kamino_codec, ad_header = ks_header,
      ad_initialize = kamino_initialize, ad_deposit = kamino_deposit,
      ad_withdraw = kamino_withdraw, ad_current_value = kamino_current_value\<rparr>"

section \<open>What success means\<close>

lemma kamino_fund_accounts_ok:
  "kamino_fund_accounts rt infos w = Inr ctx \<longleftrightarrow>
     (\<exists>rest. infos =
        [kf_instructions_sysvar ctx, kf_position ctx, ty_info (kf_position_usdc_pool ctx),
         ty_info (kf_adapter_state ctx), kf_reserve ctx, kf_lending_market ctx,
         kf_lending_market_authority ctx, kf_reserve_liquidity_mint ctx,
         kf_reserve_liquidity_supply ctx, kf_reserve_collateral_mint ctx,
         ty_info (kf_collateral_vault ctx), kf_collateral_token_program ctx,
         kf_liquidity_token_program ctx, kf_scope_prices ctx, kf_klend_program ctx] @ rest) \<and>
     load_token rt (ty_key (kf_position_usdc_pool ctx)) w = Inr (ty_val (kf_position_usdc_pool ctx)) \<and>
     load_account kamino_codec kamino_id (ty_key (kf_adapter_state ctx)) w =
       Inr (ty_val (kf_adapter_state ctx)) \<and>
     load_token rt (ty_key (kf_collateral_vault ctx)) w = Inr (ty_val (kf_collateral_vault ctx)) \<and>
     ai_key (kf_instructions_sysvar ctx) = rt_instructions_sysvar rt \<and>
     ai_writable (ty_info (kf_position_usdc_pool ctx)) \<and>
     rt_create_program_address rt
       (adapter_seeds kamino_id (ai_key (kf_position ctx)) @ [[ks_bump (ty_val (kf_adapter_state ctx))]])
       kamino_id = Some (ty_key (kf_adapter_state ctx)) \<and>
     ai_writable (ty_info (kf_adapter_state ctx)) \<and>
     hdr_position (ks_header (ty_val (kf_adapter_state ctx))) = ai_key (kf_position ctx) \<and>
     ai_writable (kf_reserve ctx) \<and>
     ai_key (kf_reserve ctx) = ks_kamino_reserve (ty_val (kf_adapter_state ctx)) \<and>
     ai_writable (kf_reserve_liquidity_supply ctx) \<and>
     ai_writable (kf_reserve_collateral_mint ctx) \<and>
     ai_writable (ty_info (kf_collateral_vault ctx)) \<and>
     ty_key (kf_collateral_vault ctx) = ks_collateral_vault (ty_val (kf_adapter_state ctx)) \<and>
     info_owner rt w (ai_key (kf_reserve ctx)) = ai_key (kf_klend_program ctx) \<and>
     account_executable w (ai_key (kf_klend_program ctx))"
  unfolding kamino_fund_accounts_def
  by (cases ctx) (auto simp: and_then_eq_Inr take_info_eq_Inr take_token_eq_Inr
      take_account_eq_Inr constraint_eq_Inr require_eq_Inr split: prod.splits)

lemma kamino_initialize_accounts_ok:
  "kamino_initialize_accounts rt infos w = Inr (ctx, w2) \<longleftrightarrow>
     (\<exists>system token ata rest.
        infos = [ki_instructions_sysvar ctx, ki_position ctx, ki_adapter_state ctx,
          ki_rent_payer ctx, system, ki_reserve ctx, ki_reserve_collateral_mint ctx,
          ki_collateral_vault ctx, token, ata] @ rest \<and>
        ai_key system = rt_system_program rt \<and> ai_key token = rt_token_program rt \<and>
        ai_key ata = rt_ata_program rt) \<and>
     account_executable w (rt_system_program rt) \<and>
     account_executable w (rt_token_program rt) \<and>
     account_executable w (rt_ata_program rt) \<and>
     ai_signer (ki_rent_payer ctx) \<and> ai_writable (ki_rent_payer ctx) \<and>
     load_mint rt (ai_key (ki_reserve_collateral_mint ctx)) w = Inr () \<and>
     rt_find_program_address rt (adapter_seeds kamino_id (ai_key (ki_position ctx))) kamino_id =
       (ai_key (ki_adapter_state ctx), ki_bump ctx) \<and>
     ai_writable (ki_adapter_state ctx) \<and> ai_writable (ki_collateral_vault ctx) \<and>
     (\<exists>w1 vault.
        rt_create_account rt (ai_key (ki_rent_payer ctx)) (ai_key (ki_adapter_state ctx))
          (co_space kamino_codec) kamino_id w = Inr w1 \<and>
        rt_create_ata rt (ai_key (ki_rent_payer ctx)) (ai_key (ki_collateral_vault ctx))
          (ai_key (ki_position ctx)) (ai_key (ki_reserve_collateral_mint ctx)) w1 = Inr w2 \<and>
        load_token rt (ai_key (ki_collateral_vault ctx)) w2 = Inr vault) \<and>
     ai_key (ki_instructions_sysvar ctx) = rt_instructions_sysvar rt"
  unfolding kamino_initialize_accounts_def
  by (cases ctx) (auto simp: and_then_eq_Inr take_info_eq_Inr take_signer_eq_Inr take_mint_eq_Inr
      take_program_eq_Inr c_init_eq_Inr c_init_ata_eq_Inr constraint_eq_Inr split: prod.splits)

lemma kamino_value_accounts_ok:
  "kamino_value_accounts rt infos w = Inr ctx \<longleftrightarrow>
     (\<exists>rest. infos =
        [kv_instructions_sysvar ctx, kv_position ctx, ty_info (kv_adapter_state ctx),
         kv_reserve ctx, kv_lending_market ctx, kv_scope_prices ctx, kv_klend_program ctx] @ rest) \<and>
     load_account kamino_codec kamino_id (ty_key (kv_adapter_state ctx)) w =
       Inr (ty_val (kv_adapter_state ctx)) \<and>
     ai_key (kv_instructions_sysvar ctx) = rt_instructions_sysvar rt \<and>
     rt_create_program_address rt
       (adapter_seeds kamino_id (ai_key (kv_position ctx)) @ [[ks_bump (ty_val (kv_adapter_state ctx))]])
       kamino_id = Some (ty_key (kv_adapter_state ctx)) \<and>
     hdr_position (ks_header (ty_val (kv_adapter_state ctx))) = ai_key (kv_position ctx) \<and>
     ai_writable (kv_reserve ctx) \<and>
     ai_key (kv_reserve ctx) = ks_kamino_reserve (ty_val (kv_adapter_state ctx)) \<and>
     info_owner rt w (ai_key (kv_reserve ctx)) = ai_key (kv_klend_program ctx) \<and>
     account_executable w (ai_key (kv_klend_program ctx))"
  unfolding kamino_value_accounts_def
  by (cases ctx) (auto simp: and_then_eq_Inr take_info_eq_Inr
      take_account_eq_Inr constraint_eq_Inr require_eq_Inr split: prod.splits)

text \<open>Deposits book what the collateral vault gained since the accounts were read.\<close>

lemma kamino_klend_accounts_simps [simp]:
  "kl_program (kamino_klend_accounts ctx) = kf_klend_program ctx"
  "kl_owner (kamino_klend_accounts ctx) = kf_position ctx"
  "kl_reserve (kamino_klend_accounts ctx) = kf_reserve ctx"
  "kl_lending_market (kamino_klend_accounts ctx) = kf_lending_market ctx"
  "kl_scope_prices (kamino_klend_accounts ctx) = kf_scope_prices ctx"
  "kl_user_liquidity (kamino_klend_accounts ctx) = ty_info (kf_position_usdc_pool ctx)"
  "kl_user_collateral (kamino_klend_accounts ctx) = ty_info (kf_collateral_vault ctx)"
  by (simp_all add: kamino_klend_accounts_def)

lemma kamino_deposit_handler_ok:
  assumes "ai_key (kf_instructions_sysvar ctx) = rt_instructions_sysvar rt"
  shows "kamino_deposit_handler rt ctx amount data w = Inr (s, w') \<longleftrightarrow>
     0 < amount \<and> data_fits data \<and> caller_ok rt \<and>
     (\<exists>w1 w2 vault m n.
        refresh_reserve rt (kf_klend_program ctx) (kf_reserve ctx) (kf_lending_market ctx)
          (kf_scope_prices ctx) w = Inr w1 \<and>
        deposit_reserve_liquidity rt (kamino_klend_accounts ctx) amount w1 = Inr w2 \<and>
        rt_token_unpack rt (account_data w2 (ty_key (kf_collateral_vault ctx))) = Some vault \<and>
        checked_sub (tok_amount vault) (tok_amount (ty_val (kf_collateral_vault ctx))) = Some m \<and>
        checked_add (hdr_total_shares (ks_header (ty_val (kf_adapter_state ctx)))) m = Some n \<and>
        s = kamino_book n (ty_val (kf_adapter_state ctx)) \<and>
        w' = emit_event kamino_id
               (AdapterDepositEvent (hdr_position (ks_header (ty_val (kf_adapter_state ctx)))) amount m)
               (set_u64_return kamino_id m w2))"
  unfolding kamino_deposit_handler_def
  by (auto simp: and_then_eq_Inr require_eq_Inr verify_caller_ok [OF assms] data_fits_def Let_def
      ok_or_eq_Inr reload_token_eq_Inr)

lemma kamino_withdraw_handler_ok:
  assumes "ai_key (kf_instructions_sysvar ctx) = rt_instructions_sysvar rt"
  shows "kamino_withdraw_handler rt ctx shares data w = Inr (s, w') \<longleftrightarrow>
     0 < shares \<and> data_fits data \<and> caller_ok rt \<and>
     shares \<le> hdr_total_shares (ks_header (ty_val (kf_adapter_state ctx))) \<and>
     (\<exists>w1 w2 pool a n.
        refresh_reserve rt (kf_klend_program ctx) (kf_reserve ctx) (kf_lending_market ctx)
          (kf_scope_prices ctx) w = Inr w1 \<and>
        redeem_reserve_collateral rt (kamino_klend_accounts ctx) shares w1 = Inr w2 \<and>
        rt_token_unpack rt (account_data w2 (ty_key (kf_position_usdc_pool ctx))) = Some pool \<and>
        checked_sub (tok_amount pool) (tok_amount (ty_val (kf_position_usdc_pool ctx))) = Some a \<and>
        checked_sub (hdr_total_shares (ks_header (ty_val (kf_adapter_state ctx)))) shares = Some n \<and>
        s = kamino_book n (ty_val (kf_adapter_state ctx)) \<and>
        w' = emit_event kamino_id
               (AdapterWithdrawEvent (hdr_position (ks_header (ty_val (kf_adapter_state ctx)))) shares a)
               (set_u64_return kamino_id a w2))"
  unfolding kamino_withdraw_handler_def
  by (auto simp: and_then_eq_Inr require_eq_Inr verify_caller_ok [OF assms] data_fits_def Let_def
      ok_or_eq_Inr reload_token_eq_Inr)

lemma kamino_value_handler_ok:
  assumes "ai_key (kv_instructions_sysvar ctx) = rt_instructions_sysvar rt"
  shows "kamino_value_handler rt ctx data w = Inr w' \<longleftrightarrow>
     data_fits data \<and> caller_ok rt \<and>
     (\<exists>w1 v slot.
        refresh_reserve rt (kv_klend_program ctx) (kv_reserve ctx) (kv_lending_market ctx)
          (kv_scope_prices ctx) w = Inr w1 \<and>
        collateral_value_usdc (account_data w1 (ai_key (kv_reserve ctx)))
          (hdr_total_shares (ks_header (ty_val (kv_adapter_state ctx)))) = Inr v \<and>
        reserve_last_update_slot (account_data w1 (ai_key (kv_reserve ctx))) = Inr slot \<and>
        w' = emit_event kamino_id
               (AdapterValueEvent (hdr_position (ks_header (ty_val (kv_adapter_state ctx)))) v
                  (min (clock_slot (rt_clock rt)) slot))
               (set_u64_return kamino_id v w1))"
  unfolding kamino_value_handler_def
  by (auto simp: and_then_eq_Inr require_eq_Inr verify_caller_ok [OF assms] data_fits_def Let_def)

section \<open>The adapter standard\<close>

lemma kamino_sel [simp]:
  "ad_id kamino = kamino_id" "ad_codec kamino = kamino_codec" "ad_header kamino = ks_header"
  "ad_initialize kamino = kamino_initialize" "ad_deposit kamino = kamino_deposit"
  "ad_withdraw kamino = kamino_withdraw" "ad_current_value kamino = kamino_current_value"
  by (simp_all add: kamino_def)

lemma ks_header_book [simp]: "ks_header (kamino_book n s) = book n (ks_header s)"
  by (simp add: kamino_book_def book_def)

lemma klend_calls:
  assumes "calls_isolate rt kamino_id"
  shows "refresh_reserve rt p r m s w = Inr w' \<Longrightarrow> isolated kamino_id w w' \<and> silent kamino_id w w'"
    and "deposit_reserve_liquidity rt a n w = Inr w' \<Longrightarrow> isolated kamino_id w w' \<and> silent kamino_id w w'"
    and "redeem_reserve_collateral rt a n w = Inr w' \<Longrightarrow> isolated kamino_id w w' \<and> silent kamino_id w w'"
  by (auto simp: refresh_reserve_def deposit_reserve_liquidity_def redeem_reserve_collateral_def
      map_err_eq_Inr dest: calls_isolateD(3) [OF assms] calls_silentD(3) [OF assms])

lemma kamino_initialize_law:
  assumes "kamino_initialize rt infos data w = Inr w'"
  shows "caller_ok rt \<and> data_fits data \<and>
     (system_creates rt \<longrightarrow> calls_isolate rt kamino_id \<longrightarrow> opens_row kamino rt (slot_position infos) w w')"
proof -
  from assms obtain ctx w2 s where acc: "kamino_initialize_accounts rt infos w = Inr (ctx, w2)"
    and h: "kamino_initialize_handler rt ctx data = Inr s"
    and st: "store_account kamino_codec (ai_key (ki_adapter_state ctx)) s w2 = Inr w'"
    by (auto simp: kamino_initialize_def and_then_eq_Inr)
  from acc obtain w1 where
    pda: "rt_find_program_address rt (adapter_seeds kamino_id (ai_key (ki_position ctx))) kamino_id =
       (ai_key (ki_adapter_state ctx), ki_bump ctx)" and
    cr: "rt_create_account rt (ai_key (ki_rent_payer ctx)) (ai_key (ki_adapter_state ctx))
          (co_space kamino_codec) kamino_id w = Inr w1" and
    ata: "rt_create_ata rt (ai_key (ki_rent_payer ctx)) (ai_key (ki_collateral_vault ctx))
          (ai_key (ki_position ctx)) (ai_key (ki_reserve_collateral_mint ctx)) w1 = Inr w2" and
    sv: "ai_key (ki_instructions_sysvar ctx) = rt_instructions_sysvar rt"
    by (auto simp: kamino_initialize_accounts_ok)
  from acc have slot: "slot_position infos = ai_key (ki_position ctx)"
    by (auto simp: kamino_initialize_accounts_ok slot_position_def)
  from h have ok: "caller_ok rt" "data_fits data" and
    hdr: "ks_header s = \<lparr>hdr_position = ai_key (ki_position ctx), hdr_adapter_program = kamino_id,
           hdr_created_at = clock_unix_timestamp (rt_clock rt), hdr_total_shares = 0\<rparr>"
    by (auto simp: kamino_initialize_handler_def and_then_eq_Inr require_eq_Inr
        verify_caller_ok [OF sv] data_fits_def)
  have "opens_row kamino rt (slot_position infos) w w'" if "system_creates rt" "calls_isolate rt kamino_id"
    unfolding slot by (rule kamino_state.opens_rowI [where A = kamino and y = s])
      (use that pda cr calls_isolateD(1) [OF that(2) ata] calls_silentD(1) [OF that(2) ata] st hdr in simp_all)
  with ok show ?thesis by simp
qed

lemma kamino_deposit_law:
  assumes "kamino_deposit rt infos amount data w = Inr w'"
  shows "caller_ok rt \<and> data_fits data \<and> 0 < amount \<and>
     (calls_isolate rt kamino_id \<longrightarrow> mints_shares kamino (slot_position infos) amount w w')"
proof -
  from assms obtain ctx s w3 where acc: "kamino_fund_accounts rt infos w = Inr ctx"
    and h: "kamino_deposit_handler rt ctx amount data w = Inr (s, w3)"
    and st: "store_account kamino_codec (ty_key (kf_adapter_state ctx)) s w3 = Inr w'"
    by (auto simp: kamino_deposit_def kamino_deposit_accounts_def and_then_eq_Inr)
  from acc have sv: "ai_key (kf_instructions_sysvar ctx) = rt_instructions_sysvar rt"
    and ld: "load_account kamino_codec kamino_id (ty_key (kf_adapter_state ctx)) w =
       Inr (ty_val (kf_adapter_state ctx))"
    by (simp_all add: kamino_fund_accounts_ok)
  from acc have slot: "slot_position infos = hdr_position (ks_header (ty_val (kf_adapter_state ctx)))"
    by (auto simp: kamino_fund_accounts_ok slot_position_def)
  from h obtain w1 w2 m n where ok: "caller_ok rt" "data_fits data" "0 < amount" and
    r1: "refresh_reserve rt (kf_klend_program ctx) (kf_reserve ctx) (kf_lending_market ctx)
        (kf_scope_prices ctx) w = Inr w1" and
    r2: "deposit_reserve_liquidity rt (kamino_klend_accounts ctx) amount w1 = Inr w2" and
    add: "checked_add (hdr_total_shares (ks_header (ty_val (kf_adapter_state ctx)))) m = Some n" and
    s: "s = kamino_book n (ty_val (kf_adapter_state ctx))" and
    w3: "w3 = emit_event kamino_id
             (AdapterDepositEvent (hdr_position (ks_header (ty_val (kf_adapter_state ctx)))) amount m)
             (set_u64_return kamino_id m w2)"
    by (auto simp: kamino_deposit_handler_ok [OF sv])
  have "mints_shares kamino (slot_position infos) amount w w'" if "calls_isolate rt kamino_id"
  proof -
    have "isolated kamino_id w w2" "silent kamino_id w w2"
      using klend_calls [OF that] r1 r2 by (blast intro: isolated_trans silent_trans)+
    then show ?thesis
      unfolding slot by (intro kamino_state.mints_sharesI [where A = kamino and y = s and ?w2.0 = w2 and n = n and m = m])
        (use ld st add in \<open>simp_all add: s w3 checked_add_Some\<close>)
  qed
  with ok show ?thesis by simp
qed

lemma kamino_withdraw_law:
  assumes "kamino_withdraw rt infos shares data w = Inr w'"
  shows "caller_ok rt \<and> data_fits data \<and> 0 < shares \<and>
     (calls_isolate rt kamino_id \<longrightarrow> burns_shares kamino (slot_position infos) shares shares w w')"
proof -
  from assms obtain ctx s w3 where acc: "kamino_fund_accounts rt infos w = Inr ctx"
    and h: "kamino_withdraw_handler rt ctx shares data w = Inr (s, w3)"
    and st: "store_account kamino_codec (ty_key (kf_adapter_state ctx)) s w3 = Inr w'"
    by (auto simp: kamino_withdraw_def kamino_withdraw_accounts_def and_then_eq_Inr)
  from acc have sv: "ai_key (kf_instructions_sysvar ctx) = rt_instructions_sysvar rt"
    and ld: "load_account kamino_codec kamino_id (ty_key (kf_adapter_state ctx)) w =
       Inr (ty_val (kf_adapter_state ctx))"
    by (simp_all add: kamino_fund_accounts_ok)
  from acc have slot: "slot_position infos = hdr_position (ks_header (ty_val (kf_adapter_state ctx)))"
    by (auto simp: kamino_fund_accounts_ok slot_position_def)
  from h obtain w1 w2 a n where ok: "caller_ok rt" "data_fits data" "0 < shares" and
    r1: "refresh_reserve rt (kf_klend_program ctx) (kf_reserve ctx) (kf_lending_market ctx)
        (kf_scope_prices ctx) w = Inr w1" and
    r2: "redeem_reserve_collateral rt (kamino_klend_accounts ctx) shares w1 = Inr w2" and
    sub: "checked_sub (hdr_total_shares (ks_header (ty_val (kf_adapter_state ctx)))) shares = Some n" and
    s: "s = kamino_book n (ty_val (kf_adapter_state ctx))" and
    w3: "w3 = emit_event kamino_id
             (AdapterWithdrawEvent (hdr_position (ks_header (ty_val (kf_adapter_state ctx)))) shares a)
             (set_u64_return kamino_id a w2)"
    by (auto simp: kamino_withdraw_handler_ok [OF sv])
  have "burns_shares kamino (slot_position infos) shares shares w w'" if "calls_isolate rt kamino_id"
  proof -
    have "isolated kamino_id w w2" "silent kamino_id w w2"
      using klend_calls [OF that] r1 r2 by (blast intro: isolated_trans silent_trans)+
    then show ?thesis
      unfolding slot by (intro kamino_state.burns_sharesI [where A = kamino and y = s and ?w2.0 = w2 and n = n and b = shares and a = a])
        (use ld st sub in \<open>simp_all add: s w3 checked_sub_Some\<close>)
  qed
  with ok show ?thesis by simp
qed

lemma kamino_current_value_law:
  assumes "kamino_current_value rt infos data w = Inr w'"
  shows "caller_ok rt \<and> data_fits data \<and>
     (calls_isolate rt kamino_id \<longrightarrow> reports_value kamino (slot_position infos) w w')"
proof -
  from assms obtain ctx where acc: "kamino_value_accounts rt infos w = Inr ctx"
    and h: "kamino_value_handler rt ctx data w = Inr w'"
    by (auto simp: kamino_current_value_def and_then_eq_Inr)
  from acc have sv: "ai_key (kv_instructions_sysvar ctx) = rt_instructions_sysvar rt"
    and ld: "load_account kamino_codec kamino_id (ty_key (kv_adapter_state ctx)) w =
       Inr (ty_val (kv_adapter_state ctx))"
    by (simp_all add: kamino_value_accounts_ok)
  from acc have slot: "slot_position infos = hdr_position (ks_header (ty_val (kv_adapter_state ctx)))"
    by (auto simp: kamino_value_accounts_ok slot_position_def)
  from h obtain w1 v slot where ok: "caller_ok rt" "data_fits data" and
    r1: "refresh_reserve rt (kv_klend_program ctx) (kv_reserve ctx) (kv_lending_market ctx)
        (kv_scope_prices ctx) w = Inr w1" and
    w': "w' = emit_event kamino_id
             (AdapterValueEvent (hdr_position (ks_header (ty_val (kv_adapter_state ctx)))) v slot)
             (set_u64_return kamino_id v w1)"
    by (auto simp: kamino_value_handler_ok [OF sv])
  have "reports_value kamino (slot_position infos) w w'" if "calls_isolate rt kamino_id"
    unfolding slot by (rule kamino_state.reports_valueI [where A = kamino, OF _ _ _ _ ])
      (use ld klend_calls(1) [OF that r1] w' in simp_all)
  with ok show ?thesis by simp
qed

interpretation kamino: guarded_adapter kamino
proof unfold_locales
  fix x :: kamino_state
  show "\<exists>tail. account_image (ad_codec kamino) x =
          co_disc (ad_codec kamino) @ enc_header (ad_header kamino x) @ tail"
    by (simp add: account_image_def kamino_codec_def)
qed (use kamino_initialize_law kamino_deposit_law kamino_withdraw_law kamino_withdraw_law [THEN exact_burns] kamino_current_value_law
       kamino_state.disc_length kamino_state.isolated_ledgerI [of kamino] in \<open>simp_all\<close>)

end
