(* ===== verification/Marginfi_Cpi.thy ===== *)
theory Marginfi_Cpi
  imports Adapter
begin

text \<open>
  programs/marginfi-usdc/src/marginfi_cpi.rs: the position's asset shares in a MarginFi account,
  the share value of a bank, their product in USDC, and the three MarginFi calls.  I80F48 values
  are 128-bit words read with \<open>sint\<close>.
\<close>

definition marginfi_id :: pubkey where
  "marginfi_id = pubkey_of_b58 ''5C6BQ9tJdyUjP8Dz1MxHXtYF8EuXX8nXZPLwZvwc6d93''"

section \<open>Reading shares and share value\<close>

definition BALANCES_OFF :: nat where "BALANCES_OFF = 72"
definition BALANCE_SIZE :: nat where "BALANCE_SIZE = 104"
definition BAL_ACTIVE :: nat where "BAL_ACTIVE = 0"
definition BAL_BANK_PK :: nat where "BAL_BANK_PK = 1"
definition BAL_ASSET_SHARES :: nat where "BAL_ASSET_SHARES = 40"
definition BANK_ASSET_SHARE_VALUE :: nat where "BANK_ASSET_SHARE_VALUE = 80"

lemmas marginfi_offsets =
  BALANCES_OFF_def BALANCE_SIZE_def BAL_ACTIVE_def BAL_BANK_PK_def BAL_ASSET_SHARES_def
  BANK_ASSET_SHARE_VALUE_def

definition read_i128 :: "bytes \<Rightarrow> nat \<Rightarrow> i128 res" where
  "read_i128 data off =
     and_then (ok_or (slice_get off 16 data) mo) (\<lambda>s.
     and_then (ok_or (try_into_array 16 s) mo) (\<lambda>b.
     Inr (from_le_bytes b)))"

text \<open>The loop over the sixteen balance slots, from slot \<open>i\<close> on.\<close>

fun scan_balances :: "bytes \<Rightarrow> pubkey \<Rightarrow> nat list \<Rightarrow> i128 res" where
  "scan_balances acct_data bank [] = Inr 0"
| "scan_balances acct_data bank (i # is) =
     (let base = BALANCES_OFF + i * BALANCE_SIZE in
      and_then (ok_or (list_get acct_data (base + BAL_ACTIVE)) mo) (\<lambda>active.
      if active = 0 then scan_balances acct_data bank is
      else
        and_then (ok_or (slice_get (base + BAL_BANK_PK) 32 acct_data) mo) (\<lambda>s.
        and_then (ok_or (try_into_array 32 s) mo) (\<lambda>pk.
        if pubkey_of_bytes pk = bank then read_i128 acct_data (base + BAL_ASSET_SHARES)
        else scan_balances acct_data bank is))))"

definition account_asset_shares :: "bytes \<Rightarrow> pubkey \<Rightarrow> i128 res" where
  "account_asset_shares acct_data bank = scan_balances acct_data bank [0..<16]"

definition bank_asset_share_value :: "bytes \<Rightarrow> i128 res" where
  "bank_asset_share_value bank_data = read_i128 bank_data BANK_ASSET_SHARE_VALUE"

definition shares_to_usdc :: "i128 \<Rightarrow> i128 \<Rightarrow> u64 res" where
  "shares_to_usdc asset_shares share_value =
     (if sint asset_shares \<le> 0 \<or> sint share_value \<le> 0 then Inr 0
      else
        let s = drop_bit 16 asset_shares :: u128; v = drop_bit 16 share_value :: u128 in
        and_then (ok_or (checked_mul s v) mo) (\<lambda>prod.
        Inr (ucast (drop_bit 64 prod))))"

text \<open>One balance slot: whether it is the active slot of the bank, and its shares.\<close>

definition slot_matches :: "bytes \<Rightarrow> pubkey \<Rightarrow> nat \<Rightarrow> bool" where
  "slot_matches d bank i \<longleftrightarrow>
     d ! (72 + i * 104) \<noteq> 0 \<and> pubkey_of_bytes (take 32 (drop (73 + i * 104) d)) = bank"

definition slot_shares :: "bytes \<Rightarrow> nat \<Rightarrow> i128" where
  "slot_shares d i = from_le_bytes (take 16 (drop (112 + i * 104) d))"

lemma scan_balances_find:
  assumes "\<forall>i\<in>set is. 176 + i * 104 \<le> length d"
  shows "scan_balances d bank is =
           (case find (slot_matches d bank) is of None \<Rightarrow> Inr 0 | Some i \<Rightarrow> Inr (slot_shares d i))"
  using assms
proof (induction "is")
  case Nil
  then show ?case by simp
next
  case (Cons i "is")
  then have len: "176 + i * 104 \<le> length d" by simp
  then have act: "list_get d (72 + i * 104) = Some (d ! (72 + i * 104))"
    and pk: "slice_get (73 + i * 104) 32 d = Some (take 32 (drop (73 + i * 104) d))"
    and arr: "try_into_array 32 (take 32 (drop (73 + i * 104) d)) =
                Some (take 32 (drop (73 + i * 104) d))"
    and sh: "read_i128 d (112 + i * 104) = Inr (slot_shares d i)"
    by (simp_all add: list_get_def slice_get_def try_into_array_def read_i128_def slot_shares_def)
  show ?case using Cons act pk arr sh
    by (auto simp: marginfi_offsets Let_def slot_matches_def add.commute add.left_commute)
qed

lemma account_asset_shares_find:
  assumes "1736 \<le> length d"
  shows "account_asset_shares d bank =
           (case find (slot_matches d bank) [0..<16] of
              None \<Rightarrow> Inr 0 | Some i \<Rightarrow> Inr (slot_shares d i))"
  unfolding account_asset_shares_def
  by (rule scan_balances_find) (use assms in auto)

section \<open>Fixed-point value\<close>

lemma sint_pos_unat:
  assumes "0 < sint (x :: i128)"
  shows "int (unat x) = sint x" and "unat x < 2 ^ 127"
proof -
  have b: "\<not> bit (uint x) 127"
  proof
    assume "bit (uint x) 127"
    then have "sint x < 0" by (simp add: sint_uint)
    with assms show False by simp
  qed
  have s: "sint x = take_bit 127 (uint x)"
    using b by (simp add: sint_uint signed_take_bit_eq_if_positive)
  have "uint x = take_bit (Suc 127) (uint x)"
    using uint_lt2p [of x] by (simp add: take_bit_int_eq_self)
  also have "\<dots> = take_bit 127 (uint x)" using b by (subst take_bit_Suc_from_most) simp
  finally have e: "uint x = take_bit 127 (uint x)" .
  then show "int (unat x) = sint x" using s by simp
  have "uint x < 2 ^ 127" using e take_bit_int_less_exp [of 127 "uint x"] by simp
  then have "int (unat x) < int (2 ^ 127)" by simp
  then show "unat x < 2 ^ 127" by (simp only: of_nat_less_iff)
qed

lemma shares_to_usdc_nat:
  assumes "0 < sint s" and "0 < sint v"
  shows "shares_to_usdc s v =
     (let p = (unat s div 2 ^ 16) * (unat v div 2 ^ 16) in
      if p < 2 ^ 128 then Inr (word_of_nat (p div 2 ^ 64)) else Inl mo)"
proof (cases "(unat s div 2 ^ 16) * (unat v div 2 ^ 16) < 2 ^ 128")
  case True
  define p where "p = (drop_bit 16 s :: u128) * drop_bit 16 v"
  have up: "unat p = (unat s div 2 ^ 16) * (unat v div 2 ^ 16)"
    using True by (simp add: p_def unat_word_ariths unat_drop_bit)
  have "(ucast (drop_bit 64 p) :: u64) = word_of_nat (unat (drop_bit 64 p))"
    by (simp add: unsigned_of_nat)
  also have "unat (drop_bit 64 p) = (unat s div 2 ^ 16) * (unat v div 2 ^ 16) div 2 ^ 64"
    by (simp only: unat_drop_bit up)
  finally have "(ucast (drop_bit 64 p) :: u64) =
      word_of_nat ((unat s div 2 ^ 16) * (unat v div 2 ^ 16) div 2 ^ 64)" .
  with True assms show ?thesis
    by (simp add: shares_to_usdc_def checked_mul_def unat_drop_bit Let_def p_def)
next
  case False
  with assms show ?thesis
    by (simp add: shares_to_usdc_def checked_mul_def unat_drop_bit Let_def)
qed

text \<open>The exact product and what the two shifts lose of it.\<close>

definition exact_usdc :: "i128 \<Rightarrow> i128 \<Rightarrow> nat" where
  "exact_usdc s v = unat s * unat v div 2 ^ 96"

lemma shift_loss:
  fixes s v :: nat
  defines "S \<equiv> s div 2 ^ 16" and "V \<equiv> v div 2 ^ 16"
  shows "S * V div 2 ^ 64 \<le> s * v div 2 ^ 96"
    and "s * v div 2 ^ 96 \<le> S * V div 2 ^ 64 + (S + V) div 2 ^ 64 + 2"
proof -
  have s: "2 ^ 16 * S \<le> s" "s < 2 ^ 16 * (S + 1)" and v: "2 ^ 16 * V \<le> v" "v < 2 ^ 16 * (V + 1)"
    unfolding S_def V_def using dividend_less_div_times [of "2 ^ 16" s] dividend_less_div_times [of "2 ^ 16" v]
    by simp_all
  have "2 ^ 32 * (S * V) \<le> s * v" using mult_mono [OF s(1) v(1)] by simp
  then have "2 ^ 32 * (S * V) div 2 ^ 96 \<le> s * v div 2 ^ 96" by (rule div_le_mono)
  moreover have "2 ^ 32 * (S * V) div 2 ^ 96 = S * V div 2 ^ 64"
    using div_mult_mult1 [of "2 ^ 32 :: nat" "S * V" "2 ^ 64"] by simp
  ultimately show "S * V div 2 ^ 64 \<le> s * v div 2 ^ 96" by simp
  have "s * v \<le> (2 ^ 16 * (S + 1)) * (2 ^ 16 * (V + 1))"
    using mult_mono [OF less_imp_le [OF s(2)] less_imp_le [OF v(2)]] by simp
  also have "\<dots> = 2 ^ 32 * (S * V + (S + V) + 1)" by (simp add: algebra_simps)
  finally have "s * v div 2 ^ 96 \<le> 2 ^ 32 * (S * V + (S + V) + 1) div 2 ^ 96" by (rule div_le_mono)
  also have "\<dots> = (S * V + (S + V) + 1) div 2 ^ 64"
    using div_mult_mult1 [of "2 ^ 32 :: nat" "S * V + (S + V) + 1" "2 ^ 64"] by simp
  also have "\<dots> \<le> S * V div 2 ^ 64 + (S + V) div 2 ^ 64 + 2" by simp
  finally show "s * v div 2 ^ 96 \<le> S * V div 2 ^ 64 + (S + V) div 2 ^ 64 + 2" .
qed

lemma shares_to_usdc_Inr:
  assumes "0 < sint s" and "0 < sint v" and "shares_to_usdc s v = Inr r"
  shows "unat r = (unat s div 2 ^ 16) * (unat v div 2 ^ 16) div 2 ^ 64"
proof -
  let ?p = "(unat s div 2 ^ 16) * (unat v div 2 ^ 16)"
  have p: "?p < 2 ^ 128" and r: "r = word_of_nat (?p div 2 ^ 64)"
    using assms(3) unfolding shares_to_usdc_nat [OF assms(1,2)] Let_def by (auto split: if_splits)
  have "?p div 2 ^ 64 < 2 ^ 64" using p by (simp add: less_mult_imp_div_less)
  then show ?thesis unfolding r by (simp add: unat_of_nat)
qed

section \<open>The MarginFi calls\<close>

definition MFI_INIT_PDA :: bytes where
  "MFI_INIT_PDA = [87, 177, 91, 80, 218, 119, 245, 31]"

definition MFI_DEPOSIT :: bytes where
  "MFI_DEPOSIT = [171, 94, 235, 103, 82, 64, 212, 140]"

definition MFI_WITHDRAW :: bytes where
  "MFI_WITHDRAW = [36, 72, 74, 19, 210, 210, 192, 192]"

definition mfi_init_account_pda ::
  "runtime \<Rightarrow> account_info \<Rightarrow> account_info \<Rightarrow> account_info \<Rightarrow> account_info \<Rightarrow> account_info \<Rightarrow>
   account_info \<Rightarrow> account_info \<Rightarrow> world \<Rightarrow> world res" where
  "mfi_init_account_pda rt program marginfi_group marginfi_account authority fee_payer instructions_sysvar
      system_program w =
     map_err
       (rt_invoke rt marginfi_id
         \<lparr>ix_program = ai_key program,
          ix_accounts =
            [meta_readonly (ai_key marginfi_group) False,
             meta_new (ai_key marginfi_account) False,
             meta_readonly (ai_key authority) True,
             meta_new (ai_key fee_payer) True,
             meta_readonly (ai_key instructions_sysvar) False,
             meta_readonly (ai_key system_program) False],
          ix_data = MFI_INIT_PDA @ to_le_bytes 2 (0 :: u16) @ [0]\<rparr>
         [program, marginfi_group, marginfi_account, authority, fee_payer, instructions_sysvar,
          system_program] [] w)
       cpi_failed"

definition mfi_deposit ::
  "runtime \<Rightarrow> account_info \<Rightarrow> account_info \<Rightarrow> account_info \<Rightarrow> account_info \<Rightarrow> account_info \<Rightarrow>
   account_info \<Rightarrow> account_info \<Rightarrow> account_info \<Rightarrow> u64 \<Rightarrow> world \<Rightarrow> world res" where
  "mfi_deposit rt program marginfi_group marginfi_account authority bank signer_token_account
      liquidity_vault token_program amount w =
     map_err
       (rt_invoke rt marginfi_id
         \<lparr>ix_program = ai_key program,
          ix_accounts =
            [meta_readonly (ai_key marginfi_group) False,
             meta_new (ai_key marginfi_account) False,
             meta_readonly (ai_key authority) True,
             meta_new (ai_key bank) False,
             meta_new (ai_key signer_token_account) False,
             meta_new (ai_key liquidity_vault) False,
             meta_readonly (ai_key token_program) False],
          ix_data = MFI_DEPOSIT @ to_le_bytes 8 amount @ [0]\<rparr>
         [program, marginfi_group, marginfi_account, authority, bank, signer_token_account,
          liquidity_vault, token_program] [] w)
       cpi_failed"

definition mfi_withdraw ::
  "runtime \<Rightarrow> account_info \<Rightarrow> account_info \<Rightarrow> account_info \<Rightarrow> account_info \<Rightarrow> account_info \<Rightarrow>
   account_info \<Rightarrow> account_info \<Rightarrow> account_info \<Rightarrow> account_info \<Rightarrow> account_info \<Rightarrow> u64 \<Rightarrow> bool \<Rightarrow> world \<Rightarrow>
   world res" where
  "mfi_withdraw rt program marginfi_group marginfi_account authority bank destination_token_account
      bank_liquidity_vault_authority liquidity_vault token_program oracle amount withdraw_all w =
     map_err
       (rt_invoke rt marginfi_id
         \<lparr>ix_program = ai_key program,
          ix_accounts =
            [meta_readonly (ai_key marginfi_group) False,
             meta_new (ai_key marginfi_account) False,
             meta_readonly (ai_key authority) True,
             meta_new (ai_key bank) False,
             meta_new (ai_key destination_token_account) False,
             meta_readonly (ai_key bank_liquidity_vault_authority) False,
             meta_new (ai_key liquidity_vault) False,
             meta_readonly (ai_key token_program) False,
             meta_readonly (ai_key bank) False,
             meta_readonly (ai_key oracle) False],
          ix_data = MFI_WITHDRAW @ to_le_bytes 8 amount @ [1] @ [if withdraw_all then 1 else 0]\<rparr>
         [program, marginfi_group, marginfi_account, authority, bank, destination_token_account,
          bank_liquidity_vault_authority, liquidity_vault, token_program, oracle] [] w)
       cpi_failed"

lemma mfi_calls:
  assumes "calls_isolate rt marginfi_id"
  shows "mfi_init_account_pda rt p g m a f i s w = Inr w' \<Longrightarrow>
           isolated marginfi_id w w' \<and> silent marginfi_id w w'"
    and "mfi_deposit rt p g m a b t l k n w = Inr w' \<Longrightarrow>
           isolated marginfi_id w w' \<and> silent marginfi_id w w'"
    and "mfi_withdraw rt p g m a b t v l k oracle n all w = Inr w' \<Longrightarrow>
           isolated marginfi_id w w' \<and> silent marginfi_id w w'"
  by (auto simp: mfi_init_account_pda_def mfi_deposit_def mfi_withdraw_def map_err_eq_Inr
      dest: calls_isolateD(3) [OF assms] calls_silentD(3) [OF assms])

section \<open>Properties\<close>

text \<open>
  C37: the asset shares of a MarginFi account for a bank are those of the first active slot of that
  bank, and zero when no slot of the sixteen is.
\<close>

theorem marginfi_shares_scan:
  assumes "1736 \<le> length d"
  shows "account_asset_shares d bank = Inr s \<longleftrightarrow>
     (\<exists>i<16. slot_matches d bank i \<and> (\<forall>j<i. \<not> slot_matches d bank j) \<and> s = slot_shares d i) \<or>
     (\<forall>i<16. \<not> slot_matches d bank i) \<and> s = 0"
proof (cases "find (slot_matches d bank) [0..<16]")
  case None
  then have none: "\<forall>i<16. \<not> slot_matches d bank i" by (simp add: find_None_iff)
  have "account_asset_shares d bank = Inr s \<longleftrightarrow> s = 0"
    unfolding account_asset_shares_find [OF assms] None by auto
  with none show ?thesis by blast
next
  case (Some i)
  then have i: "i < 16" "slot_matches d bank i" "\<forall>j<i. \<not> slot_matches d bank j"
    by (auto simp: find_Some_iff)
  then have uniq: "k = i" if "slot_matches d bank k" "\<forall>j<k. \<not> slot_matches d bank j" for k
    using that by (metis nat_neq_iff)
  have "account_asset_shares d bank = Inr s \<longleftrightarrow> s = slot_shares d i"
    unfolding account_asset_shares_find [OF assms] Some by auto
  with i uniq show ?thesis by blast
qed

text \<open>
  C22: the USDC value of fixed-point shares: zero for nonpositive inputs, otherwise the product of the
  two numbers without their low sixteen bits, shifted down by 64, and \<open>MathOverflow\<close> exactly when
  that product leaves 128 bits.
\<close>

theorem marginfi_value:
  "shares_to_usdc shares share_value =
     (let product = (nat (sint shares) div 2 ^ 16) * (nat (sint share_value) div 2 ^ 16) in
      if sint shares \<le> 0 \<or> sint share_value \<le> 0 then Inr 0
      else if 2 ^ 128 \<le> product then Inl mo
      else Inr (word_of_nat (product div 2 ^ 64)))"
proof (cases "0 < sint shares \<and> 0 < sint share_value")
  case True
  then have "nat (sint shares) = unat shares" and "nat (sint share_value) = unat share_value"
    using sint_pos_unat(1) by (metis nat_int)+
  with True show ?thesis using shares_to_usdc_nat [of shares share_value] by (simp add: Let_def not_le)
next
  case False
  then show ?thesis by (auto simp: shares_to_usdc_def)
qed

text \<open>
  C38: the value is at most the exact fixed-point product, and short of it by at most two units and the
  sum of the shifted inputs over \<open>2^64\<close>.
\<close>

theorem marginfi_value_rounding:
  assumes "0 < sint shares" and "0 < sint share_value" and "shares_to_usdc shares share_value = Inr r"
  shows "unat r \<le> exact_usdc shares share_value \<and>
         exact_usdc shares share_value \<le>
           unat r + (unat shares div 2 ^ 16 + unat share_value div 2 ^ 16) div 2 ^ 64 + 2"
  using shift_loss [of "unat shares" "unat share_value"]
  by (simp add: shares_to_usdc_Inr [OF assms] exact_usdc_def)

text \<open>
  The limits of the code's remark on these shifts: the 128-bit product can overflow (the largest positive inputs give \<open>MathOverflow\<close>), and the
  two shifts can lose far more than one base unit (here 255 of them).
\<close>

lemma marginfi_value_limits:
  "shares_to_usdc (2 ^ 127 - 1) (2 ^ 127 - 1) = Inl mo \<and>
   (\<exists>r. shares_to_usdc (2 ^ 88) (2 ^ 48 + 2 ^ 16 - 1) = Inr r \<and>
        exact_usdc (2 ^ 88) (2 ^ 48 + 2 ^ 16 - 1) = unat r + 255)"
  by (simp add: shares_to_usdc_def checked_mul_def Let_def exact_usdc_def)

end
