(* ===== verification/Marginfi.thy ===== *)
theory Marginfi
  imports Marginfi_Cpi
begin

text \<open>
  The MarginFi adapter (programs/marginfi-usdc).  Its booked shares are the deposited principal;
  the value comes from the MarginFi account and the bank.  A withdrawal of at least the booked
  shares closes the balance.
\<close>

section \<open>State\<close>

record marginfi_state =
  ms_header :: adapter_state_header
  ms_marginfi_group :: pubkey
  ms_marginfi_account :: pubkey
  ms_bank :: pubkey
  ms_bump :: u8

definition marginfi_codec :: "marginfi_state codec" where
  "marginfi_codec =
     \<lparr>co_disc = [88, 130, 126, 170, 183, 106, 151, 212],
      co_space = 8 + (80 + 32 + 32 + 32 + 1),
      co_enc = (\<lambda>s. enc_header (ms_header s) @ pubkey_bytes (ms_marginfi_group s) @
                    pubkey_bytes (ms_marginfi_account s) @ pubkey_bytes (ms_bank s) @
                    to_le_bytes 1 (ms_bump s)),
      co_dec = (\<lambda>bs. do {
        (h, bs) \<leftarrow> dec_header bs;
        (g, bs) \<leftarrow> dec_pubkey bs;
        (a, bs) \<leftarrow> dec_pubkey bs;
        (k, bs) \<leftarrow> dec_pubkey bs;
        (b, bs) \<leftarrow> dec_word 1 bs;
        Some (\<lparr>ms_header = h, ms_marginfi_group = g, ms_marginfi_account = a, ms_bank = k,
               ms_bump = b\<rparr>, bs)})\<rparr>"

interpretation marginfi_state: anchor_account marginfi_codec "\<lambda>_. True"
proof unfold_locales
  fix x :: marginfi_state and r
  show "co_dec marginfi_codec (co_enc marginfi_codec x @ r) = Some (x, r)"
    by (simp add: marginfi_codec_def codec_simps del: One_nat_def)
qed (simp_all add: marginfi_codec_def replicate_8)

section \<open>adapter_initialize\<close>

record marginfi_initialize_ctx =
  mi_instructions_sysvar :: account_info
  mi_position :: account_info
  mi_adapter_state :: account_info
  mi_rent_payer :: account_info
  mi_system_program :: account_info
  mi_marginfi_program :: account_info
  mi_marginfi_group :: account_info
  mi_marginfi_account :: account_info
  mi_bank :: account_info
  mi_bump :: u8

definition marginfi_initialize_accounts ::
  "runtime \<Rightarrow> account_info list \<Rightarrow> world \<Rightarrow> (marginfi_initialize_ctx \<times> world) res" where
  "marginfi_initialize_accounts rt infos w =
     and_then (take_info infos) (\<lambda>(instructions_sysvar, infos).
     and_then (take_info infos) (\<lambda>(position, infos).
     and_then (take_info infos) (\<lambda>(adapter_state, infos).
     and_then (take_signer infos) (\<lambda>(rent_payer, infos).
     and_then (take_program (rt_system_program rt) w infos) (\<lambda>(system_program, infos).
     and_then (take_info infos) (\<lambda>(marginfi_program, infos).
     and_then (take_info infos) (\<lambda>(marginfi_group, infos).
     and_then (take_info infos) (\<lambda>(marginfi_account, infos).
     and_then (take_info infos) (\<lambda>(bank, infos).
     and_then (c_init rt rent_payer adapter_state (co_space marginfi_codec)
                 (adapter_seeds marginfi_id (ai_key position)) marginfi_id w) (\<lambda>(bump, w).
     and_then (c_address instructions_sysvar (rt_instructions_sysvar rt)
                 (AnchorErr ConstraintAddress)) (\<lambda>_.
     and_then (c_mut rent_payer) (\<lambda>_.
     and_then (c_executable w marginfi_program) (\<lambda>_.
     and_then (c_mut marginfi_account) (\<lambda>_.
     Inr (\<lparr>mi_instructions_sysvar = instructions_sysvar, mi_position = position,
           mi_adapter_state = adapter_state, mi_rent_payer = rent_payer,
           mi_system_program = system_program, mi_marginfi_program = marginfi_program,
           mi_marginfi_group = marginfi_group, mi_marginfi_account = marginfi_account,
           mi_bank = bank, mi_bump = bump\<rparr>, w)))))))))))))))"

definition marginfi_initialize_handler ::
  "runtime \<Rightarrow> marginfi_initialize_ctx \<Rightarrow> bytes \<Rightarrow> world \<Rightarrow> (marginfi_state \<times> world) res" where
  "marginfi_initialize_handler rt ctx adapter_data w =
     and_then (require (length adapter_data \<le> MAX_ADAPTER_DATA_LEN)
                 (AdapterErr AdapterDataTooLarge)) (\<lambda>_.
     and_then (verify_caller_is_dispatcher rt (mi_instructions_sysvar ctx) DISPATCHER_ID) (\<lambda>_.
     and_then (mfi_init_account_pda rt (mi_marginfi_program ctx) (mi_marginfi_group ctx)
                 (mi_marginfi_account ctx) (mi_position ctx) (mi_rent_payer ctx)
                 (mi_instructions_sysvar ctx) (mi_system_program ctx) w) (\<lambda>w.
     Inr (\<lparr>ms_header = \<lparr>hdr_position = ai_key (mi_position ctx), hdr_adapter_program = marginfi_id,
                        hdr_created_at = clock_unix_timestamp (rt_clock rt),
                        hdr_total_shares = 0\<rparr>,
           ms_marginfi_group = ai_key (mi_marginfi_group ctx),
           ms_marginfi_account = ai_key (mi_marginfi_account ctx),
           ms_bank = ai_key (mi_bank ctx), ms_bump = mi_bump ctx\<rparr>, w))))"

definition marginfi_initialize ::
  "runtime \<Rightarrow> account_info list \<Rightarrow> bytes \<Rightarrow> world \<Rightarrow> world res" where
  "marginfi_initialize rt infos adapter_data w =
     and_then (marginfi_initialize_accounts rt infos w) (\<lambda>(ctx, w).
     and_then (marginfi_initialize_handler rt ctx adapter_data w) (\<lambda>(state, w).
     store_account marginfi_codec (ai_key (mi_adapter_state ctx)) state w))"

section \<open>adapter_deposit\<close>

definition marginfi_book :: "u64 \<Rightarrow> marginfi_state \<Rightarrow> marginfi_state" where
  "marginfi_book n s = s\<lparr>ms_header := (ms_header s)\<lparr>hdr_total_shares := n\<rparr>\<rparr>"

record marginfi_deposit_ctx =
  md_instructions_sysvar :: account_info
  md_position :: account_info
  md_position_usdc_pool :: "token_account typed"
  md_adapter_state :: "marginfi_state typed"
  md_marginfi_program :: account_info
  md_marginfi_group :: account_info
  md_marginfi_account :: account_info
  md_bank :: account_info
  md_liquidity_vault :: account_info
  md_token_program :: account_info

definition marginfi_deposit_accounts ::
  "runtime \<Rightarrow> account_info list \<Rightarrow> world \<Rightarrow> marginfi_deposit_ctx res" where
  "marginfi_deposit_accounts rt infos w =
     and_then (take_info infos) (\<lambda>(instructions_sysvar, infos).
     and_then (take_info infos) (\<lambda>(position, infos).
     and_then (take_token rt w infos) (\<lambda>(position_usdc_pool, infos).
     and_then (take_account marginfi_codec marginfi_id w infos) (\<lambda>(adapter_state, infos).
     and_then (take_info infos) (\<lambda>(marginfi_program, infos).
     and_then (take_info infos) (\<lambda>(marginfi_group, infos).
     and_then (take_info infos) (\<lambda>(marginfi_account, infos).
     and_then (take_info infos) (\<lambda>(bank, infos).
     and_then (take_info infos) (\<lambda>(liquidity_vault, infos).
     and_then (take_info infos) (\<lambda>(token_program, infos).
     and_then (c_address instructions_sysvar (rt_instructions_sysvar rt)
                 (AnchorErr ConstraintAddress)) (\<lambda>_.
     and_then (c_mut (ty_info position_usdc_pool)) (\<lambda>_.
     and_then (c_seeds rt (adapter_seeds marginfi_id (ai_key position) @ [[ms_bump (ty_val adapter_state)]])
                 marginfi_id (ty_info adapter_state)) (\<lambda>_.
     and_then (c_mut (ty_info adapter_state)) (\<lambda>_.
     and_then (require (hdr_position (ms_header (ty_val adapter_state)) = ai_key position)
                 unauthorized) (\<lambda>_.
     and_then (c_executable w marginfi_program) (\<lambda>_.
     and_then (c_address marginfi_group (ms_marginfi_group (ty_val adapter_state)) unauthorized) (\<lambda>_.
     and_then (c_mut marginfi_account) (\<lambda>_.
     and_then (c_address marginfi_account (ms_marginfi_account (ty_val adapter_state)) unauthorized) (\<lambda>_.
     and_then (c_mut bank) (\<lambda>_.
     and_then (c_address bank (ms_bank (ty_val adapter_state)) unauthorized) (\<lambda>_.
     and_then (c_mut liquidity_vault) (\<lambda>_.
     Inr \<lparr>md_instructions_sysvar = instructions_sysvar, md_position = position,
          md_position_usdc_pool = position_usdc_pool, md_adapter_state = adapter_state,
          md_marginfi_program = marginfi_program, md_marginfi_group = marginfi_group,
          md_marginfi_account = marginfi_account, md_bank = bank,
          md_liquidity_vault = liquidity_vault, md_token_program = token_program\<rparr>))))))))))))))))))))))"

definition marginfi_deposit_handler ::
  "runtime \<Rightarrow> marginfi_deposit_ctx \<Rightarrow> u64 \<Rightarrow> bytes \<Rightarrow> world \<Rightarrow> (marginfi_state \<times> world) res" where
  "marginfi_deposit_handler rt ctx amount adapter_data w =
     and_then (require (amount > 0) (AdapterErr adapter_error.ZeroAmount)) (\<lambda>_.
     and_then (require (length adapter_data \<le> MAX_ADAPTER_DATA_LEN)
                 (AdapterErr AdapterDataTooLarge)) (\<lambda>_.
     and_then (verify_caller_is_dispatcher rt (md_instructions_sysvar ctx) DISPATCHER_ID) (\<lambda>_.
     and_then (mfi_deposit rt (md_marginfi_program ctx) (md_marginfi_group ctx)
                 (md_marginfi_account ctx) (md_position ctx) (md_bank ctx)
                 (ty_info (md_position_usdc_pool ctx)) (md_liquidity_vault ctx)
                 (md_token_program ctx) amount w) (\<lambda>w.
     let state = ty_val (md_adapter_state ctx) in
     and_then (ok_or (checked_add (hdr_total_shares (ms_header state)) amount) mo) (\<lambda>n.
     Inr (marginfi_book n state,
          emit_event marginfi_id (AdapterDepositEvent (hdr_position (ms_header state)) amount amount)
            (set_u64_return marginfi_id amount w)))))))"

definition marginfi_deposit ::
  "runtime \<Rightarrow> account_info list \<Rightarrow> u64 \<Rightarrow> bytes \<Rightarrow> world \<Rightarrow> world res" where
  "marginfi_deposit rt infos amount adapter_data w =
     and_then (marginfi_deposit_accounts rt infos w) (\<lambda>ctx.
     and_then (marginfi_deposit_handler rt ctx amount adapter_data w) (\<lambda>(state, w).
     store_account marginfi_codec (ty_key (md_adapter_state ctx)) state w))"

section \<open>adapter_withdraw\<close>

record marginfi_withdraw_ctx =
  mw_instructions_sysvar :: account_info
  mw_position :: account_info
  mw_position_usdc_pool :: "token_account typed"
  mw_adapter_state :: "marginfi_state typed"
  mw_marginfi_program :: account_info
  mw_marginfi_group :: account_info
  mw_marginfi_account :: account_info
  mw_bank :: account_info
  mw_bank_liquidity_vault_authority :: account_info
  mw_liquidity_vault :: account_info
  mw_token_program :: account_info
  mw_oracle :: account_info

definition marginfi_withdraw_accounts ::
  "runtime \<Rightarrow> account_info list \<Rightarrow> world \<Rightarrow> marginfi_withdraw_ctx res" where
  "marginfi_withdraw_accounts rt infos w =
     and_then (take_info infos) (\<lambda>(instructions_sysvar, infos).
     and_then (take_info infos) (\<lambda>(position, infos).
     and_then (take_token rt w infos) (\<lambda>(position_usdc_pool, infos).
     and_then (take_account marginfi_codec marginfi_id w infos) (\<lambda>(adapter_state, infos).
     and_then (take_info infos) (\<lambda>(marginfi_program, infos).
     and_then (take_info infos) (\<lambda>(marginfi_group, infos).
     and_then (take_info infos) (\<lambda>(marginfi_account, infos).
     and_then (take_info infos) (\<lambda>(bank, infos).
     and_then (take_info infos) (\<lambda>(bank_liquidity_vault_authority, infos).
     and_then (take_info infos) (\<lambda>(liquidity_vault, infos).
     and_then (take_info infos) (\<lambda>(token_program, infos).
     and_then (take_info infos) (\<lambda>(oracle, infos).
     and_then (c_address instructions_sysvar (rt_instructions_sysvar rt)
                 (AnchorErr ConstraintAddress)) (\<lambda>_.
     and_then (c_mut (ty_info position_usdc_pool)) (\<lambda>_.
     and_then (c_seeds rt (adapter_seeds marginfi_id (ai_key position) @ [[ms_bump (ty_val adapter_state)]])
                 marginfi_id (ty_info adapter_state)) (\<lambda>_.
     and_then (c_mut (ty_info adapter_state)) (\<lambda>_.
     and_then (require (hdr_position (ms_header (ty_val adapter_state)) = ai_key position)
                 unauthorized) (\<lambda>_.
     and_then (c_executable w marginfi_program) (\<lambda>_.
     and_then (c_address marginfi_group (ms_marginfi_group (ty_val adapter_state)) unauthorized) (\<lambda>_.
     and_then (c_mut marginfi_account) (\<lambda>_.
     and_then (c_address marginfi_account (ms_marginfi_account (ty_val adapter_state)) unauthorized) (\<lambda>_.
     and_then (c_mut bank) (\<lambda>_.
     and_then (c_address bank (ms_bank (ty_val adapter_state)) unauthorized) (\<lambda>_.
     and_then (c_mut liquidity_vault) (\<lambda>_.
     Inr \<lparr>mw_instructions_sysvar = instructions_sysvar, mw_position = position,
          mw_position_usdc_pool = position_usdc_pool, mw_adapter_state = adapter_state,
          mw_marginfi_program = marginfi_program, mw_marginfi_group = marginfi_group,
          mw_marginfi_account = marginfi_account, mw_bank = bank,
          mw_bank_liquidity_vault_authority = bank_liquidity_vault_authority,
          mw_liquidity_vault = liquidity_vault, mw_token_program = token_program,
          mw_oracle = oracle\<rparr>))))))))))))))))))))))))"

definition marginfi_withdraw_handler ::
  "runtime \<Rightarrow> marginfi_withdraw_ctx \<Rightarrow> u64 \<Rightarrow> bytes \<Rightarrow> world \<Rightarrow> (marginfi_state \<times> world) res" where
  "marginfi_withdraw_handler rt ctx shares adapter_data w =
     and_then (require (shares > 0) (AdapterErr adapter_error.ZeroAmount)) (\<lambda>_.
     and_then (require (length adapter_data \<le> MAX_ADAPTER_DATA_LEN)
                 (AdapterErr AdapterDataTooLarge)) (\<lambda>_.
     and_then (verify_caller_is_dispatcher rt (mw_instructions_sysvar ctx) DISPATCHER_ID) (\<lambda>_.
     let state = ty_val (mw_adapter_state ctx);
         booked = hdr_total_shares (ms_header state);
         withdraw_all = shares \<ge> booked;
         usdc_before = tok_amount (ty_val (mw_position_usdc_pool ctx)) in
     and_then (mfi_withdraw rt (mw_marginfi_program ctx) (mw_marginfi_group ctx)
                 (mw_marginfi_account ctx) (mw_position ctx) (mw_bank ctx)
                 (ty_info (mw_position_usdc_pool ctx)) (mw_bank_liquidity_vault_authority ctx)
                 (mw_liquidity_vault ctx) (mw_token_program ctx) (mw_oracle ctx) shares
                 withdraw_all w) (\<lambda>w.
     and_then (reload_token rt (ty_key (mw_position_usdc_pool ctx)) w) (\<lambda>pool.
     and_then (ok_or (checked_sub (tok_amount pool) usdc_before) mo) (\<lambda>amount_out.
     and_then (if withdraw_all then Inr 0 else ok_or (checked_sub booked shares) mo) (\<lambda>n.
     Inr (marginfi_book n state,
          emit_event marginfi_id
            (AdapterWithdrawEvent (hdr_position (ms_header state)) shares amount_out)
            (set_u64_return marginfi_id amount_out w)))))))))"

definition marginfi_withdraw ::
  "runtime \<Rightarrow> account_info list \<Rightarrow> u64 \<Rightarrow> bytes \<Rightarrow> world \<Rightarrow> world res" where
  "marginfi_withdraw rt infos shares adapter_data w =
     and_then (marginfi_withdraw_accounts rt infos w) (\<lambda>ctx.
     and_then (marginfi_withdraw_handler rt ctx shares adapter_data w) (\<lambda>(state, w).
     store_account marginfi_codec (ty_key (mw_adapter_state ctx)) state w))"

section \<open>adapter_current_value\<close>

record marginfi_value_ctx =
  mv_instructions_sysvar :: account_info
  mv_position :: account_info
  mv_adapter_state :: "marginfi_state typed"
  mv_marginfi_account :: account_info
  mv_bank :: account_info

definition marginfi_value_accounts ::
  "runtime \<Rightarrow> account_info list \<Rightarrow> world \<Rightarrow> marginfi_value_ctx res" where
  "marginfi_value_accounts rt infos w =
     and_then (take_info infos) (\<lambda>(instructions_sysvar, infos).
     and_then (take_info infos) (\<lambda>(position, infos).
     and_then (take_account marginfi_codec marginfi_id w infos) (\<lambda>(adapter_state, infos).
     and_then (take_info infos) (\<lambda>(marginfi_account, infos).
     and_then (take_info infos) (\<lambda>(bank, infos).
     and_then (c_address instructions_sysvar (rt_instructions_sysvar rt)
                 (AnchorErr ConstraintAddress)) (\<lambda>_.
     and_then (c_seeds rt (adapter_seeds marginfi_id (ai_key position) @ [[ms_bump (ty_val adapter_state)]])
                 marginfi_id (ty_info adapter_state)) (\<lambda>_.
     and_then (require (hdr_position (ms_header (ty_val adapter_state)) = ai_key position)
                 unauthorized) (\<lambda>_.
     and_then (c_address marginfi_account (ms_marginfi_account (ty_val adapter_state)) unauthorized) (\<lambda>_.
     and_then (c_address bank (ms_bank (ty_val adapter_state)) unauthorized) (\<lambda>_.
     Inr \<lparr>mv_instructions_sysvar = instructions_sysvar, mv_position = position,
          mv_adapter_state = adapter_state, mv_marginfi_account = marginfi_account,
          mv_bank = bank\<rparr>))))))))))"

definition marginfi_value_handler ::
  "runtime \<Rightarrow> marginfi_value_ctx \<Rightarrow> bytes \<Rightarrow> world \<Rightarrow> world res" where
  "marginfi_value_handler rt ctx adapter_data w =
     and_then (require (length adapter_data \<le> MAX_ADAPTER_DATA_LEN)
                 (AdapterErr AdapterDataTooLarge)) (\<lambda>_.
     and_then (verify_caller_is_dispatcher rt (mv_instructions_sysvar ctx) DISPATCHER_ID) (\<lambda>_.
     let state = ty_val (mv_adapter_state ctx);
         acct = account_data w (ai_key (mv_marginfi_account ctx));
         bank_data = account_data w (ai_key (mv_bank ctx)) in
     and_then (account_asset_shares acct (ms_bank state)) (\<lambda>shares.
     and_then (bank_asset_share_value bank_data) (\<lambda>share_value.
     and_then (shares_to_usdc shares share_value) (\<lambda>value.
     Inr (emit_event marginfi_id
            (AdapterValueEvent (hdr_position (ms_header state)) value (clock_slot (rt_clock rt)))
            (set_u64_return marginfi_id value w)))))))"

definition marginfi_current_value ::
  "runtime \<Rightarrow> account_info list \<Rightarrow> bytes \<Rightarrow> world \<Rightarrow> world res" where
  "marginfi_current_value rt infos adapter_data w =
     and_then (marginfi_value_accounts rt infos w) (\<lambda>ctx.
     marginfi_value_handler rt ctx adapter_data w)"

definition marginfi :: "marginfi_state adapter" where
  "marginfi =
     \<lparr>ad_id = marginfi_id, ad_codec = marginfi_codec, ad_header = ms_header,
      ad_initialize = marginfi_initialize, ad_deposit = marginfi_deposit,
      ad_withdraw = marginfi_withdraw, ad_current_value = marginfi_current_value\<rparr>"

section \<open>What success means\<close>

lemma marginfi_initialize_accounts_ok:
  "marginfi_initialize_accounts rt infos w = Inr (ctx, w1) \<longleftrightarrow>
     (\<exists>rest. infos =
        [mi_instructions_sysvar ctx, mi_position ctx, mi_adapter_state ctx, mi_rent_payer ctx,
         mi_system_program ctx, mi_marginfi_program ctx, mi_marginfi_group ctx,
         mi_marginfi_account ctx, mi_bank ctx] @ rest) \<and>
     ai_key (mi_system_program ctx) = rt_system_program rt \<and>
     account_executable w (rt_system_program rt) \<and>
     ai_signer (mi_rent_payer ctx) \<and> ai_writable (mi_rent_payer ctx) \<and>
     rt_find_program_address rt (adapter_seeds marginfi_id (ai_key (mi_position ctx))) marginfi_id =
       (ai_key (mi_adapter_state ctx), mi_bump ctx) \<and>
     ai_writable (mi_adapter_state ctx) \<and>
     rt_create_account rt (ai_key (mi_rent_payer ctx)) (ai_key (mi_adapter_state ctx))
       (co_space marginfi_codec) marginfi_id w = Inr w1 \<and>
     ai_key (mi_instructions_sysvar ctx) = rt_instructions_sysvar rt \<and>
     account_executable w1 (ai_key (mi_marginfi_program ctx)) \<and>
     ai_writable (mi_marginfi_account ctx)"
  unfolding marginfi_initialize_accounts_def
  by (cases ctx) (auto simp: and_then_eq_Inr take_info_eq_Inr take_signer_eq_Inr
      take_program_eq_Inr c_init_eq_Inr constraint_eq_Inr split: prod.splits)

lemma marginfi_deposit_accounts_ok:
  "marginfi_deposit_accounts rt infos w = Inr ctx \<longleftrightarrow>
     (\<exists>rest. infos =
        [md_instructions_sysvar ctx, md_position ctx, ty_info (md_position_usdc_pool ctx),
         ty_info (md_adapter_state ctx), md_marginfi_program ctx, md_marginfi_group ctx,
         md_marginfi_account ctx, md_bank ctx, md_liquidity_vault ctx, md_token_program ctx] @ rest) \<and>
     load_token rt (ty_key (md_position_usdc_pool ctx)) w = Inr (ty_val (md_position_usdc_pool ctx)) \<and>
     load_account marginfi_codec marginfi_id (ty_key (md_adapter_state ctx)) w =
       Inr (ty_val (md_adapter_state ctx)) \<and>
     ai_key (md_instructions_sysvar ctx) = rt_instructions_sysvar rt \<and>
     ai_writable (ty_info (md_position_usdc_pool ctx)) \<and>
     rt_create_program_address rt
       (adapter_seeds marginfi_id (ai_key (md_position ctx)) @ [[ms_bump (ty_val (md_adapter_state ctx))]])
       marginfi_id = Some (ty_key (md_adapter_state ctx)) \<and>
     ai_writable (ty_info (md_adapter_state ctx)) \<and>
     hdr_position (ms_header (ty_val (md_adapter_state ctx))) = ai_key (md_position ctx) \<and>
     account_executable w (ai_key (md_marginfi_program ctx)) \<and>
     ai_key (md_marginfi_group ctx) = ms_marginfi_group (ty_val (md_adapter_state ctx)) \<and>
     ai_writable (md_marginfi_account ctx) \<and>
     ai_key (md_marginfi_account ctx) = ms_marginfi_account (ty_val (md_adapter_state ctx)) \<and>
     ai_writable (md_bank ctx) \<and>
     ai_key (md_bank ctx) = ms_bank (ty_val (md_adapter_state ctx)) \<and>
     ai_writable (md_liquidity_vault ctx)"
  unfolding marginfi_deposit_accounts_def
  by (cases ctx) (auto simp: and_then_eq_Inr take_info_eq_Inr take_token_eq_Inr
      take_account_eq_Inr constraint_eq_Inr require_eq_Inr split: prod.splits)

lemma marginfi_withdraw_accounts_ok:
  "marginfi_withdraw_accounts rt infos w = Inr ctx \<longleftrightarrow>
     (\<exists>rest. infos =
        [mw_instructions_sysvar ctx, mw_position ctx, ty_info (mw_position_usdc_pool ctx),
         ty_info (mw_adapter_state ctx), mw_marginfi_program ctx, mw_marginfi_group ctx,
         mw_marginfi_account ctx, mw_bank ctx, mw_bank_liquidity_vault_authority ctx,
         mw_liquidity_vault ctx, mw_token_program ctx, mw_oracle ctx] @ rest) \<and>
     load_token rt (ty_key (mw_position_usdc_pool ctx)) w = Inr (ty_val (mw_position_usdc_pool ctx)) \<and>
     load_account marginfi_codec marginfi_id (ty_key (mw_adapter_state ctx)) w =
       Inr (ty_val (mw_adapter_state ctx)) \<and>
     ai_key (mw_instructions_sysvar ctx) = rt_instructions_sysvar rt \<and>
     ai_writable (ty_info (mw_position_usdc_pool ctx)) \<and>
     rt_create_program_address rt
       (adapter_seeds marginfi_id (ai_key (mw_position ctx)) @ [[ms_bump (ty_val (mw_adapter_state ctx))]])
       marginfi_id = Some (ty_key (mw_adapter_state ctx)) \<and>
     ai_writable (ty_info (mw_adapter_state ctx)) \<and>
     hdr_position (ms_header (ty_val (mw_adapter_state ctx))) = ai_key (mw_position ctx) \<and>
     account_executable w (ai_key (mw_marginfi_program ctx)) \<and>
     ai_key (mw_marginfi_group ctx) = ms_marginfi_group (ty_val (mw_adapter_state ctx)) \<and>
     ai_writable (mw_marginfi_account ctx) \<and>
     ai_key (mw_marginfi_account ctx) = ms_marginfi_account (ty_val (mw_adapter_state ctx)) \<and>
     ai_writable (mw_bank ctx) \<and>
     ai_key (mw_bank ctx) = ms_bank (ty_val (mw_adapter_state ctx)) \<and>
     ai_writable (mw_liquidity_vault ctx)"
  unfolding marginfi_withdraw_accounts_def
  by (cases ctx) (auto simp: and_then_eq_Inr take_info_eq_Inr take_token_eq_Inr
      take_account_eq_Inr constraint_eq_Inr require_eq_Inr split: prod.splits)

lemma marginfi_value_accounts_ok:
  "marginfi_value_accounts rt infos w = Inr ctx \<longleftrightarrow>
     (\<exists>rest. infos =
        [mv_instructions_sysvar ctx, mv_position ctx, ty_info (mv_adapter_state ctx),
         mv_marginfi_account ctx, mv_bank ctx] @ rest) \<and>
     load_account marginfi_codec marginfi_id (ty_key (mv_adapter_state ctx)) w =
       Inr (ty_val (mv_adapter_state ctx)) \<and>
     ai_key (mv_instructions_sysvar ctx) = rt_instructions_sysvar rt \<and>
     rt_create_program_address rt
       (adapter_seeds marginfi_id (ai_key (mv_position ctx)) @ [[ms_bump (ty_val (mv_adapter_state ctx))]])
       marginfi_id = Some (ty_key (mv_adapter_state ctx)) \<and>
     hdr_position (ms_header (ty_val (mv_adapter_state ctx))) = ai_key (mv_position ctx) \<and>
     ai_key (mv_marginfi_account ctx) = ms_marginfi_account (ty_val (mv_adapter_state ctx)) \<and>
     ai_key (mv_bank ctx) = ms_bank (ty_val (mv_adapter_state ctx))"
  unfolding marginfi_value_accounts_def
  by (cases ctx) (auto simp: and_then_eq_Inr take_info_eq_Inr
      take_account_eq_Inr constraint_eq_Inr require_eq_Inr split: prod.splits)

lemma marginfi_deposit_handler_ok:
  assumes "ai_key (md_instructions_sysvar ctx) = rt_instructions_sysvar rt"
  shows "marginfi_deposit_handler rt ctx amount data w = Inr (s, w') \<longleftrightarrow>
     0 < amount \<and> data_fits data \<and> caller_ok rt \<and>
     (\<exists>w1 n.
        mfi_deposit rt (md_marginfi_program ctx) (md_marginfi_group ctx) (md_marginfi_account ctx)
          (md_position ctx) (md_bank ctx) (ty_info (md_position_usdc_pool ctx))
          (md_liquidity_vault ctx) (md_token_program ctx) amount w = Inr w1 \<and>
        checked_add (hdr_total_shares (ms_header (ty_val (md_adapter_state ctx)))) amount = Some n \<and>
        s = marginfi_book n (ty_val (md_adapter_state ctx)) \<and>
        w' = emit_event marginfi_id
               (AdapterDepositEvent (hdr_position (ms_header (ty_val (md_adapter_state ctx)))) amount amount)
               (set_u64_return marginfi_id amount w1))"
  unfolding marginfi_deposit_handler_def
  by (auto simp: and_then_eq_Inr require_eq_Inr verify_caller_ok [OF assms] data_fits_def Let_def
      ok_or_eq_Inr)

text \<open>The booked shares drop by the amount, and to zero when all is withdrawn.\<close>

lemma marginfi_withdraw_handler_ok:
  assumes "ai_key (mw_instructions_sysvar ctx) = rt_instructions_sysvar rt"
  shows "marginfi_withdraw_handler rt ctx shares data w = Inr (s, w') \<longleftrightarrow>
     0 < shares \<and> data_fits data \<and> caller_ok rt \<and>
     (\<exists>w1 pool a n.
        mfi_withdraw rt (mw_marginfi_program ctx) (mw_marginfi_group ctx) (mw_marginfi_account ctx)
          (mw_position ctx) (mw_bank ctx) (ty_info (mw_position_usdc_pool ctx))
          (mw_bank_liquidity_vault_authority ctx) (mw_liquidity_vault ctx) (mw_token_program ctx)
          (mw_oracle ctx) shares
          (hdr_total_shares (ms_header (ty_val (mw_adapter_state ctx))) \<le> shares) w = Inr w1 \<and>
        rt_token_unpack rt (account_data w1 (ty_key (mw_position_usdc_pool ctx))) = Some pool \<and>
        checked_sub (tok_amount pool) (tok_amount (ty_val (mw_position_usdc_pool ctx))) = Some a \<and>
        unat n = unat (hdr_total_shares (ms_header (ty_val (mw_adapter_state ctx)))) - unat shares \<and>
        s = marginfi_book n (ty_val (mw_adapter_state ctx)) \<and>
        w' = emit_event marginfi_id
               (AdapterWithdrawEvent (hdr_position (ms_header (ty_val (mw_adapter_state ctx)))) shares a)
               (set_u64_return marginfi_id a w1))"
proof -
  have booked: "(if b \<le> x then Inr 0 else ok_or (checked_sub b x) mo) = Inr n \<longleftrightarrow>
      unat n = unat b - unat x" for b x n :: u64
    by (auto simp: ok_or_eq_Inr checked_sub_Some word_le_nat_alt word_unat_eq_iff)
  show ?thesis
    unfolding marginfi_withdraw_handler_def
    by (simp add: and_then_eq_Inr require_eq_Inr verify_caller_ok [OF assms] data_fits_def Let_def
        ok_or_eq_Inr reload_token_eq_Inr booked split del: if_split) auto
qed

lemma marginfi_value_handler_ok:
  assumes "ai_key (mv_instructions_sysvar ctx) = rt_instructions_sysvar rt"
  shows "marginfi_value_handler rt ctx data w = Inr w' \<longleftrightarrow>
     data_fits data \<and> caller_ok rt \<and>
     (\<exists>shares share_value v.
        account_asset_shares (account_data w (ai_key (mv_marginfi_account ctx)))
          (ms_bank (ty_val (mv_adapter_state ctx))) = Inr shares \<and>
        bank_asset_share_value (account_data w (ai_key (mv_bank ctx))) = Inr share_value \<and>
        shares_to_usdc shares share_value = Inr v \<and>
        w' = emit_event marginfi_id
               (AdapterValueEvent (hdr_position (ms_header (ty_val (mv_adapter_state ctx)))) v
                  (clock_slot (rt_clock rt)))
               (set_u64_return marginfi_id v w))"
  unfolding marginfi_value_handler_def
  by (auto simp: and_then_eq_Inr require_eq_Inr verify_caller_ok [OF assms] data_fits_def Let_def)

section \<open>The adapter standard\<close>

lemma marginfi_sel [simp]:
  "ad_id marginfi = marginfi_id" "ad_codec marginfi = marginfi_codec" "ad_header marginfi = ms_header"
  "ad_initialize marginfi = marginfi_initialize" "ad_deposit marginfi = marginfi_deposit"
  "ad_withdraw marginfi = marginfi_withdraw" "ad_current_value marginfi = marginfi_current_value"
  by (simp_all add: marginfi_def)

lemma ms_header_book [simp]: "ms_header (marginfi_book n s) = book n (ms_header s)"
  by (simp add: marginfi_book_def book_def)

lemma marginfi_initialize_law:
  assumes "marginfi_initialize rt infos data w = Inr w'"
  shows "caller_ok rt \<and> data_fits data \<and>
     (system_creates rt \<longrightarrow> calls_isolate rt marginfi_id \<longrightarrow> opens_row marginfi rt (slot_position infos) w w')"
proof -
  from assms obtain ctx w1 w2 s where acc: "marginfi_initialize_accounts rt infos w = Inr (ctx, w1)"
    and h: "marginfi_initialize_handler rt ctx data w1 = Inr (s, w2)"
    and st: "store_account marginfi_codec (ai_key (mi_adapter_state ctx)) s w2 = Inr w'"
    by (auto simp: marginfi_initialize_def and_then_eq_Inr)
  from acc have
    pda: "rt_find_program_address rt (adapter_seeds marginfi_id (ai_key (mi_position ctx))) marginfi_id =
       (ai_key (mi_adapter_state ctx), mi_bump ctx)" and
    cr: "rt_create_account rt (ai_key (mi_rent_payer ctx)) (ai_key (mi_adapter_state ctx))
       (co_space marginfi_codec) marginfi_id w = Inr w1" and
    sv: "ai_key (mi_instructions_sysvar ctx) = rt_instructions_sysvar rt"
    by (simp_all add: marginfi_initialize_accounts_ok)
  from acc have slot: "slot_position infos = ai_key (mi_position ctx)"
    by (auto simp: marginfi_initialize_accounts_ok slot_position_def)
  from h have ok: "caller_ok rt" "data_fits data" and
    hdr: "ms_header s = \<lparr>hdr_position = ai_key (mi_position ctx), hdr_adapter_program = marginfi_id,
           hdr_created_at = clock_unix_timestamp (rt_clock rt), hdr_total_shares = 0\<rparr>" and
    r: "mfi_init_account_pda rt (mi_marginfi_program ctx) (mi_marginfi_group ctx)
          (mi_marginfi_account ctx) (mi_position ctx) (mi_rent_payer ctx)
          (mi_instructions_sysvar ctx) (mi_system_program ctx) w1 = Inr w2"
    by (auto simp: marginfi_initialize_handler_def and_then_eq_Inr require_eq_Inr
        verify_caller_ok [OF sv] data_fits_def)
  have "opens_row marginfi rt (slot_position infos) w w'" if "system_creates rt" "calls_isolate rt marginfi_id"
    unfolding slot by (rule marginfi_state.opens_rowI [where A = marginfi and y = s and ?w1.0 = w1 and ?w2.0 = w2])
      (use that pda cr mfi_calls(1) [OF that(2) r] st hdr in simp_all)
  with ok show ?thesis by simp
qed

lemma marginfi_deposit_law:
  assumes "marginfi_deposit rt infos amount data w = Inr w'"
  shows "caller_ok rt \<and> data_fits data \<and> 0 < amount \<and>
     (calls_isolate rt marginfi_id \<longrightarrow> mints_shares marginfi (slot_position infos) amount w w')"
proof -
  from assms obtain ctx s w3 where acc: "marginfi_deposit_accounts rt infos w = Inr ctx"
    and h: "marginfi_deposit_handler rt ctx amount data w = Inr (s, w3)"
    and st: "store_account marginfi_codec (ty_key (md_adapter_state ctx)) s w3 = Inr w'"
    by (auto simp: marginfi_deposit_def and_then_eq_Inr)
  from acc have sv: "ai_key (md_instructions_sysvar ctx) = rt_instructions_sysvar rt"
    and ld: "load_account marginfi_codec marginfi_id (ty_key (md_adapter_state ctx)) w =
       Inr (ty_val (md_adapter_state ctx))"
    by (simp_all add: marginfi_deposit_accounts_ok)
  from acc have slot: "slot_position infos = hdr_position (ms_header (ty_val (md_adapter_state ctx)))"
    by (auto simp: marginfi_deposit_accounts_ok slot_position_def)
  from h obtain w1 n where ok: "caller_ok rt" "data_fits data" "0 < amount" and
    r1: "mfi_deposit rt (md_marginfi_program ctx) (md_marginfi_group ctx) (md_marginfi_account ctx)
          (md_position ctx) (md_bank ctx) (ty_info (md_position_usdc_pool ctx))
          (md_liquidity_vault ctx) (md_token_program ctx) amount w = Inr w1" and
    add: "checked_add (hdr_total_shares (ms_header (ty_val (md_adapter_state ctx)))) amount = Some n" and
    s: "s = marginfi_book n (ty_val (md_adapter_state ctx))" and
    w3: "w3 = emit_event marginfi_id
             (AdapterDepositEvent (hdr_position (ms_header (ty_val (md_adapter_state ctx)))) amount amount)
             (set_u64_return marginfi_id amount w1)"
    by (auto simp: marginfi_deposit_handler_ok [OF sv])
  have "mints_shares marginfi (slot_position infos) amount w w'" if "calls_isolate rt marginfi_id"
    unfolding slot by (rule marginfi_state.mints_sharesI [where A = marginfi and y = s and ?w2.0 = w1 and n = n and m = amount])
      (use ld st add mfi_calls(2) [OF that r1] in \<open>simp_all add: s w3 checked_add_Some\<close>)
  with ok show ?thesis by simp
qed

lemma marginfi_withdraw_law:
  assumes "marginfi_withdraw rt infos shares data w = Inr w'"
  shows "caller_ok rt \<and> data_fits data \<and> 0 < shares \<and>
     (calls_isolate rt marginfi_id \<longrightarrow> (\<exists>b. burns_shares marginfi (slot_position infos) shares b w w'))"
proof -
  from assms obtain ctx s w3 where acc: "marginfi_withdraw_accounts rt infos w = Inr ctx"
    and h: "marginfi_withdraw_handler rt ctx shares data w = Inr (s, w3)"
    and st: "store_account marginfi_codec (ty_key (mw_adapter_state ctx)) s w3 = Inr w'"
    by (auto simp: marginfi_withdraw_def and_then_eq_Inr)
  from acc have sv: "ai_key (mw_instructions_sysvar ctx) = rt_instructions_sysvar rt"
    and ld: "load_account marginfi_codec marginfi_id (ty_key (mw_adapter_state ctx)) w =
       Inr (ty_val (mw_adapter_state ctx))"
    by (simp_all add: marginfi_withdraw_accounts_ok)
  from acc have slot: "slot_position infos = hdr_position (ms_header (ty_val (mw_adapter_state ctx)))"
    by (auto simp: marginfi_withdraw_accounts_ok slot_position_def)
  from h obtain w1 a n all where ok: "caller_ok rt" "data_fits data" "0 < shares" and
    r1: "mfi_withdraw rt (mw_marginfi_program ctx) (mw_marginfi_group ctx) (mw_marginfi_account ctx)
          (mw_position ctx) (mw_bank ctx) (ty_info (mw_position_usdc_pool ctx))
          (mw_bank_liquidity_vault_authority ctx) (mw_liquidity_vault ctx) (mw_token_program ctx)
          (mw_oracle ctx) shares all w = Inr w1" and
    n: "unat n = unat (hdr_total_shares (ms_header (ty_val (mw_adapter_state ctx)))) - unat shares" and
    s: "s = marginfi_book n (ty_val (mw_adapter_state ctx))" and
    w3: "w3 = emit_event marginfi_id
             (AdapterWithdrawEvent (hdr_position (ms_header (ty_val (mw_adapter_state ctx)))) shares a)
             (set_u64_return marginfi_id a w1)"
    by (auto simp: marginfi_withdraw_handler_ok [OF sv])
  let ?b = "min shares (hdr_total_shares (ms_header (ty_val (mw_adapter_state ctx))))"
  have b: "unat n + unat ?b = unat (hdr_total_shares (ms_header (ty_val (mw_adapter_state ctx))))"
    "?b = shares \<or> ?b < shares \<and> n = 0"
    using n by (auto simp: min_def word_le_nat_alt word_less_nat_alt unat_eq_zero)
  have "burns_shares marginfi (slot_position infos) shares ?b w w'" if "calls_isolate rt marginfi_id"
    unfolding slot by (rule marginfi_state.burns_sharesI [where A = marginfi and y = s and ?w2.0 = w1 and n = n and a = a])
      (use ld st b mfi_calls(3) [OF that r1] in \<open>simp_all add: s w3\<close>)
  with ok show ?thesis by blast
qed

lemma marginfi_current_value_law:
  assumes "marginfi_current_value rt infos data w = Inr w'"
  shows "caller_ok rt \<and> data_fits data \<and>
     (calls_isolate rt marginfi_id \<longrightarrow> reports_value marginfi (slot_position infos) w w')"
proof -
  from assms obtain ctx where acc: "marginfi_value_accounts rt infos w = Inr ctx"
    and h: "marginfi_value_handler rt ctx data w = Inr w'"
    by (auto simp: marginfi_current_value_def and_then_eq_Inr)
  from acc have sv: "ai_key (mv_instructions_sysvar ctx) = rt_instructions_sysvar rt"
    and ld: "load_account marginfi_codec marginfi_id (ty_key (mv_adapter_state ctx)) w =
       Inr (ty_val (mv_adapter_state ctx))"
    by (simp_all add: marginfi_value_accounts_ok)
  from acc have slot: "slot_position infos = hdr_position (ms_header (ty_val (mv_adapter_state ctx)))"
    by (auto simp: marginfi_value_accounts_ok slot_position_def)
  from h obtain v where ok: "caller_ok rt" "data_fits data" and
    w': "w' = emit_event marginfi_id
             (AdapterValueEvent (hdr_position (ms_header (ty_val (mv_adapter_state ctx)))) v
                (clock_slot (rt_clock rt)))
             (set_u64_return marginfi_id v w)"
    by (auto simp: marginfi_value_handler_ok [OF sv])
  have "reports_value marginfi (slot_position infos) w w'"
    unfolding slot by (rule marginfi_state.reports_valueI [where A = marginfi])
      (use ld w' isolated_same silent_refl in simp_all)
  with ok show ?thesis by simp
qed

interpretation marginfi: adapter_standard marginfi
proof unfold_locales
  fix x :: marginfi_state
  show "\<exists>tail. account_image (ad_codec marginfi) x =
          co_disc (ad_codec marginfi) @ enc_header (ad_header marginfi x) @ tail"
    by (simp add: account_image_def marginfi_codec_def)
qed (use marginfi_initialize_law marginfi_deposit_law marginfi_withdraw_law
       marginfi_current_value_law marginfi_state.disc_length
       marginfi_state.isolated_ledgerI [of marginfi] in \<open>simp_all\<close>)

end
