(* ===== verification/Jup_Cpi.thy ===== *)
theory Jup_Cpi
  imports Adapter
begin

text \<open>
  programs/jupiter-lp/src/jup_cpi.rs: the value of a JLP balance from the pool's assets under
  management and the JLP supply, and the two liquidity calls of Jupiter Perpetuals.
\<close>

definition jupiter_id :: pubkey where
  "jupiter_id = pubkey_of_b58 ''DwqPJD68SpERitR6NNp9AaizEn5W7ERbDArCkPJqwmzq''"

section \<open>Pricing\<close>

definition POOL_AUM_USD :: nat where "POOL_AUM_USD = 180"
definition MINT_SUPPLY :: nat where "MINT_SUPPLY = 36"
definition TOKEN_AMOUNT :: nat where "TOKEN_AMOUNT = 64"

lemmas jup_offsets = POOL_AUM_USD_def MINT_SUPPLY_def TOKEN_AMOUNT_def

definition jup_token_amount :: "bytes \<Rightarrow> u64 res" where
  "jup_token_amount token_account_data = read_u64 token_account_data TOKEN_AMOUNT"

definition lp_value_usdc :: "bytes \<Rightarrow> bytes \<Rightarrow> u64 \<Rightarrow> u64 res" where
  "lp_value_usdc pool_data lp_mint_data lp_balance =
     (if lp_balance = 0 then Inr 0
      else
        and_then (read_u128 pool_data POOL_AUM_USD) (\<lambda>aum.
        and_then (read_u64 lp_mint_data MINT_SUPPLY) (\<lambda>n.
        let lp_supply = ucast n :: u128 in
        if lp_supply = 0 then Inl mo
        else
          and_then (ok_or (checked_mul (ucast lp_balance) aum) mo) (\<lambda>p.
          and_then (ok_or (checked_div p lp_supply) mo) (\<lambda>value.
          ok_or (try_from value) mo)))))"

text \<open>The pool's assets and the JLP supply.\<close>

definition pool_aum :: "bytes \<Rightarrow> nat" where
  "pool_aum d = le_to_nat (take 16 (drop 180 d))"

definition mint_supply :: "bytes \<Rightarrow> nat" where
  "mint_supply d = le_to_nat (take 8 (drop 36 d))"

lemma lp_value_usdc_spec:
  "lp_value_usdc pool mint lp =
     (if lp = 0 then Inr 0
      else if 196 \<le> length pool \<and> 44 \<le> length mint
      then pro_rata (unat lp) (pool_aum pool) (mint_supply mint)
      else Inl mo)"
proof (cases "196 \<le> length pool \<and> 44 \<le> length mint")
  case False
  then show ?thesis
    by (auto simp: lp_value_usdc_def jup_offsets read_u64_eq read_u128_eq)
next
  case True
  then have len: "196 \<le> length pool" "44 \<le> length mint" by simp_all
  define a :: u128 where "a = from_le_bytes (take 16 (drop 180 pool))"
  define n :: u64 where "n = from_le_bytes (take 8 (drop 36 mint))"
  have ua: "unat a = pool_aum pool" and un: "unat n = mint_supply mint"
    unfolding a_def n_def pool_aum_def mint_supply_def using len
    by (simp_all add: unat_from_le_bytes)
  have reads: "read_u128 pool POOL_AUM_USD = Inr a" "read_u64 mint MINT_SUPPLY = Inr n"
    using len by (simp_all add: read_u64_eq read_u128_eq jup_offsets a_def n_def)
  have n0: "(ucast n :: u128) = 0 \<longleftrightarrow> mint_supply mint = 0"
    by (simp add: word_unat_eq_iff un)
  show ?thesis
    using len n0
    by (simp add: lp_value_usdc_def reads Let_def mul_div_chain ua un) (simp add: pro_rata_def)
qed

interpretation jlp: share_pricing "lp_value_usdc pool mint"
proof (cases "196 \<le> length pool \<and> 44 \<le> length mint")
  case True
  then have "lp_value_usdc pool mint =
      (\<lambda>s. if s = 0 then Inr 0 else pro_rata (unat s) (pool_aum pool) (mint_supply mint))"
    by (intro ext) (simp add: lp_value_usdc_spec)
  then show "share_pricing (lp_value_usdc pool mint)" by (simp only: zero_or_pro_rata)
next
  case False
  then have "lp_value_usdc pool mint = (\<lambda>s. if s = 0 then Inr 0 else Inl mo)"
    by (intro ext) (auto simp: lp_value_usdc_spec)
  then show "share_pricing (lp_value_usdc pool mint)"
    by unfold_locales (auto split: if_splits)
qed

section \<open>The Jupiter calls\<close>

definition JUP_ADD_LIQUIDITY2 :: bytes where
  "JUP_ADD_LIQUIDITY2 = [228, 162, 78, 28, 70, 219, 116, 115]"

definition JUP_REMOVE_LIQUIDITY2 :: bytes where
  "JUP_REMOVE_LIQUIDITY2 = [230, 215, 82, 127, 241, 101, 227, 146]"

record liquidity_accounts =
  la_program :: account_info
  la_owner :: account_info
  la_token_account :: account_info
  la_lp_token_account :: account_info
  la_transfer_authority :: account_info
  la_perpetuals :: account_info
  la_pool :: account_info
  la_custody :: account_info
  la_doves_price :: account_info
  la_pythnet_price :: account_info
  la_custody_token_account :: account_info
  la_lp_token_mint :: account_info
  la_token_program :: account_info
  la_event_authority :: account_info

definition jup_metas_and_infos :: "liquidity_accounts \<Rightarrow> account_meta list \<times> account_info list" where
  "jup_metas_and_infos a =
     ([meta_readonly (ai_key (la_owner a)) True,
       meta_new (ai_key (la_token_account a)) False,
       meta_new (ai_key (la_lp_token_account a)) False,
       meta_readonly (ai_key (la_transfer_authority a)) False,
       meta_readonly (ai_key (la_perpetuals a)) False,
       meta_new (ai_key (la_pool a)) False,
       meta_new (ai_key (la_custody a)) False,
       meta_readonly (ai_key (la_doves_price a)) False,
       meta_readonly (ai_key (la_pythnet_price a)) False,
       meta_new (ai_key (la_custody_token_account a)) False,
       meta_new (ai_key (la_lp_token_mint a)) False,
       meta_readonly (ai_key (la_token_program a)) False,
       meta_readonly (ai_key (la_event_authority a)) False,
       meta_readonly (ai_key (la_program a)) False],
      [la_owner a, la_token_account a, la_lp_token_account a, la_transfer_authority a,
       la_perpetuals a, la_pool a, la_custody a, la_doves_price a, la_pythnet_price a,
       la_custody_token_account a, la_lp_token_mint a, la_token_program a,
       la_event_authority a, la_program a])"

text \<open>The extra accounts are appended read-only and unsigned, whatever their flags.\<close>

fun append_extra ::
  "account_meta list \<Rightarrow> account_info list \<Rightarrow> account_info list \<Rightarrow>
   account_meta list \<times> account_info list" where
  "append_extra metas infos [] = (metas, infos)"
| "append_extra metas infos (acc # extra) =
     append_extra (metas @ [meta_readonly (ai_key acc) False]) (infos @ [acc]) extra"

lemma append_extra_eq:
  "append_extra metas infos extra =
     (metas @ map (\<lambda>a. meta_readonly (ai_key a) False) extra, infos @ extra)"
  by (induction extra arbitrary: metas infos) simp_all

definition add_liquidity ::
  "runtime \<Rightarrow> liquidity_accounts \<Rightarrow> u64 \<Rightarrow> account_info list \<Rightarrow> world \<Rightarrow> world res" where
  "add_liquidity rt a token_amount_in aum_accounts w =
     (case jup_metas_and_infos a of (metas, infos) \<Rightarrow>
      case append_extra metas infos aum_accounts of (metas, infos) \<Rightarrow>
      map_err
        (rt_invoke rt jupiter_id
          \<lparr>ix_program = ai_key (la_program a), ix_accounts = metas,
           ix_data = JUP_ADD_LIQUIDITY2 @ to_le_bytes 8 token_amount_in @
                     to_le_bytes 8 (0 :: u64) @ [0]\<rparr> infos [] w)
        cpi_failed)"

definition remove_liquidity ::
  "runtime \<Rightarrow> liquidity_accounts \<Rightarrow> u64 \<Rightarrow> account_info list \<Rightarrow> world \<Rightarrow> world res" where
  "remove_liquidity rt a lp_amount_in aum_accounts w =
     (case jup_metas_and_infos a of (metas, infos) \<Rightarrow>
      case append_extra metas infos aum_accounts of (metas, infos) \<Rightarrow>
      map_err
        (rt_invoke rt jupiter_id
          \<lparr>ix_program = ai_key (la_program a), ix_accounts = metas,
           ix_data = JUP_REMOVE_LIQUIDITY2 @ to_le_bytes 8 lp_amount_in @ to_le_bytes 8 (0 :: u64)\<rparr>
          infos [] w)
        cpi_failed)"

lemma jup_calls:
  assumes "calls_isolate rt jupiter_id"
  shows "add_liquidity rt a n extra w = Inr w' \<Longrightarrow> isolated jupiter_id w w' \<and> silent jupiter_id w w'"
    and "remove_liquidity rt a n extra w = Inr w' \<Longrightarrow> isolated jupiter_id w w' \<and> silent jupiter_id w w'"
  by (auto simp: add_liquidity_def remove_liquidity_def map_err_eq_Inr split: prod.splits
      dest: calls_isolateD(3) [OF assms] calls_silentD(3) [OF assms])

section \<open>Properties\<close>

text \<open>
  C23: the value of JLP tokens is the floor of balance times pool AUM over mint supply, with every
  failure \<open>MathOverflow\<close>, and zero for a zero balance without reading any account.
\<close>

theorem jupiter_price:
  "lp_value_usdc pool mint lp =
     (if lp = 0 then Inr 0
      else if length pool < 196 \<or> length mint < 44 then Inl mo
      else
        let product = unat lp * pool_aum pool; supply = mint_supply mint in
        if supply = 0 \<or> 2 ^ 128 \<le> product \<or> 2 ^ 64 \<le> product div supply then Inl mo
        else Inr (word_of_nat (product div supply)))"
  by (auto simp: lp_value_usdc_spec pro_rata_def Let_def not_le)

text \<open>
  The accounts a caller appends for the AUM computation reach Jupiter read-only and unsigned,
  whatever flags the caller gave them.
\<close>

lemma jupiter_extra_accounts_unprivileged:
  "append_extra metas infos extra =
     (metas @ map (\<lambda>a. \<lparr>am_pubkey = ai_key a, am_signer = False, am_writable = False\<rparr>) extra,
      infos @ extra)"
  by (simp add: append_extra_eq meta_readonly_def)

end
