(* ===== verification/Jupiter.thy ===== *)
theory Jupiter
  imports Jup_Cpi
begin

text \<open>
  The Jupiter adapter (programs/jupiter-lp): the position's shares are the JLP it received; the
  pool's further accounts are forwarded from the caller's remaining accounts.
\<close>

section \<open>State\<close>

record jupiter_state =
  js_header :: adapter_state_header
  js_pool :: pubkey
  js_custody :: pubkey
  js_lp_token_account :: pubkey
  js_lp_mint :: pubkey
  js_bump :: u8

definition jupiter_codec :: "jupiter_state codec" where
  "jupiter_codec =
     \<lparr>co_disc = [88, 130, 126, 170, 183, 106, 151, 212],
      co_space = 8 + (80 + 32 + 32 + 32 + 32 + 1),
      co_enc = (\<lambda>s. enc_header (js_header s) @
                    pubkey_bytes (js_pool s) @
                    pubkey_bytes (js_custody s) @
                    pubkey_bytes (js_lp_token_account s) @
                    pubkey_bytes (js_lp_mint s) @
                    to_le_bytes 1 (js_bump s)),
      co_dec = (\<lambda>bs. do {
        (h, bs) \<leftarrow> dec_header bs;
        (k1, bs) \<leftarrow> dec_pubkey bs;
        (k2, bs) \<leftarrow> dec_pubkey bs;
        (k3, bs) \<leftarrow> dec_pubkey bs;
        (k4, bs) \<leftarrow> dec_pubkey bs;
        (b, bs) \<leftarrow> dec_word 1 bs;
        Some (\<lparr>js_header = h, js_pool = k1, js_custody = k2, js_lp_token_account = k3, js_lp_mint = k4, js_bump = b\<rparr>, bs)})\<rparr>"

interpretation jupiter_state: anchor_account jupiter_codec "\<lambda>_. True"
proof unfold_locales
  fix x :: jupiter_state and r
  show "co_dec jupiter_codec (co_enc jupiter_codec x @ r) = Some (x, r)"
    by (simp add: jupiter_codec_def codec_simps del: One_nat_def)
qed (simp_all add: jupiter_codec_def replicate_8)

section \<open>adapter_initialize\<close>

record jupiter_initialize_ctx =
  ji_instructions_sysvar :: account_info
  ji_position :: account_info
  ji_adapter_state :: account_info
  ji_rent_payer :: account_info
  ji_lp_token_mint :: account_info
  ji_lp_token_account :: account_info
  ji_pool :: account_info
  ji_custody :: account_info
  ji_bump :: u8

definition jupiter_initialize_accounts ::
  "runtime \<Rightarrow> account_info list \<Rightarrow> world \<Rightarrow> (jupiter_initialize_ctx \<times> world) res" where
  "jupiter_initialize_accounts rt infos w =
     and_then (take_info infos) (\<lambda>(instructions_sysvar, infos).
     and_then (take_info infos) (\<lambda>(position, infos).
     and_then (take_info infos) (\<lambda>(adapter_state, infos).
     and_then (take_signer infos) (\<lambda>(rent_payer, infos).
     and_then (take_program (rt_system_program rt) w infos) (\<lambda>(system_program, infos).
     and_then (take_mint rt w infos) (\<lambda>(lp_token_mint, infos).
     and_then (take_info infos) (\<lambda>(lp_token_account, infos).
     and_then (take_info infos) (\<lambda>(pool, infos).
     and_then (take_info infos) (\<lambda>(custody, infos).
     and_then (take_program (rt_token_program rt) w infos) (\<lambda>(token_program, infos).
     and_then (take_program (rt_ata_program rt) w infos) (\<lambda>(associated_token_program, infos).
     and_then (c_init rt rent_payer adapter_state (co_space jupiter_codec)
                 (adapter_seeds jupiter_id (ai_key position)) jupiter_id w) (\<lambda>(bump, w).
     and_then (c_init_ata rt rent_payer lp_token_account (ai_key position)
                 (ai_key lp_token_mint) w) (\<lambda>(lp, w).
     and_then (c_address instructions_sysvar (rt_instructions_sysvar rt)
                 (AnchorErr ConstraintAddress)) (\<lambda>_.
     and_then (c_mut rent_payer) (\<lambda>_.
     Inr (\<lparr>ji_instructions_sysvar = instructions_sysvar, ji_position = position,
           ji_adapter_state = adapter_state, ji_rent_payer = rent_payer,
           ji_lp_token_mint = lp_token_mint, ji_lp_token_account = lp_token_account,
           ji_pool = pool, ji_custody = custody, ji_bump = bump\<rparr>, w))))))))))))))))"

definition jupiter_initialize_handler ::
  "runtime \<Rightarrow> jupiter_initialize_ctx \<Rightarrow> bytes \<Rightarrow> jupiter_state res" where
  "jupiter_initialize_handler rt ctx adapter_data =
     and_then (require (length adapter_data \<le> MAX_ADAPTER_DATA_LEN)
                 (AdapterErr AdapterDataTooLarge)) (\<lambda>_.
     and_then (verify_caller_is_dispatcher rt (ji_instructions_sysvar ctx) DISPATCHER_ID) (\<lambda>_.
     Inr \<lparr>js_header = \<lparr>hdr_position = ai_key (ji_position ctx), hdr_adapter_program = jupiter_id,
                       hdr_created_at = clock_unix_timestamp (rt_clock rt),
                       hdr_total_shares = 0\<rparr>,
          js_pool = ai_key (ji_pool ctx), js_custody = ai_key (ji_custody ctx),
          js_lp_token_account = ai_key (ji_lp_token_account ctx),
          js_lp_mint = ai_key (ji_lp_token_mint ctx), js_bump = ji_bump ctx\<rparr>))"

definition jupiter_initialize ::
  "runtime \<Rightarrow> account_info list \<Rightarrow> bytes \<Rightarrow> world \<Rightarrow> world res" where
  "jupiter_initialize rt infos adapter_data w =
     and_then (jupiter_initialize_accounts rt infos w) (\<lambda>(ctx, w).
     and_then (jupiter_initialize_handler rt ctx adapter_data) (\<lambda>state.
     store_account jupiter_codec (ai_key (ji_adapter_state ctx)) state w))"

section \<open>adapter_deposit and adapter_withdraw\<close>

text \<open>The two instructions declare the same sixteen accounts with the same constraints.\<close>

record jupiter_fund_ctx =
  jf_instructions_sysvar :: account_info
  jf_position :: account_info
  jf_position_usdc_pool :: "token_account typed"
  jf_adapter_state :: "jupiter_state typed"
  jf_jupiter_program :: account_info
  jf_transfer_authority :: account_info
  jf_perpetuals :: account_info
  jf_pool :: account_info
  jf_custody :: account_info
  jf_doves_price :: account_info
  jf_pythnet_price :: account_info
  jf_custody_token_account :: account_info
  jf_lp_token_mint :: account_info
  jf_lp_token_account :: "token_account typed"
  jf_token_program :: account_info
  jf_event_authority :: account_info
  jf_remaining :: "account_info list"

definition jupiter_fund_accounts ::
  "runtime \<Rightarrow> account_info list \<Rightarrow> world \<Rightarrow> jupiter_fund_ctx res" where
  "jupiter_fund_accounts rt infos w =
     and_then (take_info infos) (\<lambda>(instructions_sysvar, infos).
     and_then (take_info infos) (\<lambda>(position, infos).
     and_then (take_token rt w infos) (\<lambda>(position_usdc_pool, infos).
     and_then (take_account jupiter_codec jupiter_id w infos) (\<lambda>(adapter_state, infos).
     and_then (take_info infos) (\<lambda>(jupiter_program, infos).
     and_then (take_info infos) (\<lambda>(transfer_authority, infos).
     and_then (take_info infos) (\<lambda>(perpetuals, infos).
     and_then (take_info infos) (\<lambda>(pool, infos).
     and_then (take_info infos) (\<lambda>(custody, infos).
     and_then (take_info infos) (\<lambda>(doves_price, infos).
     and_then (take_info infos) (\<lambda>(pythnet_price, infos).
     and_then (take_info infos) (\<lambda>(custody_token_account, infos).
     and_then (take_info infos) (\<lambda>(lp_token_mint, infos).
     and_then (take_token rt w infos) (\<lambda>(lp_token_account, infos).
     and_then (take_info infos) (\<lambda>(token_program, infos).
     and_then (take_info infos) (\<lambda>(event_authority, infos).
     and_then (c_address instructions_sysvar (rt_instructions_sysvar rt)
                 (AnchorErr ConstraintAddress)) (\<lambda>_.
     and_then (c_mut (ty_info position_usdc_pool)) (\<lambda>_.
     and_then (c_seeds rt (adapter_seeds jupiter_id (ai_key position) @ [[js_bump (ty_val adapter_state)]])
                 jupiter_id (ty_info adapter_state)) (\<lambda>_.
     and_then (c_mut (ty_info adapter_state)) (\<lambda>_.
     and_then (require (hdr_position (js_header (ty_val adapter_state)) = ai_key position)
                 unauthorized) (\<lambda>_.
     and_then (c_executable w jupiter_program) (\<lambda>_.
     and_then (c_mut pool) (\<lambda>_.
     and_then (c_address pool (js_pool (ty_val adapter_state)) unauthorized) (\<lambda>_.
     and_then (c_mut custody) (\<lambda>_.
     and_then (c_address custody (js_custody (ty_val adapter_state)) unauthorized) (\<lambda>_.
     and_then (c_mut custody_token_account) (\<lambda>_.
     and_then (c_mut lp_token_mint) (\<lambda>_.
     and_then (c_mut (ty_info lp_token_account)) (\<lambda>_.
     and_then (c_address (ty_info lp_token_account) (js_lp_token_account (ty_val adapter_state)) unauthorized) (\<lambda>_.
     Inr \<lparr>jf_instructions_sysvar = instructions_sysvar, jf_position = position,
          jf_position_usdc_pool = position_usdc_pool, jf_adapter_state = adapter_state,
          jf_jupiter_program = jupiter_program,
          jf_transfer_authority = transfer_authority, jf_perpetuals = perpetuals,
          jf_pool = pool, jf_custody = custody, jf_doves_price = doves_price,
          jf_pythnet_price = pythnet_price,
          jf_custody_token_account = custody_token_account,
          jf_lp_token_mint = lp_token_mint, jf_lp_token_account = lp_token_account,
          jf_token_program = token_program, jf_event_authority = event_authority,
          jf_remaining = infos\<rparr>))))))))))))))))))))))))))))))"

definition jupiter_liquidity_accounts :: "jupiter_fund_ctx \<Rightarrow> liquidity_accounts" where
  "jupiter_liquidity_accounts ctx =
     \<lparr>la_program = jf_jupiter_program ctx, la_owner = jf_position ctx,
      la_token_account = ty_info (jf_position_usdc_pool ctx),
      la_lp_token_account = ty_info (jf_lp_token_account ctx),
      la_transfer_authority = jf_transfer_authority ctx, la_perpetuals = jf_perpetuals ctx,
      la_pool = jf_pool ctx, la_custody = jf_custody ctx, la_doves_price = jf_doves_price ctx,
      la_pythnet_price = jf_pythnet_price ctx,
      la_custody_token_account = jf_custody_token_account ctx,
      la_lp_token_mint = jf_lp_token_mint ctx, la_token_program = jf_token_program ctx,
      la_event_authority = jf_event_authority ctx\<rparr>"

definition jupiter_book :: "u64 \<Rightarrow> jupiter_state \<Rightarrow> jupiter_state" where
  "jupiter_book n s = s\<lparr>js_header := (js_header s)\<lparr>hdr_total_shares := n\<rparr>\<rparr>"

definition jupiter_deposit_handler ::
  "runtime \<Rightarrow> jupiter_fund_ctx \<Rightarrow> u64 \<Rightarrow> bytes \<Rightarrow> world \<Rightarrow> (jupiter_state \<times> world) res" where
  "jupiter_deposit_handler rt ctx amount adapter_data w =
     and_then (require (amount > 0) (AdapterErr adapter_error.ZeroAmount)) (\<lambda>_.
     and_then (require (length adapter_data \<le> MAX_ADAPTER_DATA_LEN)
                 (AdapterErr AdapterDataTooLarge)) (\<lambda>_.
     and_then (verify_caller_is_dispatcher rt (jf_instructions_sysvar ctx) DISPATCHER_ID) (\<lambda>_.
     let accs = jupiter_liquidity_accounts ctx;
         state = ty_val (jf_adapter_state ctx);
         lp_before = tok_amount (ty_val (jf_lp_token_account ctx)) in
     and_then (add_liquidity rt accs amount (jf_remaining ctx) w) (\<lambda>w.
     and_then (reload_token rt (ty_key (jf_lp_token_account ctx)) w) (\<lambda>lp.
     and_then (ok_or (checked_sub (tok_amount lp) lp_before) mo) (\<lambda>shares_minted.
     and_then (ok_or (checked_add (hdr_total_shares (js_header state)) shares_minted) mo) (\<lambda>n.
     Inr (jupiter_book n state,
          emit_event jupiter_id
            (AdapterDepositEvent (hdr_position (js_header state)) amount shares_minted)
            (set_u64_return jupiter_id shares_minted w)))))))))"

definition jupiter_withdraw_handler ::
  "runtime \<Rightarrow> jupiter_fund_ctx \<Rightarrow> u64 \<Rightarrow> bytes \<Rightarrow> world \<Rightarrow> (jupiter_state \<times> world) res" where
  "jupiter_withdraw_handler rt ctx shares adapter_data w =
     and_then (require (shares > 0) (AdapterErr adapter_error.ZeroAmount)) (\<lambda>_.
     and_then (require (length adapter_data \<le> MAX_ADAPTER_DATA_LEN)
                 (AdapterErr AdapterDataTooLarge)) (\<lambda>_.
     let state = ty_val (jf_adapter_state ctx) in
     and_then (require (shares \<le> hdr_total_shares (js_header state))
                 (AdapterErr InsufficientShares)) (\<lambda>_.
     and_then (verify_caller_is_dispatcher rt (jf_instructions_sysvar ctx) DISPATCHER_ID) (\<lambda>_.
     let accs = jupiter_liquidity_accounts ctx;
         usdc_before = tok_amount (ty_val (jf_position_usdc_pool ctx)) in
     and_then (remove_liquidity rt accs shares (jf_remaining ctx) w) (\<lambda>w.
     and_then (reload_token rt (ty_key (jf_position_usdc_pool ctx)) w) (\<lambda>pool.
     and_then (ok_or (checked_sub (tok_amount pool) usdc_before) mo) (\<lambda>amount_out.
     and_then (ok_or (checked_sub (hdr_total_shares (js_header state)) shares) mo) (\<lambda>n.
     Inr (jupiter_book n state,
          emit_event jupiter_id
            (AdapterWithdrawEvent (hdr_position (js_header state)) shares amount_out)
            (set_u64_return jupiter_id amount_out w))))))))))"

text \<open>
  \<open>AdapterDeposit\<close> and \<open>AdapterWithdraw\<close> are two structs with the same fields and the same
  constraints in the same order.
\<close>

definition jupiter_deposit_accounts ::
  "runtime \<Rightarrow> account_info list \<Rightarrow> world \<Rightarrow> jupiter_fund_ctx res" where
  "jupiter_deposit_accounts rt infos w = jupiter_fund_accounts rt infos w"

definition jupiter_withdraw_accounts ::
  "runtime \<Rightarrow> account_info list \<Rightarrow> world \<Rightarrow> jupiter_fund_ctx res" where
  "jupiter_withdraw_accounts rt infos w = jupiter_fund_accounts rt infos w"

definition jupiter_deposit ::
  "runtime \<Rightarrow> account_info list \<Rightarrow> u64 \<Rightarrow> bytes \<Rightarrow> world \<Rightarrow> world res" where
  "jupiter_deposit rt infos amount adapter_data w =
     and_then (jupiter_deposit_accounts rt infos w) (\<lambda>ctx.
     and_then (jupiter_deposit_handler rt ctx amount adapter_data w) (\<lambda>(state, w).
     store_account jupiter_codec (ty_key (jf_adapter_state ctx)) state w))"

definition jupiter_withdraw ::
  "runtime \<Rightarrow> account_info list \<Rightarrow> u64 \<Rightarrow> bytes \<Rightarrow> world \<Rightarrow> world res" where
  "jupiter_withdraw rt infos shares adapter_data w =
     and_then (jupiter_withdraw_accounts rt infos w) (\<lambda>ctx.
     and_then (jupiter_withdraw_handler rt ctx shares adapter_data w) (\<lambda>(state, w).
     store_account jupiter_codec (ty_key (jf_adapter_state ctx)) state w))"

section \<open>adapter_current_value\<close>

record jupiter_value_ctx =
  jv_instructions_sysvar :: account_info
  jv_position :: account_info
  jv_adapter_state :: "jupiter_state typed"
  jv_lp_token_account :: account_info
  jv_pool :: account_info
  jv_lp_token_mint :: account_info

definition jupiter_value_accounts ::
  "runtime \<Rightarrow> account_info list \<Rightarrow> world \<Rightarrow> jupiter_value_ctx res" where
  "jupiter_value_accounts rt infos w =
     and_then (take_info infos) (\<lambda>(instructions_sysvar, infos).
     and_then (take_info infos) (\<lambda>(position, infos).
     and_then (take_account jupiter_codec jupiter_id w infos) (\<lambda>(adapter_state, infos).
     and_then (take_info infos) (\<lambda>(lp_token_account, infos).
     and_then (take_info infos) (\<lambda>(pool, infos).
     and_then (take_info infos) (\<lambda>(lp_token_mint, infos).
     and_then (c_address instructions_sysvar (rt_instructions_sysvar rt)
                 (AnchorErr ConstraintAddress)) (\<lambda>_.
     and_then (c_seeds rt (adapter_seeds jupiter_id (ai_key position) @ [[js_bump (ty_val adapter_state)]])
                 jupiter_id (ty_info adapter_state)) (\<lambda>_.
     and_then (require (hdr_position (js_header (ty_val adapter_state)) = ai_key position)
                 unauthorized) (\<lambda>_.
     and_then (c_address lp_token_account (js_lp_token_account (ty_val adapter_state)) unauthorized) (\<lambda>_.
     and_then (c_address pool (js_pool (ty_val adapter_state)) unauthorized) (\<lambda>_.
     and_then (c_address lp_token_mint (js_lp_mint (ty_val adapter_state)) unauthorized) (\<lambda>_.
     Inr \<lparr>jv_instructions_sysvar = instructions_sysvar, jv_position = position,
          jv_adapter_state = adapter_state, jv_lp_token_account = lp_token_account,
          jv_pool = pool, jv_lp_token_mint = lp_token_mint\<rparr>))))))))))))"

definition jupiter_value_handler ::
  "runtime \<Rightarrow> jupiter_value_ctx \<Rightarrow> bytes \<Rightarrow> world \<Rightarrow> world res" where
  "jupiter_value_handler rt ctx adapter_data w =
     and_then (require (length adapter_data \<le> MAX_ADAPTER_DATA_LEN)
                 (AdapterErr AdapterDataTooLarge)) (\<lambda>_.
     and_then (verify_caller_is_dispatcher rt (jv_instructions_sysvar ctx) DISPATCHER_ID) (\<lambda>_.
     let lp_acct = account_data w (ai_key (jv_lp_token_account ctx));
         pool = account_data w (ai_key (jv_pool ctx));
         mint = account_data w (ai_key (jv_lp_token_mint ctx)) in
     and_then (jup_token_amount lp_acct) (\<lambda>lp_balance.
     and_then (lp_value_usdc pool mint lp_balance) (\<lambda>value.
     Inr (emit_event jupiter_id
            (AdapterValueEvent (hdr_position (js_header (ty_val (jv_adapter_state ctx)))) value
               (clock_slot (rt_clock rt)))
            (set_u64_return jupiter_id value w))))))"

definition jupiter_current_value ::
  "runtime \<Rightarrow> account_info list \<Rightarrow> bytes \<Rightarrow> world \<Rightarrow> world res" where
  "jupiter_current_value rt infos adapter_data w =
     and_then (jupiter_value_accounts rt infos w) (\<lambda>ctx.
     jupiter_value_handler rt ctx adapter_data w)"

section \<open>What success means\<close>

lemma jupiter_initialize_accounts_ok:
  "jupiter_initialize_accounts rt infos w = Inr (ctx, w2) \<longleftrightarrow>
     (\<exists>system token ata rest.
        infos = [ji_instructions_sysvar ctx, ji_position ctx, ji_adapter_state ctx,
          ji_rent_payer ctx, system, ji_lp_token_mint ctx, ji_lp_token_account ctx,
          ji_pool ctx, ji_custody ctx, token, ata] @ rest \<and>
        ai_key system = rt_system_program rt \<and> ai_key token = rt_token_program rt \<and>
        ai_key ata = rt_ata_program rt) \<and>
     account_executable w (rt_system_program rt) \<and>
     account_executable w (rt_token_program rt) \<and>
     account_executable w (rt_ata_program rt) \<and>
     ai_signer (ji_rent_payer ctx) \<and> ai_writable (ji_rent_payer ctx) \<and>
     load_mint rt (ai_key (ji_lp_token_mint ctx)) w = Inr () \<and>
     rt_find_program_address rt (adapter_seeds jupiter_id (ai_key (ji_position ctx))) jupiter_id =
       (ai_key (ji_adapter_state ctx), ji_bump ctx) \<and>
     ai_writable (ji_adapter_state ctx) \<and> ai_writable (ji_lp_token_account ctx) \<and>
     (\<exists>w1 lp.
        rt_create_account rt (ai_key (ji_rent_payer ctx)) (ai_key (ji_adapter_state ctx))
          (co_space jupiter_codec) jupiter_id w = Inr w1 \<and>
        rt_create_ata rt (ai_key (ji_rent_payer ctx)) (ai_key (ji_lp_token_account ctx))
          (ai_key (ji_position ctx)) (ai_key (ji_lp_token_mint ctx)) w1 = Inr w2 \<and>
        load_token rt (ai_key (ji_lp_token_account ctx)) w2 = Inr lp) \<and>
     ai_key (ji_instructions_sysvar ctx) = rt_instructions_sysvar rt"
  unfolding jupiter_initialize_accounts_def
  by (cases ctx) (auto simp: and_then_eq_Inr take_info_eq_Inr take_signer_eq_Inr take_mint_eq_Inr
      take_program_eq_Inr c_init_eq_Inr c_init_ata_eq_Inr constraint_eq_Inr split: prod.splits)

lemma jupiter_fund_accounts_ok:
  "jupiter_fund_accounts rt infos w = Inr ctx \<longleftrightarrow>
     infos =
        [jf_instructions_sysvar ctx, jf_position ctx, ty_info (jf_position_usdc_pool ctx),
         ty_info (jf_adapter_state ctx), jf_jupiter_program ctx, jf_transfer_authority ctx,
         jf_perpetuals ctx, jf_pool ctx, jf_custody ctx, jf_doves_price ctx,
         jf_pythnet_price ctx, jf_custody_token_account ctx, jf_lp_token_mint ctx,
         ty_info (jf_lp_token_account ctx), jf_token_program ctx, jf_event_authority ctx] @ jf_remaining ctx \<and>
     load_token rt (ty_key (jf_position_usdc_pool ctx)) w = Inr (ty_val (jf_position_usdc_pool ctx)) \<and>
     load_account jupiter_codec jupiter_id (ty_key (jf_adapter_state ctx)) w =
       Inr (ty_val (jf_adapter_state ctx)) \<and>
     load_token rt (ty_key (jf_lp_token_account ctx)) w = Inr (ty_val (jf_lp_token_account ctx)) \<and>
     ai_key (jf_instructions_sysvar ctx) = rt_instructions_sysvar rt \<and>
     ai_writable (ty_info (jf_position_usdc_pool ctx)) \<and>
     rt_create_program_address rt
       (adapter_seeds jupiter_id (ai_key (jf_position ctx)) @ [[js_bump (ty_val (jf_adapter_state ctx))]])
       jupiter_id = Some (ty_key (jf_adapter_state ctx)) \<and>
     ai_writable (ty_info (jf_adapter_state ctx)) \<and>
     hdr_position (js_header (ty_val (jf_adapter_state ctx))) = ai_key (jf_position ctx) \<and>
     account_executable w (ai_key (jf_jupiter_program ctx)) \<and>
     ai_writable (jf_pool ctx) \<and>
     ai_key (jf_pool ctx) = js_pool (ty_val (jf_adapter_state ctx)) \<and>
     ai_writable (jf_custody ctx) \<and>
     ai_key (jf_custody ctx) = js_custody (ty_val (jf_adapter_state ctx)) \<and>
     ai_writable (jf_custody_token_account ctx) \<and>
     ai_writable (jf_lp_token_mint ctx) \<and>
     ai_writable (ty_info (jf_lp_token_account ctx)) \<and>
     ty_key (jf_lp_token_account ctx) = js_lp_token_account (ty_val (jf_adapter_state ctx))"
  unfolding jupiter_fund_accounts_def
  by (cases ctx) (auto simp: and_then_eq_Inr take_info_eq_Inr take_token_eq_Inr
      take_account_eq_Inr constraint_eq_Inr require_eq_Inr split: prod.splits)

lemma jupiter_value_accounts_ok:
  "jupiter_value_accounts rt infos w = Inr ctx \<longleftrightarrow>
     (\<exists>rest. infos =
        [jv_instructions_sysvar ctx, jv_position ctx, ty_info (jv_adapter_state ctx),
         jv_lp_token_account ctx, jv_pool ctx, jv_lp_token_mint ctx] @ rest) \<and>
     load_account jupiter_codec jupiter_id (ty_key (jv_adapter_state ctx)) w =
       Inr (ty_val (jv_adapter_state ctx)) \<and>
     ai_key (jv_instructions_sysvar ctx) = rt_instructions_sysvar rt \<and>
     rt_create_program_address rt
       (adapter_seeds jupiter_id (ai_key (jv_position ctx)) @ [[js_bump (ty_val (jv_adapter_state ctx))]])
       jupiter_id = Some (ty_key (jv_adapter_state ctx)) \<and>
     hdr_position (js_header (ty_val (jv_adapter_state ctx))) = ai_key (jv_position ctx) \<and>
     ai_key (jv_lp_token_account ctx) = js_lp_token_account (ty_val (jv_adapter_state ctx)) \<and>
     ai_key (jv_pool ctx) = js_pool (ty_val (jv_adapter_state ctx)) \<and>
     ai_key (jv_lp_token_mint ctx) = js_lp_mint (ty_val (jv_adapter_state ctx))"
  unfolding jupiter_value_accounts_def
  by (cases ctx) (auto simp: and_then_eq_Inr take_info_eq_Inr
      take_account_eq_Inr constraint_eq_Inr require_eq_Inr split: prod.splits)

lemma jupiter_deposit_handler_ok:
  assumes "ai_key (jf_instructions_sysvar ctx) = rt_instructions_sysvar rt"
  shows "jupiter_deposit_handler rt ctx amount data w = Inr (s, w') \<longleftrightarrow>
     0 < amount \<and> data_fits data \<and> caller_ok rt \<and>
     (\<exists>w1 lp m n.
        add_liquidity rt (jupiter_liquidity_accounts ctx) amount (jf_remaining ctx) w = Inr w1 \<and>
        rt_token_unpack rt (account_data w1 (ty_key (jf_lp_token_account ctx))) = Some lp \<and>
        checked_sub (tok_amount lp) (tok_amount (ty_val (jf_lp_token_account ctx))) = Some m \<and>
        checked_add (hdr_total_shares (js_header (ty_val (jf_adapter_state ctx)))) m = Some n \<and>
        s = jupiter_book n (ty_val (jf_adapter_state ctx)) \<and>
        w' = emit_event jupiter_id
               (AdapterDepositEvent (hdr_position (js_header (ty_val (jf_adapter_state ctx)))) amount m)
               (set_u64_return jupiter_id m w1))"
  unfolding jupiter_deposit_handler_def
  by (auto simp: and_then_eq_Inr require_eq_Inr verify_caller_ok [OF assms] data_fits_def Let_def
      ok_or_eq_Inr reload_token_eq_Inr)

lemma jupiter_withdraw_handler_ok:
  assumes "ai_key (jf_instructions_sysvar ctx) = rt_instructions_sysvar rt"
  shows "jupiter_withdraw_handler rt ctx shares data w = Inr (s, w') \<longleftrightarrow>
     0 < shares \<and> data_fits data \<and> caller_ok rt \<and>
     shares \<le> hdr_total_shares (js_header (ty_val (jf_adapter_state ctx))) \<and>
     (\<exists>w1 pool a n.
        remove_liquidity rt (jupiter_liquidity_accounts ctx) shares (jf_remaining ctx) w = Inr w1 \<and>
        rt_token_unpack rt (account_data w1 (ty_key (jf_position_usdc_pool ctx))) = Some pool \<and>
        checked_sub (tok_amount pool) (tok_amount (ty_val (jf_position_usdc_pool ctx))) = Some a \<and>
        checked_sub (hdr_total_shares (js_header (ty_val (jf_adapter_state ctx)))) shares = Some n \<and>
        s = jupiter_book n (ty_val (jf_adapter_state ctx)) \<and>
        w' = emit_event jupiter_id
               (AdapterWithdrawEvent (hdr_position (js_header (ty_val (jf_adapter_state ctx)))) shares a)
               (set_u64_return jupiter_id a w1))"
  unfolding jupiter_withdraw_handler_def
  by (auto simp: and_then_eq_Inr require_eq_Inr verify_caller_ok [OF assms] data_fits_def Let_def
      ok_or_eq_Inr reload_token_eq_Inr)

lemma jupiter_value_handler_ok:
  assumes "ai_key (jv_instructions_sysvar ctx) = rt_instructions_sysvar rt"
  shows "jupiter_value_handler rt ctx data w = Inr w' \<longleftrightarrow>
     data_fits data \<and> caller_ok rt \<and>
     (\<exists>lp v.
        jup_token_amount (account_data w (ai_key (jv_lp_token_account ctx))) = Inr lp \<and>
        lp_value_usdc (account_data w (ai_key (jv_pool ctx)))
          (account_data w (ai_key (jv_lp_token_mint ctx))) lp = Inr v \<and>
        w' = emit_event jupiter_id
               (AdapterValueEvent (hdr_position (js_header (ty_val (jv_adapter_state ctx)))) v
                  (clock_slot (rt_clock rt)))
               (set_u64_return jupiter_id v w))"
  unfolding jupiter_value_handler_def
  by (auto simp: and_then_eq_Inr require_eq_Inr verify_caller_ok [OF assms] data_fits_def Let_def)

section \<open>The adapter standard\<close>

definition jupiter :: "jupiter_state adapter" where
  "jupiter =
     \<lparr>ad_id = jupiter_id, ad_codec = jupiter_codec, ad_header = js_header,
      ad_initialize = jupiter_initialize, ad_deposit = jupiter_deposit,
      ad_withdraw = jupiter_withdraw, ad_current_value = jupiter_current_value\<rparr>"

lemma jupiter_sel [simp]:
  "ad_id jupiter = jupiter_id" "ad_codec jupiter = jupiter_codec" "ad_header jupiter = js_header"
  "ad_initialize jupiter = jupiter_initialize" "ad_deposit jupiter = jupiter_deposit"
  "ad_withdraw jupiter = jupiter_withdraw" "ad_current_value jupiter = jupiter_current_value"
  by (simp_all add: jupiter_def)

lemma js_header_book [simp]: "js_header (jupiter_book n s) = book n (js_header s)"
  by (simp add: jupiter_book_def book_def)

lemma jupiter_initialize_law:
  assumes "jupiter_initialize rt infos data w = Inr w'"
  shows "caller_ok rt \<and> data_fits data \<and>
     (system_creates rt \<longrightarrow> calls_isolate rt jupiter_id \<longrightarrow> opens_row jupiter rt (slot_position infos) w w')"
proof -
  from assms obtain ctx w2 s where acc: "jupiter_initialize_accounts rt infos w = Inr (ctx, w2)"
    and h: "jupiter_initialize_handler rt ctx data = Inr s"
    and st: "store_account jupiter_codec (ai_key (ji_adapter_state ctx)) s w2 = Inr w'"
    by (auto simp: jupiter_initialize_def and_then_eq_Inr)
  from acc obtain w1 where
    pda: "rt_find_program_address rt (adapter_seeds jupiter_id (ai_key (ji_position ctx))) jupiter_id =
       (ai_key (ji_adapter_state ctx), ji_bump ctx)" and
    cr: "rt_create_account rt (ai_key (ji_rent_payer ctx)) (ai_key (ji_adapter_state ctx))
          (co_space jupiter_codec) jupiter_id w = Inr w1" and
    ata: "rt_create_ata rt (ai_key (ji_rent_payer ctx)) (ai_key (ji_lp_token_account ctx))
          (ai_key (ji_position ctx)) (ai_key (ji_lp_token_mint ctx)) w1 = Inr w2" and
    sv: "ai_key (ji_instructions_sysvar ctx) = rt_instructions_sysvar rt"
    by (auto simp: jupiter_initialize_accounts_ok)
  from acc have slot: "slot_position infos = ai_key (ji_position ctx)"
    by (auto simp: jupiter_initialize_accounts_ok slot_position_def)
  from h have ok: "caller_ok rt" "data_fits data" and
    hdr: "js_header s = \<lparr>hdr_position = ai_key (ji_position ctx), hdr_adapter_program = jupiter_id,
           hdr_created_at = clock_unix_timestamp (rt_clock rt), hdr_total_shares = 0\<rparr>"
    by (auto simp: jupiter_initialize_handler_def and_then_eq_Inr require_eq_Inr
        verify_caller_ok [OF sv] data_fits_def)
  have "opens_row jupiter rt (slot_position infos) w w'" if "system_creates rt" "calls_isolate rt jupiter_id"
    unfolding slot by (rule jupiter_state.opens_rowI [where A = jupiter and y = s])
      (use that pda cr calls_isolateD(1) [OF that(2) ata] calls_silentD(1) [OF that(2) ata] st hdr in simp_all)
  with ok show ?thesis by simp
qed

lemma jupiter_deposit_law:
  assumes "jupiter_deposit rt infos amount data w = Inr w'"
  shows "caller_ok rt \<and> data_fits data \<and> 0 < amount \<and>
     (calls_isolate rt jupiter_id \<longrightarrow> mints_shares jupiter (slot_position infos) amount w w')"
proof -
  from assms obtain ctx s w3 where acc: "jupiter_fund_accounts rt infos w = Inr ctx"
    and h: "jupiter_deposit_handler rt ctx amount data w = Inr (s, w3)"
    and st: "store_account jupiter_codec (ty_key (jf_adapter_state ctx)) s w3 = Inr w'"
    by (auto simp: jupiter_deposit_def jupiter_deposit_accounts_def and_then_eq_Inr)
  from acc have sv: "ai_key (jf_instructions_sysvar ctx) = rt_instructions_sysvar rt"
    and ld: "load_account jupiter_codec jupiter_id (ty_key (jf_adapter_state ctx)) w =
       Inr (ty_val (jf_adapter_state ctx))"
    by (simp_all add: jupiter_fund_accounts_ok)
  from acc have slot: "slot_position infos = hdr_position (js_header (ty_val (jf_adapter_state ctx)))"
    by (auto simp: jupiter_fund_accounts_ok slot_position_def)
  from h obtain w1 m n where ok: "caller_ok rt" "data_fits data" "0 < amount" and
    r1: "add_liquidity rt (jupiter_liquidity_accounts ctx) amount (jf_remaining ctx) w = Inr w1" and
    add: "checked_add (hdr_total_shares (js_header (ty_val (jf_adapter_state ctx)))) m = Some n" and
    s: "s = jupiter_book n (ty_val (jf_adapter_state ctx))" and
    w3: "w3 = emit_event jupiter_id
             (AdapterDepositEvent (hdr_position (js_header (ty_val (jf_adapter_state ctx)))) amount m)
             (set_u64_return jupiter_id m w1)"
    by (auto simp: jupiter_deposit_handler_ok [OF sv])
  have "mints_shares jupiter (slot_position infos) amount w w'" if "calls_isolate rt jupiter_id"
    unfolding slot by (rule jupiter_state.mints_sharesI [where A = jupiter and y = s and ?w2.0 = w1 and n = n and m = m])
      (use ld st add jup_calls(1) [OF that r1] in \<open>simp_all add: s w3 checked_add_Some\<close>)
  with ok show ?thesis by simp
qed

lemma jupiter_withdraw_law:
  assumes "jupiter_withdraw rt infos shares data w = Inr w'"
  shows "caller_ok rt \<and> data_fits data \<and> 0 < shares \<and>
     (calls_isolate rt jupiter_id \<longrightarrow> burns_shares jupiter (slot_position infos) shares shares w w')"
proof -
  from assms obtain ctx s w3 where acc: "jupiter_fund_accounts rt infos w = Inr ctx"
    and h: "jupiter_withdraw_handler rt ctx shares data w = Inr (s, w3)"
    and st: "store_account jupiter_codec (ty_key (jf_adapter_state ctx)) s w3 = Inr w'"
    by (auto simp: jupiter_withdraw_def jupiter_withdraw_accounts_def and_then_eq_Inr)
  from acc have sv: "ai_key (jf_instructions_sysvar ctx) = rt_instructions_sysvar rt"
    and ld: "load_account jupiter_codec jupiter_id (ty_key (jf_adapter_state ctx)) w =
       Inr (ty_val (jf_adapter_state ctx))"
    by (simp_all add: jupiter_fund_accounts_ok)
  from acc have slot: "slot_position infos = hdr_position (js_header (ty_val (jf_adapter_state ctx)))"
    by (auto simp: jupiter_fund_accounts_ok slot_position_def)
  from h obtain w1 a n where ok: "caller_ok rt" "data_fits data" "0 < shares" and
    r1: "remove_liquidity rt (jupiter_liquidity_accounts ctx) shares (jf_remaining ctx) w = Inr w1" and
    sub: "checked_sub (hdr_total_shares (js_header (ty_val (jf_adapter_state ctx)))) shares = Some n" and
    s: "s = jupiter_book n (ty_val (jf_adapter_state ctx))" and
    w3: "w3 = emit_event jupiter_id
             (AdapterWithdrawEvent (hdr_position (js_header (ty_val (jf_adapter_state ctx)))) shares a)
             (set_u64_return jupiter_id a w1)"
    by (auto simp: jupiter_withdraw_handler_ok [OF sv])
  have "burns_shares jupiter (slot_position infos) shares shares w w'" if "calls_isolate rt jupiter_id"
    unfolding slot by (rule jupiter_state.burns_sharesI [where A = jupiter and y = s and ?w2.0 = w1 and n = n and b = shares and a = a])
      (use ld st sub jup_calls(2) [OF that r1] in \<open>simp_all add: s w3 checked_sub_Some\<close>)
  with ok show ?thesis by simp
qed

lemma jupiter_current_value_law:
  assumes "jupiter_current_value rt infos data w = Inr w'"
  shows "caller_ok rt \<and> data_fits data \<and>
     (calls_isolate rt jupiter_id \<longrightarrow> reports_value jupiter (slot_position infos) w w')"
proof -
  from assms obtain ctx where acc: "jupiter_value_accounts rt infos w = Inr ctx"
    and h: "jupiter_value_handler rt ctx data w = Inr w'"
    by (auto simp: jupiter_current_value_def and_then_eq_Inr)
  from acc have sv: "ai_key (jv_instructions_sysvar ctx) = rt_instructions_sysvar rt"
    and ld: "load_account jupiter_codec jupiter_id (ty_key (jv_adapter_state ctx)) w =
       Inr (ty_val (jv_adapter_state ctx))"
    by (simp_all add: jupiter_value_accounts_ok)
  from acc have slot: "slot_position infos = hdr_position (js_header (ty_val (jv_adapter_state ctx)))"
    by (auto simp: jupiter_value_accounts_ok slot_position_def)
  from h obtain v where ok: "caller_ok rt" "data_fits data" and
    w': "w' = emit_event jupiter_id
             (AdapterValueEvent (hdr_position (js_header (ty_val (jv_adapter_state ctx)))) v
                (clock_slot (rt_clock rt)))
             (set_u64_return jupiter_id v w)"
    by (auto simp: jupiter_value_handler_ok [OF sv])
  have "reports_value jupiter (slot_position infos) w w'"
    unfolding slot by (rule jupiter_state.reports_valueI [where A = jupiter])
      (use ld w' isolated_same silent_refl in simp_all)
  with ok show ?thesis by simp
qed

interpretation jupiter: guarded_adapter jupiter
proof unfold_locales
  fix x :: jupiter_state
  show "\<exists>tail. account_image (ad_codec jupiter) x =
          co_disc (ad_codec jupiter) @ enc_header (ad_header jupiter x) @ tail"
    by (simp add: account_image_def jupiter_codec_def)
qed (use jupiter_initialize_law jupiter_deposit_law jupiter_withdraw_law jupiter_withdraw_law [THEN exact_burns] jupiter_current_value_law
       jupiter_state.disc_length jupiter_state.isolated_ledgerI [of jupiter] in \<open>simp_all\<close>)

end
