(* ===== verification/Orca_Cpi.thy ===== *)
theory Orca_Cpi
  imports Adapter
begin

text \<open>
  programs/maple-syrup/src/orca_cpi.rs: the value of a syrupUSDC balance at the whirlpool's spot
  price (\<open>sqrt_price\<close> is a Q64.64 square root), and the swap call.
\<close>

definition maple_id :: pubkey where
  "maple_id = pubkey_of_b58 ''3Y1AddXDAnzw14UYpjLByWSJYTncMj7uFNJN9Egwzqh9''"

section \<open>Pricing\<close>

definition WP_SQRT_PRICE :: nat where "WP_SQRT_PRICE = 65"
definition ORCA_TOKEN_AMOUNT :: nat where "ORCA_TOKEN_AMOUNT = 64"

definition orca_token_amount :: "bytes \<Rightarrow> u64 res" where
  "orca_token_amount d = read_u64 d ORCA_TOKEN_AMOUNT"

definition whirlpool_value_usdc :: "bytes \<Rightarrow> u64 \<Rightarrow> u64 res" where
  "whirlpool_value_usdc wp_data syrup_balance =
     (if syrup_balance = 0 then Inr 0
      else
        and_then (read_u128 wp_data WP_SQRT_PRICE) (\<lambda>sp.
        and_then (ok_or (checked_mul (ucast syrup_balance) sp) mo) (\<lambda>p1.
        let step1 = drop_bit 64 p1 in
        and_then (ok_or (checked_mul step1 sp) mo) (\<lambda>p2.
        let value = drop_bit 64 p2 in
        ok_or (try_from value) mo))))"

definition sqrt_price :: "bytes \<Rightarrow> nat" where
  "sqrt_price d = le_to_nat (take 16 (drop 65 d))"

definition two_step :: "nat \<Rightarrow> nat \<Rightarrow> u64 res" where
  "two_step b sp =
     (if b * sp < 2 ^ 128 \<and> b * sp div 2 ^ 64 * sp < 2 ^ 128
      then Inr (word_of_nat (b * sp div 2 ^ 64 * sp div 2 ^ 64)) else Inl mo)"

lemma checked_mul_nat:
  "checked_mul (x :: u128) y =
     (if unat x * unat y < 2 ^ 128 then Some (word_of_nat (unat x * unat y)) else None)"
  by (simp add: checked_mul_def word_unat_eq_iff unat_word_ariths unat_of_nat)

lemma drop_64_nat: "unat (drop_bit 64 (word_of_nat n :: u128)) = n mod 2 ^ 128 div 2 ^ 64"
  by (simp add: unat_drop_bit unat_of_nat)

lemma whirlpool_value_usdc_spec:
  "whirlpool_value_usdc d b =
     (if b = 0 then Inr 0
      else if 81 \<le> length d then two_step (unat b) (sqrt_price d) else Inl mo)"
proof (cases "81 \<le> length d")
  case False
  then show ?thesis by (simp add: whirlpool_value_usdc_def WP_SQRT_PRICE_def read_u128_eq)
next
  case True
  define sp :: u128 where "sp = from_le_bytes (take 16 (drop 65 d))"
  have usp: "unat sp = sqrt_price d"
    unfolding sp_def sqrt_price_def using True by (simp add: unat_from_le_bytes)
  have rd: "read_u128 d WP_SQRT_PRICE = Inr sp"
    using True by (simp add: read_u128_eq WP_SQRT_PRICE_def sp_def)
  define p1 where "p1 = unat b * sqrt_price d"
  define s1 where "s1 = p1 div 2 ^ 64"
  have step: "unat (drop_bit 64 (word_of_nat p1 :: u128)) = s1" if "p1 < 2 ^ 128"
    using that by (simp add: drop_64_nat s1_def)
  have last: "ok_or (try_from (drop_bit 64 (word_of_nat n :: u128))) mo =
      Inr (word_of_nat (n div 2 ^ 64) :: u64)" if "n < 2 ^ 128" for n
  proof -
    have u: "unat (drop_bit 64 (word_of_nat n :: u128)) = n div 2 ^ 64"
      using that by (simp add: drop_64_nat)
    have "n div 2 ^ 64 < 2 ^ 64" using that by (simp add: less_mult_imp_div_less)
    moreover have "(ucast (drop_bit 64 (word_of_nat n :: u128)) :: u64) =
        word_of_nat (unat (drop_bit 64 (word_of_nat n :: u128)))"
      by (simp add: unsigned_of_nat)
    ultimately show ?thesis by (simp add: try_from_def u)
  qed
  show ?thesis
  proof (cases "b = 0 \<or> \<not> p1 < 2 ^ 128")
    case True
    then show ?thesis using \<open>81 \<le> length d\<close>
      by (auto simp: whirlpool_value_usdc_def rd checked_mul_nat usp two_step_def p1_def)
  next
    case False
    then have b: "b \<noteq> 0" and p1: "p1 < 2 ^ 128" by simp_all
    have m1: "checked_mul (ucast b) sp = Some (word_of_nat p1)"
      using p1 by (simp add: checked_mul_nat usp p1_def)
    have m2: "checked_mul (drop_bit 64 (word_of_nat p1)) sp =
        (if s1 * sqrt_price d < 2 ^ 128 then Some (word_of_nat (s1 * sqrt_price d)) else None)"
      by (simp only: checked_mul_nat step [OF p1] usp)
    have t: "two_step (unat b) (sqrt_price d) =
        (if s1 * sqrt_price d < 2 ^ 128 then Inr (word_of_nat (s1 * sqrt_price d div 2 ^ 64))
         else Inl mo)"
      using p1 by (simp add: two_step_def p1_def s1_def)
    show ?thesis using b \<open>81 \<le> length d\<close>
      by (simp add: whirlpool_value_usdc_def rd m1 m2 t Let_def last del: of_nat_mult)
  qed
qed

text \<open>Below a price of one the two products never overflow, and the value is at most the balance.\<close>

lemma two_step_below_one:
  assumes "sp \<le> 2 ^ 64" and "b < 2 ^ 64"
  shows "two_step b sp = Inr (word_of_nat (b * sp div 2 ^ 64 * sp div 2 ^ 64))"
    and "b * sp div 2 ^ 64 * sp div 2 ^ 64 \<le> b"
proof -
  have 1: "b * sp \<le> b * 2 ^ 64" using assms(1) by (rule mult_le_mono2)
  then have "b * sp div 2 ^ 64 \<le> b * 2 ^ 64 div 2 ^ 64" by (rule div_le_mono)
  then have s1: "b * sp div 2 ^ 64 \<le> b" by simp
  have 2: "b * sp div 2 ^ 64 * sp \<le> b * 2 ^ 64" using s1 assms(1) by (rule mult_le_mono)
  have lt: "b * 2 ^ 64 < 2 ^ 128" using assms(2) by simp
  show "two_step b sp = Inr (word_of_nat (b * sp div 2 ^ 64 * sp div 2 ^ 64))"
    unfolding two_step_def using order.strict_trans1 [OF 1 lt] order.strict_trans1 [OF 2 lt] by simp
  have "b * sp div 2 ^ 64 * sp div 2 ^ 64 \<le> b * 2 ^ 64 div 2 ^ 64" using 2 by (rule div_le_mono)
  then show "b * sp div 2 ^ 64 * sp div 2 ^ 64 \<le> b" by simp
qed

lemma two_step_mono:
  assumes "b' \<le> (b :: nat)"
  shows "b' * sp \<le> b * sp" and "b' * sp div 2 ^ 64 * sp \<le> b * sp div 2 ^ 64 * sp"
  using assms by (simp_all add: div_le_mono mult_le_mono1)

lemma two_step_superadd:
  "a * sp div 2 ^ 64 * sp div 2 ^ 64 + b * sp div 2 ^ 64 * sp div 2 ^ 64
     \<le> ((a + b) * sp div 2 ^ 64 * sp div 2 ^ 64 :: nat)"
proof -
  have "a * sp div 2 ^ 64 + b * sp div 2 ^ 64 \<le> (a + b) * sp div 2 ^ 64"
    using div_superadd [of "a * sp" "2 ^ 64" "b * sp"] by (simp add: distrib_right)
  then have "(a * sp div 2 ^ 64 + b * sp div 2 ^ 64) * sp \<le> (a + b) * sp div 2 ^ 64 * sp"
    by (rule mult_le_mono1)
  then have "(a * sp div 2 ^ 64 + b * sp div 2 ^ 64) * sp div 2 ^ 64
      \<le> (a + b) * sp div 2 ^ 64 * sp div 2 ^ 64" by (rule div_le_mono)
  then show ?thesis
    using div_superadd [of "a * sp div 2 ^ 64 * sp" "2 ^ 64" "b * sp div 2 ^ 64 * sp"]
    by (simp add: distrib_right)
qed

lemma two_step_Inr:
  "two_step b sp = Inr v \<longleftrightarrow> b * sp < 2 ^ 128 \<and> b * sp div 2 ^ 64 * sp < 2 ^ 128 \<and>
     unat v = b * sp div 2 ^ 64 * sp div 2 ^ 64"
proof (cases "b * sp < 2 ^ 128 \<and> b * sp div 2 ^ 64 * sp < 2 ^ 128")
  case True
  have "n div 2 ^ 64 < 2 ^ 64" if "n < 2 ^ 128" for n :: nat
    using that by (simp add: less_mult_imp_div_less)
  with True have "unat (word_of_nat (b * sp div 2 ^ 64 * sp div 2 ^ 64) :: u64) =
      b * sp div 2 ^ 64 * sp div 2 ^ 64"
    by (simp add: unat_of_nat)
  with True show ?thesis by (auto simp: two_step_def word_unat_eq_iff)
next
  case False
  then show ?thesis by (auto simp: two_step_def)
qed

interpretation syrup: share_pricing "whirlpool_value_usdc d"
proof unfold_locales
  fix v :: u64
  assume "whirlpool_value_usdc d 0 = Inr v"
  then show "v = 0" by (simp add: whirlpool_value_usdc_spec)
next
  fix s v s' :: u64
  assume v: "whirlpool_value_usdc d s = Inr v" and le: "s' \<le> s"
  show "\<exists>v'. whirlpool_value_usdc d s' = Inr v'"
  proof (cases "s' = 0")
    case False
    then have "s \<noteq> 0" using le by auto
    with v have len: "81 \<le> length d" and t: "two_step (unat s) (sqrt_price d) = Inr v"
      by (auto simp: whirlpool_value_usdc_spec split: if_splits)
    have "unat s' \<le> unat s" using le by (simp add: word_le_nat_alt)
    from two_step_mono [OF this, of "sqrt_price d"] t
    have "unat s' * sqrt_price d < 2 ^ 128 \<and> unat s' * sqrt_price d div 2 ^ 64 * sqrt_price d < 2 ^ 128"
      unfolding two_step_Inr by linarith
    with len show ?thesis by (simp add: whirlpool_value_usdc_spec two_step_def)
  qed (simp add: whirlpool_value_usdc_spec)
next
  fix s1 v1 s2 v2 s v :: u64
  assume "whirlpool_value_usdc d s1 = Inr v1" "whirlpool_value_usdc d s2 = Inr v2"
    "whirlpool_value_usdc d s = Inr v" and sum: "unat s = unat s1 + unat s2"
  moreover have "unat r = unat x * sqrt_price d div 2 ^ 64 * sqrt_price d div 2 ^ 64"
    if "whirlpool_value_usdc d x = Inr r" for x r
    using that by (auto simp: whirlpool_value_usdc_spec two_step_Inr split: if_splits)
  ultimately show "unat v1 + unat v2 \<le> unat v"
    using two_step_superadd [of "unat s1" "sqrt_price d" "unat s2"] by (simp only:)
qed

section \<open>The swap\<close>

definition ORCA_SWAP :: bytes where
  "ORCA_SWAP = [248, 198, 158, 145, 225, 117, 135, 200]"

definition MIN_SQRT_PRICE :: u128 where
  "MIN_SQRT_PRICE = 4295048016"

definition MAX_SQRT_PRICE :: u128 where
  "MAX_SQRT_PRICE = 79226673515401279992447579055"

record swap_accounts =
  sw_program :: account_info
  sw_token_program :: account_info
  sw_authority :: account_info
  sw_whirlpool :: account_info
  sw_token_owner_a :: account_info
  sw_vault_a :: account_info
  sw_token_owner_b :: account_info
  sw_vault_b :: account_info
  sw_tick_array_0 :: account_info
  sw_tick_array_1 :: account_info
  sw_tick_array_2 :: account_info
  sw_oracle :: account_info

definition orca_swap :: "runtime \<Rightarrow> swap_accounts \<Rightarrow> u64 \<Rightarrow> bool \<Rightarrow> world \<Rightarrow> world res" where
  "orca_swap rt a amount a_to_b w =
     (let sqrt_price_limit = (if a_to_b then MIN_SQRT_PRICE else MAX_SQRT_PRICE) in
      map_err
        (rt_invoke rt maple_id
          \<lparr>ix_program = ai_key (sw_program a),
           ix_accounts =
             [meta_readonly (ai_key (sw_token_program a)) False,
              meta_readonly (ai_key (sw_authority a)) True,
              meta_new (ai_key (sw_whirlpool a)) False,
              meta_new (ai_key (sw_token_owner_a a)) False,
              meta_new (ai_key (sw_vault_a a)) False,
              meta_new (ai_key (sw_token_owner_b a)) False,
              meta_new (ai_key (sw_vault_b a)) False,
              meta_new (ai_key (sw_tick_array_0 a)) False,
              meta_new (ai_key (sw_tick_array_1 a)) False,
              meta_new (ai_key (sw_tick_array_2 a)) False,
              meta_new (ai_key (sw_oracle a)) False],
           ix_data = ORCA_SWAP @ to_le_bytes 8 amount @ to_le_bytes 8 (0 :: u64) @
                     to_le_bytes 16 sqrt_price_limit @ [1] @ [if a_to_b then 1 else 0]\<rparr>
          [sw_program a, sw_token_program a, sw_authority a, sw_whirlpool a, sw_token_owner_a a,
           sw_vault_a a, sw_token_owner_b a, sw_vault_b a, sw_tick_array_0 a, sw_tick_array_1 a,
           sw_tick_array_2 a, sw_oracle a] [] w)
        cpi_failed)"

lemma orca_calls:
  assumes "calls_isolate rt maple_id"
  shows "orca_swap rt a n b w = Inr w' \<Longrightarrow> isolated maple_id w w' \<and> silent maple_id w w'"
  by (auto simp: orca_swap_def map_err_eq_Inr Let_def
      dest: calls_isolateD(3) [OF assms] calls_silentD(3) [OF assms])

text \<open>What the intermediate shift loses.\<close>

lemma two_step_loss:
  fixes b sp :: nat
  shows "b * sp div 2 ^ 64 * sp div 2 ^ 64 \<le> b * sp * sp div 2 ^ 128"
    and "b * sp * sp div 2 ^ 128 \<le> b * sp div 2 ^ 64 * sp div 2 ^ 64 + sp div 2 ^ 64 + 1"
proof -
  define q where "q = b * sp div 2 ^ 64"
  have q: "q * 2 ^ 64 \<le> b * sp" "b * sp \<le> q * 2 ^ 64 + 2 ^ 64"
    unfolding q_def using dividend_less_div_times [of "2 ^ 64" "b * sp"] by simp_all
  have e: "n div 2 ^ 128 = n div 2 ^ 64 div 2 ^ 64" for n :: nat
    by (simp add: div_mult2_eq [symmetric])
  have "q * sp * 2 ^ 64 \<le> b * sp * sp" using mult_le_mono1 [OF q(1), of sp] by (simp add: ac_simps)
  then have "q * sp \<le> b * sp * sp div 2 ^ 64" by (simp add: less_eq_div_iff_mult_less_eq)
  then have "q * sp div 2 ^ 64 \<le> b * sp * sp div 2 ^ 64 div 2 ^ 64" by (rule div_le_mono)
  then show "b * sp div 2 ^ 64 * sp div 2 ^ 64 \<le> b * sp * sp div 2 ^ 128" by (simp add: e q_def)
  have "b * sp * sp \<le> (q + 1) * sp * 2 ^ 64"
    using mult_le_mono1 [OF q(2), of sp] by (simp add: algebra_simps)
  then have "b * sp * sp div 2 ^ 64 \<le> (q + 1) * sp * 2 ^ 64 div 2 ^ 64" by (rule div_le_mono)
  then have "b * sp * sp div 2 ^ 64 \<le> q * sp + sp" by simp
  then have "b * sp * sp div 2 ^ 64 div 2 ^ 64 \<le> (q * sp + sp) div 2 ^ 64" by (rule div_le_mono)
  also have "\<dots> \<le> q * sp div 2 ^ 64 + sp div 2 ^ 64 + 1"
    by (simp add: div_add1_eq [of "q * sp" sp]) 
  finally show "b * sp * sp div 2 ^ 128 \<le> b * sp div 2 ^ 64 * sp div 2 ^ 64 + sp div 2 ^ 64 + 1"
    by (simp add: e q_def)
qed

section \<open>Properties\<close>

text \<open>
  C35: whenever the pool price yields a value, the value is never above the exact
  \<open>balance * sqrt_price^2 / 2^128\<close>, and is below it by at most one unit and the square root of the
  price.
\<close>

theorem maple_price_rounding:
  assumes "whirlpool_value_usdc d b = Inr v"
  shows "unat v \<le> unat b * sqrt_price d * sqrt_price d div 2 ^ 128 \<and>
         unat b * sqrt_price d * sqrt_price d div 2 ^ 128 \<le> unat v + sqrt_price d div 2 ^ 64 + 1"
  using assms two_step_loss [of "unat b" "sqrt_price d"]
  by (auto simp: whirlpool_value_usdc_spec two_step_Inr split: if_splits)

text \<open>
  C36: at a price of at most one the valuation never overflows and never exceeds the balance.
\<close>

theorem maple_price_below_one:
  assumes "81 \<le> length d" and "sqrt_price d \<le> 2 ^ 64"
  shows "\<exists>v. whirlpool_value_usdc d b = Inr v \<and> v \<le> b"
proof (cases "b = 0")
  case True
  then show ?thesis by (simp add: whirlpool_value_usdc_spec)
next
  case False
  let ?v = "unat b * sqrt_price d div 2 ^ 64 * sqrt_price d div 2 ^ 64"
  note t = two_step_below_one [OF assms(2) unat_u64_less]
  have "unat (word_of_nat ?v :: u64) = ?v"
    using order.strict_trans1 [OF t(2) unat_u64_less] by (simp add: unat_of_nat)
  with t(2) have "word_of_nat ?v \<le> b" by (simp only: word_le_nat_alt)
  moreover have "whirlpool_value_usdc d b = Inr (word_of_nat ?v)"
    using False assms(1) t(1) [of b] by (simp add: whirlpool_value_usdc_spec del: of_nat_mult)
  ultimately show ?thesis by blast
qed

end
