(* ===== verification/Maple.thy ===== *)
theory Maple
  imports Orca_Cpi
begin

text \<open>
  The Maple adapter (programs/maple-syrup): a deposit swaps USDC for syrupUSDC on an Orca
  whirlpool, a withdrawal swaps back; the shares are the syrupUSDC received.
\<close>

section \<open>State\<close>

record maple_state =
  ys_header :: adapter_state_header
  ys_whirlpool :: pubkey
  ys_syrup_token_account :: pubkey
  ys_bump :: u8

definition maple_codec :: "maple_state codec" where
  "maple_codec =
     \<lparr>co_disc = [88, 130, 126, 170, 183, 106, 151, 212],
      co_space = 8 + (80 + 32 + 32 + 1),
      co_enc = (\<lambda>s. enc_header (ys_header s) @
                    pubkey_bytes (ys_whirlpool s) @
                    pubkey_bytes (ys_syrup_token_account s) @
                    to_le_bytes 1 (ys_bump s)),
      co_dec = (\<lambda>bs. do {
        (h, bs) \<leftarrow> dec_header bs;
        (k1, bs) \<leftarrow> dec_pubkey bs;
        (k2, bs) \<leftarrow> dec_pubkey bs;
        (b, bs) \<leftarrow> dec_word 1 bs;
        Some (\<lparr>ys_header = h, ys_whirlpool = k1, ys_syrup_token_account = k2, ys_bump = b\<rparr>, bs)})\<rparr>"

interpretation maple_state: anchor_account maple_codec "\<lambda>_. True"
proof unfold_locales
  fix x :: maple_state and r
  show "co_dec maple_codec (co_enc maple_codec x @ r) = Some (x, r)"
    by (simp add: maple_codec_def codec_simps del: One_nat_def)
qed (simp_all add: maple_codec_def replicate_8)

section \<open>adapter_initialize\<close>

record maple_initialize_ctx =
  yi_instructions_sysvar :: account_info
  yi_position :: account_info
  yi_adapter_state :: account_info
  yi_rent_payer :: account_info
  yi_syrup_mint :: account_info
  yi_syrup_token_account :: account_info
  yi_whirlpool :: account_info
  yi_bump :: u8

definition maple_initialize_accounts ::
  "runtime \<Rightarrow> account_info list \<Rightarrow> world \<Rightarrow> (maple_initialize_ctx \<times> world) res" where
  "maple_initialize_accounts rt infos w =
     and_then (take_info infos) (\<lambda>(instructions_sysvar, infos).
     and_then (take_info infos) (\<lambda>(position, infos).
     and_then (take_info infos) (\<lambda>(adapter_state, infos).
     and_then (take_signer infos) (\<lambda>(rent_payer, infos).
     and_then (take_program (rt_system_program rt) w infos) (\<lambda>(system_program, infos).
     and_then (take_mint rt w infos) (\<lambda>(syrup_mint, infos).
     and_then (take_info infos) (\<lambda>(syrup_token_account, infos).
     and_then (take_info infos) (\<lambda>(whirlpool, infos).
     and_then (take_program (rt_token_program rt) w infos) (\<lambda>(token_program, infos).
     and_then (take_program (rt_ata_program rt) w infos) (\<lambda>(associated_token_program, infos).
     and_then (c_init rt rent_payer adapter_state (co_space maple_codec)
                 (adapter_seeds maple_id (ai_key position)) maple_id w) (\<lambda>(bump, w).
     and_then (c_init_ata rt rent_payer syrup_token_account (ai_key position)
                 (ai_key syrup_mint) w) (\<lambda>(syrup, w).
     and_then (c_address instructions_sysvar (rt_instructions_sysvar rt)
                 (AnchorErr ConstraintAddress)) (\<lambda>_.
     and_then (c_mut rent_payer) (\<lambda>_.
     Inr (\<lparr>yi_instructions_sysvar = instructions_sysvar, yi_position = position,
           yi_adapter_state = adapter_state, yi_rent_payer = rent_payer,
           yi_syrup_mint = syrup_mint, yi_syrup_token_account = syrup_token_account,
           yi_whirlpool = whirlpool, yi_bump = bump\<rparr>, w)))))))))))))))"

definition maple_initialize_handler ::
  "runtime \<Rightarrow> maple_initialize_ctx \<Rightarrow> bytes \<Rightarrow> maple_state res" where
  "maple_initialize_handler rt ctx adapter_data =
     and_then (require (length adapter_data \<le> MAX_ADAPTER_DATA_LEN)
                 (AdapterErr AdapterDataTooLarge)) (\<lambda>_.
     and_then (verify_caller_is_dispatcher rt (yi_instructions_sysvar ctx) DISPATCHER_ID) (\<lambda>_.
     Inr \<lparr>ys_header = \<lparr>hdr_position = ai_key (yi_position ctx), hdr_adapter_program = maple_id,
                       hdr_created_at = clock_unix_timestamp (rt_clock rt),
                       hdr_total_shares = 0\<rparr>,
          ys_whirlpool = ai_key (yi_whirlpool ctx),
          ys_syrup_token_account = ai_key (yi_syrup_token_account ctx), ys_bump = yi_bump ctx\<rparr>))"

definition maple_initialize ::
  "runtime \<Rightarrow> account_info list \<Rightarrow> bytes \<Rightarrow> world \<Rightarrow> world res" where
  "maple_initialize rt infos adapter_data w =
     and_then (maple_initialize_accounts rt infos w) (\<lambda>(ctx, w).
     and_then (maple_initialize_handler rt ctx adapter_data) (\<lambda>state.
     store_account maple_codec (ai_key (yi_adapter_state ctx)) state w))"

section \<open>adapter_deposit and adapter_withdraw\<close>

text \<open>The two instructions declare the same fourteen accounts with the same constraints.\<close>

record maple_fund_ctx =
  yf_instructions_sysvar :: account_info
  yf_position :: account_info
  yf_position_usdc_pool :: "token_account typed"
  yf_adapter_state :: "maple_state typed"
  yf_orca_program :: account_info
  yf_whirlpool :: account_info
  yf_syrup_token_account :: "token_account typed"
  yf_vault_a :: account_info
  yf_vault_b :: account_info
  yf_tick_array_0 :: account_info
  yf_tick_array_1 :: account_info
  yf_tick_array_2 :: account_info
  yf_oracle :: account_info
  yf_token_program :: account_info

definition maple_fund_accounts ::
  "runtime \<Rightarrow> account_info list \<Rightarrow> world \<Rightarrow> maple_fund_ctx res" where
  "maple_fund_accounts rt infos w =
     and_then (take_info infos) (\<lambda>(instructions_sysvar, infos).
     and_then (take_info infos) (\<lambda>(position, infos).
     and_then (take_token rt w infos) (\<lambda>(position_usdc_pool, infos).
     and_then (take_account maple_codec maple_id w infos) (\<lambda>(adapter_state, infos).
     and_then (take_info infos) (\<lambda>(orca_program, infos).
     and_then (take_info infos) (\<lambda>(whirlpool, infos).
     and_then (take_token rt w infos) (\<lambda>(syrup_token_account, infos).
     and_then (take_info infos) (\<lambda>(vault_a, infos).
     and_then (take_info infos) (\<lambda>(vault_b, infos).
     and_then (take_info infos) (\<lambda>(tick_array_0, infos).
     and_then (take_info infos) (\<lambda>(tick_array_1, infos).
     and_then (take_info infos) (\<lambda>(tick_array_2, infos).
     and_then (take_info infos) (\<lambda>(oracle, infos).
     and_then (take_info infos) (\<lambda>(token_program, infos).
     and_then (c_address instructions_sysvar (rt_instructions_sysvar rt)
                 (AnchorErr ConstraintAddress)) (\<lambda>_.
     and_then (c_mut (ty_info position_usdc_pool)) (\<lambda>_.
     and_then (c_seeds rt (adapter_seeds maple_id (ai_key position) @ [[ys_bump (ty_val adapter_state)]])
                 maple_id (ty_info adapter_state)) (\<lambda>_.
     and_then (c_mut (ty_info adapter_state)) (\<lambda>_.
     and_then (require (hdr_position (ys_header (ty_val adapter_state)) = ai_key position)
                 unauthorized) (\<lambda>_.
     and_then (c_executable w orca_program) (\<lambda>_.
     and_then (c_mut whirlpool) (\<lambda>_.
     and_then (c_address whirlpool (ys_whirlpool (ty_val adapter_state)) unauthorized) (\<lambda>_.
     and_then (c_mut (ty_info syrup_token_account)) (\<lambda>_.
     and_then (c_address (ty_info syrup_token_account) (ys_syrup_token_account (ty_val adapter_state)) unauthorized) (\<lambda>_.
     and_then (c_mut vault_a) (\<lambda>_.
     and_then (c_mut vault_b) (\<lambda>_.
     and_then (c_mut tick_array_0) (\<lambda>_.
     and_then (c_mut tick_array_1) (\<lambda>_.
     and_then (c_mut tick_array_2) (\<lambda>_.
     and_then (c_mut oracle) (\<lambda>_.
     Inr \<lparr>yf_instructions_sysvar = instructions_sysvar, yf_position = position,
          yf_position_usdc_pool = position_usdc_pool, yf_adapter_state = adapter_state,
          yf_orca_program = orca_program, yf_whirlpool = whirlpool,
          yf_syrup_token_account = syrup_token_account, yf_vault_a = vault_a,
          yf_vault_b = vault_b, yf_tick_array_0 = tick_array_0,
          yf_tick_array_1 = tick_array_1, yf_tick_array_2 = tick_array_2,
          yf_oracle = oracle, yf_token_program = token_program\<rparr>))))))))))))))))))))))))))))))"

definition maple_swap_accounts :: "maple_fund_ctx \<Rightarrow> swap_accounts" where
  "maple_swap_accounts ctx =
     \<lparr>sw_program = yf_orca_program ctx, sw_token_program = yf_token_program ctx,
      sw_authority = yf_position ctx, sw_whirlpool = yf_whirlpool ctx,
      sw_token_owner_a = ty_info (yf_syrup_token_account ctx), sw_vault_a = yf_vault_a ctx,
      sw_token_owner_b = ty_info (yf_position_usdc_pool ctx), sw_vault_b = yf_vault_b ctx,
      sw_tick_array_0 = yf_tick_array_0 ctx, sw_tick_array_1 = yf_tick_array_1 ctx,
      sw_tick_array_2 = yf_tick_array_2 ctx, sw_oracle = yf_oracle ctx\<rparr>"

definition maple_book :: "u64 \<Rightarrow> maple_state \<Rightarrow> maple_state" where
  "maple_book n s = s\<lparr>ys_header := (ys_header s)\<lparr>hdr_total_shares := n\<rparr>\<rparr>"

definition maple_deposit_handler ::
  "runtime \<Rightarrow> maple_fund_ctx \<Rightarrow> u64 \<Rightarrow> bytes \<Rightarrow> world \<Rightarrow> (maple_state \<times> world) res" where
  "maple_deposit_handler rt ctx amount adapter_data w =
     and_then (require (amount > 0) (AdapterErr adapter_error.ZeroAmount)) (\<lambda>_.
     and_then (require (length adapter_data \<le> MAX_ADAPTER_DATA_LEN)
                 (AdapterErr AdapterDataTooLarge)) (\<lambda>_.
     and_then (verify_caller_is_dispatcher rt (yf_instructions_sysvar ctx) DISPATCHER_ID) (\<lambda>_.
     let accs = maple_swap_accounts ctx;
         state = ty_val (yf_adapter_state ctx);
         before = tok_amount (ty_val (yf_syrup_token_account ctx)) in
     and_then (orca_swap rt accs amount False w) (\<lambda>w.
     and_then (reload_token rt (ty_key (yf_syrup_token_account ctx)) w) (\<lambda>syrup.
     and_then (ok_or (checked_sub (tok_amount syrup) before) mo) (\<lambda>shares_minted.
     and_then (ok_or (checked_add (hdr_total_shares (ys_header state)) shares_minted) mo) (\<lambda>n.
     Inr (maple_book n state,
          emit_event maple_id
            (AdapterDepositEvent (hdr_position (ys_header state)) amount shares_minted)
            (set_u64_return maple_id shares_minted w)))))))))"

definition maple_withdraw_handler ::
  "runtime \<Rightarrow> maple_fund_ctx \<Rightarrow> u64 \<Rightarrow> bytes \<Rightarrow> world \<Rightarrow> (maple_state \<times> world) res" where
  "maple_withdraw_handler rt ctx shares adapter_data w =
     and_then (require (shares > 0) (AdapterErr adapter_error.ZeroAmount)) (\<lambda>_.
     and_then (require (length adapter_data \<le> MAX_ADAPTER_DATA_LEN)
                 (AdapterErr AdapterDataTooLarge)) (\<lambda>_.
     let state = ty_val (yf_adapter_state ctx) in
     and_then (require (shares \<le> hdr_total_shares (ys_header state))
                 (AdapterErr InsufficientShares)) (\<lambda>_.
     and_then (verify_caller_is_dispatcher rt (yf_instructions_sysvar ctx) DISPATCHER_ID) (\<lambda>_.
     let accs = maple_swap_accounts ctx;
         before = tok_amount (ty_val (yf_position_usdc_pool ctx)) in
     and_then (orca_swap rt accs shares True w) (\<lambda>w.
     and_then (reload_token rt (ty_key (yf_position_usdc_pool ctx)) w) (\<lambda>pool.
     and_then (ok_or (checked_sub (tok_amount pool) before) mo) (\<lambda>amount_out.
     and_then (ok_or (checked_sub (hdr_total_shares (ys_header state)) shares) mo) (\<lambda>n.
     Inr (maple_book n state,
          emit_event maple_id
            (AdapterWithdrawEvent (hdr_position (ys_header state)) shares amount_out)
            (set_u64_return maple_id amount_out w))))))))))"

text \<open>
  \<open>AdapterDeposit\<close> and \<open>AdapterWithdraw\<close> are two structs with the same fields and the same
  constraints in the same order.
\<close>

definition maple_deposit_accounts ::
  "runtime \<Rightarrow> account_info list \<Rightarrow> world \<Rightarrow> maple_fund_ctx res" where
  "maple_deposit_accounts rt infos w = maple_fund_accounts rt infos w"

definition maple_withdraw_accounts ::
  "runtime \<Rightarrow> account_info list \<Rightarrow> world \<Rightarrow> maple_fund_ctx res" where
  "maple_withdraw_accounts rt infos w = maple_fund_accounts rt infos w"

definition maple_deposit ::
  "runtime \<Rightarrow> account_info list \<Rightarrow> u64 \<Rightarrow> bytes \<Rightarrow> world \<Rightarrow> world res" where
  "maple_deposit rt infos amount adapter_data w =
     and_then (maple_deposit_accounts rt infos w) (\<lambda>ctx.
     and_then (maple_deposit_handler rt ctx amount adapter_data w) (\<lambda>(state, w).
     store_account maple_codec (ty_key (yf_adapter_state ctx)) state w))"

definition maple_withdraw ::
  "runtime \<Rightarrow> account_info list \<Rightarrow> u64 \<Rightarrow> bytes \<Rightarrow> world \<Rightarrow> world res" where
  "maple_withdraw rt infos shares adapter_data w =
     and_then (maple_withdraw_accounts rt infos w) (\<lambda>ctx.
     and_then (maple_withdraw_handler rt ctx shares adapter_data w) (\<lambda>(state, w).
     store_account maple_codec (ty_key (yf_adapter_state ctx)) state w))"

section \<open>adapter_current_value\<close>

record maple_value_ctx =
  yv_instructions_sysvar :: account_info
  yv_position :: account_info
  yv_adapter_state :: "maple_state typed"
  yv_syrup_token_account :: account_info
  yv_whirlpool :: account_info

definition maple_value_accounts ::
  "runtime \<Rightarrow> account_info list \<Rightarrow> world \<Rightarrow> maple_value_ctx res" where
  "maple_value_accounts rt infos w =
     and_then (take_info infos) (\<lambda>(instructions_sysvar, infos).
     and_then (take_info infos) (\<lambda>(position, infos).
     and_then (take_account maple_codec maple_id w infos) (\<lambda>(adapter_state, infos).
     and_then (take_info infos) (\<lambda>(syrup_token_account, infos).
     and_then (take_info infos) (\<lambda>(whirlpool, infos).
     and_then (c_address instructions_sysvar (rt_instructions_sysvar rt)
                 (AnchorErr ConstraintAddress)) (\<lambda>_.
     and_then (c_seeds rt (adapter_seeds maple_id (ai_key position) @ [[ys_bump (ty_val adapter_state)]])
                 maple_id (ty_info adapter_state)) (\<lambda>_.
     and_then (require (hdr_position (ys_header (ty_val adapter_state)) = ai_key position)
                 unauthorized) (\<lambda>_.
     and_then (c_address syrup_token_account (ys_syrup_token_account (ty_val adapter_state)) unauthorized) (\<lambda>_.
     and_then (c_address whirlpool (ys_whirlpool (ty_val adapter_state)) unauthorized) (\<lambda>_.
     Inr \<lparr>yv_instructions_sysvar = instructions_sysvar, yv_position = position,
          yv_adapter_state = adapter_state, yv_syrup_token_account = syrup_token_account,
          yv_whirlpool = whirlpool\<rparr>))))))))))"

definition maple_value_handler ::
  "runtime \<Rightarrow> maple_value_ctx \<Rightarrow> bytes \<Rightarrow> world \<Rightarrow> world res" where
  "maple_value_handler rt ctx adapter_data w =
     and_then (require (length adapter_data \<le> MAX_ADAPTER_DATA_LEN)
                 (AdapterErr AdapterDataTooLarge)) (\<lambda>_.
     and_then (verify_caller_is_dispatcher rt (yv_instructions_sysvar ctx) DISPATCHER_ID) (\<lambda>_.
     let syrup = account_data w (ai_key (yv_syrup_token_account ctx));
         wp = account_data w (ai_key (yv_whirlpool ctx)) in
     and_then (orca_token_amount syrup) (\<lambda>balance.
     and_then (whirlpool_value_usdc wp balance) (\<lambda>value.
     Inr (emit_event maple_id
            (AdapterValueEvent (hdr_position (ys_header (ty_val (yv_adapter_state ctx)))) value
               (clock_slot (rt_clock rt)))
            (set_u64_return maple_id value w))))))"

definition maple_current_value ::
  "runtime \<Rightarrow> account_info list \<Rightarrow> bytes \<Rightarrow> world \<Rightarrow> world res" where
  "maple_current_value rt infos adapter_data w =
     and_then (maple_value_accounts rt infos w) (\<lambda>ctx.
     maple_value_handler rt ctx adapter_data w)"

section \<open>What success means\<close>

lemma maple_initialize_accounts_ok:
  "maple_initialize_accounts rt infos w = Inr (ctx, w2) \<longleftrightarrow>
     (\<exists>system token ata rest.
        infos = [yi_instructions_sysvar ctx, yi_position ctx, yi_adapter_state ctx,
          yi_rent_payer ctx, system, yi_syrup_mint ctx, yi_syrup_token_account ctx,
          yi_whirlpool ctx, token, ata] @ rest \<and>
        ai_key system = rt_system_program rt \<and> ai_key token = rt_token_program rt \<and>
        ai_key ata = rt_ata_program rt) \<and>
     account_executable w (rt_system_program rt) \<and>
     account_executable w (rt_token_program rt) \<and>
     account_executable w (rt_ata_program rt) \<and>
     ai_signer (yi_rent_payer ctx) \<and> ai_writable (yi_rent_payer ctx) \<and>
     load_mint rt (ai_key (yi_syrup_mint ctx)) w = Inr () \<and>
     rt_find_program_address rt (adapter_seeds maple_id (ai_key (yi_position ctx))) maple_id =
       (ai_key (yi_adapter_state ctx), yi_bump ctx) \<and>
     ai_writable (yi_adapter_state ctx) \<and> ai_writable (yi_syrup_token_account ctx) \<and>
     (\<exists>w1 syrup.
        rt_create_account rt (ai_key (yi_rent_payer ctx)) (ai_key (yi_adapter_state ctx))
          (co_space maple_codec) maple_id w = Inr w1 \<and>
        rt_create_ata rt (ai_key (yi_rent_payer ctx)) (ai_key (yi_syrup_token_account ctx))
          (ai_key (yi_position ctx)) (ai_key (yi_syrup_mint ctx)) w1 = Inr w2 \<and>
        load_token rt (ai_key (yi_syrup_token_account ctx)) w2 = Inr syrup) \<and>
     ai_key (yi_instructions_sysvar ctx) = rt_instructions_sysvar rt"
  unfolding maple_initialize_accounts_def
  by (cases ctx) (auto simp: and_then_eq_Inr take_info_eq_Inr take_signer_eq_Inr take_mint_eq_Inr
      take_program_eq_Inr c_init_eq_Inr c_init_ata_eq_Inr constraint_eq_Inr split: prod.splits)

lemma maple_fund_accounts_ok:
  "maple_fund_accounts rt infos w = Inr ctx \<longleftrightarrow>
     (\<exists>rest. infos =
        [yf_instructions_sysvar ctx, yf_position ctx, ty_info (yf_position_usdc_pool ctx),
         ty_info (yf_adapter_state ctx), yf_orca_program ctx, yf_whirlpool ctx,
         ty_info (yf_syrup_token_account ctx), yf_vault_a ctx, yf_vault_b ctx,
         yf_tick_array_0 ctx, yf_tick_array_1 ctx, yf_tick_array_2 ctx, yf_oracle ctx,
         yf_token_program ctx] @ rest) \<and>
     load_token rt (ty_key (yf_position_usdc_pool ctx)) w = Inr (ty_val (yf_position_usdc_pool ctx)) \<and>
     load_account maple_codec maple_id (ty_key (yf_adapter_state ctx)) w =
       Inr (ty_val (yf_adapter_state ctx)) \<and>
     load_token rt (ty_key (yf_syrup_token_account ctx)) w = Inr (ty_val (yf_syrup_token_account ctx)) \<and>
     ai_key (yf_instructions_sysvar ctx) = rt_instructions_sysvar rt \<and>
     ai_writable (ty_info (yf_position_usdc_pool ctx)) \<and>
     rt_create_program_address rt
       (adapter_seeds maple_id (ai_key (yf_position ctx)) @ [[ys_bump (ty_val (yf_adapter_state ctx))]])
       maple_id = Some (ty_key (yf_adapter_state ctx)) \<and>
     ai_writable (ty_info (yf_adapter_state ctx)) \<and>
     hdr_position (ys_header (ty_val (yf_adapter_state ctx))) = ai_key (yf_position ctx) \<and>
     account_executable w (ai_key (yf_orca_program ctx)) \<and>
     ai_writable (yf_whirlpool ctx) \<and>
     ai_key (yf_whirlpool ctx) = ys_whirlpool (ty_val (yf_adapter_state ctx)) \<and>
     ai_writable (ty_info (yf_syrup_token_account ctx)) \<and>
     ty_key (yf_syrup_token_account ctx) = ys_syrup_token_account (ty_val (yf_adapter_state ctx)) \<and>
     ai_writable (yf_vault_a ctx) \<and>
     ai_writable (yf_vault_b ctx) \<and>
     ai_writable (yf_tick_array_0 ctx) \<and>
     ai_writable (yf_tick_array_1 ctx) \<and>
     ai_writable (yf_tick_array_2 ctx) \<and>
     ai_writable (yf_oracle ctx)"
  unfolding maple_fund_accounts_def
  by (cases ctx) (auto simp: and_then_eq_Inr take_info_eq_Inr take_token_eq_Inr
      take_account_eq_Inr constraint_eq_Inr require_eq_Inr split: prod.splits)

lemma maple_value_accounts_ok:
  "maple_value_accounts rt infos w = Inr ctx \<longleftrightarrow>
     (\<exists>rest. infos =
        [yv_instructions_sysvar ctx, yv_position ctx, ty_info (yv_adapter_state ctx),
         yv_syrup_token_account ctx, yv_whirlpool ctx] @ rest) \<and>
     load_account maple_codec maple_id (ty_key (yv_adapter_state ctx)) w =
       Inr (ty_val (yv_adapter_state ctx)) \<and>
     ai_key (yv_instructions_sysvar ctx) = rt_instructions_sysvar rt \<and>
     rt_create_program_address rt
       (adapter_seeds maple_id (ai_key (yv_position ctx)) @ [[ys_bump (ty_val (yv_adapter_state ctx))]])
       maple_id = Some (ty_key (yv_adapter_state ctx)) \<and>
     hdr_position (ys_header (ty_val (yv_adapter_state ctx))) = ai_key (yv_position ctx) \<and>
     ai_key (yv_syrup_token_account ctx) = ys_syrup_token_account (ty_val (yv_adapter_state ctx)) \<and>
     ai_key (yv_whirlpool ctx) = ys_whirlpool (ty_val (yv_adapter_state ctx))"
  unfolding maple_value_accounts_def
  by (cases ctx) (auto simp: and_then_eq_Inr take_info_eq_Inr
      take_account_eq_Inr constraint_eq_Inr require_eq_Inr split: prod.splits)

lemma maple_deposit_handler_ok:
  assumes "ai_key (yf_instructions_sysvar ctx) = rt_instructions_sysvar rt"
  shows "maple_deposit_handler rt ctx amount data w = Inr (s, w') \<longleftrightarrow>
     0 < amount \<and> data_fits data \<and> caller_ok rt \<and>
     (\<exists>w1 syrup m n.
        orca_swap rt (maple_swap_accounts ctx) amount False w = Inr w1 \<and>
        rt_token_unpack rt (account_data w1 (ty_key (yf_syrup_token_account ctx))) = Some syrup \<and>
        checked_sub (tok_amount syrup) (tok_amount (ty_val (yf_syrup_token_account ctx))) = Some m \<and>
        checked_add (hdr_total_shares (ys_header (ty_val (yf_adapter_state ctx)))) m = Some n \<and>
        s = maple_book n (ty_val (yf_adapter_state ctx)) \<and>
        w' = emit_event maple_id
               (AdapterDepositEvent (hdr_position (ys_header (ty_val (yf_adapter_state ctx)))) amount m)
               (set_u64_return maple_id m w1))"
  unfolding maple_deposit_handler_def
  by (auto simp: and_then_eq_Inr require_eq_Inr verify_caller_ok [OF assms] data_fits_def Let_def
      ok_or_eq_Inr reload_token_eq_Inr)

lemma maple_withdraw_handler_ok:
  assumes "ai_key (yf_instructions_sysvar ctx) = rt_instructions_sysvar rt"
  shows "maple_withdraw_handler rt ctx shares data w = Inr (s, w') \<longleftrightarrow>
     0 < shares \<and> data_fits data \<and> caller_ok rt \<and>
     shares \<le> hdr_total_shares (ys_header (ty_val (yf_adapter_state ctx))) \<and>
     (\<exists>w1 pool a n.
        orca_swap rt (maple_swap_accounts ctx) shares True w = Inr w1 \<and>
        rt_token_unpack rt (account_data w1 (ty_key (yf_position_usdc_pool ctx))) = Some pool \<and>
        checked_sub (tok_amount pool) (tok_amount (ty_val (yf_position_usdc_pool ctx))) = Some a \<and>
        checked_sub (hdr_total_shares (ys_header (ty_val (yf_adapter_state ctx)))) shares = Some n \<and>
        s = maple_book n (ty_val (yf_adapter_state ctx)) \<and>
        w' = emit_event maple_id
               (AdapterWithdrawEvent (hdr_position (ys_header (ty_val (yf_adapter_state ctx)))) shares a)
               (set_u64_return maple_id a w1))"
  unfolding maple_withdraw_handler_def
  by (auto simp: and_then_eq_Inr require_eq_Inr verify_caller_ok [OF assms] data_fits_def Let_def
      ok_or_eq_Inr reload_token_eq_Inr)

lemma maple_value_handler_ok:
  assumes "ai_key (yv_instructions_sysvar ctx) = rt_instructions_sysvar rt"
  shows "maple_value_handler rt ctx data w = Inr w' \<longleftrightarrow>
     data_fits data \<and> caller_ok rt \<and>
     (\<exists>b v.
        orca_token_amount (account_data w (ai_key (yv_syrup_token_account ctx))) = Inr b \<and>
        whirlpool_value_usdc (account_data w (ai_key (yv_whirlpool ctx))) b = Inr v \<and>
        w' = emit_event maple_id
               (AdapterValueEvent (hdr_position (ys_header (ty_val (yv_adapter_state ctx)))) v
                  (clock_slot (rt_clock rt)))
               (set_u64_return maple_id v w))"
  unfolding maple_value_handler_def
  by (auto simp: and_then_eq_Inr require_eq_Inr verify_caller_ok [OF assms] data_fits_def Let_def)

section \<open>The adapter standard\<close>

definition maple :: "maple_state adapter" where
  "maple =
     \<lparr>ad_id = maple_id, ad_codec = maple_codec, ad_header = ys_header,
      ad_initialize = maple_initialize, ad_deposit = maple_deposit,
      ad_withdraw = maple_withdraw, ad_current_value = maple_current_value\<rparr>"

lemma maple_sel [simp]:
  "ad_id maple = maple_id" "ad_codec maple = maple_codec" "ad_header maple = ys_header"
  "ad_initialize maple = maple_initialize" "ad_deposit maple = maple_deposit"
  "ad_withdraw maple = maple_withdraw" "ad_current_value maple = maple_current_value"
  by (simp_all add: maple_def)

lemma ys_header_book [simp]: "ys_header (maple_book n s) = book n (ys_header s)"
  by (simp add: maple_book_def book_def)

lemma maple_initialize_law:
  assumes "maple_initialize rt infos data w = Inr w'"
  shows "caller_ok rt \<and> data_fits data \<and>
     (system_creates rt \<longrightarrow> calls_isolate rt maple_id \<longrightarrow> opens_row maple rt (slot_position infos) w w')"
proof -
  from assms obtain ctx w2 s where acc: "maple_initialize_accounts rt infos w = Inr (ctx, w2)"
    and h: "maple_initialize_handler rt ctx data = Inr s"
    and st: "store_account maple_codec (ai_key (yi_adapter_state ctx)) s w2 = Inr w'"
    by (auto simp: maple_initialize_def and_then_eq_Inr)
  from acc obtain w1 where
    pda: "rt_find_program_address rt (adapter_seeds maple_id (ai_key (yi_position ctx))) maple_id =
       (ai_key (yi_adapter_state ctx), yi_bump ctx)" and
    cr: "rt_create_account rt (ai_key (yi_rent_payer ctx)) (ai_key (yi_adapter_state ctx))
          (co_space maple_codec) maple_id w = Inr w1" and
    ata: "rt_create_ata rt (ai_key (yi_rent_payer ctx)) (ai_key (yi_syrup_token_account ctx))
          (ai_key (yi_position ctx)) (ai_key (yi_syrup_mint ctx)) w1 = Inr w2" and
    sv: "ai_key (yi_instructions_sysvar ctx) = rt_instructions_sysvar rt"
    by (auto simp: maple_initialize_accounts_ok)
  from acc have slot: "slot_position infos = ai_key (yi_position ctx)"
    by (auto simp: maple_initialize_accounts_ok slot_position_def)
  from h have ok: "caller_ok rt" "data_fits data" and
    hdr: "ys_header s = \<lparr>hdr_position = ai_key (yi_position ctx), hdr_adapter_program = maple_id,
           hdr_created_at = clock_unix_timestamp (rt_clock rt), hdr_total_shares = 0\<rparr>"
    by (auto simp: maple_initialize_handler_def and_then_eq_Inr require_eq_Inr
        verify_caller_ok [OF sv] data_fits_def)
  have "opens_row maple rt (slot_position infos) w w'" if "system_creates rt" "calls_isolate rt maple_id"
    unfolding slot by (rule maple_state.opens_rowI [where A = maple and y = s])
      (use that pda cr calls_isolateD(1) [OF that(2) ata] calls_silentD(1) [OF that(2) ata] st hdr in simp_all)
  with ok show ?thesis by simp
qed

lemma maple_deposit_law:
  assumes "maple_deposit rt infos amount data w = Inr w'"
  shows "caller_ok rt \<and> data_fits data \<and> 0 < amount \<and>
     (calls_isolate rt maple_id \<longrightarrow> mints_shares maple (slot_position infos) amount w w')"
proof -
  from assms obtain ctx s w3 where acc: "maple_fund_accounts rt infos w = Inr ctx"
    and h: "maple_deposit_handler rt ctx amount data w = Inr (s, w3)"
    and st: "store_account maple_codec (ty_key (yf_adapter_state ctx)) s w3 = Inr w'"
    by (auto simp: maple_deposit_def maple_deposit_accounts_def and_then_eq_Inr)
  from acc have sv: "ai_key (yf_instructions_sysvar ctx) = rt_instructions_sysvar rt"
    and ld: "load_account maple_codec maple_id (ty_key (yf_adapter_state ctx)) w =
       Inr (ty_val (yf_adapter_state ctx))"
    by (simp_all add: maple_fund_accounts_ok)
  from acc have slot: "slot_position infos = hdr_position (ys_header (ty_val (yf_adapter_state ctx)))"
    by (auto simp: maple_fund_accounts_ok slot_position_def)
  from h obtain w1 m n where ok: "caller_ok rt" "data_fits data" "0 < amount" and
    r1: "orca_swap rt (maple_swap_accounts ctx) amount False w = Inr w1" and
    add: "checked_add (hdr_total_shares (ys_header (ty_val (yf_adapter_state ctx)))) m = Some n" and
    s: "s = maple_book n (ty_val (yf_adapter_state ctx))" and
    w3: "w3 = emit_event maple_id
             (AdapterDepositEvent (hdr_position (ys_header (ty_val (yf_adapter_state ctx)))) amount m)
             (set_u64_return maple_id m w1)"
    by (auto simp: maple_deposit_handler_ok [OF sv])
  have "mints_shares maple (slot_position infos) amount w w'" if "calls_isolate rt maple_id"
    unfolding slot by (rule maple_state.mints_sharesI [where A = maple and y = s and ?w2.0 = w1 and n = n and m = m])
      (use ld st add orca_calls [OF that r1] in \<open>simp_all add: s w3 checked_add_Some\<close>)
  with ok show ?thesis by simp
qed

lemma maple_withdraw_law:
  assumes "maple_withdraw rt infos shares data w = Inr w'"
  shows "caller_ok rt \<and> data_fits data \<and> 0 < shares \<and>
     (calls_isolate rt maple_id \<longrightarrow> burns_shares maple (slot_position infos) shares shares w w')"
proof -
  from assms obtain ctx s w3 where acc: "maple_fund_accounts rt infos w = Inr ctx"
    and h: "maple_withdraw_handler rt ctx shares data w = Inr (s, w3)"
    and st: "store_account maple_codec (ty_key (yf_adapter_state ctx)) s w3 = Inr w'"
    by (auto simp: maple_withdraw_def maple_withdraw_accounts_def and_then_eq_Inr)
  from acc have sv: "ai_key (yf_instructions_sysvar ctx) = rt_instructions_sysvar rt"
    and ld: "load_account maple_codec maple_id (ty_key (yf_adapter_state ctx)) w =
       Inr (ty_val (yf_adapter_state ctx))"
    by (simp_all add: maple_fund_accounts_ok)
  from acc have slot: "slot_position infos = hdr_position (ys_header (ty_val (yf_adapter_state ctx)))"
    by (auto simp: maple_fund_accounts_ok slot_position_def)
  from h obtain w1 a n where ok: "caller_ok rt" "data_fits data" "0 < shares" and
    r1: "orca_swap rt (maple_swap_accounts ctx) shares True w = Inr w1" and
    sub: "checked_sub (hdr_total_shares (ys_header (ty_val (yf_adapter_state ctx)))) shares = Some n" and
    s: "s = maple_book n (ty_val (yf_adapter_state ctx))" and
    w3: "w3 = emit_event maple_id
             (AdapterWithdrawEvent (hdr_position (ys_header (ty_val (yf_adapter_state ctx)))) shares a)
             (set_u64_return maple_id a w1)"
    by (auto simp: maple_withdraw_handler_ok [OF sv])
  have "burns_shares maple (slot_position infos) shares shares w w'" if "calls_isolate rt maple_id"
    unfolding slot by (rule maple_state.burns_sharesI [where A = maple and y = s and ?w2.0 = w1 and n = n and b = shares and a = a])
      (use ld st sub orca_calls [OF that r1] in \<open>simp_all add: s w3 checked_sub_Some\<close>)
  with ok show ?thesis by simp
qed

lemma maple_current_value_law:
  assumes "maple_current_value rt infos data w = Inr w'"
  shows "caller_ok rt \<and> data_fits data \<and>
     (calls_isolate rt maple_id \<longrightarrow> reports_value maple (slot_position infos) w w')"
proof -
  from assms obtain ctx where acc: "maple_value_accounts rt infos w = Inr ctx"
    and h: "maple_value_handler rt ctx data w = Inr w'"
    by (auto simp: maple_current_value_def and_then_eq_Inr)
  from acc have sv: "ai_key (yv_instructions_sysvar ctx) = rt_instructions_sysvar rt"
    and ld: "load_account maple_codec maple_id (ty_key (yv_adapter_state ctx)) w =
       Inr (ty_val (yv_adapter_state ctx))"
    by (simp_all add: maple_value_accounts_ok)
  from acc have slot: "slot_position infos = hdr_position (ys_header (ty_val (yv_adapter_state ctx)))"
    by (auto simp: maple_value_accounts_ok slot_position_def)
  from h obtain v where ok: "caller_ok rt" "data_fits data" and
    w': "w' = emit_event maple_id
             (AdapterValueEvent (hdr_position (ys_header (ty_val (yv_adapter_state ctx)))) v
                (clock_slot (rt_clock rt)))
             (set_u64_return maple_id v w)"
    by (auto simp: maple_value_handler_ok [OF sv])
  have "reports_value maple (slot_position infos) w w'"
    unfolding slot by (rule maple_state.reports_valueI [where A = maple])
      (use ld w' isolated_same silent_refl in simp_all)
  with ok show ?thesis by simp
qed

interpretation maple: guarded_adapter maple
proof unfold_locales
  fix x :: maple_state
  show "\<exists>tail. account_image (ad_codec maple) x =
          co_disc (ad_codec maple) @ enc_header (ad_header maple x) @ tail"
    by (simp add: account_image_def maple_codec_def)
qed (use maple_initialize_law maple_deposit_law maple_withdraw_law maple_withdraw_law [THEN exact_burns] maple_current_value_law
       maple_state.disc_length maple_state.isolated_ledgerI [of maple] in \<open>simp_all\<close>)

end
