(* ===== verification/Drift_Cpi.thy ===== *)
theory Drift_Cpi
  imports Adapter
begin

text \<open>
  programs/drift-if/src/drift_cpi.rs: the insurance-fund shares of a stake account and their
  value, and the five Drift calls.
\<close>

definition drift_id :: pubkey where
  "drift_id = pubkey_of_b58 ''CUa5e7HetWzXfn7czcFSsr8gd6SrfaK2dqzTC11jeGnF''"

section \<open>Pricing\<close>

definition IF_STAKE_SHARES :: nat where "IF_STAKE_SHARES = 40"
definition SM_IF_TOTAL_SHARES :: nat where "SM_IF_TOTAL_SHARES = 336"
definition DRIFT_TOKEN_AMOUNT :: nat where "DRIFT_TOKEN_AMOUNT = 64"

lemmas drift_offsets = IF_STAKE_SHARES_def SM_IF_TOTAL_SHARES_def DRIFT_TOKEN_AMOUNT_def

definition stake_shares :: "bytes \<Rightarrow> u128 res" where
  "stake_shares if_stake_data = read_u128 if_stake_data IF_STAKE_SHARES"

definition stake_value_usdc :: "bytes \<Rightarrow> bytes \<Rightarrow> bytes \<Rightarrow> u64 res" where
  "stake_value_usdc if_stake_data spot_market_data if_vault_data =
     and_then (read_u128 if_stake_data IF_STAKE_SHARES) (\<lambda>shares.
     if shares = 0 then Inr 0
     else
       and_then (read_u128 spot_market_data SM_IF_TOTAL_SHARES) (\<lambda>total_shares.
       if total_shares = 0 then Inl mo
       else
         and_then (read_u64 if_vault_data DRIFT_TOKEN_AMOUNT) (\<lambda>n.
         let vault = ucast n :: u128 in
         and_then (ok_or (checked_mul shares vault) mo) (\<lambda>p.
         and_then (ok_or (checked_div p total_shares) mo) (\<lambda>value.
         ok_or (try_from value) mo)))))"

definition stake_shares_of :: "bytes \<Rightarrow> nat" where
  "stake_shares_of d = le_to_nat (take 16 (drop 40 d))"

definition fund_shares :: "bytes \<Rightarrow> nat" where
  "fund_shares d = le_to_nat (take 16 (drop 336 d))"

definition fund_balance :: "bytes \<Rightarrow> nat" where
  "fund_balance d = le_to_nat (take 8 (drop 64 d))"

lemma stake_value_usdc_spec:
  "stake_value_usdc stake market vault =
     (if \<not> 56 \<le> length stake then Inl mo
      else if stake_shares_of stake = 0 then Inr 0
      else if 352 \<le> length market \<and> 72 \<le> length vault
      then pro_rata (stake_shares_of stake) (fund_balance vault) (fund_shares market)
      else Inl mo)"
proof (cases "56 \<le> length stake")
  case False
  then show ?thesis by (simp add: stake_value_usdc_def drift_offsets read_u128_eq)
next
  case True
  define s :: u128 where "s = from_le_bytes (take 16 (drop 40 stake))"
  have us: "unat s = stake_shares_of stake"
    unfolding s_def stake_shares_of_def using True by (simp add: unat_from_le_bytes)
  have rs: "read_u128 stake IF_STAKE_SHARES = Inr s"
    using True by (simp add: read_u128_eq drift_offsets s_def)
  have s0: "s = 0 \<longleftrightarrow> stake_shares_of stake = 0" by (simp add: word_unat_eq_iff us)
  show ?thesis
  proof (cases "352 \<le> length market")
    case False
    then have "read_u128 market SM_IF_TOTAL_SHARES = Inl mo"
      by (simp add: read_u128_eq SM_IF_TOTAL_SHARES_def)
    then show ?thesis using True False s0 by (simp add: stake_value_usdc_def rs)
  next
    case market: True
    define t :: u128 where "t = from_le_bytes (take 16 (drop 336 market))"
    have ut: "unat t = fund_shares market"
      unfolding t_def fund_shares_def using market by (simp add: unat_from_le_bytes)
    have rt: "read_u128 market SM_IF_TOTAL_SHARES = Inr t"
      using market by (simp add: read_u128_eq drift_offsets t_def)
    have t0: "t = 0 \<longleftrightarrow> fund_shares market = 0" by (simp add: word_unat_eq_iff ut)
    show ?thesis
    proof (cases "72 \<le> length vault")
      case False
      then have "read_u64 vault DRIFT_TOKEN_AMOUNT = Inl mo"
        by (simp add: read_u64_eq DRIFT_TOKEN_AMOUNT_def)
      then show ?thesis using True False s0 by (simp add: stake_value_usdc_def rs rt)
    next
      case vault: True
      define v :: u64 where "v = from_le_bytes (take 8 (drop 64 vault))"
      have uv: "unat v = fund_balance vault"
        unfolding v_def fund_balance_def using vault by (simp add: unat_from_le_bytes)
      have rv: "read_u64 vault DRIFT_TOKEN_AMOUNT = Inr v"
        using vault by (simp add: read_u64_eq drift_offsets v_def)
      show ?thesis using True market vault s0 t0
        by (simp add: stake_value_usdc_def rs rt rv Let_def mul_div_chain us uv ut)
          (simp add: pro_rata_def)
    qed
  qed
qed

section \<open>The Drift calls\<close>

definition INIT_USER_STATS :: bytes where
  "INIT_USER_STATS = [254, 243, 72, 98, 251, 130, 168, 213]"
definition INIT_IF_STAKE :: bytes where
  "INIT_IF_STAKE = [187, 179, 243, 70, 248, 90, 92, 147]"
definition ADD_IF_STAKE :: bytes where
  "ADD_IF_STAKE = [251, 144, 115, 11, 222, 47, 62, 236]"
definition REQUEST_REMOVE_IF_STAKE :: bytes where
  "REQUEST_REMOVE_IF_STAKE = [142, 70, 204, 92, 73, 106, 180, 52]"
definition REMOVE_IF_STAKE :: bytes where
  "REMOVE_IF_STAKE = [128, 166, 142, 9, 254, 187, 143, 174]"

definition MARKET_INDEX :: u16 where
  "MARKET_INDEX = 0"

definition drift_call ::
  "runtime \<Rightarrow> pubkey \<Rightarrow> account_meta list \<Rightarrow> account_info list \<Rightarrow> bytes \<Rightarrow> world \<Rightarrow> world res" where
  "drift_call rt program metas infos data w =
     map_err (rt_invoke rt drift_id \<lparr>ix_program = program, ix_accounts = metas, ix_data = data\<rparr>
                infos [] w) cpi_failed"

definition drift_init_user_stats ::
  "runtime \<Rightarrow> account_info \<Rightarrow> account_info \<Rightarrow> account_info \<Rightarrow> account_info \<Rightarrow> account_info \<Rightarrow>
   account_info \<Rightarrow> account_info \<Rightarrow> world \<Rightarrow> world res" where
  "drift_init_user_stats rt program user_stats state authority payer rent system_program w =
     drift_call rt (ai_key program)
       [meta_new (ai_key user_stats) False, meta_new (ai_key state) False,
        meta_readonly (ai_key authority) False, meta_new (ai_key payer) True,
        meta_readonly (ai_key rent) False, meta_readonly (ai_key system_program) False]
       [program, user_stats, state, authority, payer, rent, system_program]
       INIT_USER_STATS w"

definition drift_init_if_stake ::
  "runtime \<Rightarrow> account_info \<Rightarrow> account_info \<Rightarrow> account_info \<Rightarrow> account_info \<Rightarrow> account_info \<Rightarrow>
   account_info \<Rightarrow> account_info \<Rightarrow> account_info \<Rightarrow> account_info \<Rightarrow> world \<Rightarrow> world res" where
  "drift_init_if_stake rt program spot_market if_stake user_stats state authority payer rent
      system_program w =
     drift_call rt (ai_key program)
       [meta_readonly (ai_key spot_market) False, meta_new (ai_key if_stake) False,
        meta_new (ai_key user_stats) False, meta_readonly (ai_key state) False,
        meta_readonly (ai_key authority) True, meta_new (ai_key payer) True,
        meta_readonly (ai_key rent) False, meta_readonly (ai_key system_program) False]
       [program, spot_market, if_stake, user_stats, state, authority, payer, rent, system_program]
       (INIT_IF_STAKE @ to_le_bytes 2 MARKET_INDEX) w"

definition drift_add_stake ::
  "runtime \<Rightarrow> account_info \<Rightarrow> account_info \<Rightarrow> account_info \<Rightarrow> account_info \<Rightarrow> account_info \<Rightarrow>
   account_info \<Rightarrow> account_info \<Rightarrow> account_info \<Rightarrow> account_info \<Rightarrow> account_info \<Rightarrow> account_info \<Rightarrow>
   u64 \<Rightarrow> world \<Rightarrow> world res" where
  "drift_add_stake rt program state spot_market if_stake user_stats authority spot_market_vault
      if_vault drift_signer user_token_account token_program amount w =
     drift_call rt (ai_key program)
       [meta_readonly (ai_key state) False, meta_new (ai_key spot_market) False,
        meta_new (ai_key if_stake) False, meta_new (ai_key user_stats) False,
        meta_readonly (ai_key authority) True, meta_new (ai_key spot_market_vault) False,
        meta_new (ai_key if_vault) False, meta_readonly (ai_key drift_signer) False,
        meta_new (ai_key user_token_account) False, meta_readonly (ai_key token_program) False]
       [program, state, spot_market, if_stake, user_stats, authority, spot_market_vault, if_vault,
        drift_signer, user_token_account, token_program]
       (ADD_IF_STAKE @ to_le_bytes 2 MARKET_INDEX @ to_le_bytes 8 amount) w"

definition drift_request_remove ::
  "runtime \<Rightarrow> account_info \<Rightarrow> account_info \<Rightarrow> account_info \<Rightarrow> account_info \<Rightarrow> account_info \<Rightarrow>
   account_info \<Rightarrow> u64 \<Rightarrow> world \<Rightarrow> world res" where
  "drift_request_remove rt program spot_market if_stake user_stats authority if_vault shares w =
     drift_call rt (ai_key program)
       [meta_new (ai_key spot_market) False, meta_new (ai_key if_stake) False,
        meta_new (ai_key user_stats) False, meta_readonly (ai_key authority) True,
        meta_new (ai_key if_vault) False]
       [program, spot_market, if_stake, user_stats, authority, if_vault]
       (REQUEST_REMOVE_IF_STAKE @ to_le_bytes 2 MARKET_INDEX @ to_le_bytes 8 shares) w"

definition drift_remove_stake ::
  "runtime \<Rightarrow> account_info \<Rightarrow> account_info \<Rightarrow> account_info \<Rightarrow> account_info \<Rightarrow> account_info \<Rightarrow>
   account_info \<Rightarrow> account_info \<Rightarrow> account_info \<Rightarrow> account_info \<Rightarrow> account_info \<Rightarrow> world \<Rightarrow> world res" where
  "drift_remove_stake rt program state spot_market if_stake user_stats authority if_vault
      drift_signer user_token_account token_program w =
     drift_call rt (ai_key program)
       [meta_readonly (ai_key state) False, meta_new (ai_key spot_market) False,
        meta_new (ai_key if_stake) False, meta_new (ai_key user_stats) False,
        meta_readonly (ai_key authority) True, meta_new (ai_key if_vault) False,
        meta_readonly (ai_key drift_signer) False, meta_new (ai_key user_token_account) False,
        meta_readonly (ai_key token_program) False]
       [program, state, spot_market, if_stake, user_stats, authority, if_vault, drift_signer,
        user_token_account, token_program]
       (REMOVE_IF_STAKE @ to_le_bytes 2 MARKET_INDEX) w"

lemma drift_call_isolated:
  assumes "calls_isolate rt drift_id"
  shows "drift_call rt p metas infos data w = Inr w' \<Longrightarrow> isolated drift_id w w' \<and> silent drift_id w w'"
  by (auto simp: drift_call_def map_err_eq_Inr
      dest: calls_isolateD(3) [OF assms] calls_silentD(3) [OF assms])

lemmas drift_call_defs =
  drift_init_user_stats_def drift_init_if_stake_def drift_add_stake_def drift_request_remove_def
  drift_remove_stake_def

section \<open>Properties\<close>

text \<open>
  C24: the value of an insurance-fund stake is the floor of its shares times the vault balance over all
  shares, with every failure \<open>MathOverflow\<close>, and zero for a zero stake.
\<close>

theorem drift_price:
  "stake_value_usdc stake market vault =
     (if length stake < 56 then Inl mo
      else if stake_shares_of stake = 0 then Inr 0
      else if length market < 352 \<or> length vault < 72 then Inl mo
      else
        let product = stake_shares_of stake * fund_balance vault; supply = fund_shares market in
        if supply = 0 \<or> 2 ^ 128 \<le> product \<or> 2 ^ 64 \<le> product div supply then Inl mo
        else Inr (word_of_nat (product div supply)))"
  by (auto simp: stake_value_usdc_spec pro_rata_def Let_def not_le)

end
