(* ===== verification/Drift.thy ===== *)
theory Drift
  imports Drift_Cpi
begin

text \<open>
  The Drift insurance-fund adapter (programs/drift-if): a deposit stakes, a withdrawal requests
  and settles an unstake in one instruction; the shares are insurance-fund shares.
\<close>

section \<open>State\<close>

record drift_state =
  fs_header :: adapter_state_header
  fs_spot_market :: pubkey
  fs_insurance_fund_stake :: pubkey
  fs_user_stats :: pubkey
  fs_bump :: u8

definition drift_codec :: "drift_state codec" where
  "drift_codec =
     \<lparr>co_disc = [88, 130, 126, 170, 183, 106, 151, 212],
      co_space = 8 + (80 + 32 + 32 + 32 + 1),
      co_enc = (\<lambda>s. enc_header (fs_header s) @
                    pubkey_bytes (fs_spot_market s) @
                    pubkey_bytes (fs_insurance_fund_stake s) @
                    pubkey_bytes (fs_user_stats s) @
                    to_le_bytes 1 (fs_bump s)),
      co_dec = (\<lambda>bs. do {
        (h, bs) \<leftarrow> dec_header bs;
        (k1, bs) \<leftarrow> dec_pubkey bs;
        (k2, bs) \<leftarrow> dec_pubkey bs;
        (k3, bs) \<leftarrow> dec_pubkey bs;
        (b, bs) \<leftarrow> dec_word 1 bs;
        Some (\<lparr>fs_header = h, fs_spot_market = k1, fs_insurance_fund_stake = k2, fs_user_stats = k3, fs_bump = b\<rparr>, bs)})\<rparr>"

interpretation drift_state: anchor_account drift_codec "\<lambda>_. True"
proof unfold_locales
  fix x :: drift_state and r
  show "co_dec drift_codec (co_enc drift_codec x @ r) = Some (x, r)"
    by (simp add: drift_codec_def codec_simps del: One_nat_def)
qed (simp_all add: drift_codec_def replicate_8)

section \<open>adapter_initialize\<close>

record drift_initialize_ctx =
  fi_instructions_sysvar :: account_info
  fi_position :: account_info
  fi_adapter_state :: account_info
  fi_rent_payer :: account_info
  fi_system_program :: account_info
  fi_drift_program :: account_info
  fi_state :: account_info
  fi_spot_market :: account_info
  fi_user_stats :: account_info
  fi_insurance_fund_stake :: account_info
  fi_rent :: account_info
  fi_bump :: u8

definition drift_initialize_accounts ::
  "runtime \<Rightarrow> account_info list \<Rightarrow> world \<Rightarrow> (drift_initialize_ctx \<times> world) res" where
  "drift_initialize_accounts rt infos w =
     and_then (take_info infos) (\<lambda>(instructions_sysvar, infos).
     and_then (take_info infos) (\<lambda>(position, infos).
     and_then (take_info infos) (\<lambda>(adapter_state, infos).
     and_then (take_signer infos) (\<lambda>(rent_payer, infos).
     and_then (take_program (rt_system_program rt) w infos) (\<lambda>(system_program, infos).
     and_then (take_info infos) (\<lambda>(drift_program, infos).
     and_then (take_info infos) (\<lambda>(state, infos).
     and_then (take_info infos) (\<lambda>(spot_market, infos).
     and_then (take_info infos) (\<lambda>(user_stats, infos).
     and_then (take_info infos) (\<lambda>(insurance_fund_stake, infos).
     and_then (take_info infos) (\<lambda>(rent, infos).
     and_then (c_init rt rent_payer adapter_state (co_space drift_codec)
                 (adapter_seeds drift_id (ai_key position)) drift_id w) (\<lambda>(bump, w).
     and_then (c_address instructions_sysvar (rt_instructions_sysvar rt)
                 (AnchorErr ConstraintAddress)) (\<lambda>_.
     and_then (c_mut rent_payer) (\<lambda>_.
     and_then (c_executable w drift_program) (\<lambda>_.
     and_then (c_mut state) (\<lambda>_.
     and_then (c_mut user_stats) (\<lambda>_.
     and_then (c_mut insurance_fund_stake) (\<lambda>_.
     and_then (c_address rent (rt_rent_sysvar rt) (AnchorErr ConstraintAddress)) (\<lambda>_.
     Inr (\<lparr>fi_instructions_sysvar = instructions_sysvar, fi_position = position,
           fi_adapter_state = adapter_state, fi_rent_payer = rent_payer,
           fi_system_program = system_program, fi_drift_program = drift_program,
           fi_state = state, fi_spot_market = spot_market, fi_user_stats = user_stats,
           fi_insurance_fund_stake = insurance_fund_stake, fi_rent = rent,
           fi_bump = bump\<rparr>, w))))))))))))))))))))"

definition drift_initialize_handler ::
  "runtime \<Rightarrow> drift_initialize_ctx \<Rightarrow> bytes \<Rightarrow> world \<Rightarrow> (drift_state \<times> world) res" where
  "drift_initialize_handler rt ctx adapter_data w =
     and_then (require (length adapter_data \<le> MAX_ADAPTER_DATA_LEN)
                 (AdapterErr AdapterDataTooLarge)) (\<lambda>_.
     and_then (verify_caller_is_dispatcher rt (fi_instructions_sysvar ctx) DISPATCHER_ID) (\<lambda>_.
     and_then (drift_init_user_stats rt (fi_drift_program ctx) (fi_user_stats ctx) (fi_state ctx)
                 (fi_position ctx) (fi_rent_payer ctx) (fi_rent ctx) (fi_system_program ctx) w) (\<lambda>w.
     and_then (drift_init_if_stake rt (fi_drift_program ctx) (fi_spot_market ctx)
                 (fi_insurance_fund_stake ctx) (fi_user_stats ctx) (fi_state ctx)
                 (fi_position ctx) (fi_rent_payer ctx) (fi_rent ctx) (fi_system_program ctx) w) (\<lambda>w.
     Inr (\<lparr>fs_header = \<lparr>hdr_position = ai_key (fi_position ctx), hdr_adapter_program = drift_id,
                        hdr_created_at = clock_unix_timestamp (rt_clock rt),
                        hdr_total_shares = 0\<rparr>,
           fs_spot_market = ai_key (fi_spot_market ctx),
           fs_insurance_fund_stake = ai_key (fi_insurance_fund_stake ctx),
           fs_user_stats = ai_key (fi_user_stats ctx), fs_bump = fi_bump ctx\<rparr>, w)))))"

definition drift_initialize ::
  "runtime \<Rightarrow> account_info list \<Rightarrow> bytes \<Rightarrow> world \<Rightarrow> world res" where
  "drift_initialize rt infos adapter_data w =
     and_then (drift_initialize_accounts rt infos w) (\<lambda>(ctx, w).
     and_then (drift_initialize_handler rt ctx adapter_data w) (\<lambda>(state, w).
     store_account drift_codec (ai_key (fi_adapter_state ctx)) state w))"

section \<open>adapter_deposit\<close>

definition drift_book :: "u64 \<Rightarrow> drift_state \<Rightarrow> drift_state" where
  "drift_book n s = s\<lparr>fs_header := (fs_header s)\<lparr>hdr_total_shares := n\<rparr>\<rparr>"

record drift_deposit_ctx =
  fd_instructions_sysvar :: account_info
  fd_position :: account_info
  fd_position_usdc_pool :: "token_account typed"
  fd_adapter_state :: "drift_state typed"
  fd_drift_program :: account_info
  fd_state :: account_info
  fd_spot_market :: account_info
  fd_insurance_fund_stake :: account_info
  fd_user_stats :: account_info
  fd_spot_market_vault :: account_info
  fd_insurance_fund_vault :: account_info
  fd_drift_signer :: account_info
  fd_token_program :: account_info

definition drift_deposit_accounts ::
  "runtime \<Rightarrow> account_info list \<Rightarrow> world \<Rightarrow> drift_deposit_ctx res" where
  "drift_deposit_accounts rt infos w =
     and_then (take_info infos) (\<lambda>(instructions_sysvar, infos).
     and_then (take_info infos) (\<lambda>(position, infos).
     and_then (take_token rt w infos) (\<lambda>(position_usdc_pool, infos).
     and_then (take_account drift_codec drift_id w infos) (\<lambda>(adapter_state, infos).
     and_then (take_info infos) (\<lambda>(drift_program, infos).
     and_then (take_info infos) (\<lambda>(state, infos).
     and_then (take_info infos) (\<lambda>(spot_market, infos).
     and_then (take_info infos) (\<lambda>(insurance_fund_stake, infos).
     and_then (take_info infos) (\<lambda>(user_stats, infos).
     and_then (take_info infos) (\<lambda>(spot_market_vault, infos).
     and_then (take_info infos) (\<lambda>(insurance_fund_vault, infos).
     and_then (take_info infos) (\<lambda>(drift_signer, infos).
     and_then (take_info infos) (\<lambda>(token_program, infos).
     and_then (c_address instructions_sysvar (rt_instructions_sysvar rt)
                 (AnchorErr ConstraintAddress)) (\<lambda>_.
     and_then (c_mut (ty_info position_usdc_pool)) (\<lambda>_.
     and_then (c_seeds rt (adapter_seeds drift_id (ai_key position) @ [[fs_bump (ty_val adapter_state)]])
                 drift_id (ty_info adapter_state)) (\<lambda>_.
     and_then (c_mut (ty_info adapter_state)) (\<lambda>_.
     and_then (require (hdr_position (fs_header (ty_val adapter_state)) = ai_key position)
                 unauthorized) (\<lambda>_.
     and_then (c_executable w drift_program) (\<lambda>_.
     and_then (c_mut spot_market) (\<lambda>_.
     and_then (c_address spot_market (fs_spot_market (ty_val adapter_state)) unauthorized) (\<lambda>_.
     and_then (c_mut insurance_fund_stake) (\<lambda>_.
     and_then (c_address insurance_fund_stake (fs_insurance_fund_stake (ty_val adapter_state)) unauthorized) (\<lambda>_.
     and_then (c_mut user_stats) (\<lambda>_.
     and_then (c_address user_stats (fs_user_stats (ty_val adapter_state)) unauthorized) (\<lambda>_.
     and_then (c_mut spot_market_vault) (\<lambda>_.
     and_then (c_mut insurance_fund_vault) (\<lambda>_.
     Inr \<lparr>fd_instructions_sysvar = instructions_sysvar, fd_position = position,
          fd_position_usdc_pool = position_usdc_pool, fd_adapter_state = adapter_state,
          fd_drift_program = drift_program, fd_state = state,
          fd_spot_market = spot_market, fd_insurance_fund_stake = insurance_fund_stake,
          fd_user_stats = user_stats, fd_spot_market_vault = spot_market_vault,
          fd_insurance_fund_vault = insurance_fund_vault, fd_drift_signer = drift_signer,
          fd_token_program = token_program\<rparr>)))))))))))))))))))))))))))"

definition drift_deposit_handler ::
  "runtime \<Rightarrow> drift_deposit_ctx \<Rightarrow> u64 \<Rightarrow> bytes \<Rightarrow> world \<Rightarrow> (drift_state \<times> world) res" where
  "drift_deposit_handler rt ctx amount adapter_data w =
     and_then (require (amount > 0) (AdapterErr adapter_error.ZeroAmount)) (\<lambda>_.
     and_then (require (length adapter_data \<le> MAX_ADAPTER_DATA_LEN)
                 (AdapterErr AdapterDataTooLarge)) (\<lambda>_.
     and_then (verify_caller_is_dispatcher rt (fd_instructions_sysvar ctx) DISPATCHER_ID) (\<lambda>_.
     let stake = ai_key (fd_insurance_fund_stake ctx); s = ty_val (fd_adapter_state ctx) in
     and_then (stake_shares (account_data w stake)) (\<lambda>before.
     and_then (drift_add_stake rt (fd_drift_program ctx) (fd_state ctx) (fd_spot_market ctx)
                 (fd_insurance_fund_stake ctx) (fd_user_stats ctx) (fd_position ctx)
                 (fd_spot_market_vault ctx) (fd_insurance_fund_vault ctx) (fd_drift_signer ctx)
                 (ty_info (fd_position_usdc_pool ctx)) (fd_token_program ctx) amount w) (\<lambda>w.
     and_then (stake_shares (account_data w stake)) (\<lambda>after.
     and_then (ok_or (checked_sub after before) mo) (\<lambda>diff.
     and_then (ok_or (try_from diff) mo) (\<lambda>shares_minted.
     and_then (ok_or (checked_add (hdr_total_shares (fs_header s)) shares_minted) mo) (\<lambda>n.
     Inr (drift_book n s,
          emit_event drift_id (AdapterDepositEvent (hdr_position (fs_header s)) amount shares_minted)
            (set_u64_return drift_id shares_minted w)))))))))))"

definition drift_deposit ::
  "runtime \<Rightarrow> account_info list \<Rightarrow> u64 \<Rightarrow> bytes \<Rightarrow> world \<Rightarrow> world res" where
  "drift_deposit rt infos amount adapter_data w =
     and_then (drift_deposit_accounts rt infos w) (\<lambda>ctx.
     and_then (drift_deposit_handler rt ctx amount adapter_data w) (\<lambda>(state, w).
     store_account drift_codec (ty_key (fd_adapter_state ctx)) state w))"

section \<open>adapter_withdraw\<close>

record drift_withdraw_ctx =
  fw_instructions_sysvar :: account_info
  fw_position :: account_info
  fw_position_usdc_pool :: "token_account typed"
  fw_adapter_state :: "drift_state typed"
  fw_drift_program :: account_info
  fw_state :: account_info
  fw_spot_market :: account_info
  fw_insurance_fund_stake :: account_info
  fw_user_stats :: account_info
  fw_insurance_fund_vault :: account_info
  fw_drift_signer :: account_info
  fw_token_program :: account_info

definition drift_withdraw_accounts ::
  "runtime \<Rightarrow> account_info list \<Rightarrow> world \<Rightarrow> drift_withdraw_ctx res" where
  "drift_withdraw_accounts rt infos w =
     and_then (take_info infos) (\<lambda>(instructions_sysvar, infos).
     and_then (take_info infos) (\<lambda>(position, infos).
     and_then (take_token rt w infos) (\<lambda>(position_usdc_pool, infos).
     and_then (take_account drift_codec drift_id w infos) (\<lambda>(adapter_state, infos).
     and_then (take_info infos) (\<lambda>(drift_program, infos).
     and_then (take_info infos) (\<lambda>(state, infos).
     and_then (take_info infos) (\<lambda>(spot_market, infos).
     and_then (take_info infos) (\<lambda>(insurance_fund_stake, infos).
     and_then (take_info infos) (\<lambda>(user_stats, infos).
     and_then (take_info infos) (\<lambda>(insurance_fund_vault, infos).
     and_then (take_info infos) (\<lambda>(drift_signer, infos).
     and_then (take_info infos) (\<lambda>(token_program, infos).
     and_then (c_address instructions_sysvar (rt_instructions_sysvar rt)
                 (AnchorErr ConstraintAddress)) (\<lambda>_.
     and_then (c_mut (ty_info position_usdc_pool)) (\<lambda>_.
     and_then (c_seeds rt (adapter_seeds drift_id (ai_key position) @ [[fs_bump (ty_val adapter_state)]])
                 drift_id (ty_info adapter_state)) (\<lambda>_.
     and_then (c_mut (ty_info adapter_state)) (\<lambda>_.
     and_then (require (hdr_position (fs_header (ty_val adapter_state)) = ai_key position)
                 unauthorized) (\<lambda>_.
     and_then (c_executable w drift_program) (\<lambda>_.
     and_then (c_mut spot_market) (\<lambda>_.
     and_then (c_address spot_market (fs_spot_market (ty_val adapter_state)) unauthorized) (\<lambda>_.
     and_then (c_mut insurance_fund_stake) (\<lambda>_.
     and_then (c_address insurance_fund_stake (fs_insurance_fund_stake (ty_val adapter_state)) unauthorized) (\<lambda>_.
     and_then (c_mut user_stats) (\<lambda>_.
     and_then (c_address user_stats (fs_user_stats (ty_val adapter_state)) unauthorized) (\<lambda>_.
     and_then (c_mut insurance_fund_vault) (\<lambda>_.
     Inr \<lparr>fw_instructions_sysvar = instructions_sysvar, fw_position = position,
          fw_position_usdc_pool = position_usdc_pool, fw_adapter_state = adapter_state,
          fw_drift_program = drift_program, fw_state = state,
          fw_spot_market = spot_market, fw_insurance_fund_stake = insurance_fund_stake,
          fw_user_stats = user_stats, fw_insurance_fund_vault = insurance_fund_vault,
          fw_drift_signer = drift_signer, fw_token_program = token_program\<rparr>)))))))))))))))))))))))))"

definition drift_withdraw_handler ::
  "runtime \<Rightarrow> drift_withdraw_ctx \<Rightarrow> u64 \<Rightarrow> bytes \<Rightarrow> world \<Rightarrow> (drift_state \<times> world) res" where
  "drift_withdraw_handler rt ctx shares adapter_data w =
     and_then (require (shares > 0) (AdapterErr adapter_error.ZeroAmount)) (\<lambda>_.
     and_then (require (length adapter_data \<le> MAX_ADAPTER_DATA_LEN)
                 (AdapterErr AdapterDataTooLarge)) (\<lambda>_.
     let s = ty_val (fw_adapter_state ctx) in
     and_then (require (shares \<le> hdr_total_shares (fs_header s))
                 (AdapterErr InsufficientShares)) (\<lambda>_.
     and_then (verify_caller_is_dispatcher rt (fw_instructions_sysvar ctx) DISPATCHER_ID) (\<lambda>_.
     let before = tok_amount (ty_val (fw_position_usdc_pool ctx)) in
     and_then (drift_request_remove rt (fw_drift_program ctx) (fw_spot_market ctx)
                 (fw_insurance_fund_stake ctx) (fw_user_stats ctx) (fw_position ctx)
                 (fw_insurance_fund_vault ctx) shares w) (\<lambda>w.
     and_then (drift_remove_stake rt (fw_drift_program ctx) (fw_state ctx) (fw_spot_market ctx)
                 (fw_insurance_fund_stake ctx) (fw_user_stats ctx) (fw_position ctx)
                 (fw_insurance_fund_vault ctx) (fw_drift_signer ctx)
                 (ty_info (fw_position_usdc_pool ctx)) (fw_token_program ctx) w) (\<lambda>w.
     and_then (reload_token rt (ty_key (fw_position_usdc_pool ctx)) w) (\<lambda>pool.
     and_then (ok_or (checked_sub (tok_amount pool) before) mo) (\<lambda>amount_out.
     and_then (ok_or (checked_sub (hdr_total_shares (fs_header s)) shares) mo) (\<lambda>n.
     Inr (drift_book n s,
          emit_event drift_id (AdapterWithdrawEvent (hdr_position (fs_header s)) shares amount_out)
            (set_u64_return drift_id amount_out w)))))))))))"

definition drift_withdraw ::
  "runtime \<Rightarrow> account_info list \<Rightarrow> u64 \<Rightarrow> bytes \<Rightarrow> world \<Rightarrow> world res" where
  "drift_withdraw rt infos shares adapter_data w =
     and_then (drift_withdraw_accounts rt infos w) (\<lambda>ctx.
     and_then (drift_withdraw_handler rt ctx shares adapter_data w) (\<lambda>(state, w).
     store_account drift_codec (ty_key (fw_adapter_state ctx)) state w))"

section \<open>adapter_current_value\<close>

record drift_value_ctx =
  fv_instructions_sysvar :: account_info
  fv_position :: account_info
  fv_adapter_state :: "drift_state typed"
  fv_insurance_fund_stake :: account_info
  fv_spot_market :: account_info
  fv_insurance_fund_vault :: account_info

definition drift_value_accounts ::
  "runtime \<Rightarrow> account_info list \<Rightarrow> world \<Rightarrow> drift_value_ctx res" where
  "drift_value_accounts rt infos w =
     and_then (take_info infos) (\<lambda>(instructions_sysvar, infos).
     and_then (take_info infos) (\<lambda>(position, infos).
     and_then (take_account drift_codec drift_id w infos) (\<lambda>(adapter_state, infos).
     and_then (take_info infos) (\<lambda>(insurance_fund_stake, infos).
     and_then (take_info infos) (\<lambda>(spot_market, infos).
     and_then (take_info infos) (\<lambda>(insurance_fund_vault, infos).
     and_then (c_address instructions_sysvar (rt_instructions_sysvar rt)
                 (AnchorErr ConstraintAddress)) (\<lambda>_.
     and_then (c_seeds rt (adapter_seeds drift_id (ai_key position) @ [[fs_bump (ty_val adapter_state)]])
                 drift_id (ty_info adapter_state)) (\<lambda>_.
     and_then (require (hdr_position (fs_header (ty_val adapter_state)) = ai_key position)
                 unauthorized) (\<lambda>_.
     and_then (c_address insurance_fund_stake (fs_insurance_fund_stake (ty_val adapter_state)) unauthorized) (\<lambda>_.
     and_then (c_address spot_market (fs_spot_market (ty_val adapter_state)) unauthorized) (\<lambda>_.
     Inr \<lparr>fv_instructions_sysvar = instructions_sysvar, fv_position = position,
          fv_adapter_state = adapter_state,
          fv_insurance_fund_stake = insurance_fund_stake, fv_spot_market = spot_market,
          fv_insurance_fund_vault = insurance_fund_vault\<rparr>)))))))))))"

definition drift_value_handler ::
  "runtime \<Rightarrow> drift_value_ctx \<Rightarrow> bytes \<Rightarrow> world \<Rightarrow> world res" where
  "drift_value_handler rt ctx adapter_data w =
     and_then (require (length adapter_data \<le> MAX_ADAPTER_DATA_LEN)
                 (AdapterErr AdapterDataTooLarge)) (\<lambda>_.
     and_then (verify_caller_is_dispatcher rt (fv_instructions_sysvar ctx) DISPATCHER_ID) (\<lambda>_.
     let stake = account_data w (ai_key (fv_insurance_fund_stake ctx));
         sm = account_data w (ai_key (fv_spot_market ctx));
         vault = account_data w (ai_key (fv_insurance_fund_vault ctx)) in
     and_then (stake_value_usdc stake sm vault) (\<lambda>value.
     Inr (emit_event drift_id
            (AdapterValueEvent (hdr_position (fs_header (ty_val (fv_adapter_state ctx)))) value
               (clock_slot (rt_clock rt)))
            (set_u64_return drift_id value w)))))"

definition drift_current_value ::
  "runtime \<Rightarrow> account_info list \<Rightarrow> bytes \<Rightarrow> world \<Rightarrow> world res" where
  "drift_current_value rt infos adapter_data w =
     and_then (drift_value_accounts rt infos w) (\<lambda>ctx.
     drift_value_handler rt ctx adapter_data w)"

section \<open>What success means\<close>

lemma drift_initialize_accounts_ok:
  "drift_initialize_accounts rt infos w = Inr (ctx, w1) \<longleftrightarrow>
     (\<exists>rest. infos =
        [fi_instructions_sysvar ctx, fi_position ctx, fi_adapter_state ctx, fi_rent_payer ctx,
         fi_system_program ctx, fi_drift_program ctx, fi_state ctx, fi_spot_market ctx,
         fi_user_stats ctx, fi_insurance_fund_stake ctx, fi_rent ctx] @ rest) \<and>
     ai_key (fi_system_program ctx) = rt_system_program rt \<and>
     account_executable w (rt_system_program rt) \<and>
     ai_signer (fi_rent_payer ctx) \<and> ai_writable (fi_rent_payer ctx) \<and>
     rt_find_program_address rt (adapter_seeds drift_id (ai_key (fi_position ctx))) drift_id =
       (ai_key (fi_adapter_state ctx), fi_bump ctx) \<and>
     ai_writable (fi_adapter_state ctx) \<and>
     rt_create_account rt (ai_key (fi_rent_payer ctx)) (ai_key (fi_adapter_state ctx))
       (co_space drift_codec) drift_id w = Inr w1 \<and>
     ai_key (fi_instructions_sysvar ctx) = rt_instructions_sysvar rt \<and>
     account_executable w1 (ai_key (fi_drift_program ctx)) \<and>
     ai_writable (fi_state ctx) \<and> ai_writable (fi_user_stats ctx) \<and>
     ai_writable (fi_insurance_fund_stake ctx) \<and>
     ai_key (fi_rent ctx) = rt_rent_sysvar rt"
  unfolding drift_initialize_accounts_def
  by (cases ctx) (auto simp: and_then_eq_Inr take_info_eq_Inr take_signer_eq_Inr
      take_program_eq_Inr c_init_eq_Inr constraint_eq_Inr split: prod.splits)

lemma drift_deposit_accounts_ok:
  "drift_deposit_accounts rt infos w = Inr ctx \<longleftrightarrow>
     (\<exists>rest. infos =
        [fd_instructions_sysvar ctx, fd_position ctx, ty_info (fd_position_usdc_pool ctx),
         ty_info (fd_adapter_state ctx), fd_drift_program ctx, fd_state ctx,
         fd_spot_market ctx, fd_insurance_fund_stake ctx, fd_user_stats ctx,
         fd_spot_market_vault ctx, fd_insurance_fund_vault ctx, fd_drift_signer ctx,
         fd_token_program ctx] @ rest) \<and>
     load_token rt (ty_key (fd_position_usdc_pool ctx)) w = Inr (ty_val (fd_position_usdc_pool ctx)) \<and>
     load_account drift_codec drift_id (ty_key (fd_adapter_state ctx)) w =
       Inr (ty_val (fd_adapter_state ctx)) \<and>
     ai_key (fd_instructions_sysvar ctx) = rt_instructions_sysvar rt \<and>
     ai_writable (ty_info (fd_position_usdc_pool ctx)) \<and>
     rt_create_program_address rt
       (adapter_seeds drift_id (ai_key (fd_position ctx)) @ [[fs_bump (ty_val (fd_adapter_state ctx))]])
       drift_id = Some (ty_key (fd_adapter_state ctx)) \<and>
     ai_writable (ty_info (fd_adapter_state ctx)) \<and>
     hdr_position (fs_header (ty_val (fd_adapter_state ctx))) = ai_key (fd_position ctx) \<and>
     account_executable w (ai_key (fd_drift_program ctx)) \<and>
     ai_writable (fd_spot_market ctx) \<and>
     ai_key (fd_spot_market ctx) = fs_spot_market (ty_val (fd_adapter_state ctx)) \<and>
     ai_writable (fd_insurance_fund_stake ctx) \<and>
     ai_key (fd_insurance_fund_stake ctx) = fs_insurance_fund_stake (ty_val (fd_adapter_state ctx)) \<and>
     ai_writable (fd_user_stats ctx) \<and>
     ai_key (fd_user_stats ctx) = fs_user_stats (ty_val (fd_adapter_state ctx)) \<and>
     ai_writable (fd_spot_market_vault ctx) \<and>
     ai_writable (fd_insurance_fund_vault ctx)"
  unfolding drift_deposit_accounts_def
  by (cases ctx) (auto simp: and_then_eq_Inr take_info_eq_Inr take_token_eq_Inr
      take_account_eq_Inr constraint_eq_Inr require_eq_Inr split: prod.splits)

lemma drift_withdraw_accounts_ok:
  "drift_withdraw_accounts rt infos w = Inr ctx \<longleftrightarrow>
     (\<exists>rest. infos =
        [fw_instructions_sysvar ctx, fw_position ctx, ty_info (fw_position_usdc_pool ctx),
         ty_info (fw_adapter_state ctx), fw_drift_program ctx, fw_state ctx,
         fw_spot_market ctx, fw_insurance_fund_stake ctx, fw_user_stats ctx,
         fw_insurance_fund_vault ctx, fw_drift_signer ctx, fw_token_program ctx] @ rest) \<and>
     load_token rt (ty_key (fw_position_usdc_pool ctx)) w = Inr (ty_val (fw_position_usdc_pool ctx)) \<and>
     load_account drift_codec drift_id (ty_key (fw_adapter_state ctx)) w =
       Inr (ty_val (fw_adapter_state ctx)) \<and>
     ai_key (fw_instructions_sysvar ctx) = rt_instructions_sysvar rt \<and>
     ai_writable (ty_info (fw_position_usdc_pool ctx)) \<and>
     rt_create_program_address rt
       (adapter_seeds drift_id (ai_key (fw_position ctx)) @ [[fs_bump (ty_val (fw_adapter_state ctx))]])
       drift_id = Some (ty_key (fw_adapter_state ctx)) \<and>
     ai_writable (ty_info (fw_adapter_state ctx)) \<and>
     hdr_position (fs_header (ty_val (fw_adapter_state ctx))) = ai_key (fw_position ctx) \<and>
     account_executable w (ai_key (fw_drift_program ctx)) \<and>
     ai_writable (fw_spot_market ctx) \<and>
     ai_key (fw_spot_market ctx) = fs_spot_market (ty_val (fw_adapter_state ctx)) \<and>
     ai_writable (fw_insurance_fund_stake ctx) \<and>
     ai_key (fw_insurance_fund_stake ctx) = fs_insurance_fund_stake (ty_val (fw_adapter_state ctx)) \<and>
     ai_writable (fw_user_stats ctx) \<and>
     ai_key (fw_user_stats ctx) = fs_user_stats (ty_val (fw_adapter_state ctx)) \<and>
     ai_writable (fw_insurance_fund_vault ctx)"
  unfolding drift_withdraw_accounts_def
  by (cases ctx) (auto simp: and_then_eq_Inr take_info_eq_Inr take_token_eq_Inr
      take_account_eq_Inr constraint_eq_Inr require_eq_Inr split: prod.splits)

lemma drift_value_accounts_ok:
  "drift_value_accounts rt infos w = Inr ctx \<longleftrightarrow>
     (\<exists>rest. infos =
        [fv_instructions_sysvar ctx, fv_position ctx, ty_info (fv_adapter_state ctx),
         fv_insurance_fund_stake ctx, fv_spot_market ctx, fv_insurance_fund_vault ctx] @ rest) \<and>
     load_account drift_codec drift_id (ty_key (fv_adapter_state ctx)) w =
       Inr (ty_val (fv_adapter_state ctx)) \<and>
     ai_key (fv_instructions_sysvar ctx) = rt_instructions_sysvar rt \<and>
     rt_create_program_address rt
       (adapter_seeds drift_id (ai_key (fv_position ctx)) @ [[fs_bump (ty_val (fv_adapter_state ctx))]])
       drift_id = Some (ty_key (fv_adapter_state ctx)) \<and>
     hdr_position (fs_header (ty_val (fv_adapter_state ctx))) = ai_key (fv_position ctx) \<and>
     ai_key (fv_insurance_fund_stake ctx) = fs_insurance_fund_stake (ty_val (fv_adapter_state ctx)) \<and>
     ai_key (fv_spot_market ctx) = fs_spot_market (ty_val (fv_adapter_state ctx))"
  unfolding drift_value_accounts_def
  by (cases ctx) (auto simp: and_then_eq_Inr take_info_eq_Inr
      take_account_eq_Inr constraint_eq_Inr require_eq_Inr split: prod.splits)

lemma drift_deposit_handler_ok:
  assumes "ai_key (fd_instructions_sysvar ctx) = rt_instructions_sysvar rt"
  shows "drift_deposit_handler rt ctx amount data w = Inr (s, w') \<longleftrightarrow>
     0 < amount \<and> data_fits data \<and> caller_ok rt \<and>
     (\<exists>w1 before after diff m n.
        stake_shares (account_data w (ai_key (fd_insurance_fund_stake ctx))) = Inr before \<and>
        drift_add_stake rt (fd_drift_program ctx) (fd_state ctx) (fd_spot_market ctx)
          (fd_insurance_fund_stake ctx) (fd_user_stats ctx) (fd_position ctx)
          (fd_spot_market_vault ctx) (fd_insurance_fund_vault ctx) (fd_drift_signer ctx)
          (ty_info (fd_position_usdc_pool ctx)) (fd_token_program ctx) amount w = Inr w1 \<and>
        stake_shares (account_data w1 (ai_key (fd_insurance_fund_stake ctx))) = Inr after \<and>
        checked_sub after before = Some diff \<and> try_from diff = Some m \<and>
        checked_add (hdr_total_shares (fs_header (ty_val (fd_adapter_state ctx)))) m = Some n \<and>
        s = drift_book n (ty_val (fd_adapter_state ctx)) \<and>
        w' = emit_event drift_id
               (AdapterDepositEvent (hdr_position (fs_header (ty_val (fd_adapter_state ctx)))) amount m)
               (set_u64_return drift_id m w1))"
  unfolding drift_deposit_handler_def
  by (simp add: and_then_eq_Inr require_eq_Inr verify_caller_ok [OF assms] data_fits_def Let_def
      ok_or_eq_Inr) blast

lemma drift_withdraw_handler_ok:
  assumes "ai_key (fw_instructions_sysvar ctx) = rt_instructions_sysvar rt"
  shows "drift_withdraw_handler rt ctx shares data w = Inr (s, w') \<longleftrightarrow>
     0 < shares \<and> data_fits data \<and> caller_ok rt \<and>
     shares \<le> hdr_total_shares (fs_header (ty_val (fw_adapter_state ctx))) \<and>
     (\<exists>w1 w2 pool a n.
        drift_request_remove rt (fw_drift_program ctx) (fw_spot_market ctx)
          (fw_insurance_fund_stake ctx) (fw_user_stats ctx) (fw_position ctx)
          (fw_insurance_fund_vault ctx) shares w = Inr w1 \<and>
        drift_remove_stake rt (fw_drift_program ctx) (fw_state ctx) (fw_spot_market ctx)
          (fw_insurance_fund_stake ctx) (fw_user_stats ctx) (fw_position ctx)
          (fw_insurance_fund_vault ctx) (fw_drift_signer ctx)
          (ty_info (fw_position_usdc_pool ctx)) (fw_token_program ctx) w1 = Inr w2 \<and>
        rt_token_unpack rt (account_data w2 (ty_key (fw_position_usdc_pool ctx))) = Some pool \<and>
        checked_sub (tok_amount pool) (tok_amount (ty_val (fw_position_usdc_pool ctx))) = Some a \<and>
        checked_sub (hdr_total_shares (fs_header (ty_val (fw_adapter_state ctx)))) shares = Some n \<and>
        s = drift_book n (ty_val (fw_adapter_state ctx)) \<and>
        w' = emit_event drift_id
               (AdapterWithdrawEvent (hdr_position (fs_header (ty_val (fw_adapter_state ctx)))) shares a)
               (set_u64_return drift_id a w2))"
  unfolding drift_withdraw_handler_def
  by (simp add: and_then_eq_Inr require_eq_Inr verify_caller_ok [OF assms] data_fits_def Let_def
      ok_or_eq_Inr reload_token_eq_Inr) blast

lemma drift_value_handler_ok:
  assumes "ai_key (fv_instructions_sysvar ctx) = rt_instructions_sysvar rt"
  shows "drift_value_handler rt ctx data w = Inr w' \<longleftrightarrow>
     data_fits data \<and> caller_ok rt \<and>
     (\<exists>v. stake_value_usdc (account_data w (ai_key (fv_insurance_fund_stake ctx)))
            (account_data w (ai_key (fv_spot_market ctx)))
            (account_data w (ai_key (fv_insurance_fund_vault ctx))) = Inr v \<and>
        w' = emit_event drift_id
               (AdapterValueEvent (hdr_position (fs_header (ty_val (fv_adapter_state ctx)))) v
                  (clock_slot (rt_clock rt)))
               (set_u64_return drift_id v w))"
  unfolding drift_value_handler_def
  by (auto simp: and_then_eq_Inr require_eq_Inr verify_caller_ok [OF assms] data_fits_def Let_def)

section \<open>The adapter standard\<close>

definition drift :: "drift_state adapter" where
  "drift =
     \<lparr>ad_id = drift_id, ad_codec = drift_codec, ad_header = fs_header,
      ad_initialize = drift_initialize, ad_deposit = drift_deposit,
      ad_withdraw = drift_withdraw, ad_current_value = drift_current_value\<rparr>"

lemma drift_sel [simp]:
  "ad_id drift = drift_id" "ad_codec drift = drift_codec" "ad_header drift = fs_header"
  "ad_initialize drift = drift_initialize" "ad_deposit drift = drift_deposit"
  "ad_withdraw drift = drift_withdraw" "ad_current_value drift = drift_current_value"
  by (simp_all add: drift_def)

lemma fs_header_book [simp]: "fs_header (drift_book n s) = book n (fs_header s)"
  by (simp add: drift_book_def book_def)

lemma drift_initialize_law:
  assumes "drift_initialize rt infos data w = Inr w'"
  shows "caller_ok rt \<and> data_fits data \<and>
     (system_creates rt \<longrightarrow> calls_isolate rt drift_id \<longrightarrow> opens_row drift rt (slot_position infos) w w')"
proof -
  from assms obtain ctx w1 w3 s where acc: "drift_initialize_accounts rt infos w = Inr (ctx, w1)"
    and h: "drift_initialize_handler rt ctx data w1 = Inr (s, w3)"
    and st: "store_account drift_codec (ai_key (fi_adapter_state ctx)) s w3 = Inr w'"
    by (auto simp: drift_initialize_def and_then_eq_Inr)
  from acc have
    pda: "rt_find_program_address rt (adapter_seeds drift_id (ai_key (fi_position ctx))) drift_id =
       (ai_key (fi_adapter_state ctx), fi_bump ctx)" and
    cr: "rt_create_account rt (ai_key (fi_rent_payer ctx)) (ai_key (fi_adapter_state ctx))
       (co_space drift_codec) drift_id w = Inr w1" and
    sv: "ai_key (fi_instructions_sysvar ctx) = rt_instructions_sysvar rt"
    by (simp_all add: drift_initialize_accounts_ok)
  from acc have slot: "slot_position infos = ai_key (fi_position ctx)"
    by (auto simp: drift_initialize_accounts_ok slot_position_def)
  from h obtain m1 i1 d1 m2 i2 d2 w2 where ok: "caller_ok rt" "data_fits data" and
    hdr: "fs_header s = \<lparr>hdr_position = ai_key (fi_position ctx), hdr_adapter_program = drift_id,
           hdr_created_at = clock_unix_timestamp (rt_clock rt), hdr_total_shares = 0\<rparr>" and
    r1: "drift_call rt (ai_key (fi_drift_program ctx)) m1 i1 d1 w1 = Inr w2" and
    r2: "drift_call rt (ai_key (fi_drift_program ctx)) m2 i2 d2 w2 = Inr w3"
    unfolding drift_initialize_handler_def drift_call_defs
    by (auto simp: and_then_eq_Inr require_eq_Inr verify_caller_ok [OF sv] data_fits_def)
  have "opens_row drift rt (slot_position infos) w w'" if "system_creates rt" "calls_isolate rt drift_id"
  proof -
    have "isolated drift_id w1 w3" "silent drift_id w1 w3"
      using drift_call_isolated [OF that(2)] r1 r2 by (blast intro: isolated_trans silent_trans)+
    then show ?thesis
      unfolding slot by (intro drift_state.opens_rowI [where A = drift and y = s and ?w1.0 = w1 and ?w2.0 = w3])
        (use that pda cr st hdr in simp_all)
  qed
  with ok show ?thesis by simp
qed

lemma drift_deposit_law:
  assumes "drift_deposit rt infos amount data w = Inr w'"
  shows "caller_ok rt \<and> data_fits data \<and> 0 < amount \<and>
     (calls_isolate rt drift_id \<longrightarrow> mints_shares drift (slot_position infos) amount w w')"
proof -
  from assms obtain ctx s w3 where acc: "drift_deposit_accounts rt infos w = Inr ctx"
    and h: "drift_deposit_handler rt ctx amount data w = Inr (s, w3)"
    and st: "store_account drift_codec (ty_key (fd_adapter_state ctx)) s w3 = Inr w'"
    by (auto simp: drift_deposit_def and_then_eq_Inr)
  from acc have sv: "ai_key (fd_instructions_sysvar ctx) = rt_instructions_sysvar rt"
    and ld: "load_account drift_codec drift_id (ty_key (fd_adapter_state ctx)) w =
       Inr (ty_val (fd_adapter_state ctx))"
    by (simp_all add: drift_deposit_accounts_ok)
  from acc have slot: "slot_position infos = hdr_position (fs_header (ty_val (fd_adapter_state ctx)))"
    by (auto simp: drift_deposit_accounts_ok slot_position_def)
  from h obtain w1 m n metas infos' d where ok: "caller_ok rt" "data_fits data" "0 < amount" and
    r1: "drift_call rt (ai_key (fd_drift_program ctx)) metas infos' d w = Inr w1" and
    add: "checked_add (hdr_total_shares (fs_header (ty_val (fd_adapter_state ctx)))) m = Some n" and
    s: "s = drift_book n (ty_val (fd_adapter_state ctx))" and
    w3: "w3 = emit_event drift_id
             (AdapterDepositEvent (hdr_position (fs_header (ty_val (fd_adapter_state ctx)))) amount m)
             (set_u64_return drift_id m w1)"
    unfolding drift_deposit_handler_ok [OF sv] drift_add_stake_def by blast
  have "mints_shares drift (slot_position infos) amount w w'" if "calls_isolate rt drift_id"
    unfolding slot by (rule drift_state.mints_sharesI [where A = drift and y = s and ?w2.0 = w1 and n = n and m = m])
      (use ld st add drift_call_isolated [OF that r1] in \<open>simp_all add: s w3 checked_add_Some\<close>)
  with ok show ?thesis by simp
qed

lemma drift_withdraw_law:
  assumes "drift_withdraw rt infos shares data w = Inr w'"
  shows "caller_ok rt \<and> data_fits data \<and> 0 < shares \<and>
     (calls_isolate rt drift_id \<longrightarrow> burns_shares drift (slot_position infos) shares shares w w')"
proof -
  from assms obtain ctx s w3 where acc: "drift_withdraw_accounts rt infos w = Inr ctx"
    and h: "drift_withdraw_handler rt ctx shares data w = Inr (s, w3)"
    and st: "store_account drift_codec (ty_key (fw_adapter_state ctx)) s w3 = Inr w'"
    by (auto simp: drift_withdraw_def and_then_eq_Inr)
  from acc have sv: "ai_key (fw_instructions_sysvar ctx) = rt_instructions_sysvar rt"
    and ld: "load_account drift_codec drift_id (ty_key (fw_adapter_state ctx)) w =
       Inr (ty_val (fw_adapter_state ctx))"
    by (simp_all add: drift_withdraw_accounts_ok)
  from acc have slot: "slot_position infos = hdr_position (fs_header (ty_val (fw_adapter_state ctx)))"
    by (auto simp: drift_withdraw_accounts_ok slot_position_def)
  from h obtain w1 w2 a n m1 i1 d1 m2 i2 d2 where ok: "caller_ok rt" "data_fits data" "0 < shares" and
    r1: "drift_call rt (ai_key (fw_drift_program ctx)) m1 i1 d1 w = Inr w1" and
    r2: "drift_call rt (ai_key (fw_drift_program ctx)) m2 i2 d2 w1 = Inr w2" and
    sub: "checked_sub (hdr_total_shares (fs_header (ty_val (fw_adapter_state ctx)))) shares = Some n" and
    s: "s = drift_book n (ty_val (fw_adapter_state ctx))" and
    w3: "w3 = emit_event drift_id
             (AdapterWithdrawEvent (hdr_position (fs_header (ty_val (fw_adapter_state ctx)))) shares a)
             (set_u64_return drift_id a w2)"
    unfolding drift_withdraw_handler_ok [OF sv] drift_request_remove_def drift_remove_stake_def by blast
  have "burns_shares drift (slot_position infos) shares shares w w'" if "calls_isolate rt drift_id"
  proof -
    have "isolated drift_id w w2" "silent drift_id w w2"
      using drift_call_isolated [OF that] r1 r2 by (blast intro: isolated_trans silent_trans)+
    then show ?thesis
      unfolding slot by (intro drift_state.burns_sharesI [where A = drift and y = s and ?w2.0 = w2 and n = n and b = shares and a = a])
        (use ld st sub in \<open>simp_all add: s w3 checked_sub_Some\<close>)
  qed
  with ok show ?thesis by simp
qed

lemma drift_current_value_law:
  assumes "drift_current_value rt infos data w = Inr w'"
  shows "caller_ok rt \<and> data_fits data \<and>
     (calls_isolate rt drift_id \<longrightarrow> reports_value drift (slot_position infos) w w')"
proof -
  from assms obtain ctx where acc: "drift_value_accounts rt infos w = Inr ctx"
    and h: "drift_value_handler rt ctx data w = Inr w'"
    by (auto simp: drift_current_value_def and_then_eq_Inr)
  from acc have sv: "ai_key (fv_instructions_sysvar ctx) = rt_instructions_sysvar rt"
    and ld: "load_account drift_codec drift_id (ty_key (fv_adapter_state ctx)) w =
       Inr (ty_val (fv_adapter_state ctx))"
    by (simp_all add: drift_value_accounts_ok)
  from acc have slot: "slot_position infos = hdr_position (fs_header (ty_val (fv_adapter_state ctx)))"
    by (auto simp: drift_value_accounts_ok slot_position_def)
  from h obtain v where ok: "caller_ok rt" "data_fits data" and
    w': "w' = emit_event drift_id
             (AdapterValueEvent (hdr_position (fs_header (ty_val (fv_adapter_state ctx)))) v
                (clock_slot (rt_clock rt)))
             (set_u64_return drift_id v w)"
    by (auto simp: drift_value_handler_ok [OF sv])
  have "reports_value drift (slot_position infos) w w'"
    unfolding slot by (rule drift_state.reports_valueI [where A = drift])
      (use ld w' isolated_same silent_refl in simp_all)
  with ok show ?thesis by simp
qed

interpretation drift: guarded_adapter drift
proof unfold_locales
  fix x :: drift_state
  show "\<exists>tail. account_image (ad_codec drift) x =
          co_disc (ad_codec drift) @ enc_header (ad_header drift x) @ tail"
    by (simp add: account_image_def drift_codec_def)
qed (use drift_initialize_law drift_deposit_law drift_withdraw_law drift_withdraw_law [THEN exact_burns] drift_current_value_law
       drift_state.disc_length drift_state.isolated_ledgerI [of drift] in \<open>simp_all\<close>)

end
