(* ===== verification/System.thy ===== *)
theory System
  imports Dispatcher_Safety Kamino Marginfi Jupiter Maple Drift
begin

text \<open>
  The dispatcher and the adapters together.  A CPI of the dispatcher into a deployed adapter runs
  the adapter's entry point; what the dispatcher's instructions then do to the adapter's share
  ledger, to the token balances and to the event log follows from the adapter standard alone, so
  it holds for every program that implements the standard.
\<close>

section \<open>Documented behaviour\<close>

text \<open>
  CPI: the call runs the callee on the accounts named by the metas, with the return data
  cleared, and the caller sees the world the callee leaves.  \<open>r\<close> is the runtime as the callee
  sees it.
\<close>

definition hosts :: "runtime \<Rightarrow> runtime \<Rightarrow> 'a adapter \<Rightarrow> bool" where
  "hosts rt r A \<longleftrightarrow>
     (\<forall>ix infos seeds w w'.
        ix_program ix = ad_id A \<longrightarrow> rt_invoke rt dispatcher_id ix infos seeds w = Inr w' \<longrightarrow>
        (\<exists>infos'. map ai_key infos' = map am_pubkey (ix_accounts ix) \<and>
           adapter_entry A r infos' (ix_data ix) (w\<lparr>return_data := None\<rparr>) = Inr w'))"

text \<open>
  Token transfers: both accounts belong to the token program, the amount leaves the source and
  arrives at the destination, only the data of these two accounts changes, and nothing is logged.
\<close>

definition balance :: "runtime \<Rightarrow> world \<Rightarrow> pubkey \<Rightarrow> nat" where
  "balance rt w k =
     (case rt_token_unpack rt (account_data w k) of None \<Rightarrow> 0 | Some t \<Rightarrow> unat (tok_amount t))"

definition token_moves :: "runtime \<Rightarrow> bool" where
  "token_moves rt \<longleftrightarrow>
     (\<forall>pid src dst auth n seeds w w'.
        rt_token_transfer rt pid src dst auth n seeds w = Inr w' \<longrightarrow>
        account_owner w (ai_key src) = Some (rt_token_program rt) \<and>
        account_owner w (ai_key dst) = Some (rt_token_program rt) \<and>
        (ai_key src \<noteq> ai_key dst \<longrightarrow>
           balance rt w' (ai_key src) + unat n = balance rt w (ai_key src) \<and>
           balance rt w' (ai_key dst) = balance rt w (ai_key dst) + unat n) \<and>
        (\<exists>d. accounts w' = (\<lambda>k. if k = ai_key src \<or> k = ai_key dst
                              then map_option (\<lambda>a. a\<lparr>acc_data := d k\<rparr>) (accounts w k)
                              else accounts w k)) \<and>
        events w' = events w)"

lemma token_movesD:
  assumes "token_moves rt" and "rt_token_transfer rt pid src dst auth n seeds w = Inr w'"
  shows "ai_key src \<noteq> ai_key dst \<Longrightarrow>
           balance rt w' (ai_key src) + unat n = balance rt w (ai_key src)"
    and "ai_key src \<noteq> ai_key dst \<Longrightarrow>
           balance rt w' (ai_key dst) = balance rt w (ai_key dst) + unat n"
    and "\<exists>d. accounts w' = (\<lambda>k. if k = ai_key src \<or> k = ai_key dst
                              then map_option (\<lambda>a. a\<lparr>acc_data := d k\<rparr>) (accounts w k)
                              else accounts w k)"
    and "events w' = events w"
    and "account_owner w (ai_key src) = Some (rt_token_program rt)"
    and "account_owner w (ai_key dst) = Some (rt_token_program rt)"
  using assms unfolding token_moves_def by blast+

section \<open>Foreign writes\<close>

lemma account_owner_update:
  "account_owner w k = Some q \<Longrightarrow> q \<noteq> pid \<Longrightarrow> accounts w k = Some a \<Longrightarrow> acc_owner a \<noteq> pid"
  by (simp add: account_owner_def)

lemma isolated_foreign:
  assumes "\<And>k. accounts w' k \<noteq> accounts w k \<Longrightarrow>
             account_owner w k = Some q \<and> account_owner w' k = Some q"
    and "q \<noteq> pid"
  shows "isolated pid w w'"
proof -
  have same: "accounts w' k = accounts w k"
    if "account_owner w k = Some pid \<or> account_owner w' k = Some pid" for k
    using that assms by fastforce
  show ?thesis unfolding isolated_def
  proof (intro conjI allI impI)
    fix k a
    assume "accounts w k = Some a \<and> acc_owner a = pid"
    then show "accounts w' k = Some a" using same [of k] by (simp add: account_owner_def)
  next
    fix k a
    assume a: "accounts w' k = Some a \<and> acc_owner a = pid \<and> accounts w k \<noteq> Some a"
    then have "accounts w' k = accounts w k" using same [of k] by (simp add: account_owner_def)
    with a show "\<exists>n. acc_data a = replicate n 0" by auto
  qed
qed

lemma store_foreign:
  assumes "store_account c k x w = Inr w'" and "account_owner w k = Some q" and "q \<noteq> pid"
  shows "isolated pid w w'"
proof (rule isolated_foreign [OF _ assms(3)])
  fix j
  assume "accounts w' j \<noteq> accounts w j"
  then have "j = k" using store_other_account [OF assms(1)] by blast
  with assms(2) account_owner_store [OF assms(1), of k]
  show "account_owner w j = Some q \<and> account_owner w' j = Some q" by simp
qed

lemma transfer_foreign:
  assumes "token_moves rt" and "rt_token_transfer rt caller src dst auth n seeds w = Inr w'"
    and "rt_token_program rt \<noteq> pid"
  shows "isolated pid w w'"
proof -
  from token_movesD(3) [OF assms(1,2)] obtain d where
    acc: "accounts w' = (\<lambda>k. if k = ai_key src \<or> k = ai_key dst
                          then map_option (\<lambda>a. a\<lparr>acc_data := d k\<rparr>) (accounts w k)
                          else accounts w k)" by blast
  show ?thesis
  proof (rule isolated_foreign [OF _ assms(3)])
    fix k
    assume "accounts w' k \<noteq> accounts w k"
    then have "k = ai_key src \<or> k = ai_key dst" by (auto simp: acc split: if_splits)
    with token_movesD(5,6) [OF assms(1,2)]
    show "account_owner w k = Some (rt_token_program rt) \<and>
          account_owner w' k = Some (rt_token_program rt)"
      by (auto simp: acc account_owner_def)
  qed
qed

section \<open>Routed calls\<close>

context adapter_standard
begin

lemma ledger_same: "accounts w' = accounts w \<Longrightarrow> ledger_of A w' = ledger_of A w"
  by (rule ext) (simp add: ledger_of_def cong: account_view_same)

lemma hosted_entry:
  assumes "hosts rt r A" and "ix_program ix = ad_id A"
    and "rt_invoke rt dispatcher_id ix infos seeds w = Inr w'"
  obtains infos' where "map ai_key infos' = map am_pubkey (ix_accounts ix)"
    and "adapter_entry A r infos' (ix_data ix) (w\<lparr>return_data := None\<rparr>) = Inr w'"
  using assms unfolding hosts_def by blast

lemma slot_of_keys: "map ai_key infos' = k0 # k1 # ks \<Longrightarrow> slot_position infos' = k1"
  by (auto simp: slot_position_def map_eq_Cons_conv)

lemma routed_deposit:
  assumes "hosts rt r A" and "calls_isolate r (ad_id A)" and "ai_key ap = ad_id A"
    and "route_deposit rt ap sv ps pool st rem amount seeds w = Inr (v, w')"
  shows "\<exists>k h n es.
     ledger_of A w k = Some h \<and> hdr_position h = ai_key ps \<and>
     unat n = unat (hdr_total_shares h) + unat v \<and>
     ledger_of A w' = (ledger_of A w)(k \<mapsto> book n h) \<and>
     events w' = events w @ es @ [(ad_id A, AdapterDepositEvent (ai_key ps) amount v)]"
proof -
  from assms(4) have
    inv: "rt_invoke rt dispatcher_id (deposit_call ap sv ps pool st rem (encode_deposit amount []))
       ([ap, sv, ps, pool, st] @ rem) seeds w = Inr w'" and
    ret: "get_u64_return (ad_id A) w' = Some v"
    by (simp_all add: route_deposit_ok assms(3))
  let ?w = "w\<lparr>return_data := None\<rparr>"
  from hosted_entry [OF assms(1) _ inv] obtain infos' where
    keys: "map ai_key infos' = map am_pubkey
      (ix_accounts (deposit_call ap sv ps pool st rem (encode_deposit amount [])))" and
    run: "adapter_entry A r infos' (encode_deposit amount []) ?w = Inr w'"
    by (auto simp: deposit_call_def assms(3))
  have slot: "slot_position infos' = ai_key ps"
    using keys by (intro slot_of_keys) (simp add: deposit_call_def meta_new_def)
  from run have "ad_deposit A r infos' amount [] ?w = Inr w'"
    by (simp add: adapter_entry_def decode_encode)
  from deposit_law [OF this] assms(2) slot have "mints_shares A (ai_key ps) amount ?w w'" by simp
  then show ?thesis
    using ret ledger_same [of ?w w] get_set_u64_return [of "ad_id A" "ad_id A"]
    by (fastforce simp: mints_shares_def get_u64_return_def from_to_le_widths)
qed

lemma routed_withdraw:
  assumes "hosts rt r A" and "calls_isolate r (ad_id A)" and "ai_key ap = ad_id A"
    and "route_withdraw rt ap sv ps pool st rem shares seeds w = Inr (v, w')"
  shows "\<exists>k h n es.
     ledger_of A w k = Some h \<and> hdr_position h = ai_key ps \<and>
     (shares \<le> hdr_total_shares h \<longrightarrow> unat n + unat shares = unat (hdr_total_shares h)) \<and>
     (hdr_total_shares h < shares \<longrightarrow> n = 0) \<and>
     (guarded_adapter A \<longrightarrow> shares \<le> hdr_total_shares h) \<and>
     ledger_of A w' = (ledger_of A w)(k \<mapsto> book n h) \<and>
     events w' = events w @ es @ [(ad_id A, AdapterWithdrawEvent (ai_key ps) shares v)]"
proof -
  from assms(4) have
    inv: "rt_invoke rt dispatcher_id (deposit_call ap sv ps pool st rem (encode_withdraw shares []))
       ([ap, sv, ps, pool, st] @ rem) seeds w = Inr w'" and
    ret: "get_u64_return (ad_id A) w' = Some v"
    by (simp_all add: route_withdraw_ok assms(3))
  let ?w = "w\<lparr>return_data := None\<rparr>"
  from hosted_entry [OF assms(1) _ inv] obtain infos' where
    keys: "map ai_key infos' = map am_pubkey
      (ix_accounts (deposit_call ap sv ps pool st rem (encode_withdraw shares [])))" and
    run: "adapter_entry A r infos' (encode_withdraw shares []) ?w = Inr w'"
    by (auto simp: deposit_call_def assms(3))
  have slot: "slot_position infos' = ai_key ps"
    using keys by (intro slot_of_keys) (simp add: deposit_call_def meta_new_def)
  from run have "ad_withdraw A r infos' shares [] ?w = Inr w'"
    by (simp add: adapter_entry_def decode_encode)
  then obtain b where "burns_shares A (ai_key ps) shares b ?w w'" and g: "guarded_adapter A \<longrightarrow> b = shares"
    using withdraw_law guarded_adapter.withdraw_exact [of A r infos' shares "[]" ?w w'] assms(2) slot by metis
  then obtain k h a and n :: u64 and es where
    row: "ledger_of A ?w k = Some h" "hdr_position h = ai_key ps" and
    eff: "unat n + unat b = unat (hdr_total_shares h)" "b = shares \<or> b < shares \<and> n = 0" and
    new: "ledger_of A w' = (ledger_of A ?w)(k \<mapsto> book n h)" "return_data w' = Some (ad_id A, to_le_bytes 8 a)"
      "events w' = events ?w @ es @ [(ad_id A, AdapterWithdrawEvent (ai_key ps) shares a)]"
    unfolding burns_shares_def by blast
  from new(2) ret have "a = v" by (simp add: get_u64_return_def from_to_le_widths)
  with row new ledger_same [of ?w w] burnt_cases [OF eff] g show ?thesis
    by (intro exI [of _ k] exI [of _ h] exI [of _ n] exI [of _ es]) simp
qed

lemma routed_value:
  assumes "hosts rt r A" and "calls_isolate r (ad_id A)" and "ai_key ap = ad_id A"
    and "route_current_value rt ap sv ps st rem w = Inr (v, w')"
  shows "caller_ok r"
    and "\<exists>h slot es. h \<in> ran (ledger_of A w) \<and> hdr_position h = ai_key ps \<and>
           ledger_of A w' = ledger_of A w \<and>
           events w' = events w @ es @ [(ad_id A, AdapterValueEvent (ai_key ps) v slot)]"
proof -
  from assms(4) have
    inv: "rt_invoke rt dispatcher_id (value_call ap sv ps st rem) ([ap, sv, ps, st] @ rem) [] w = Inr w'" and
    ret: "get_u64_return (ad_id A) w' = Some v"
    by (simp_all add: route_current_value_ok assms(3))
  let ?w = "w\<lparr>return_data := None\<rparr>"
  from hosted_entry [OF assms(1) _ inv] obtain infos' where
    keys: "map ai_key infos' = map am_pubkey (ix_accounts (value_call ap sv ps st rem))" and
    run: "adapter_entry A r infos' (encode_current_value []) ?w = Inr w'"
    by (auto simp: value_call_def assms(3))
  show "caller_ok r" by (rule entry_caller [OF run])
  have slot: "slot_position infos' = ai_key ps"
    using keys by (intro slot_of_keys) (simp add: value_call_def meta_readonly_def)
  from run have "ad_current_value A r infos' [] ?w = Inr w'"
    by (simp add: adapter_entry_def decode_encode)
  from current_value_law [OF this] assms(2) slot have "reports_value A (ai_key ps) ?w w'" by simp
  then show "\<exists>h slot es. h \<in> ran (ledger_of A w) \<and> hdr_position h = ai_key ps \<and>
           ledger_of A w' = ledger_of A w \<and>
           events w' = events w @ es @ [(ad_id A, AdapterValueEvent (ai_key ps) v slot)]"
    using ret ledger_same [of ?w w]
    by (fastforce simp: reports_value_def get_u64_return_def from_to_le_widths ran_def)
qed

section \<open>Whole instructions\<close>

text \<open>What the dispatcher itself writes is foreign to the adapter.\<close>

lemma write_back_foreign:
  assumes "calls_isolate rt dispatcher_id" and "ad_id A \<noteq> dispatcher_id"
    and "fund_accounts rt infos w = Inr ctx" and "isolated dispatcher_id w w2"
    and "store_account position_codec (ty_key (fu_position ctx)) (ty_val (fu_position ctx)) w2 = Inr w'"
  shows "ledger_of A w' = ledger_of A w2" and "events w' = events w2"
proof -
  have ld: "load_account position_codec dispatcher_id (ty_key (fu_position ctx)) w =
      Inr (ty_val (fu_position ctx))"
    using assms(3) by (simp add: fund_accounts_ok)
  have "account_owner w (ty_key (fu_position ctx)) = Some dispatcher_id"
    by (rule load_account_owner [OF ld])
  then have "account_owner w2 (ty_key (fu_position ctx)) = Some dispatcher_id"
    by (rule isolated_owner [OF assms(4)])
  then show "ledger_of A w' = ledger_of A w2"
    using isolated_ledger store_foreign [OF assms(5)] assms(2) by metis
  show "events w' = events w2" using store_keeps_log [OF assms(5)] by simp
qed

lemma deposit_end_to_end:
  assumes host: "hosts rt r A" and iso: "calls_isolate r (ad_id A)"
    and disp: "calls_isolate rt dispatcher_id" and tok: "token_moves rt"
    and ids: "ad_id A \<noteq> dispatcher_id" "ad_id A \<noteq> rt_token_program rt"
    and acc: "fund_accounts rt infos w = Inr ctx" and prog: "ai_key (fu_adapter_program ctx) = ad_id A"
    and run: "deposit rt infos amount w = Inr w'"
  shows "\<exists>k h m n es.
     ledger_of A w k = Some h \<and> hdr_position h = ty_key (fu_position ctx) \<and>
     unat n = unat (hdr_total_shares h) + unat m \<and>
     ledger_of A w' = (ledger_of A w)(k \<mapsto> book n h) \<and>
     events w' = events w @ es @
       [(ad_id A, AdapterDepositEvent (ty_key (fu_position ctx)) amount m),
        (dispatcher_id, Deposited (ty_key (fu_position ctx)) amount m)]"
proof -
  from deposit_core [OF disp run] acc obtain w4 where
    h: "deposit_handler rt ctx amount w = Inr w4" and i4: "isolated dispatcher_id w w4" and
    st: "store_account position_codec (ty_key (fu_position ctx)) (ty_val (fu_position ctx)) w4 = Inr w'"
    by (metis Inr_inject)
  from h obtain w1 w2 m where
    tr: "rt_token_transfer rt dispatcher_id (ty_info (fu_owner_usdc_ata ctx))
          (ty_info (fu_position_usdc_pool ctx)) (fu_owner ctx) amount [] w = Inr w1" and
    rd: "route_deposit rt (fu_adapter_program ctx) (fu_instructions_sysvar ctx)
          (ty_info (fu_position ctx)) (ty_info (fu_position_usdc_pool ctx)) (fu_adapter_state ctx)
          (fu_remaining ctx) amount [position_seeds (ty_val (fu_position ctx))] w1 = Inr (m, w2)" and
    w4: "w4 = emit_event dispatcher_id (Deposited (ty_key (fu_position ctx)) amount m) w2"
    by (auto simp: deposit_handler_ok)
  have "isolated (ad_id A) w w1"
    by (rule transfer_foreign [OF tok tr]) (use ids in auto)
  then have l1: "ledger_of A w1 = ledger_of A w" by (rule isolated_ledger)
  have e1: "events w1 = events w" by (rule token_movesD(4) [OF tok tr])
  from routed_deposit [OF host iso prog rd] obtain k h n es where
    "ledger_of A w k = Some h" "hdr_position h = ty_key (fu_position ctx)"
    "unat n = unat (hdr_total_shares h) + unat m"
    "ledger_of A w2 = (ledger_of A w)(k \<mapsto> book n h)"
    "events w2 = events w @ es @ [(ad_id A, AdapterDepositEvent (ty_key (fu_position ctx)) amount m)]"
    unfolding l1 e1 by blast
  moreover have "ledger_of A w4 = ledger_of A w2" by (rule ledger_same) (simp add: w4)
  ultimately show ?thesis
    using write_back_foreign [OF disp ids(1) acc i4 st]
    by (intro exI [of _ k] exI [of _ h] exI [of _ m] exI [of _ n] exI [of _ es]) (simp add: w4)
qed

text \<open>
  A withdrawal takes the given shares off the row, or empties it when fewer are booked, and both
  programs log the same payout.
\<close>

lemma withdraw_end_to_end:
  assumes host: "hosts rt r A" and iso: "calls_isolate r (ad_id A)"
    and disp: "calls_isolate rt dispatcher_id" and tok: "token_moves rt"
    and ids: "ad_id A \<noteq> dispatcher_id" "ad_id A \<noteq> rt_token_program rt"
    and acc: "fund_accounts rt infos w = Inr ctx" and prog: "ai_key (fu_adapter_program ctx) = ad_id A"
    and run: "withdraw rt infos shares w = Inr w'"
  shows "\<exists>k h a n es.
     ledger_of A w k = Some h \<and> hdr_position h = ty_key (fu_position ctx) \<and>
     (shares \<le> hdr_total_shares h \<longrightarrow> unat n + unat shares = unat (hdr_total_shares h)) \<and>
     (hdr_total_shares h < shares \<longrightarrow> n = 0) \<and>
     (guarded_adapter A \<longrightarrow> shares \<le> hdr_total_shares h) \<and>
     ledger_of A w' = (ledger_of A w)(k \<mapsto> book n h) \<and>
     events w' = events w @ es @
       [(ad_id A, AdapterWithdrawEvent (ty_key (fu_position ctx)) shares a),
        (dispatcher_id, Withdrawn (ty_key (fu_position ctx)) shares a)]"
proof -
  from withdraw_core [OF disp run] acc obtain w4 where
    h: "withdraw_handler rt ctx shares w = Inr w4" and i4: "isolated dispatcher_id w w4" and
    st: "store_account position_codec (ty_key (fu_position ctx)) (ty_val (fu_position ctx)) w4 = Inr w'"
    by (metis Inr_inject)
  from h obtain w1 w2 a where
    rd: "route_withdraw rt (fu_adapter_program ctx) (fu_instructions_sysvar ctx)
          (ty_info (fu_position ctx)) (ty_info (fu_position_usdc_pool ctx)) (fu_adapter_state ctx)
          (fu_remaining ctx) shares [position_seeds (ty_val (fu_position ctx))] w = Inr (a, w1)" and
    tr: "(if a > 0
         then rt_token_transfer rt dispatcher_id (ty_info (fu_position_usdc_pool ctx))
                (ty_info (fu_owner_usdc_ata ctx)) (ty_info (fu_position ctx)) a
                [position_seeds (ty_val (fu_position ctx))] w1
         else Inr w1) = Inr w2" and
    w4: "w4 = emit_event dispatcher_id (Withdrawn (ty_key (fu_position ctx)) shares a) w2"
    by (auto simp: withdraw_handler_ok split del: if_split)
  have l2: "ledger_of A w2 = ledger_of A w1 \<and> events w2 = events w1"
  proof (cases "a > 0")
    case True
    with tr have "rt_token_transfer rt dispatcher_id (ty_info (fu_position_usdc_pool ctx))
                (ty_info (fu_owner_usdc_ata ctx)) (ty_info (fu_position ctx)) a
                [position_seeds (ty_val (fu_position ctx))] w1 = Inr w2" by simp
    from transfer_foreign [OF tok this] token_movesD(4) [OF tok this] ids
    show ?thesis using isolated_ledger by auto
  qed (use tr in simp)
  from routed_withdraw [OF host iso prog rd] obtain k h and n :: u64 and es where
    "ledger_of A w k = Some h" "hdr_position h = ty_key (fu_position ctx)"
    "shares \<le> hdr_total_shares h \<longrightarrow> unat n + unat shares = unat (hdr_total_shares h)"
    "hdr_total_shares h < shares \<longrightarrow> n = 0" "guarded_adapter A \<longrightarrow> shares \<le> hdr_total_shares h"
    "ledger_of A w1 = (ledger_of A w)(k \<mapsto> book n h)"
    "events w1 = events w @ es @ [(ad_id A, AdapterWithdrawEvent (ty_key (fu_position ctx)) shares a)]"
    by blast
  moreover have "ledger_of A w4 = ledger_of A w2" by (rule ledger_same) (simp add: w4)
  ultimately show ?thesis
    using write_back_foreign [OF disp ids(1) acc i4 st] l2
    by (intro exI [of _ k] exI [of _ h] exI [of _ a] exI [of _ n] exI [of _ es]) (simp add: w4)
qed

text \<open>Reading a value: the dispatcher relays what the adapter reports, and nothing is booked.\<close>

lemma current_value_end_to_end:
  assumes "hosts rt r A" and "calls_isolate r (ad_id A)"
    and "current_value_accounts rt infos w = Inr ctx" and "ai_key (cv_adapter_program ctx) = ad_id A"
    and "current_value rt infos w = Inr w'"
  shows "\<exists>h v slot es.
     h \<in> ran (ledger_of A w) \<and> hdr_position h = ty_key (cv_position ctx) \<and>
     ledger_of A w' = ledger_of A w \<and>
     return_data w' = Some (dispatcher_id, to_le_bytes 8 v) \<and>
     events w' = events w @ es @
       [(ad_id A, AdapterValueEvent (ty_key (cv_position ctx)) v slot),
        (dispatcher_id, ValueRead (ty_key (cv_position ctx)) v)]"
proof -
  from assms(3,5) obtain w1 v where
    rd: "route_current_value rt (cv_adapter_program ctx) (cv_instructions_sysvar ctx)
          (ty_info (cv_position ctx)) (cv_adapter_state ctx) (cv_remaining ctx) w = Inr (v, w1)" and
    w': "w' = emit_event dispatcher_id (ValueRead (ty_key (cv_position ctx)) v)
               (set_return_data dispatcher_id (to_le_bytes 8 v) w1)"
    by (auto simp: current_value_def current_value_handler_ok)
  from routed_value(2) [OF assms(1,2,4) rd] obtain h slot es where
    "h \<in> ran (ledger_of A w)" "hdr_position h = ty_key (cv_position ctx)"
    "ledger_of A w1 = ledger_of A w"
    "events w1 = events w @ es @ [(ad_id A, AdapterValueEvent (ty_key (cv_position ctx)) v slot)]"
    by blast
  moreover have "ledger_of A w' = ledger_of A w1" by (rule ledger_same) (simp add: w')
  ultimately show ?thesis
    by (intro exI [of _ h] exI [of _ v] exI [of _ slot] exI [of _ es]) (simp add: w')
qed

text \<open>Opening a position: the dispatcher creates the position, the adapter its empty row.\<close>

lemma routed_initialize:
  assumes "hosts rt r A" and "calls_isolate r (ad_id A)" and "system_creates r"
    and "ai_key ap = ad_id A"
    and "route_initialize rt ap sv ps st rp sp rem seeds w = Inr w'"
  shows "opens_row A r (ai_key ps) (w\<lparr>return_data := None\<rparr>) w'"
proof -
  from assms(5) have
    inv: "rt_invoke rt dispatcher_id (initialize_call ap sv ps st rp sp rem)
       ([ap, sv, ps, st, rp, sp] @ rem) seeds w = Inr w'"
    by (simp add: route_initialize_ok)
  from hosted_entry [OF assms(1) _ inv] obtain infos' where
    keys: "map ai_key infos' = map am_pubkey (ix_accounts (initialize_call ap sv ps st rp sp rem))" and
    run: "adapter_entry A r infos' (encode_initialize []) (w\<lparr>return_data := None\<rparr>) = Inr w'"
    by (auto simp: initialize_call_def assms(4))
  have slot: "slot_position infos' = ai_key ps"
    using keys by (intro slot_of_keys) (simp add: initialize_call_def meta_readonly_def)
  from run have "ad_initialize A r infos' [] (w\<lparr>return_data := None\<rparr>) = Inr w'"
    by (simp add: adapter_entry_def decode_encode)
  from initialize_law [OF this] assms(2,3) slot show ?thesis by simp
qed

lemma created_isolates:
  assumes "accounts w k = None" and "q \<noteq> p"
  shows "isolated p w (set_account_data k \<lparr>acc_owner = q, acc_executable = b, acc_data = d\<rparr> w)"
  using assms by (auto simp: isolated_def)

lemma open_position_end_to_end:
  assumes host: "hosts rt r A" and iso: "calls_isolate r (ad_id A)" "calls_isolate rt (ad_id A)"
    and disp: "calls_isolate rt dispatcher_id" and sys: "system_creates rt" "system_creates r"
    and ids: "ad_id A \<noteq> dispatcher_id"
    and acc: "open_position_accounts rt infos w = Inr (ctx, w2)"
    and prog: "ai_key (op_adapter_program ctx) = ad_id A"
    and run: "open_position rt infos w = Inr w'"
  defines "k \<equiv> ai_key (op_position ctx)"
  defines "row \<equiv> adapter_address r (ad_id A) k"
  shows "positions_of w k = None \<and>
     positions_of w' = (positions_of w)(k \<mapsto> opened_position rt ctx) \<and>
     ledger_of A w row = None \<and>
     ledger_of A w' = (ledger_of A w)(row \<mapsto>
       \<lparr>hdr_position = k, hdr_adapter_program = ad_id A,
        hdr_created_at = clock_unix_timestamp (rt_clock r), hdr_total_shares = 0\<rparr>) \<and>
     last (events w') = (dispatcher_id,
       PositionOpened (ai_key (op_owner ctx)) (ad_id A) k)"
proof -
  from acc obtain w1 where
    cr: "rt_create_account rt (ai_key (op_owner ctx)) k (co_space position_codec) dispatcher_id w = Inr w1" and
    ata: "rt_create_ata rt (ai_key (op_owner ctx)) (ai_key (op_position_usdc_pool ctx)) k
           (ai_key (op_usdc_mint ctx)) w1 = Inr w2"
    by (auto simp: open_position_accounts_ok k_def)
  from run acc obtain w3 where
    h: "open_position_handler rt ctx w2 = Inr (opened_position rt ctx, w3)" and
    st: "store_account position_codec k (opened_position rt ctx) w3 = Inr w'"
    by (auto simp: open_position_def and_then_eq_Inr open_position_handler_ok k_def)
  from h obtain w4 where
    rd: "route_initialize rt (op_adapter_program ctx) (op_instructions_sysvar ctx)
          (op_position ctx) (op_adapter_state ctx) (op_owner ctx) (op_system_program ctx)
          (op_remaining ctx) [position_seeds (opened_position rt ctx)] w2 = Inr w4" and
    w3: "w3 = emit_event dispatcher_id (PositionOpened (ai_key (op_owner ctx)) (ad_id A) k) w4"
    by (auto simp: open_position_handler_ok k_def prog)
  note w1 = system_createsD [OF sys(1) cr]
  have "isolated (ad_id A) w w1" unfolding w1(2) using w1(1) ids by (intro created_isolates) simp_all
  from isolated_trans [OF this calls_isolateD(1) [OF iso(2) ata]]
  have l2: "ledger_of A w2 = ledger_of A w" by (rule isolated_ledger)
  from routed_initialize [OF host iso(1) sys(2) prog rd]
  have row: "ledger_of A w2 row = None" and
    l4: "ledger_of A w4 = (ledger_of A w2)(row \<mapsto>
       \<lparr>hdr_position = k, hdr_adapter_program = ad_id A,
        hdr_created_at = clock_unix_timestamp (rt_clock r), hdr_total_shares = 0\<rparr>)"
    using ledger_same [of "w2\<lparr>return_data := None\<rparr>" w2] ledger_fresh [of w2 row A]
    by (simp_all add: opens_row_def row_def k_def)
  have own: "account_owner w3 k = Some dispatcher_id"
  proof -
    have "isolated dispatcher_id w1 w4"
      using calls_isolateD(1) [OF disp ata] calls_isolateD(3) [OF disp] rd isolated_trans
      by (fastforce simp: route_initialize_ok)
    then have "account_owner w4 k = Some dispatcher_id"
      by (rule isolated_owner) (simp add: w1(2) created_owner)
    then show ?thesis by (simp add: w3 account_owner_def)
  qed
  have "ledger_of A w' = ledger_of A w3"
    by (rule isolated_ledger [OF store_foreign [OF st own]]) (use ids in simp)
  moreover have "ledger_of A w3 = ledger_of A w4" by (rule ledger_same) (simp add: w3)
  moreover obtain "positions_of w' = (positions_of w)(k \<mapsto> opened_position rt ctx)"
    using open_position_effect [OF sys(1) disp run] acc unfolding k_def
    by (metis Inr_inject Pair_inject)
  moreover have "positions_of w k = None" using w1(1) by (simp add: positions_of_def view_absent)
  moreover have "events w' = events w3" using store_keeps_log [OF st] by simp
  ultimately show ?thesis using row l4 l2 by (simp add: w3)
qed

end

end
