(* ===== verification/Demo.thy ===== *)
theory Demo
  imports System
begin

text \<open>
  A concrete runtime and concrete worlds, on which the hypotheses of the theorems hold: a small
  token program, account creation as documented, program addresses computed from the number of
  seeds and the length of the first, a protocol that does nothing except pay out seven units on a
  MarginFi withdrawal, and (\<open>demo\<close>) CPIs of the dispatcher that run the MarginFi adapter.
\<close>

section \<open>The runtime\<close>

definition k_system :: pubkey where "k_system = 0"
definition k_owner :: pubkey where "k_owner = 1"
definition k_token :: pubkey where "k_token = 2"
definition k_ata :: pubkey where "k_ata = 3"
definition k_sysvar :: pubkey where "k_sysvar = 5"
definition k_rent :: pubkey where "k_rent = 6"
definition k_mint :: pubkey where "k_mint = 7"
definition k_pool :: pubkey where "k_pool = 8"
definition k_owner_ata :: pubkey where "k_owner_ata = 9"
definition k_protocol :: pubkey where "k_protocol = 10"
definition k_group :: pubkey where "k_group = 11"
definition k_mfi_account :: pubkey where "k_mfi_account = 12"
definition k_bank :: pubkey where "k_bank = 13"
definition k_vault :: pubkey where "k_vault = 14"
definition k_other :: pubkey where "k_other = 15"
definition k_registry :: pubkey where "k_registry = 108"
definition k_entry :: pubkey where "k_entry = 213"
definition k_position :: pubkey where "k_position = 308"
definition k_state :: pubkey where "k_state = 313"

lemmas demo_keys =
  k_system_def k_owner_def k_token_def k_ata_def k_sysvar_def k_rent_def k_mint_def k_pool_def
  k_owner_ata_def k_protocol_def k_group_def k_mfi_account_def k_bank_def k_vault_def k_other_def
  k_registry_def k_entry_def k_position_def k_state_def

definition demo_address :: "bytes list \<Rightarrow> pubkey" where
  "demo_address seeds = word_of_nat (100 * length seeds + length (hd seeds))"

definition demo_pack :: "token_account \<Rightarrow> bytes" where
  "demo_pack t = pubkey_bytes (tok_mint t) @ pubkey_bytes (tok_owner t) @
                 to_le_bytes 8 (tok_amount t) @ replicate 93 0"

definition demo_unpack :: "bytes \<Rightarrow> token_account option" where
  "demo_unpack bs = do {
     (m, bs) \<leftarrow> dec_pubkey bs;
     (a, bs) \<leftarrow> dec_pubkey bs;
     (n, bs) \<leftarrow> dec_word 8 bs;
     Some \<lparr>tok_mint = m, tok_owner = a, tok_amount = n\<rparr>
   }"

lemma demo_unpack_pack [simp]: "demo_unpack (demo_pack t) = Some t"
  by (simp add: demo_unpack_def demo_pack_def codec_simps)

definition demo_set_amount :: "pubkey \<Rightarrow> token_account \<Rightarrow> u64 \<Rightarrow> world \<Rightarrow> world" where
  "demo_set_amount k t n w =
     w\<lparr>accounts := (\<lambda>j. if j = k then map_option (\<lambda>a. a\<lparr>acc_data := demo_pack (t\<lparr>tok_amount := n\<rparr>)\<rparr>) (accounts w j)
                        else accounts w j)\<rparr>"

definition demo_transfer ::
  "pubkey \<Rightarrow> account_info \<Rightarrow> account_info \<Rightarrow> account_info \<Rightarrow> u64 \<Rightarrow> bytes list list \<Rightarrow> world \<Rightarrow> world res" where
  "demo_transfer pid src dst auth n seeds w =
     (let s = ai_key src; d = ai_key dst in
      if s \<noteq> d \<and> account_owner w s = Some k_token \<and> account_owner w d = Some k_token then
        (case (demo_unpack (account_data w s), demo_unpack (account_data w d)) of
           (Some t, Some u) \<Rightarrow>
             (if n \<le> tok_amount t \<and> unat (tok_amount u) + unat n < 2 ^ 64
              then Inr (demo_set_amount d u (tok_amount u + n) (demo_set_amount s t (tok_amount t - n) w))
              else Inl (ProgramErr ''InsufficientFunds''))
         | _ \<Rightarrow> Inl (ProgramErr ''InvalidAccountData''))
      else Inl (ProgramErr ''InvalidArgument''))"

definition demo_protocol :: "instruction \<Rightarrow> world \<Rightarrow> world res" where
  "demo_protocol ix w =
     (if take 8 (ix_data ix) = MFI_WITHDRAW
      then demo_transfer (ix_program ix)
             \<lparr>ai_key = am_pubkey (ix_accounts ix ! 6), ai_signer = False, ai_writable = True\<rparr>
             \<lparr>ai_key = am_pubkey (ix_accounts ix ! 4), ai_signer = False, ai_writable = True\<rparr>
             \<lparr>ai_key = am_pubkey (ix_accounts ix ! 5), ai_signer = True, ai_writable = False\<rparr>
             7 [] w
      else Inr w)"

definition demo_callee :: runtime where
  "demo_callee =
     \<lparr>rt_clock = \<lparr>clock_slot = 100, clock_unix_timestamp = 1700000000\<rparr>,
      rt_system_program = k_system, rt_token_program = k_token, rt_ata_program = k_ata,
      rt_instructions_sysvar = k_sysvar, rt_rent_sysvar = k_rent,
      rt_load_current_index = (\<lambda>_. Inr 0),
      rt_load_instruction_at =
        (\<lambda>_ _. Inr \<lparr>ix_program = DISPATCHER_ID, ix_accounts = [], ix_data = []\<rparr>),
      rt_find_program_address = (\<lambda>seeds _. (demo_address seeds, 255)),
      rt_create_program_address =
        (\<lambda>seeds _. if last seeds = [255] then Some (demo_address (butlast seeds)) else None),
      rt_create_account =
        (\<lambda>_ k space owner w. case accounts w k of
           None \<Rightarrow> Inr (set_account_data k
             \<lparr>acc_owner = owner, acc_executable = False, acc_data = replicate space 0\<rparr> w)
         | Some _ \<Rightarrow> Inl (ProgramErr ''AccountAlreadyInUse'')),
      rt_create_ata =
        (\<lambda>_ k authority mint w. case accounts w k of
           None \<Rightarrow> Inr (set_account_data k
             \<lparr>acc_owner = k_token, acc_executable = False,
              acc_data = demo_pack \<lparr>tok_mint = mint, tok_owner = authority, tok_amount = 0\<rparr>\<rparr> w)
         | Some _ \<Rightarrow> Inl (ProgramErr ''AccountAlreadyInUse'')),
      rt_token_unpack = demo_unpack,
      rt_mint_unpack = (\<lambda>d. if length d = 82 then Some () else None),
      rt_token_transfer = demo_transfer,
      rt_invoke = (\<lambda>_ ix _ _ w. demo_protocol ix w)\<rparr>"

definition demo :: runtime where
  "demo = demo_callee
     \<lparr>rt_invoke := (\<lambda>caller ix _ _ w.
        if caller = dispatcher_id \<and> ix_program ix = marginfi_id
        then adapter_entry marginfi demo_callee
               (map (\<lambda>m. \<lparr>ai_key = am_pubkey m, ai_signer = am_signer m, ai_writable = am_writable m\<rparr>)
                  (ix_accounts ix))
               (ix_data ix) (w\<lparr>return_data := None\<rparr>)
        else demo_protocol ix w)\<rparr>"

lemma demo_callee_sel [simp]:
  "rt_clock demo_callee = \<lparr>clock_slot = 100, clock_unix_timestamp = 1700000000\<rparr>"
  "rt_system_program demo_callee = k_system" "rt_token_program demo_callee = k_token"
  "rt_ata_program demo_callee = k_ata" "rt_instructions_sysvar demo_callee = k_sysvar"
  "rt_rent_sysvar demo_callee = k_rent"
  "rt_find_program_address demo_callee seeds pid = (demo_address seeds, 255)"
  "rt_create_program_address demo_callee seeds pid =
     (if last seeds = [255] then Some (demo_address (butlast seeds)) else None)"
  "rt_token_unpack demo_callee = demo_unpack"
  "rt_mint_unpack demo_callee d = (if length d = 82 then Some () else None)"
  "rt_token_transfer demo_callee = demo_transfer"
  "rt_invoke demo_callee caller ix infos signer_seeds w = demo_protocol ix w"
  by (simp_all add: demo_callee_def)

lemma demo_sel [simp]:
  "rt_clock demo = rt_clock demo_callee"
  "rt_system_program demo = k_system" "rt_token_program demo = k_token"
  "rt_ata_program demo = k_ata" "rt_instructions_sysvar demo = k_sysvar"
  "rt_rent_sysvar demo = k_rent"
  "rt_find_program_address demo = rt_find_program_address demo_callee"
  "rt_create_program_address demo = rt_create_program_address demo_callee"
  "rt_create_account demo = rt_create_account demo_callee"
  "rt_create_ata demo = rt_create_ata demo_callee"
  "rt_token_unpack demo = demo_unpack"
  "rt_mint_unpack demo = rt_mint_unpack demo_callee"
  "rt_token_transfer demo = demo_transfer"
  "rt_load_current_index demo = rt_load_current_index demo_callee"
  "rt_load_instruction_at demo = rt_load_instruction_at demo_callee"
  by (simp_all add: demo_def demo_callee_def)

lemma demo_create:
  "rt_create_account demo_callee payer k space owner w =
     (case accounts w k of
        None \<Rightarrow> Inr (set_account_data k
          \<lparr>acc_owner = owner, acc_executable = False, acc_data = replicate space 0\<rparr> w)
      | Some _ \<Rightarrow> Inl (ProgramErr ''AccountAlreadyInUse''))"
  "rt_create_ata demo_callee payer k authority mint w =
     (case accounts w k of
        None \<Rightarrow> Inr (set_account_data k
          \<lparr>acc_owner = k_token, acc_executable = False,
           acc_data = demo_pack \<lparr>tok_mint = mint, tok_owner = authority, tok_amount = 0\<rparr>\<rparr> w)
      | Some _ \<Rightarrow> Inl (ProgramErr ''AccountAlreadyInUse''))"
  by (simp_all add: demo_callee_def)

lemma demo_caller_ok: "caller_ok demo_callee" "caller_ok demo"
  by (simp_all add: caller_ok_def demo_def demo_callee_def)

section \<open>The documented laws hold\<close>

lemma demo_system_creates: "system_creates demo_callee" "system_creates demo"
  by (auto simp: system_creates_def demo_create split: option.splits)

text \<open>The program ids as numbers.\<close>

lemma dispatcher_id_value: "dispatcher_id = 75399986930178669801393622878324313679343817731796898602215656342099836717059"
  by (simp add: dispatcher_id_def pubkey_of_b58_def b58_value_def b58_alphabet_def)

lemma kamino_id_value: "kamino_id = 70211188473217837392955772110581898186893983430058471853773470407134974569772"
  by (simp add: kamino_id_def pubkey_of_b58_def b58_value_def b58_alphabet_def)

lemma marginfi_id_value: "marginfi_id = 28167063281471336384865820879931971189353966526132249866414439590391455075802"
  by (simp add: marginfi_id_def pubkey_of_b58_def b58_value_def b58_alphabet_def)

lemma jupiter_id_value: "jupiter_id = 87000106469914252938029986217095516305749836443718144552270149016799807360090"
  by (simp add: jupiter_id_def pubkey_of_b58_def b58_value_def b58_alphabet_def)

lemma maple_id_value: "maple_id = 17033406976622711033752281182776375376161514498400409238751725991618597984192"
  by (simp add: maple_id_def pubkey_of_b58_def b58_value_def b58_alphabet_def)

lemma drift_id_value: "drift_id = 77120474480247111683984780828692283216225296946223990319131931570837872649028"
  by (simp add: drift_id_def pubkey_of_b58_def b58_value_def b58_alphabet_def)

lemmas id_values =
  dispatcher_id_value kamino_id_value marginfi_id_value jupiter_id_value maple_id_value
  drift_id_value

lemma program_ids:
  "dispatcher_id \<noteq> k_token" "kamino_id \<noteq> k_token" "marginfi_id \<noteq> k_token" "jupiter_id \<noteq> k_token"
  "maple_id \<noteq> k_token" "drift_id \<noteq> k_token" "marginfi_id \<noteq> dispatcher_id"
  by (simp_all add: id_values k_token_def)

lemma demo_balance_set:
  "balance demo (demo_set_amount k t n w) j =
     (if j = k \<and> accounts w k \<noteq> None then unat n else balance demo w j)"
  by (cases "accounts w k")
    (auto simp: balance_def demo_set_amount_def account_data_def split: option.splits)

lemma demo_transfer_Inr:
  "demo_transfer pid src dst auth n seeds w = Inr w' \<longleftrightarrow>
     ai_key src \<noteq> ai_key dst \<and>
     account_owner w (ai_key src) = Some k_token \<and> account_owner w (ai_key dst) = Some k_token \<and>
     (\<exists>t u. demo_unpack (account_data w (ai_key src)) = Some t \<and>
        demo_unpack (account_data w (ai_key dst)) = Some u \<and>
        n \<le> tok_amount t \<and> unat (tok_amount u) + unat n < 2 ^ 64 \<and>
        w' = demo_set_amount (ai_key dst) u (tok_amount u + n)
               (demo_set_amount (ai_key src) t (tok_amount t - n) w))"
  by (auto simp: demo_transfer_def Let_def split: option.splits if_splits)

lemma demo_token_moves: "token_moves demo"
  unfolding token_moves_def
proof (intro allI impI, goal_cases)
  case (1 pid src dst auth n seeds w w')
  then obtain t u where ne: "ai_key src \<noteq> ai_key dst" and
    own: "account_owner w (ai_key src) = Some k_token" "account_owner w (ai_key dst) = Some k_token" and
    t: "demo_unpack (account_data w (ai_key src)) = Some t" and
    u: "demo_unpack (account_data w (ai_key dst)) = Some u" and
    n: "n \<le> tok_amount t" "unat (tok_amount u) + unat n < 2 ^ 64" and
    w': "w' = demo_set_amount (ai_key dst) u (tok_amount u + n)
               (demo_set_amount (ai_key src) t (tok_amount t - n) w)"
    by (auto simp: demo_transfer_Inr)
  have bal: "balance demo w (ai_key src) = unat (tok_amount t)"
    "balance demo w (ai_key dst) = unat (tok_amount u)"
    by (simp_all add: balance_def t u)
  have acc: "accounts w (ai_key src) \<noteq> None" "accounts w (ai_key dst) \<noteq> None"
    using own by (auto simp: account_owner_def)
  have sub: "unat (tok_amount t - n) = unat (tok_amount t) - unat n"
    using n(1) by (simp add: unat_sub)
  have add: "unat (tok_amount u + n) = unat (tok_amount u) + unat n"
    using n(2) by (simp add: unat_word_ariths)
  have le: "unat n \<le> unat (tok_amount t)" using n(1) by (simp add: word_le_nat_alt)
  have acc2: "accounts (demo_set_amount (ai_key src) t (tok_amount t - n) w) (ai_key dst) \<noteq> None"
    using acc ne by (simp add: demo_set_amount_def)
  have "balance demo w' (ai_key src) + unat n = balance demo w (ai_key src)"
    using ne acc le by (simp add: w' demo_balance_set bal sub)
  moreover have "balance demo w' (ai_key dst) = balance demo w (ai_key dst) + unat n"
    using acc2 by (simp add: w' demo_balance_set bal add)
  moreover have "\<exists>d. accounts w' = (\<lambda>k. if k = ai_key src \<or> k = ai_key dst
                              then map_option (\<lambda>a. a\<lparr>acc_data := d k\<rparr>) (accounts w k)
                              else accounts w k)"
    using ne
    by (intro exI [of _ "\<lambda>k. if k = ai_key src then demo_pack (t\<lparr>tok_amount := tok_amount t - n\<rparr>)
          else demo_pack (u\<lparr>tok_amount := tok_amount u + n\<rparr>)"])
      (auto simp: w' demo_set_amount_def fun_eq_iff)
  moreover have "events w' = events w" by (simp add: w' demo_set_amount_def)
  ultimately show ?case using own by simp
qed

lemma demo_transfer_calls:
  assumes "demo_transfer pid src dst auth n seeds w = Inr w'" and "q \<noteq> k_token"
  shows "isolated q w w'" and "silent q w w'"
proof -
  have "rt_token_transfer demo pid src dst auth n seeds w = Inr w'" using assms(1) by simp
  from transfer_foreign [OF demo_token_moves this] token_movesD(4) [OF demo_token_moves this] assms(2)
  show "isolated q w w'" and "silent q w w'" by (auto simp: silent_def)
qed

lemma demo_protocol_calls:
  assumes "demo_protocol ix w = Inr w'" and "q \<noteq> k_token"
  shows "isolated q w w'" and "silent q w w'"
  using assms demo_transfer_calls [OF _ assms(2)] isolated_same [of w w q]
  by (auto simp: demo_protocol_def silent_refl split: if_splits)

lemma demo_ata_calls:
  assumes "rt_create_ata demo_callee payer k authority mint w = Inr w'" and "q \<noteq> k_token"
  shows "isolated q w w'" and "silent q w w'"
  using assms by (auto simp: demo_create isolated_def silent_def split: option.splits if_splits)

lemma demo_callee_isolates: "q \<noteq> k_token \<Longrightarrow> calls_isolate demo_callee q"
  using demo_ata_calls demo_transfer_calls demo_protocol_calls
  by (fastforce simp: calls_isolate_def)

text \<open>Running the MarginFi adapter leaves the dispatcher's accounts and log entries alone.\<close>

lemma foreign_entry:
  assumes "isolated marginfi_id w w2" and "isolated dispatcher_id w w2" and "silent dispatcher_id w w2"
    and "account_owner w k = Some marginfi_id"
    and "store_account c k x (emit_event marginfi_id e (set_u64_return marginfi_id n w2)) = Inr w'"
  shows "isolated dispatcher_id w w'" and "silent dispatcher_id w w'"
proof -
  let ?w3 = "emit_event marginfi_id e (set_u64_return marginfi_id n w2)"
  have "account_owner ?w3 k = Some marginfi_id"
    using isolated_owner [OF assms(1,4)] by (simp add: account_owner_def)
  from store_foreign [OF assms(5) this program_ids(7)] isolated_trans assms(2)
  show "isolated dispatcher_id w w'"
    using isolated_cong [of ?w3 w2] by (metis emit_event_simps(1) set_u64_return_simps(1))
  from assms(3) store_keeps_log [OF assms(5)] program_ids(7)
  show "silent dispatcher_id w w'" by (auto simp: silent_def)
qed

lemma demo_mfi_calls:
  assumes "q \<noteq> k_token"
  shows "mfi_init_account_pda demo_callee p g m a f i s w = Inr w' \<Longrightarrow> isolated q w w' \<and> silent q w w'"
    and "mfi_deposit demo_callee p g m a b t l k n w = Inr w' \<Longrightarrow> isolated q w w' \<and> silent q w w'"
    and "mfi_withdraw demo_callee p g m a b t v l k oracle n all w = Inr w' \<Longrightarrow>
           isolated q w w' \<and> silent q w w'"
  using demo_protocol_calls [OF _ assms]
  by (auto simp: mfi_init_account_pda_def mfi_deposit_def mfi_withdraw_def map_err_eq_Inr)

lemma created_foreign:
  assumes "accounts w k = None" and "p \<noteq> q"
    and "w' = set_account_data k \<lparr>acc_owner = p, acc_executable = b, acc_data = d\<rparr> w"
  shows "isolated q w w'" and "silent q w w'"
  using assms by (auto simp: isolated_def silent_def)

lemma demo_initialize_foreign:
  assumes "marginfi_initialize demo_callee infos data w = Inr w'"
  shows "isolated dispatcher_id w w' \<and> silent dispatcher_id w w'"
proof -
  from assms obtain ctx w1 s w2 where acc: "marginfi_initialize_accounts demo_callee infos w = Inr (ctx, w1)"
    and h: "marginfi_initialize_handler demo_callee ctx data w1 = Inr (s, w2)"
    and st: "store_account marginfi_codec (ai_key (mi_adapter_state ctx)) s w2 = Inr w'"
    by (auto simp: marginfi_initialize_def and_then_eq_Inr)
  let ?k = "ai_key (mi_adapter_state ctx)"
  from acc have "rt_create_account demo_callee (ai_key (mi_rent_payer ctx)) ?k
      (co_space marginfi_codec) marginfi_id w = Inr w1"
    by (simp add: marginfi_initialize_accounts_ok)
  note w1 = system_createsD [OF demo_system_creates(1) this]
  note d1 = created_foreign [OF w1(1) program_ids(7) w1(2)]
  from h obtain p g m a f i y where
    "mfi_init_account_pda demo_callee p g m a f i y w1 = Inr w2"
    by (auto simp: marginfi_initialize_handler_def and_then_eq_Inr)
  note d2 = demo_mfi_calls(1) [OF program_ids(1) this] demo_mfi_calls(1) [OF program_ids(3) this]
  have "account_owner w1 ?k = Some marginfi_id" by (simp add: w1(2) account_owner_def)
  then have own: "account_owner w2 ?k = Some marginfi_id" using isolated_owner d2 by blast
  have "isolated dispatcher_id w2 w'" by (rule store_foreign [OF st own program_ids(7)])
  then have "isolated dispatcher_id w w'" using d1(1) d2(1) isolated_trans by blast
  moreover have "silent dispatcher_id w w2" using d1(2) d2(1) silent_trans by blast
  ultimately show ?thesis using store_keeps_log [OF st] by (simp add: silent_def)
qed

lemma demo_entry_foreign:
  assumes "adapter_entry marginfi demo_callee infos data w = Inr w'"
  shows "isolated dispatcher_id w w' \<and> silent dispatcher_id w w'"
proof -
  note mfi = mfi_calls [OF demo_callee_isolates [OF program_ids(3)]] demo_mfi_calls [OF program_ids(1)]
  from assms obtain ix where "(case ix of
       IxInitialize v \<Rightarrow> marginfi_initialize demo_callee infos v w
     | IxDeposit amount v \<Rightarrow> marginfi_deposit demo_callee infos amount v w
     | IxWithdraw shares v \<Rightarrow> marginfi_withdraw demo_callee infos shares v w
     | IxCurrentValue v \<Rightarrow> marginfi_current_value demo_callee infos v w) = Inr w'"
    by (auto simp: adapter_entry_def and_then_eq_Inr cong: adapter_ix.case_cong)
  then consider v where "marginfi_initialize demo_callee infos v w = Inr w'"
    | a v where "marginfi_deposit demo_callee infos a v w = Inr w'"
    | a v where "marginfi_withdraw demo_callee infos a v w = Inr w'"
    | v where "marginfi_current_value demo_callee infos v w = Inr w'"
    by (cases ix) auto
  then show ?thesis
  proof cases
    case 1
    then show ?thesis by (rule demo_initialize_foreign)
  next
    case (2 a v)
    then obtain ctx s w2 where acc: "marginfi_deposit_accounts demo_callee infos w = Inr ctx"
      and h: "marginfi_deposit_handler demo_callee ctx a v w = Inr (s, w2)"
      and st: "store_account marginfi_codec (ty_key (md_adapter_state ctx)) s w2 = Inr w'"
      by (auto simp: marginfi_deposit_def and_then_eq_Inr)
    from acc have own: "account_owner w (ty_key (md_adapter_state ctx)) = Some marginfi_id"
      and sv: "ai_key (md_instructions_sysvar ctx) = rt_instructions_sysvar demo_callee"
      by (auto simp: marginfi_deposit_accounts_ok dest: load_account_owner)
    from h obtain w3 e where "w2 = emit_event marginfi_id e (set_u64_return marginfi_id a w3)"
      and "mfi_deposit demo_callee (md_marginfi_program ctx) (md_marginfi_group ctx)
        (md_marginfi_account ctx) (md_position ctx) (md_bank ctx) (ty_info (md_position_usdc_pool ctx))
        (md_liquidity_vault ctx) (md_token_program ctx) a w = Inr w3"
      by (auto simp: marginfi_deposit_handler_ok [OF sv])
    with st own mfi(2,5) show ?thesis using foreign_entry by metis
  next
    case (3 a v)
    then obtain ctx s w2 where acc: "marginfi_withdraw_accounts demo_callee infos w = Inr ctx"
      and h: "marginfi_withdraw_handler demo_callee ctx a v w = Inr (s, w2)"
      and st: "store_account marginfi_codec (ty_key (mw_adapter_state ctx)) s w2 = Inr w'"
      by (auto simp: marginfi_withdraw_def and_then_eq_Inr)
    from acc have own: "account_owner w (ty_key (mw_adapter_state ctx)) = Some marginfi_id"
      and sv: "ai_key (mw_instructions_sysvar ctx) = rt_instructions_sysvar demo_callee"
      by (auto simp: marginfi_withdraw_accounts_ok dest: load_account_owner)
    from h obtain w3 e n where "w2 = emit_event marginfi_id e (set_u64_return marginfi_id n w3)"
      and "mfi_withdraw demo_callee (mw_marginfi_program ctx) (mw_marginfi_group ctx)
        (mw_marginfi_account ctx) (mw_position ctx) (mw_bank ctx) (ty_info (mw_position_usdc_pool ctx))
        (mw_bank_liquidity_vault_authority ctx) (mw_liquidity_vault ctx) (mw_token_program ctx)
        (mw_oracle ctx) a
        (hdr_total_shares (ms_header (ty_val (mw_adapter_state ctx))) \<le> a) w = Inr w3"
      by (auto simp: marginfi_withdraw_handler_ok [OF sv])
    with st own mfi(3,6) show ?thesis using foreign_entry by metis
  next
    case (4 v)
    then show ?thesis using isolated_same [of w' w dispatcher_id] program_ids(7)
      by (auto simp: marginfi_current_value_def and_then_eq_Inr marginfi_value_handler_def Let_def
          silent_def)
  qed
qed

lemma foreign_return_data [simp]:
  "isolated p (w\<lparr>return_data := x\<rparr>) w' = isolated p w w'"
  "silent p (w\<lparr>return_data := x\<rparr>) w' = silent p w w'"
  by (simp_all add: isolated_def silent_def)

lemma demo_isolates: "calls_isolate demo dispatcher_id"
proof -
  have run: "isolated dispatcher_id w w' \<and> silent dispatcher_id w w'"
    if "rt_invoke demo dispatcher_id ix infos seeds w = Inr w'" for ix infos seeds w w'
  proof (cases "ix_program ix = marginfi_id")
    case True
    with that obtain xs where
      "adapter_entry marginfi demo_callee xs (ix_data ix) (w\<lparr>return_data := None\<rparr>) = Inr w'"
      by (auto simp: demo_def)
    from demo_entry_foreign [OF this] show ?thesis by simp
  next
    case False
    with that demo_protocol_calls [OF _ program_ids(1)] show ?thesis by (auto simp: demo_def)
  qed
  then show ?thesis
    using demo_ata_calls [OF _ program_ids(1)] demo_transfer_calls [OF _ program_ids(1)]
    by (fastforce simp: calls_isolate_def)
qed

lemma demo_hosts: "hosts demo demo_callee marginfi"
  unfolding hosts_def
proof (intro allI impI, goal_cases)
  case (1 ix infos seeds w w')
  then show ?case
    by (intro exI [of _ "map (\<lambda>m. \<lparr>ai_key = am_pubkey m, ai_signer = am_signer m,
          ai_writable = am_writable m\<rparr>) (ix_accounts ix)"])
      (simp add: demo_def o_def)
qed

lemma demo_chain: "chain dispatcher_id demo {demo}"
  by (simp add: chain_def demo_isolates demo_system_creates)

lemma demo_callee_chain: "q \<noteq> k_token \<Longrightarrow> chain q demo_callee {demo_callee}"
  by (simp add: chain_def demo_callee_isolates demo_system_creates)

end
