(* ===== verification/Demo_Runs.thy ===== *)
theory Demo_Runs
  imports Demo
begin

text \<open>
  A run on the concrete runtime, from the deployment of the dispatcher to a withdrawal through
  the MarginFi adapter, as a sequence of worlds.  Every world is written out and every step is
  checked by evaluation.
\<close>

section \<open>Building blocks\<close>

definition ro :: "pubkey \<Rightarrow> account_info" where
  "ro k = \<lparr>ai_key = k, ai_signer = False, ai_writable = False\<rparr>"
definition wr :: "pubkey \<Rightarrow> account_info" where
  "wr k = \<lparr>ai_key = k, ai_signer = False, ai_writable = True\<rparr>"
definition sg :: "pubkey \<Rightarrow> account_info" where
  "sg k = \<lparr>ai_key = k, ai_signer = True, ai_writable = True\<rparr>"

lemma info_sel [simp]:
  "ai_key (ro k) = k" "ai_key (wr k) = k" "ai_key (sg k) = k"
  "ai_signer (sg k)" "ai_writable (wr k)" "ai_writable (sg k)"
  "\<not> ai_signer (ro k)" "\<not> ai_writable (ro k)" "\<not> ai_signer (wr k)"
  by (simp_all add: ro_def wr_def sg_def)

definition held :: "'a codec \<Rightarrow> pubkey \<Rightarrow> 'a \<Rightarrow> nat \<Rightarrow> account" where
  "held c pid x n =
     \<lparr>acc_owner = pid, acc_executable = False, acc_data = account_image c x @ replicate n 0\<rparr>"

definition program_account :: account where
  "program_account = \<lparr>acc_owner = k_system, acc_executable = True, acc_data = []\<rparr>"

definition token_held :: "pubkey \<Rightarrow> pubkey \<Rightarrow> u64 \<Rightarrow> account" where
  "token_held mint authority n =
     \<lparr>acc_owner = k_token, acc_executable = False,
      acc_data = demo_pack \<lparr>tok_mint = mint, tok_owner = authority, tok_amount = n\<rparr>\<rparr>"

lemma held_sel [simp]:
  "acc_executable program_account" "acc_owner (token_held m a n) = k_token"
  "acc_owner (held c pid x t) = pid"
  "demo_unpack (acc_data (token_held m a n)) = Some \<lparr>tok_mint = m, tok_owner = a, tok_amount = n\<rparr>"
  by (simp_all add: program_account_def token_held_def held_def)

context anchor_account
begin

lemma load_held: "accounts w k = Some (held c pid x n) \<Longrightarrow> wf x \<Longrightarrow> load_account c pid k w = Inr x"
  by (simp add: load_account_def held_def deserialize_image)

lemma image_in_space: "wf x \<Longrightarrow> length (account_image c x) \<le> co_space c"
  using image_fits [of x] by (simp add: image_length)

lemma store_created:
  assumes "accounts w k = Some \<lparr>acc_owner = pid, acc_executable = False, acc_data = replicate (co_space c) 0\<rparr>"
    and "wf x"
  shows "store_account c k x w =
           Inr (set_account_data k (held c pid x (co_space c - (8 + length (co_enc c x)))) w)"
  using assms image_fits [OF assms(2)] by (simp add: store_account_def held_def image_length Let_def)

lemma store_held:
  assumes "accounts w k = Some (held c pid x n)" and "length (co_enc c y) = length (co_enc c x)"
  shows "store_account c k y w = Inr (set_account_data k (held c pid y n) w)"
  using assms by (simp add: store_account_def held_def image_length Let_def)

end

section \<open>The worlds\<close>

definition w_genesis :: world where
  "w_genesis =
     \<lparr>accounts = [k_system \<mapsto> program_account, k_token \<mapsto> program_account, k_ata \<mapsto> program_account,
                  k_protocol \<mapsto> program_account, marginfi_id \<mapsto> program_account,
                  k_mint \<mapsto> \<lparr>acc_owner = k_token, acc_executable = False, acc_data = replicate 82 0\<rparr>,
                  k_owner_ata \<mapsto> token_held k_mint k_owner 1000,
                  k_vault \<mapsto> token_held k_mint k_protocol 1000],
      return_data = None, events = []\<rparr>"

definition demo_registry :: "u32 \<Rightarrow> registry" where
  "demo_registry n = \<lparr>reg_admin = k_owner, reg_adapter_count = n, reg_bump = 255\<rparr>"

definition demo_entry :: adapter_entry where
  "demo_entry = \<lparr>ent_adapter_program = marginfi_id, ent_interface_version = 1,
     ent_name = [77, 70, 73], ent_is_active = True, ent_added_at = 1700000000, ent_bump = 255\<rparr>"

definition demo_position :: position where
  "demo_position = \<lparr>pos_owner = k_owner, pos_adapter_program = marginfi_id, pos_usdc_pool = k_pool,
     pos_usdc_mint = k_mint, pos_created_at = 1700000000, pos_bump = 255\<rparr>"

definition demo_state :: "u64 \<Rightarrow> marginfi_state" where
  "demo_state n =
     \<lparr>ms_header = \<lparr>hdr_position = k_position, hdr_adapter_program = marginfi_id,
                   hdr_created_at = 1700000000, hdr_total_shares = n\<rparr>,
      ms_marginfi_group = k_group, ms_marginfi_account = k_mfi_account, ms_bank = k_bank,
      ms_bump = 255\<rparr>"

definition w_registry :: world where
  "w_registry = set_account_data k_registry (held registry_codec dispatcher_id (demo_registry 0) 0) w_genesis"

definition w_approved :: world where
  "w_approved =
     \<lparr>accounts = (accounts w_registry)
        (k_registry \<mapsto> held registry_codec dispatcher_id (demo_registry 1) 0,
         k_entry \<mapsto> held entry_codec dispatcher_id demo_entry 29),
      return_data = None,
      events = [(dispatcher_id, AdapterWhitelisted marginfi_id [77, 70, 73] 1)]\<rparr>"

definition w_opened :: world where
  "w_opened =
     \<lparr>accounts = (accounts w_approved)
        (k_position \<mapsto> held position_codec dispatcher_id demo_position 0,
         k_pool \<mapsto> token_held k_mint k_position 0,
         k_state \<mapsto> held marginfi_codec marginfi_id (demo_state 0) 0),
      return_data = None,
      events = events w_approved @ [(dispatcher_id, PositionOpened k_owner marginfi_id k_position)]\<rparr>"

lemma demo_addresses:
  "demo_address [REGISTRY_SEED] = k_registry"
  "demo_address [ENTRY_SEED, a] = k_entry"
  "demo_address [POSITION_SEED, a, b] = k_position"
  "demo_address [ADAPTER_STATE_SEED, a, b] = k_state"
  by (simp_all add: demo_address_def REGISTRY_SEED_def ENTRY_SEED_def POSITION_SEED_def
      ADAPTER_STATE_SEED_def demo_keys)

lemma demo_wf: "entry_wf demo_entry"
  by (simp add: entry_wf_def demo_entry_def MAX_NAME_LEN_def)

text \<open>Which accounts the worlds hold.\<close>

lemma genesis_accounts [simp]:
  "accounts w_genesis k_system = Some program_account"
  "accounts w_genesis k_token = Some program_account"
  "accounts w_genesis k_ata = Some program_account"
  "accounts w_genesis k_protocol = Some program_account"
  "accounts w_genesis marginfi_id = Some program_account"
  "accounts w_genesis k_mint = Some \<lparr>acc_owner = k_token, acc_executable = False, acc_data = replicate 82 0\<rparr>"
  "accounts w_genesis k_owner_ata = Some (token_held k_mint k_owner 1000)"
  "accounts w_genesis k_vault = Some (token_held k_mint k_protocol 1000)"
  "accounts w_genesis k_registry = None" "accounts w_genesis k_entry = None"
  "accounts w_genesis k_position = None" "accounts w_genesis k_state = None"
  "accounts w_genesis k_pool = None" "accounts w_genesis k_other = None"
  "events w_genesis = []"
  by (simp_all add: w_genesis_def demo_keys marginfi_id_value)

lemma keys_distinct:
  "distinct [
     k_system, k_token, k_ata, k_protocol, marginfi_id, dispatcher_id, k_mint,
     k_owner_ata, k_vault, k_registry, k_entry, k_position, k_state, k_pool, k_other,
     k_owner, k_sysvar]"
  "distinct [
     k_sysvar, k_owner, k_other, k_pool, k_state, k_position, k_entry, k_registry,
     k_vault, k_owner_ata, k_mint, dispatcher_id, marginfi_id, k_protocol, k_ata,
     k_token, k_system]"
  by (simp_all add: demo_keys id_values)

lemmas key_ne [simp] = keys_distinct [simplified]

section \<open>The registry\<close>

lemmas run_simps =
  account_executable_def c_init_def c_init_ata_def c_mut_def c_seeds_def c_executable_def c_address_def
  c_token_def demo_create demo_addresses

lemma run_initialize_registry:
  "initialize_registry demo [sg k_owner, wr k_registry, ro k_system] w_genesis = Inr w_registry"
proof -
  let ?w = "set_account_data k_registry
     \<lparr>acc_owner = dispatcher_id, acc_executable = False, acc_data = replicate (co_space registry_codec) 0\<rparr>
     w_genesis"
  have "store_account registry_codec k_registry (demo_registry 0) ?w = Inr w_registry"
    by (subst registry.store_created) (simp_all add: w_registry_def set_account_data_def registry_codec_def)
  then show ?thesis
    by (simp add: initialize_registry_def initialize_registry_accounts_def
        initialize_registry_handler_def run_simps demo_registry_def)
qed

lemma world_eqI:
  "(\<And>k. accounts w k = accounts w' k) \<Longrightarrow> return_data w = return_data w' \<Longrightarrow>
     events w = events w' \<Longrightarrow> w = (w' :: world)"
  by (rule world.equality) auto

lemma run_whitelist_adapter:
  "whitelist_adapter demo [sg k_owner, wr k_registry, wr k_entry, ro marginfi_id, ro k_system]
     [77, 70, 73] 1 w_registry = Inr w_approved"
proof -
  define w1 where "w1 = emit_event dispatcher_id (AdapterWhitelisted marginfi_id [77, 70, 73] 1)
     (set_account_data k_entry \<lparr>acc_owner = dispatcher_id, acc_executable = False,
        acc_data = replicate (co_space entry_codec) 0\<rparr> w_registry)"
  define w2 where "w2 = set_account_data k_registry
     (held registry_codec dispatcher_id (demo_registry 1) 0) w1"
  have ld: "load_account registry_codec dispatcher_id k_registry w_registry = Inr (demo_registry 0)"
    by (rule registry.load_held) (simp_all add: w_registry_def)
  have s1: "store_account registry_codec k_registry (demo_registry 1) w1 = Inr w2"
    unfolding w2_def by (rule registry.store_held) (simp_all add: w1_def w_registry_def registry_codec_def)
  have "store_account entry_codec k_entry demo_entry w2 =
      Inr (set_account_data k_entry (held entry_codec dispatcher_id demo_entry
        (co_space entry_codec - (8 + length (co_enc entry_codec demo_entry)))) w2)"
    by (rule entry.store_created) (simp_all add: w1_def w2_def demo_wf)
  also have "co_space entry_codec - (8 + length (co_enc entry_codec demo_entry)) = 29"
    by (simp add: entry_codec_def demo_entry_def MAX_NAME_LEN_def)
  also have "set_account_data k_entry (held entry_codec dispatcher_id demo_entry 29) w2 = w_approved"
    by (rule world_eqI) (simp_all add: w_approved_def w1_def w2_def w_registry_def w_genesis_def)
  finally have s2: "store_account entry_codec k_entry demo_entry w2 = Inr w_approved" .
  have cnt: "demo_registry 0\<lparr>reg_adapter_count := 1\<rparr> = demo_registry 1" "reg_bump (demo_registry n) = 255"
    "reg_admin (demo_registry n) = k_owner" "reg_adapter_count (demo_registry n) = n" for n
    by (simp_all add: demo_registry_def)
  have fresh: "accounts w_registry k_entry = None" "accounts w_registry k_system = Some program_account"
    "accounts w_registry marginfi_id = Some program_account"
    by (simp_all add: w_registry_def)
  show ?thesis
    using s1 s2 unfolding w1_def demo_entry_def
    by (simp add: whitelist_adapter_def whitelist_adapter_accounts_def whitelist_adapter_handler_def
        run_simps ld fresh cnt MAX_NAME_LEN_def ADAPTER_INTERFACE_VERSION_def MAX_ADAPTERS_def
        checked_add_def)
qed

section \<open>Opening a position\<close>

definition w_creating :: world where
  "w_creating =
     \<lparr>accounts = (accounts w_approved)
        (k_position \<mapsto> \<lparr>acc_owner = dispatcher_id, acc_executable = False,
                       acc_data = replicate (co_space position_codec) 0\<rparr>,
         k_pool \<mapsto> token_held k_mint k_position 0),
      return_data = None, events = events w_approved\<rparr>"

definition w_initialized :: world where
  "w_initialized = set_account_data k_state (held marginfi_codec marginfi_id (demo_state 0) 0) w_creating"

lemma approved_accounts [simp]:
  "accounts w_approved k_system = Some program_account"
  "accounts w_approved k_token = Some program_account"
  "accounts w_approved k_ata = Some program_account"
  "accounts w_approved k_protocol = Some program_account"
  "accounts w_approved marginfi_id = Some program_account"
  "accounts w_approved k_mint = Some \<lparr>acc_owner = k_token, acc_executable = False, acc_data = replicate 82 0\<rparr>"
  "accounts w_approved k_owner_ata = Some (token_held k_mint k_owner 1000)"
  "accounts w_approved k_vault = Some (token_held k_mint k_protocol 1000)"
  "accounts w_approved k_entry = Some (held entry_codec dispatcher_id demo_entry 29)"
  "accounts w_approved k_position = None" "accounts w_approved k_state = None"
  "accounts w_approved k_pool = None" "return_data w_approved = None"
  by (simp_all add: w_approved_def w_registry_def)

lemma MFI_discs_distinct: "MFI_INIT_PDA \<noteq> MFI_WITHDRAW" "MFI_DEPOSIT \<noteq> MFI_WITHDRAW"
  "length MFI_INIT_PDA = 8" "length MFI_DEPOSIT = 8" "length MFI_WITHDRAW = 8"
  by (simp_all add: MFI_INIT_PDA_def MFI_DEPOSIT_def MFI_WITHDRAW_def)

lemma demo_verify: "ai_key sysvar = k_sysvar \<Longrightarrow>
    verify_caller_is_dispatcher demo_callee sysvar DISPATCHER_ID = Inr ()"
  by (simp add: verify_caller_is_dispatcher_def demo_callee_def)

lemma run_initialize:
  "rt_invoke demo dispatcher_id
     (initialize_call (ro marginfi_id) (ro k_sysvar) (wr k_position) (wr k_state) (sg k_owner)
        (ro k_system) [ro k_protocol, ro k_group, wr k_mfi_account, ro k_bank]) infos seeds w_creating =
   Inr w_initialized"
proof -
  let ?w = "set_account_data k_state \<lparr>acc_owner = marginfi_id, acc_executable = False,
        acc_data = replicate (co_space marginfi_codec) 0\<rparr> w_creating"
  have "w_creating\<lparr>return_data := None\<rparr> = w_creating" by (simp add: w_creating_def)
  moreover have acc: "accounts w_creating k_system = Some program_account"
    "accounts w_creating k_protocol = Some program_account" "accounts w_creating k_state = None"
    by (simp_all add: w_creating_def)
  moreover have "store_account marginfi_codec k_state (demo_state 0) ?w = Inr w_initialized"
    by (subst marginfi_state.store_created) (simp_all add: w_initialized_def set_account_data_def marginfi_codec_def)
  ultimately show ?thesis
    by (simp add: demo_def initialize_call_def adapter_entry_def decode_encode marginfi_initialize_def
        marginfi_initialize_accounts_def marginfi_initialize_handler_def run_simps adapter_seeds_def
        meta_new_def meta_readonly_def meta_of_info_def demo_verify MAX_ADAPTER_DATA_LEN_def
        mfi_init_account_pda_def demo_protocol_def MFI_discs_distinct demo_state_def)
qed

lemma run_open_position:
  "open_position demo
     [sg k_owner, ro k_entry, ro marginfi_id, wr k_position, ro k_mint, wr k_pool, wr k_state,
      ro k_sysvar, ro k_system, ro k_token, ro k_ata, ro k_protocol, ro k_group, wr k_mfi_account,
      ro k_bank] w_approved = Inr w_opened"
proof -
  define w1 where "w1 = set_account_data k_position \<lparr>acc_owner = dispatcher_id, acc_executable = False,
        acc_data = replicate (co_space position_codec) 0\<rparr> w_approved"
  define w3 where "w3 = emit_event dispatcher_id (PositionOpened k_owner marginfi_id k_position) w_initialized"
  have ld: "load_account entry_codec dispatcher_id k_entry w_approved = Inr demo_entry"
    by (rule entry.load_held) (simp_all add: demo_wf)
  have mint: "load_mint demo k_mint w_approved = Inr ()" by (simp add: load_mint_def)
  have w2: "set_account_data k_pool (token_held k_mint k_position 0) w1 = w_creating"
    by (rule world_eqI) (simp_all add: w_creating_def w1_def)
  have pool: "load_token demo k_pool w_creating =
      Inr \<lparr>tok_mint = k_mint, tok_owner = k_position, tok_amount = 0\<rparr>"
    by (simp add: load_token_def w_creating_def)
  have ex: "accounts w1 k_pool = None" "accounts w_creating marginfi_id = Some program_account"
    by (simp_all add: w1_def w_creating_def)
  have init: "route_initialize demo (ro marginfi_id) (ro k_sysvar) (wr k_position) (wr k_state)
      (sg k_owner) (ro k_system) [ro k_protocol, ro k_group, wr k_mfi_account, ro k_bank] seeds
      w_creating = Inr w_initialized" for seeds
    unfolding route_initialize_ok by (rule run_initialize)
  have st: "store_account position_codec k_position demo_position w3 = Inr w_opened"
  proof -
    have "accounts w3 k_position = Some \<lparr>acc_owner = dispatcher_id, acc_executable = False,
        acc_data = replicate (co_space position_codec) 0\<rparr>"
      by (simp add: w3_def w_initialized_def w_creating_def)
    then have "store_account position_codec k_position demo_position w3 =
        Inr (set_account_data k_position (held position_codec dispatcher_id demo_position
          (co_space position_codec - (8 + length (co_enc position_codec demo_position)))) w3)"
      by (rule position.store_created) simp
    also have "co_space position_codec - (8 + length (co_enc position_codec demo_position)) = 0"
      by (simp add: position_codec_def)
    also have "set_account_data k_position (held position_codec dispatcher_id demo_position 0) w3 = w_opened"
      by (rule world_eqI) (simp_all add: w_opened_def w3_def w_initialized_def w_creating_def)
    finally show ?thesis .
  qed
  have ent: "ent_bump demo_entry = 255" "ent_is_active demo_entry" "ent_interface_version demo_entry = 1"
    by (simp_all add: demo_entry_def)
  show ?thesis
    using w2 pool init st unfolding w1_def w3_def demo_position_def
    by (simp add: open_position_def open_position_accounts_def open_position_handler_def run_simps ld
        mint ex [unfolded w1_def] ent token_held_def [symmetric] ADAPTER_INTERFACE_VERSION_def)
qed

section \<open>A deposit and a withdrawal\<close>

definition w_escrowed :: world where
  "w_escrowed = w_opened\<lparr>accounts := (accounts w_opened)
     (k_owner_ata \<mapsto> token_held k_mint k_owner 950, k_pool \<mapsto> token_held k_mint k_position 50)\<rparr>"

definition w_deposited :: world where
  "w_deposited =
     \<lparr>accounts = (accounts w_escrowed)(k_state \<mapsto> held marginfi_codec marginfi_id (demo_state 50) 0),
      return_data = Some (marginfi_id, to_le_bytes 8 (50 :: u64)),
      events = events w_opened @ [(marginfi_id, AdapterDepositEvent k_position 50 50),
                                  (dispatcher_id, Deposited k_position 50 50)]\<rparr>"

definition w_withdrawn :: world where
  "w_withdrawn =
     \<lparr>accounts = (accounts w_deposited)
        (k_state \<mapsto> held marginfi_codec marginfi_id (demo_state 20) 0,
         k_vault \<mapsto> token_held k_mint k_protocol 993,
         k_owner_ata \<mapsto> token_held k_mint k_owner 957),
      return_data = Some (marginfi_id, to_le_bytes 8 (7 :: u64)),
      events = events w_deposited @ [(marginfi_id, AdapterWithdrawEvent k_position 30 7),
                                     (dispatcher_id, Withdrawn k_position 30 7)]\<rparr>"

lemma demo_transfer_held:
  assumes "accounts w (ai_key src) = Some (token_held m a x)"
    and "accounts w (ai_key dst) = Some (token_held m' a' y)"
    and "ai_key src \<noteq> ai_key dst" and "n \<le> x" and "unat y + unat n < 2 ^ 64"
  shows "demo_transfer pid src dst auth n seeds w =
     Inr (w\<lparr>accounts := (accounts w)(ai_key src \<mapsto> token_held m a (x - n),
                                   ai_key dst \<mapsto> token_held m' a' (y + n))\<rparr>)"
proof -
  have "demo_set_amount (ai_key dst) \<lparr>tok_mint = m', tok_owner = a', tok_amount = y\<rparr> (y + n)
      (demo_set_amount (ai_key src) \<lparr>tok_mint = m, tok_owner = a, tok_amount = x\<rparr> (x - n) w) =
    w\<lparr>accounts := (accounts w)(ai_key src \<mapsto> token_held m a (x - n),
                                   ai_key dst \<mapsto> token_held m' a' (y + n))\<rparr>"
    by (rule world_eqI)
      (use assms(1-3) in \<open>auto simp: demo_set_amount_def token_held_def\<close>)
  with assms show ?thesis
    by (simp add: demo_transfer_def account_owner_def account_data_def)
qed

definition adapter_tail :: "account_info list" where
  "adapter_tail = [ro k_protocol, ro k_group, wr k_mfi_account, wr k_bank]"

definition deposit_infos :: "account_info list" where
  "deposit_infos =
     [sg k_owner, ro k_entry, ro marginfi_id, wr k_position, wr k_pool, wr k_owner_ata, wr k_state,
      ro k_sysvar, ro k_token] @ adapter_tail @ [wr k_vault, ro k_token]"

definition withdraw_infos :: "account_info list" where
  "withdraw_infos =
     [sg k_owner, ro k_entry, ro marginfi_id, wr k_position, wr k_pool, wr k_owner_ata, wr k_state,
      ro k_sysvar, ro k_token] @ adapter_tail @ [ro k_other, wr k_vault, ro k_token, ro k_other]"

definition demo_fund_ctx :: "world \<Rightarrow> u64 \<Rightarrow> u64 \<Rightarrow> account_info list \<Rightarrow> fund_ctx" where
  "demo_fund_ctx w pool ata rem =
     \<lparr>fu_owner = sg k_owner, fu_adapter_entry = Typed (ro k_entry) demo_entry,
      fu_adapter_program = ro marginfi_id, fu_position = Typed (wr k_position) demo_position,
      fu_position_usdc_pool = Typed (wr k_pool)
        \<lparr>tok_mint = k_mint, tok_owner = k_position, tok_amount = pool\<rparr>,
      fu_owner_usdc_ata = Typed (wr k_owner_ata)
        \<lparr>tok_mint = k_mint, tok_owner = k_owner, tok_amount = ata\<rparr>,
      fu_adapter_state = wr k_state, fu_instructions_sysvar = ro k_sysvar, fu_remaining = rem\<rparr>"

lemma demo_records [simp]:
  "ent_bump demo_entry = 255" "ent_is_active demo_entry" "ent_interface_version demo_entry = 1"
  "pos_owner demo_position = k_owner" "pos_adapter_program demo_position = marginfi_id"
  "pos_usdc_pool demo_position = k_pool" "pos_usdc_mint demo_position = k_mint"
  "pos_bump demo_position = 255"
  "hdr_position (ms_header (demo_state n)) = k_position" "hdr_total_shares (ms_header (demo_state n)) = n"
  "ms_marginfi_group (demo_state n) = k_group" "ms_marginfi_account (demo_state n) = k_mfi_account"
  "ms_bank (demo_state n) = k_bank" "ms_bump (demo_state n) = 255"
  "marginfi_book m (demo_state n) = demo_state m"
  by (simp_all add: demo_entry_def demo_position_def demo_state_def marginfi_book_def)

lemma run_fund_accounts:
  assumes "accounts w k_entry = Some (held entry_codec dispatcher_id demo_entry 29)"
    and "accounts w k_position = Some (held position_codec dispatcher_id demo_position 0)"
    and "accounts w k_pool = Some (token_held k_mint k_position pool)"
    and "accounts w k_owner_ata = Some (token_held k_mint k_owner ata)"
    and "accounts w k_token = Some program_account" and "accounts w marginfi_id = Some program_account"
  shows "fund_accounts demo
     ([sg k_owner, ro k_entry, ro marginfi_id, wr k_position, wr k_pool, wr k_owner_ata, wr k_state,
       ro k_sysvar, ro k_token] @ rem) w = Inr (demo_fund_ctx w pool ata rem)"
proof -
  have "load_account entry_codec dispatcher_id k_entry w = Inr demo_entry"
    by (rule entry.load_held) (use assms in \<open>simp_all add: demo_wf\<close>)
  moreover have "load_account position_codec dispatcher_id k_position w = Inr demo_position"
    by (rule position.load_held) (use assms in simp_all)
  ultimately show ?thesis
    unfolding fund_accounts_ok using assms
    by (simp add: demo_fund_ctx_def load_token_def account_executable_def demo_addresses)
qed

text \<open>The MarginFi adapter's side of the deposit.\<close>

definition w_booked :: world where
  "w_booked =
     \<lparr>accounts = (accounts w_escrowed)(k_state \<mapsto> held marginfi_codec marginfi_id (demo_state 50) 0),
      return_data = Some (marginfi_id, to_le_bytes 8 (50 :: u64)),
      events = events w_opened @ [(marginfi_id, AdapterDepositEvent k_position 50 50)]\<rparr>"

lemma opened_accounts [simp]:
  "accounts w_opened k_system = Some program_account"
  "accounts w_opened k_token = Some program_account"
  "accounts w_opened k_protocol = Some program_account"
  "accounts w_opened marginfi_id = Some program_account"
  "accounts w_opened k_owner_ata = Some (token_held k_mint k_owner 1000)"
  "accounts w_opened k_vault = Some (token_held k_mint k_protocol 1000)"
  "accounts w_opened k_pool = Some (token_held k_mint k_position 0)"
  "accounts w_opened k_entry = Some (held entry_codec dispatcher_id demo_entry 29)"
  "accounts w_opened k_position = Some (held position_codec dispatcher_id demo_position 0)"
  "accounts w_opened k_state = Some (held marginfi_codec marginfi_id (demo_state 0) 0)"
  "return_data w_opened = None"
  by (simp_all add: w_opened_def)

lemma escrowed_sel [simp]:
  "accounts w_escrowed k = (if k = k_owner_ata then Some (token_held k_mint k_owner 950)
     else if k = k_pool then Some (token_held k_mint k_position 50) else accounts w_opened k)"
  "return_data w_escrowed = None" "events w_escrowed = events w_opened"
  by (simp_all add: w_escrowed_def)

lemma run_adapter_deposit:
  "rt_invoke demo dispatcher_id
     (deposit_call (ro marginfi_id) (ro k_sysvar) (wr k_position) (wr k_pool) (wr k_state)
        (adapter_tail @ [wr k_vault, ro k_token]) (encode_deposit 50 [])) infos seeds w_escrowed =
   Inr w_booked"
proof -
  define w1 where "w1 = emit_event marginfi_id (AdapterDepositEvent k_position 50 50)
     (set_u64_return marginfi_id 50 w_escrowed)"
  have ret: "w_escrowed\<lparr>return_data := None\<rparr> = w_escrowed" by (rule world.equality) simp_all
  have "load_account marginfi_codec marginfi_id k_state w_escrowed = Inr (demo_state 0)"
    by (rule marginfi_state.load_held) simp_all
  moreover have "load_token demo_callee k_pool w_escrowed =
      Inr \<lparr>tok_mint = k_mint, tok_owner = k_position, tok_amount = 50\<rparr>"
    by (simp add: load_token_def)
  moreover have "store_account marginfi_codec k_state (demo_state 50) w1 = Inr w_booked"
  proof -
    have "set_account_data k_state (held marginfi_codec marginfi_id (demo_state 50) 0) w1 = w_booked"
      by (rule world_eqI) (simp_all add: w1_def w_booked_def)
    moreover have "store_account marginfi_codec k_state (demo_state 50) w1 =
        Inr (set_account_data k_state (held marginfi_codec marginfi_id (demo_state 50) 0) w1)"
      by (rule marginfi_state.store_held) (simp_all add: w1_def marginfi_codec_def)
    ultimately show ?thesis by simp
  qed
  ultimately show ?thesis unfolding w1_def
    by (simp add: ret demo_def deposit_call_def adapter_tail_def adapter_entry_def decode_encode
        marginfi_deposit_def marginfi_deposit_accounts_def marginfi_deposit_handler_def run_simps
        adapter_seeds_def meta_new_def meta_readonly_def meta_of_info_def demo_verify
        MAX_ADAPTER_DATA_LEN_def mfi_deposit_def demo_protocol_def MFI_discs_distinct checked_add_def)
qed

lemma run_deposit: "deposit demo deposit_infos 50 w_opened = Inr w_deposited"
proof -
  let ?ctx = "demo_fund_ctx w_opened 0 1000 (adapter_tail @ [wr k_vault, ro k_token])"
  have acc: "fund_accounts demo deposit_infos w_opened = Inr ?ctx"
    unfolding deposit_infos_def using run_fund_accounts [of w_opened 0 1000] by simp
  have tr: "demo_transfer pid (wr k_owner_ata) (wr k_pool) auth 50 seeds w_opened = Inr w_escrowed"
    for pid auth seeds
    using demo_transfer_held [of w_opened "wr k_owner_ata" k_mint k_owner 1000 "wr k_pool" k_mint k_position 0 50]
    by (simp add: w_escrowed_def)
  have rd: "route_deposit demo (ro marginfi_id) (ro k_sysvar) (wr k_position) (wr k_pool) (wr k_state)
      (adapter_tail @ [wr k_vault, ro k_token]) 50 seeds w_escrowed = Inr (50, w_booked)" for seeds
    unfolding route_deposit_ok using run_adapter_deposit
    by (simp add: get_u64_return_def w_booked_def from_to_le_widths)
  let ?w = "emit_event dispatcher_id (Deposited k_position 50 50) w_booked"
  have "deposit_handler demo ?ctx 50 w_opened = Inr ?w"
    unfolding deposit_handler_ok using tr rd
    by (auto simp: demo_fund_ctx_def ADAPTER_INTERFACE_VERSION_def)
  moreover have "store_account position_codec k_position demo_position ?w = Inr w_deposited"
  proof -
    have "set_account_data k_position (held position_codec dispatcher_id demo_position 0) ?w = w_deposited"
      by (rule world_eqI) (simp_all add: w_booked_def w_deposited_def)
    moreover have "store_account position_codec k_position demo_position ?w =
        Inr (set_account_data k_position (held position_codec dispatcher_id demo_position 0) ?w)"
      by (rule position.store_held) (simp_all add: w_booked_def)
    ultimately show ?thesis by simp
  qed
  ultimately show ?thesis
    by (simp add: deposit_def deposit_accounts_def acc) (simp add: demo_fund_ctx_def)
qed

text \<open>The withdrawal: the protocol pays 7 into the pool, the adapter books 30 shares off.\<close>

lemma deposited_sel [simp]:
  "accounts w_deposited k = (if k = k_state then Some (held marginfi_codec marginfi_id (demo_state 50) 0)
     else accounts w_escrowed k)"
  by (simp add: w_deposited_def)

definition w_paid :: world where
  "w_paid = w_deposited\<lparr>accounts := (accounts w_deposited)
     (k_vault \<mapsto> token_held k_mint k_protocol 993, k_pool \<mapsto> token_held k_mint k_position 57),
     return_data := None\<rparr>"

definition w_burned :: world where
  "w_burned =
     \<lparr>accounts = (accounts w_paid)(k_state \<mapsto> held marginfi_codec marginfi_id (demo_state 20) 0),
      return_data = Some (marginfi_id, to_le_bytes 8 (7 :: u64)),
      events = events w_deposited @ [(marginfi_id, AdapterWithdrawEvent k_position 30 7)]\<rparr>"

lemma run_protocol_withdraw:
  "mfi_withdraw demo_callee p g m a b (wr k_pool) v (wr k_vault) t oracle n all
     (w_deposited\<lparr>return_data := None\<rparr>) = Inr w_paid"
  using demo_transfer_held [of "w_deposited\<lparr>return_data := None\<rparr>"
      "\<lparr>ai_key = k_vault, ai_signer = False, ai_writable = True\<rparr>" k_mint k_protocol 1000
      "\<lparr>ai_key = k_pool, ai_signer = False, ai_writable = True\<rparr>" k_mint k_position 50 7]
  by (simp add: mfi_withdraw_def demo_protocol_def MFI_discs_distinct meta_new_def meta_readonly_def
      w_paid_def)

definition mfi_withdraw_infos :: "account_info list" where
  "mfi_withdraw_infos =
     [ro k_sysvar, sg k_position, wr k_pool, wr k_state, ro k_protocol, ro k_group, wr k_mfi_account,
      wr k_bank, ro k_other, wr k_vault, ro k_token, ro k_other]"

definition mfi_withdraw_ctx :: marginfi_withdraw_ctx where
  "mfi_withdraw_ctx =
    \<lparr>mw_instructions_sysvar = ro k_sysvar, mw_position = sg k_position,
     mw_position_usdc_pool = Typed (wr k_pool) \<lparr>tok_mint = k_mint, tok_owner = k_position, tok_amount = 50\<rparr>,
     mw_adapter_state = Typed (wr k_state) (demo_state 50), mw_marginfi_program = ro k_protocol,
     mw_marginfi_group = ro k_group, mw_marginfi_account = wr k_mfi_account, mw_bank = wr k_bank,
     mw_bank_liquidity_vault_authority = ro k_other, mw_liquidity_vault = wr k_vault,
     mw_token_program = ro k_token, mw_oracle = ro k_other\<rparr>"

lemma run_mfi_withdraw_accounts:
  "marginfi_withdraw_accounts demo_callee mfi_withdraw_infos (w_deposited\<lparr>return_data := None\<rparr>) =
     Inr mfi_withdraw_ctx"
proof -
  have "load_account marginfi_codec marginfi_id k_state (w_deposited\<lparr>return_data := None\<rparr>) =
      Inr (demo_state 50)"
    by (rule marginfi_state.load_held) simp_all
  then show ?thesis
    unfolding marginfi_withdraw_accounts_ok
    by (simp add: mfi_withdraw_infos_def mfi_withdraw_ctx_def load_token_def account_executable_def
        adapter_seeds_def demo_addresses)
qed

text \<open>\<open>n\<close> shares of the fifty that are booked, or more than those.\<close>

lemma run_marginfi_withdraw:
  assumes "0 < n" and "unat left = 50 - unat n"
  shows "marginfi_withdraw demo_callee mfi_withdraw_infos n [] (w_deposited\<lparr>return_data := None\<rparr>) =
     Inr \<lparr>accounts = (accounts w_paid)(k_state \<mapsto> held marginfi_codec marginfi_id (demo_state left) 0),
          return_data = Some (marginfi_id, to_le_bytes 8 (7 :: u64)),
          events = events w_deposited @ [(marginfi_id, AdapterWithdrawEvent k_position n 7)]\<rparr>"
proof -
  define w1 where "w1 = emit_event marginfi_id (AdapterWithdrawEvent k_position n 7)
     (set_u64_return marginfi_id 7 w_paid)"
  have sv: "ai_key (mw_instructions_sysvar mfi_withdraw_ctx) = rt_instructions_sysvar demo_callee"
    by (simp add: mfi_withdraw_ctx_def demo_callee_def)
  have h: "marginfi_withdraw_handler demo_callee mfi_withdraw_ctx n [] (w_deposited\<lparr>return_data := None\<rparr>) =
      Inr (demo_state left, w1)"
  proof -
    have "account_data w_paid k_pool = acc_data (token_held k_mint k_position 57)"
      by (simp add: w_paid_def account_data_def)
    then show ?thesis
      unfolding marginfi_withdraw_handler_ok [OF sv]
      using run_protocol_withdraw assms
      by (simp add: mfi_withdraw_ctx_def data_fits_def MAX_ADAPTER_DATA_LEN_def demo_caller_ok w1_def checked_sub_def)
        (auto intro!: exI [of _ left])
  qed
  have st: "store_account marginfi_codec k_state (demo_state left) w1 =
      Inr (set_account_data k_state (held marginfi_codec marginfi_id (demo_state left) 0) w1)"
    by (rule marginfi_state.store_held) (simp_all add: w1_def w_paid_def marginfi_codec_def)
  show ?thesis
    by (simp add: marginfi_withdraw_def run_mfi_withdraw_accounts h, simp add: mfi_withdraw_ctx_def st)
      (rule world_eqI, simp_all add: w1_def w_paid_def)
qed

lemma run_adapter_withdraw:
  "rt_invoke demo dispatcher_id
     (deposit_call (ro marginfi_id) (ro k_sysvar) (wr k_position) (wr k_pool) (wr k_state)
        (adapter_tail @ [ro k_other, wr k_vault, ro k_token, ro k_other]) (encode_withdraw 30 []))
     infos seeds w_deposited = Inr w_burned"
  using run_marginfi_withdraw [of 30 20]
  by (simp add: demo_def deposit_call_def adapter_tail_def adapter_entry_def decode_encode
      mfi_withdraw_infos_def w_burned_def meta_new_def meta_readonly_def meta_of_info_def ro_def
      wr_def sg_def)

lemma run_withdraw: "withdraw demo withdraw_infos 30 w_deposited = Inr w_withdrawn"
proof -
  let ?rem = "adapter_tail @ [ro k_other, wr k_vault, ro k_token, ro k_other]"
  let ?ctx = "demo_fund_ctx w_deposited 50 950 ?rem"
  let ?paid = "w_burned\<lparr>accounts := (accounts w_burned)
      (k_pool \<mapsto> token_held k_mint k_position 50, k_owner_ata \<mapsto> token_held k_mint k_owner 957)\<rparr>"
  have acc: "fund_accounts demo withdraw_infos w_deposited = Inr ?ctx"
    unfolding withdraw_infos_def using run_fund_accounts [of w_deposited 50 950] by simp
  have rd: "route_withdraw demo (ro marginfi_id) (ro k_sysvar) (wr k_position) (wr k_pool) (wr k_state)
      ?rem 30 seeds w_deposited = Inr (7, w_burned)" for seeds
    unfolding route_withdraw_ok using run_adapter_withdraw
    by (simp add: get_u64_return_def w_burned_def from_to_le_widths)
  have tr: "demo_transfer pid (wr k_pool) (wr k_owner_ata) auth 7 seeds w_burned = Inr ?paid"
    for pid auth seeds
    using demo_transfer_held [of w_burned "wr k_pool" k_mint k_position 57 "wr k_owner_ata" k_mint k_owner 950 7]
    by (simp add: w_burned_def w_paid_def)
  let ?w = "emit_event dispatcher_id (Withdrawn k_position 30 7) ?paid"
  have "withdraw_handler demo ?ctx 30 w_deposited = Inr ?w"
    unfolding withdraw_handler_ok using tr rd
    by (auto simp: demo_fund_ctx_def ADAPTER_INTERFACE_VERSION_def)
  moreover have "store_account position_codec k_position demo_position ?w = Inr w_withdrawn"
  proof -
    have "set_account_data k_position (held position_codec dispatcher_id demo_position 0) ?w = w_withdrawn"
      by (rule world_eqI) (simp_all add: w_burned_def w_paid_def w_withdrawn_def)
    moreover have "store_account position_codec k_position demo_position ?w =
        Inr (set_account_data k_position (held position_codec dispatcher_id demo_position 0) ?w)"
      by (rule position.store_held) (simp_all add: w_burned_def w_paid_def)
    ultimately show ?thesis by simp
  qed
  ultimately show ?thesis
    by (simp add: withdraw_def withdraw_accounts_def acc) (simp add: demo_fund_ctx_def)
qed

section \<open>The worlds are reachable\<close>

lemma genesis_owner:
  assumes "accounts w_genesis k = Some a"
  shows "acc_owner a = k_system \<or> acc_owner a = k_token"
  using assms by (auto simp: w_genesis_def program_account_def token_held_def split: if_splits)

lemma genesis_views: "p \<noteq> k_system \<Longrightarrow> p \<noteq> k_token \<Longrightarrow> account_view c p w_genesis = Map.empty"
  using genesis_owner by (auto simp: account_view_def load_account_def fun_eq_iff split: option.splits)

lemma genesis_undeployed: "undeployed w_genesis"
  by (simp add: undeployed_def governance_of_def positions_of_def genesis_views)

lemma demo_run_reachable:
  "dispatcher_reachable {demo} w_registry" "dispatcher_reachable {demo} w_approved" "dispatcher_reachable {demo} w_opened"
  "dispatcher_reachable {demo} w_withdrawn"
proof -
  note step = dispatcher_reachable.step [where R = "{demo}", OF _ singletonI]
  have "dispatcher_reachable {demo} w_genesis"
    by (rule dispatcher_reachable.start [OF genesis_undeployed])
  then show r: "dispatcher_reachable {demo} w_registry"
    by (rule step) (rule dispatcher_step.initialize_registry [OF run_initialize_registry])
  from r show a: "dispatcher_reachable {demo} w_approved"
    by (rule step) (rule dispatcher_step.whitelist_adapter [OF run_whitelist_adapter])
  from a show o: "dispatcher_reachable {demo} w_opened"
    by (rule step) (rule dispatcher_step.open_position [OF run_open_position])
  from o have "dispatcher_reachable {demo} w_deposited"
    by (rule step) (rule dispatcher_step.deposit [OF run_deposit])
  then show "dispatcher_reachable {demo} w_withdrawn"
    by (rule step) (rule dispatcher_step.withdraw [OF run_withdraw])
qed

context adapter_standard
begin

text \<open>The world after the first initialisation of an adapter is reachable and holds a row.\<close>

lemma initialized_reachable:
  assumes "ad_initialize A rt infos [] w = Inr w'" and "rt \<in> R"
    and "system_creates rt" and "calls_isolate rt (ad_id A)"
    and "ledger_of A w = Map.empty" and "events w = []"
  shows "adapter_reachable A R w'"
    and "\<exists>h. ledger_of A w' (adapter_address rt (ad_id A) (slot_position infos)) = Some h"
proof -
  have "adapter_entry A rt infos (encode_initialize []) w = Inr w'"
    using assms(1) by (simp add: adapter_entry_def decode_encode)
  moreover have "adapter_reachable A R w" by (rule adapter_reachable.start) (simp_all add: assms(5,6))
  ultimately show "adapter_reachable A R w'"
    using adapter_reachable.step [OF _ assms(2)] adapter_step.instruction by blast
  show "\<exists>h. ledger_of A w' (adapter_address rt (ad_id A) (slot_position infos)) = Some h"
    using initialize_law [OF assms(1)] assms(3,4) by (simp add: opens_row_def)
qed

end

lemma demo_row_address: "adapter_address demo_callee p q = k_state"
  by (simp add: adapter_address_def adapter_seeds_def demo_addresses)

lemma run_kamino:
  "\<exists>w. kamino_initialize demo_callee
     [ro k_sysvar, sg k_position, wr k_state, sg k_owner, ro k_system, ro k_other, ro k_mint, wr k_pool,
      ro k_token, ro k_ata] [] w_genesis = Inr w"
  by (simp add: kamino_initialize_def kamino_initialize_accounts_def kamino_initialize_handler_def
      run_simps adapter_seeds_def load_mint_def load_token_def demo_verify MAX_ADAPTER_DATA_LEN_def
      store_account_def kamino_state.image_in_space Let_def)

lemma run_jupiter:
  "\<exists>w. jupiter_initialize demo_callee
     [ro k_sysvar, sg k_position, wr k_state, sg k_owner, ro k_system, ro k_mint, wr k_pool, ro k_other,
      ro k_other, ro k_token, ro k_ata] [] w_genesis = Inr w"
  by (simp add: jupiter_initialize_def jupiter_initialize_accounts_def jupiter_initialize_handler_def
      run_simps adapter_seeds_def load_mint_def load_token_def demo_verify MAX_ADAPTER_DATA_LEN_def
      store_account_def jupiter_state.image_in_space Let_def)

lemma run_maple:
  "\<exists>w. maple_initialize demo_callee
     [ro k_sysvar, sg k_position, wr k_state, sg k_owner, ro k_system, ro k_mint, wr k_pool, ro k_other,
      ro k_token, ro k_ata] [] w_genesis = Inr w"
  by (simp add: maple_initialize_def maple_initialize_accounts_def maple_initialize_handler_def
      run_simps adapter_seeds_def load_mint_def load_token_def demo_verify MAX_ADAPTER_DATA_LEN_def
      store_account_def maple_state.image_in_space Let_def)

lemma run_drift:
  "\<exists>w. drift_initialize demo_callee
     [ro k_sysvar, sg k_position, wr k_state, sg k_owner, ro k_system, ro k_protocol, wr k_other,
      ro k_bank, wr k_other, wr k_other, ro k_rent] [] w_genesis = Inr w"
  by (simp add: drift_initialize_def drift_initialize_accounts_def drift_initialize_handler_def
      run_simps adapter_seeds_def demo_verify MAX_ADAPTER_DATA_LEN_def drift_init_user_stats_def
      drift_init_if_stake_def drift_call_def demo_protocol_def INIT_USER_STATS_def INIT_IF_STAKE_def
      MFI_WITHDRAW_def store_account_def drift_state.image_in_space Let_def)

text \<open>The MarginFi adapter after its part of the deposit and of the withdrawal.\<close>

lemma isolated_elsewhere:
  assumes "\<And>k. accounts w' k \<noteq> accounts w k \<Longrightarrow>
             account_owner w k \<noteq> Some pid \<and> account_owner w' k \<noteq> Some pid"
  shows "isolated pid w w'"
  unfolding isolated_def
proof (intro conjI allI impI)
  fix k a
  assume "accounts w k = Some a \<and> acc_owner a = pid"
  then show "accounts w' k = Some a" using assms [of k] by (auto simp: account_owner_def)
next
  fix k a
  assume "accounts w' k = Some a \<and> acc_owner a = pid \<and> accounts w k \<noteq> Some a"
  then show "\<exists>n. acc_data a = replicate n 0"
    using assms [of k] by (auto simp: account_owner_def)
qed

lemma to_escrow: "adapter_step marginfi demo_callee w_initialized w_escrowed"
proof (rule adapter_step.environment)
  show "isolated (ad_id marginfi) w_initialized w_escrowed"
  proof (rule isolated_elsewhere)
    fix k
    assume "accounts w_escrowed k \<noteq> accounts w_initialized k"
    then have "k = k_owner_ata \<or> k = k_pool \<or> k = k_position"
      by (auto simp: w_opened_def w_initialized_def w_creating_def split: if_splits)
    then show "account_owner w_initialized k \<noteq> Some (ad_id marginfi) \<and>
               account_owner w_escrowed k \<noteq> Some (ad_id marginfi)"
      using program_ids(3,7)
      by (auto simp: account_owner_def w_opened_def w_initialized_def w_creating_def)
  qed
  show "silent (ad_id marginfi) w_initialized w_escrowed"
    using program_ids(7)
    by (auto simp: silent_def w_opened_def w_initialized_def w_creating_def)
qed

lemma to_withdrawal: "adapter_step marginfi demo_callee w_booked w_deposited"
proof (rule adapter_step.environment)
  show "isolated (ad_id marginfi) w_booked w_deposited"
    by (rule isolated_same) (simp add: w_booked_def w_deposited_def)
  show "silent (ad_id marginfi) w_booked w_deposited"
    using program_ids(7) by (auto simp: silent_def w_booked_def w_deposited_def)
qed

lemma hosted_step:
  assumes "rt_invoke demo dispatcher_id ix infos seeds w = Inr w'" and "ix_program ix = marginfi_id"
    and "adapter_reachable marginfi {demo_callee} w"
  shows "adapter_reachable marginfi {demo_callee} w'"
proof -
  from marginfi.hosted_entry [OF demo_hosts _ assms(1)] assms(2) obtain xs where
    "adapter_entry marginfi demo_callee xs (ix_data ix) (w\<lparr>return_data := None\<rparr>) = Inr w'"
    by auto
  moreover have "adapter_step marginfi demo_callee w (w\<lparr>return_data := None\<rparr>)"
    by (rule adapter_step.environment) (simp_all add: isolated_same silent_def)
  ultimately show ?thesis
    using adapter_reachable.step [OF _ singletonI] assms(3) adapter_step.instruction by metis
qed

lemma deposited_reachable: "adapter_reachable marginfi {demo_callee} w_deposited"
proof -
  note step = adapter_reachable.step [where R = "{demo_callee}", OF _ singletonI]
  have "account_view marginfi_codec marginfi_id w_creating = Map.empty"
  proof
    fix k
    have "account_owner w_creating k \<noteq> Some marginfi_id"
      using genesis_owner [of k] program_ids(3,7)
      by (auto simp: account_owner_def w_creating_def w_approved_def w_registry_def id_values demo_keys)
    then show "account_view marginfi_codec marginfi_id w_creating k = None"
      by (auto simp: account_view_def load_account_def account_owner_def split: option.splits)
  qed
  then have "adapter_reachable marginfi {demo_callee} w_creating"
    using program_ids(7)
    by (intro adapter_reachable.start)
      (auto simp: ledger_of_def fun_eq_iff w_creating_def w_approved_def)
  then have "adapter_reachable marginfi {demo_callee} w_initialized"
    by (rule hosted_step [OF run_initialize, rotated]) (simp add: initialize_call_def)
  then have "adapter_reachable marginfi {demo_callee} w_escrowed" by (rule step) (rule to_escrow)
  then have "adapter_reachable marginfi {demo_callee} w_booked"
    by (rule hosted_step [OF run_adapter_deposit, rotated]) (simp add: deposit_call_def)
  then show ?thesis by (rule step) (rule to_withdrawal)
qed

lemma marginfi_run_reachable:
  "adapter_reachable marginfi {demo_callee} w_burned"
  "ledger_of marginfi w_burned k_state = Some (ms_header (demo_state 20))"
proof -
  from deposited_reachable show "adapter_reachable marginfi {demo_callee} w_burned"
    by (rule hosted_step [OF run_adapter_withdraw, rotated]) (simp add: deposit_call_def)
  have "load_account marginfi_codec marginfi_id k_state w_burned = Inr (demo_state 20)"
    by (rule marginfi_state.load_held) (simp_all add: w_burned_def)
  then show "ledger_of marginfi w_burned k_state = Some (ms_header (demo_state 20))"
    using ledger_load [of marginfi k_state w_burned "demo_state 20"] by simp
qed

lemma deposited_replay:
  "replay marginfi_id k_position (events w_deposited) = 50 \<and>
   overdrawn marginfi_id k_position (events w_deposited) = 0"
proof
  have "load_account marginfi_codec marginfi_id k_state w_deposited = Inr (demo_state 50)"
    by (rule marginfi_state.load_held) simp_all
  then have "ledger_of marginfi w_deposited k_state = Some (ms_header (demo_state 50))"
    using ledger_load [of marginfi k_state w_deposited] by simp
  from marginfi.shares_are_replay(1) [OF _ deposited_reachable this] demo_callee_chain [OF program_ids(3)]
  show "replay marginfi_id k_position (events w_deposited) = 50" by (simp add: demo_state_def)
  show "overdrawn marginfi_id k_position (events w_deposited) = 0"
    by (simp add: w_deposited_def w_opened_def w_approved_def overdrawn_def event_burns_def)
qed

text \<open>Sixty shares asked for, fifty booked.\<close>

lemma marginfi_overdrawn_reachable:
  "\<exists>w. adapter_reachable marginfi {demo_callee} w \<and>
     ledger_of marginfi w k_state = Some (ms_header (demo_state 0)) \<and>
     events w = events w_deposited @ [(marginfi_id, AdapterWithdrawEvent k_position 60 7)]"
proof -
  let ?w = "\<lparr>accounts = (accounts w_paid)(k_state \<mapsto> held marginfi_codec marginfi_id (demo_state 0) 0),
     return_data = Some (marginfi_id, to_le_bytes 8 (7 :: u64)),
     events = events w_deposited @ [(marginfi_id, AdapterWithdrawEvent k_position 60 7)]\<rparr>"
  note step = adapter_reachable.step [where R = "{demo_callee}", OF _ singletonI]
  have "adapter_entry marginfi demo_callee mfi_withdraw_infos (encode_withdraw 60 [])
      (w_deposited\<lparr>return_data := None\<rparr>) = Inr ?w"
    using run_marginfi_withdraw [of 60 0] by (simp add: adapter_entry_def decode_encode)
  moreover have "adapter_step marginfi demo_callee w_deposited (w_deposited\<lparr>return_data := None\<rparr>)"
    by (rule adapter_step.environment) (simp_all add: isolated_same silent_def)
  ultimately have "adapter_reachable marginfi {demo_callee} ?w"
    using step [OF step [OF deposited_reachable]] adapter_step.instruction by metis
  moreover have "load_account marginfi_codec marginfi_id k_state ?w = Inr (demo_state 0)"
    by (rule marginfi_state.load_held) simp_all
  then have "ledger_of marginfi ?w k_state = Some (ms_header (demo_state 0))"
    using ledger_load [of marginfi k_state ?w "demo_state 0"] by simp
  ultimately show ?thesis by (intro exI [of _ ?w]) simp
qed

end
