(* ===== verification/Demo_Data.thy ===== *)
theory Demo_Data
  imports Klend Orca_Cpi Marginfi_Cpi
begin

text \<open>Concrete account data of the protocols, as the bytes the price functions read.\<close>

lemma le_to_nat_zeros [simp]: "le_to_nat (replicate n 0) = 0"
  by (induction n) simp_all

lemma le_to_nat_word:
  "le_to_nat (to_le_bytes 8 (x :: u64)) = unat x"
  "le_to_nat (to_le_bytes 16 (y :: u128)) = unat y"
  using unat_u64_less [of x] unat_u128_less [of y]
  by (simp_all add: to_le_bytes_def le_to_nat_nat_to_le)

text \<open>A reserve with 3 units of liquidity and 2 cTokens; a pool at price one.\<close>

definition demo_reserve :: bytes where
  "demo_reserve = replicate 224 0 @ to_le_bytes 8 (3 :: u64) @ replicate 2360 0 @ to_le_bytes 8 (2 :: u64)"

lemma demo_reserve_reads:
  "length demo_reserve = 2600" "reserve_liquidity demo_reserve = 3" "reserve_supply demo_reserve = 2"
  by (simp_all add: demo_reserve_def reserve_liquidity_def reserve_supply_def le_to_nat_word)

lemma demo_reserve_value: "collateral_value_usdc demo_reserve 5 = Inr 7"
  by (simp add: collateral_value_usdc_spec demo_reserve_reads pro_rata_def)

definition demo_whirlpool :: bytes where
  "demo_whirlpool = replicate 65 0 @ to_le_bytes 16 (2 ^ 64 :: u128)"

lemma demo_whirlpool_price: "length demo_whirlpool = 81" "sqrt_price demo_whirlpool = 2 ^ 64"
  by (simp_all add: demo_whirlpool_def sqrt_price_def le_to_nat_word)

lemma demo_whirlpool_value: "whirlpool_value_usdc demo_whirlpool 9 = Inr 9"
  by (simp add: whirlpool_value_usdc_spec demo_whirlpool_price two_step_def)

text \<open>
  A MarginFi account whose second balance slot is active for bank 13, and a bank at share value one.
\<close>

definition demo_balances :: bytes where
  "demo_balances = replicate 176 0 @ [1] @ pubkey_bytes 13 @ replicate 7 0 @
     to_le_bytes 16 (2 ^ 60 :: u128) @ replicate 1504 0"

lemma demo_balances_slots:
  "length demo_balances = 1736" "slot_matches demo_balances 13 1" "\<not> slot_matches demo_balances 13 0"
  "slot_shares demo_balances 1 = 2 ^ 60"
proof -
  have len: "length demo_balances = 1736" by (simp add: demo_balances_def)
  have zero: "demo_balances ! 72 = 0" and one: "demo_balances ! 176 = 1"
    by (simp_all add: demo_balances_def nth_append)
  have "take 32 (drop 177 demo_balances) = pubkey_bytes 13" by (simp add: demo_balances_def)
  with one show "slot_matches demo_balances 13 1" by (simp add: slot_matches_def)
  from zero show "\<not> slot_matches demo_balances 13 0" by (simp add: slot_matches_def)
  show "slot_shares demo_balances 1 = 2 ^ 60"
    by (simp add: demo_balances_def slot_shares_def from_to_le_widths)
  show "length demo_balances = 1736" by (rule len)
qed

lemma demo_balances_shares: "account_asset_shares demo_balances 13 = Inr (2 ^ 60)"
proof -
  have "find (slot_matches demo_balances 13) [0..<16] = Some 1"
    unfolding find_Some_iff using demo_balances_slots
    by (intro exI [of _ 1]) simp
  then show ?thesis
    using account_asset_shares_find [of demo_balances 13] demo_balances_slots(1,4) by simp
qed

definition demo_bank :: bytes where
  "demo_bank = replicate 80 0 @ to_le_bytes 16 (2 ^ 48 :: u128)"

lemma demo_bank_value: "bank_asset_share_value demo_bank = Inr (2 ^ 48)"
  by (simp add: demo_bank_def bank_asset_share_value_def read_i128_def BANK_ASSET_SHARE_VALUE_def
      slice_get_def try_into_array_def from_to_le_widths)

lemma demo_marginfi_value: "shares_to_usdc (2 ^ 60) (2 ^ 48) = Inr 4096"
  by (simp add: shares_to_usdc_def checked_mul_def Let_def)

end
