(* ===== verification/Payouts.thy ===== *)
theory Payouts
  imports System
begin

text \<open>
  Where the reported amounts come from.  Every adapter measures a withdrawal as the growth of the
  position's USDC account across its protocol calls, and three of them measure a deposit the same
  way on the receipt account.  The locale \<open>paying_adapter\<close> extends the standard with this promise;
  with it, a withdrawal through the dispatcher leaves the pool as it was and pays its growth during
  the adapter's call to the owner, and to nobody else.
\<close>

section \<open>Balances\<close>

lemma balance_same: "accounts w' k = accounts w k \<Longrightarrow> balance rt w' k = balance rt w k"
  by (simp add: balance_def account_data_def)

lemma balance_loaded: "load_token rt k w = Inr t \<Longrightarrow> balance rt w k = unat (tok_amount t)"
  by (auto simp: load_token_eq_Inr balance_def account_data_def)

lemma token_and_state_differ:
  assumes "load_token rt k w = Inr t" and "load_account c pid j w = Inr x" and "pid \<noteq> rt_token_program rt"
  shows "k \<noteq> j"
  using assms by (auto simp: load_token_eq_Inr load_account_eq_Inr)

text \<open>The common tail of the handlers: read again, subtract, report, write the state back.\<close>

lemma measured_growth:
  assumes "load_token rt k w = Inr t" and "load_account c pid j w = Inr x"
    and "pid \<noteq> rt_token_program rt"
    and "rt_token_unpack rt (account_data w2 k) = Some u"
    and "checked_sub (tok_amount u) (tok_amount t) = Some a"
    and "store_account c j y (emit_event pid e (set_u64_return pid a w2)) = Inr w'"
  shows "get_u64_return pid w' = Some a \<and> balance rt w k + unat a = balance rt w' k"
proof -
  have ne: "k \<noteq> j" by (rule token_and_state_differ [OF assms(1-3)])
  have "balance rt w' k = balance rt w2 k"
    using store_other_account [OF assms(6) ne] by (intro balance_same) simp
  also have "\<dots> = unat (tok_amount u)" by (simp add: balance_def assms(4))
  finally have b: "balance rt w' k = unat (tok_amount u)" .
  have "return_data w' = Some (pid, to_le_bytes 8 a)"
    using store_keeps_log [OF assms(6)] by simp
  then have "get_u64_return pid w' = Some a" by (simp add: get_u64_return_def from_to_le_widths)
  with b balance_loaded [OF assms(1)] assms(5) show ?thesis by (auto simp: checked_sub_Some)
qed

section \<open>The promise\<close>

text \<open>Slot 2 of a deposit or a withdrawal is the position's USDC account.\<close>

definition slot_pool :: "account_info list \<Rightarrow> pubkey" where
  "slot_pool infos = ai_key (infos ! 2)"

definition reports_growth :: "'a adapter \<Rightarrow> runtime \<Rightarrow> pubkey \<Rightarrow> world \<Rightarrow> world \<Rightarrow> bool" where
  "reports_growth A rt k w w' \<longleftrightarrow>
     (\<exists>a. get_u64_return (ad_id A) w' = Some a \<and> balance rt w k + unat a = balance rt w' k)"

locale paying_adapter = adapter_standard +
  assumes withdraw_pays:
    "ad_withdraw A rt infos shares data w = Inr w' \<Longrightarrow> ad_id A \<noteq> rt_token_program rt \<Longrightarrow>
     reports_growth A rt (slot_pool infos) w w'"

section \<open>The five adapters\<close>

lemma kamino_withdraw_pays:
  assumes "kamino_withdraw rt infos shares data w = Inr w'" and "kamino_id \<noteq> rt_token_program rt"
  shows "reports_growth kamino rt (slot_pool infos) w w'"
proof -
  from assms(1) obtain ctx s w3 where acc: "kamino_fund_accounts rt infos w = Inr ctx"
    and h: "kamino_withdraw_handler rt ctx shares data w = Inr (s, w3)"
    and st: "store_account kamino_codec (ty_key (kf_adapter_state ctx)) s w3 = Inr w'"
    by (auto simp: kamino_withdraw_def kamino_withdraw_accounts_def and_then_eq_Inr)
  from acc have ld: "load_account kamino_codec kamino_id (ty_key (kf_adapter_state ctx)) w =
       Inr (ty_val (kf_adapter_state ctx))"
    and pool: "load_token rt (ty_key (kf_position_usdc_pool ctx)) w = Inr (ty_val (kf_position_usdc_pool ctx))"
    and sv: "ai_key (kf_instructions_sysvar ctx) = rt_instructions_sysvar rt"
    and slot: "slot_pool infos = ty_key (kf_position_usdc_pool ctx)"
    by (auto simp: kamino_fund_accounts_ok slot_pool_def)
  from h st show ?thesis unfolding reports_growth_def slot
    by (auto simp: kamino_withdraw_handler_ok [OF sv] dest: measured_growth [OF pool ld assms(2)])
qed

lemma jupiter_withdraw_pays:
  assumes "jupiter_withdraw rt infos shares data w = Inr w'" and "jupiter_id \<noteq> rt_token_program rt"
  shows "reports_growth jupiter rt (slot_pool infos) w w'"
proof -
  from assms(1) obtain ctx s w3 where acc: "jupiter_fund_accounts rt infos w = Inr ctx"
    and h: "jupiter_withdraw_handler rt ctx shares data w = Inr (s, w3)"
    and st: "store_account jupiter_codec (ty_key (jf_adapter_state ctx)) s w3 = Inr w'"
    by (auto simp: jupiter_withdraw_def jupiter_withdraw_accounts_def and_then_eq_Inr)
  from acc have ld: "load_account jupiter_codec jupiter_id (ty_key (jf_adapter_state ctx)) w =
       Inr (ty_val (jf_adapter_state ctx))"
    and pool: "load_token rt (ty_key (jf_position_usdc_pool ctx)) w = Inr (ty_val (jf_position_usdc_pool ctx))"
    and sv: "ai_key (jf_instructions_sysvar ctx) = rt_instructions_sysvar rt"
    and slot: "slot_pool infos = ty_key (jf_position_usdc_pool ctx)"
    by (auto simp: jupiter_fund_accounts_ok slot_pool_def)
  from h st show ?thesis unfolding reports_growth_def slot
    by (auto simp: jupiter_withdraw_handler_ok [OF sv] dest: measured_growth [OF pool ld assms(2)])
qed

lemma maple_withdraw_pays:
  assumes "maple_withdraw rt infos shares data w = Inr w'" and "maple_id \<noteq> rt_token_program rt"
  shows "reports_growth maple rt (slot_pool infos) w w'"
proof -
  from assms(1) obtain ctx s w3 where acc: "maple_fund_accounts rt infos w = Inr ctx"
    and h: "maple_withdraw_handler rt ctx shares data w = Inr (s, w3)"
    and st: "store_account maple_codec (ty_key (yf_adapter_state ctx)) s w3 = Inr w'"
    by (auto simp: maple_withdraw_def maple_withdraw_accounts_def and_then_eq_Inr)
  from acc have ld: "load_account maple_codec maple_id (ty_key (yf_adapter_state ctx)) w =
       Inr (ty_val (yf_adapter_state ctx))"
    and pool: "load_token rt (ty_key (yf_position_usdc_pool ctx)) w = Inr (ty_val (yf_position_usdc_pool ctx))"
    and sv: "ai_key (yf_instructions_sysvar ctx) = rt_instructions_sysvar rt"
    and slot: "slot_pool infos = ty_key (yf_position_usdc_pool ctx)"
    by (auto simp: maple_fund_accounts_ok slot_pool_def)
  from h st show ?thesis unfolding reports_growth_def slot
    by (auto simp: maple_withdraw_handler_ok [OF sv] dest: measured_growth [OF pool ld assms(2)])
qed

lemma drift_withdraw_pays:
  assumes "drift_withdraw rt infos shares data w = Inr w'" and "drift_id \<noteq> rt_token_program rt"
  shows "reports_growth drift rt (slot_pool infos) w w'"
proof -
  from assms(1) obtain ctx s w3 where acc: "drift_withdraw_accounts rt infos w = Inr ctx"
    and h: "drift_withdraw_handler rt ctx shares data w = Inr (s, w3)"
    and st: "store_account drift_codec (ty_key (fw_adapter_state ctx)) s w3 = Inr w'"
    by (auto simp: drift_withdraw_def and_then_eq_Inr)
  from acc have ld: "load_account drift_codec drift_id (ty_key (fw_adapter_state ctx)) w =
       Inr (ty_val (fw_adapter_state ctx))"
    and pool: "load_token rt (ty_key (fw_position_usdc_pool ctx)) w = Inr (ty_val (fw_position_usdc_pool ctx))"
    and sv: "ai_key (fw_instructions_sysvar ctx) = rt_instructions_sysvar rt"
    and slot: "slot_pool infos = ty_key (fw_position_usdc_pool ctx)"
    by (auto simp: drift_withdraw_accounts_ok slot_pool_def)
  from h st show ?thesis unfolding reports_growth_def slot
    by (auto simp: drift_withdraw_handler_ok [OF sv] dest: measured_growth [OF pool ld assms(2)])
qed

lemma marginfi_withdraw_pays:
  assumes "marginfi_withdraw rt infos shares data w = Inr w'" and "marginfi_id \<noteq> rt_token_program rt"
  shows "reports_growth marginfi rt (slot_pool infos) w w'"
proof -
  from assms(1) obtain ctx s w3 where acc: "marginfi_withdraw_accounts rt infos w = Inr ctx"
    and h: "marginfi_withdraw_handler rt ctx shares data w = Inr (s, w3)"
    and st: "store_account marginfi_codec (ty_key (mw_adapter_state ctx)) s w3 = Inr w'"
    by (auto simp: marginfi_withdraw_def and_then_eq_Inr)
  from acc have ld: "load_account marginfi_codec marginfi_id (ty_key (mw_adapter_state ctx)) w =
       Inr (ty_val (mw_adapter_state ctx))"
    and pool: "load_token rt (ty_key (mw_position_usdc_pool ctx)) w = Inr (ty_val (mw_position_usdc_pool ctx))"
    and sv: "ai_key (mw_instructions_sysvar ctx) = rt_instructions_sysvar rt"
    and slot: "slot_pool infos = ty_key (mw_position_usdc_pool ctx)"
    by (auto simp: marginfi_withdraw_accounts_ok slot_pool_def)
  from h st show ?thesis unfolding reports_growth_def slot
    by (auto simp: marginfi_withdraw_handler_ok [OF sv] dest: measured_growth [OF pool ld assms(2)])
qed

interpretation kamino_pays: paying_adapter kamino
  by unfold_locales (use kamino_withdraw_pays in simp)

interpretation jupiter_pays: paying_adapter jupiter
  by unfold_locales (use jupiter_withdraw_pays in simp)

interpretation maple_pays: paying_adapter maple
  by unfold_locales (use maple_withdraw_pays in simp)

interpretation drift_pays: paying_adapter drift
  by unfold_locales (use drift_withdraw_pays in simp)

interpretation marginfi_pays: paying_adapter marginfi
  by unfold_locales (use marginfi_withdraw_pays in simp)

section \<open>Deposits measured on the receipt account\<close>

lemma kamino_deposit_mints:
  assumes "kamino_deposit rt infos amount data w = Inr w'" and "kamino_id \<noteq> rt_token_program rt"
  shows "\<exists>s. load_account kamino_codec kamino_id (ai_key (infos ! 3)) w = Inr s \<and>
             reports_growth kamino rt (ks_collateral_vault s) w w'"
proof -
  from assms(1) obtain ctx s w3 where acc: "kamino_fund_accounts rt infos w = Inr ctx"
    and h: "kamino_deposit_handler rt ctx amount data w = Inr (s, w3)"
    and st: "store_account kamino_codec (ty_key (kf_adapter_state ctx)) s w3 = Inr w'"
    by (auto simp: kamino_deposit_def kamino_deposit_accounts_def and_then_eq_Inr)
  from acc have ld: "load_account kamino_codec kamino_id (ty_key (kf_adapter_state ctx)) w =
       Inr (ty_val (kf_adapter_state ctx))"
    and vault: "load_token rt (ty_key (kf_collateral_vault ctx)) w = Inr (ty_val (kf_collateral_vault ctx))"
    and sv: "ai_key (kf_instructions_sysvar ctx) = rt_instructions_sysvar rt"
    and slot: "ai_key (infos ! 3) = ty_key (kf_adapter_state ctx)"
    and same: "ks_collateral_vault (ty_val (kf_adapter_state ctx)) = ty_key (kf_collateral_vault ctx)"
    by (auto simp: kamino_fund_accounts_ok)
  from h st show ?thesis unfolding reports_growth_def slot
    by (intro exI [of _ "ty_val (kf_adapter_state ctx)"])
      (auto simp: same ld kamino_deposit_handler_ok [OF sv] dest: measured_growth [OF vault ld assms(2)])
qed

lemma jupiter_deposit_mints:
  assumes "jupiter_deposit rt infos amount data w = Inr w'" and "jupiter_id \<noteq> rt_token_program rt"
  shows "\<exists>s. load_account jupiter_codec jupiter_id (ai_key (infos ! 3)) w = Inr s \<and>
             reports_growth jupiter rt (js_lp_token_account s) w w'"
proof -
  from assms(1) obtain ctx s w3 where acc: "jupiter_fund_accounts rt infos w = Inr ctx"
    and h: "jupiter_deposit_handler rt ctx amount data w = Inr (s, w3)"
    and st: "store_account jupiter_codec (ty_key (jf_adapter_state ctx)) s w3 = Inr w'"
    by (auto simp: jupiter_deposit_def jupiter_deposit_accounts_def and_then_eq_Inr)
  from acc have ld: "load_account jupiter_codec jupiter_id (ty_key (jf_adapter_state ctx)) w =
       Inr (ty_val (jf_adapter_state ctx))"
    and vault: "load_token rt (ty_key (jf_lp_token_account ctx)) w = Inr (ty_val (jf_lp_token_account ctx))"
    and sv: "ai_key (jf_instructions_sysvar ctx) = rt_instructions_sysvar rt"
    and slot: "ai_key (infos ! 3) = ty_key (jf_adapter_state ctx)"
    and same: "js_lp_token_account (ty_val (jf_adapter_state ctx)) = ty_key (jf_lp_token_account ctx)"
    by (auto simp: jupiter_fund_accounts_ok)
  from h st show ?thesis unfolding reports_growth_def slot
    by (intro exI [of _ "ty_val (jf_adapter_state ctx)"])
      (auto simp: same ld jupiter_deposit_handler_ok [OF sv] dest: measured_growth [OF vault ld assms(2)])
qed

lemma maple_deposit_mints:
  assumes "maple_deposit rt infos amount data w = Inr w'" and "maple_id \<noteq> rt_token_program rt"
  shows "\<exists>s. load_account maple_codec maple_id (ai_key (infos ! 3)) w = Inr s \<and>
             reports_growth maple rt (ys_syrup_token_account s) w w'"
proof -
  from assms(1) obtain ctx s w3 where acc: "maple_fund_accounts rt infos w = Inr ctx"
    and h: "maple_deposit_handler rt ctx amount data w = Inr (s, w3)"
    and st: "store_account maple_codec (ty_key (yf_adapter_state ctx)) s w3 = Inr w'"
    by (auto simp: maple_deposit_def maple_deposit_accounts_def and_then_eq_Inr)
  from acc have ld: "load_account maple_codec maple_id (ty_key (yf_adapter_state ctx)) w =
       Inr (ty_val (yf_adapter_state ctx))"
    and vault: "load_token rt (ty_key (yf_syrup_token_account ctx)) w = Inr (ty_val (yf_syrup_token_account ctx))"
    and sv: "ai_key (yf_instructions_sysvar ctx) = rt_instructions_sysvar rt"
    and slot: "ai_key (infos ! 3) = ty_key (yf_adapter_state ctx)"
    and same: "ys_syrup_token_account (ty_val (yf_adapter_state ctx)) = ty_key (yf_syrup_token_account ctx)"
    by (auto simp: maple_fund_accounts_ok)
  from h st show ?thesis unfolding reports_growth_def slot
    by (intro exI [of _ "ty_val (yf_adapter_state ctx)"])
      (auto simp: same ld maple_deposit_handler_ok [OF sv] dest: measured_growth [OF vault ld assms(2)])
qed

section \<open>The row a MarginFi withdrawal changes\<close>

lemma marginfi_withdraw_row:
  assumes "marginfi_withdraw rt infos shares data w = Inr w'" and "calls_isolate rt marginfi_id"
  shows "\<exists>h a n. ledger_of marginfi w (ai_key (infos ! 3)) = Some h \<and>
     unat n = unat (hdr_total_shares h) - unat shares \<and>
     ledger_of marginfi w' = (ledger_of marginfi w)(ai_key (infos ! 3) \<mapsto> book n h) \<and>
     return_data w' = Some (marginfi_id, to_le_bytes 8 a) \<and>
     last (events w') = (marginfi_id, AdapterWithdrawEvent (hdr_position h) shares a)"
proof -
  from assms obtain ctx s w3 where acc: "marginfi_withdraw_accounts rt infos w = Inr ctx"
    and h: "marginfi_withdraw_handler rt ctx shares data w = Inr (s, w3)"
    and st: "store_account marginfi_codec (ty_key (mw_adapter_state ctx)) s w3 = Inr w'"
    by (auto simp: marginfi_withdraw_def and_then_eq_Inr)
  let ?x = "ty_val (mw_adapter_state ctx)"
  from acc have sv: "ai_key (mw_instructions_sysvar ctx) = rt_instructions_sysvar rt"
    and ld: "load_account marginfi_codec marginfi_id (ai_key (infos ! 3)) w = Inr ?x"
    and k: "ty_key (mw_adapter_state ctx) = ai_key (infos ! 3)"
    by (auto simp: marginfi_withdraw_accounts_ok)
  from h obtain w1 a n all where 
    r1: "mfi_withdraw rt (mw_marginfi_program ctx) (mw_marginfi_group ctx) (mw_marginfi_account ctx)
          (mw_position ctx) (mw_bank ctx) (ty_info (mw_position_usdc_pool ctx))
          (mw_bank_liquidity_vault_authority ctx) (mw_liquidity_vault ctx) (mw_token_program ctx)
          (mw_oracle ctx) shares all w = Inr w1" and
    n: "unat n = unat (hdr_total_shares (ms_header ?x)) - unat shares" and
    s: "s = marginfi_book n ?x" and
    w3: "w3 = emit_event marginfi_id (AdapterWithdrawEvent (hdr_position (ms_header ?x)) shares a)
             (set_u64_return marginfi_id a w1)"
    by (auto simp: marginfi_withdraw_handler_ok [OF sv])
  have "ledger_of marginfi w' = (ledger_of marginfi w)(ai_key (infos ! 3) \<mapsto> book n (ms_header ?x))"
    using marginfi_state.ledger_write_back [where A = marginfi and y = s and ?w2.0 = w1 and ?w3.0 = w3 and w = w and k = "ai_key (infos ! 3)" and x = ?x]
      mfi_calls(3) [OF assms(2) r1] ld st k
    by (simp add: w3 s)
  with ledger_load [of marginfi "ai_key (infos ! 3)" w ?x] store_keeps_log [OF st] ld n show ?thesis
    by (intro exI [of _ "ms_header ?x"] exI [of _ a] exI [of _ n]) (simp add: w3)
qed

section \<open>A withdrawal through the dispatcher\<close>

context paying_adapter
begin

lemma routed_withdraw_pays:
  assumes "hosts rt r A" and "ai_key ap = ad_id A"
    and "rt_token_unpack r = rt_token_unpack rt" and "ad_id A \<noteq> rt_token_program r"
    and "route_withdraw rt ap sv ps pool st rem shares seeds w = Inr (a, w')"
  shows "balance rt w' (ai_key pool) = balance rt w (ai_key pool) + unat a"
proof -
  from assms(5) have
    inv: "rt_invoke rt dispatcher_id (deposit_call ap sv ps pool st rem (encode_withdraw shares []))
       ([ap, sv, ps, pool, st] @ rem) seeds w = Inr w'" and
    ret: "get_u64_return (ad_id A) w' = Some a"
    by (simp_all add: route_withdraw_ok assms(2))
  let ?w = "w\<lparr>return_data := None\<rparr>"
  from hosted_entry [OF assms(1) _ inv] obtain infos' where
    keys: "map ai_key infos' = map am_pubkey
      (ix_accounts (deposit_call ap sv ps pool st rem (encode_withdraw shares [])))" and
    run: "adapter_entry A r infos' (encode_withdraw shares []) ?w = Inr w'"
    by (auto simp: deposit_call_def assms(2))
  have slot: "slot_pool infos' = ai_key pool"
    using keys by (auto simp: deposit_call_def meta_new_def slot_pool_def map_eq_Cons_conv)
  from run have "ad_withdraw A r infos' shares [] ?w = Inr w'"
    by (simp add: adapter_entry_def decode_encode)
  from withdraw_pays [OF this assms(4)] ret slot
  have "balance r ?w (ai_key pool) + unat a = balance r w' (ai_key pool)"
    by (simp add: reports_growth_def)
  then show ?thesis by (simp add: balance_def account_data_def assms(3))
qed

lemma withdraw_pays_owner:
  assumes host: "hosts rt r A" and tok: "token_moves rt"
    and agree: "rt_token_unpack r = rt_token_unpack rt" "rt_token_program r = rt_token_program rt"
    and ids: "ad_id A \<noteq> rt_token_program rt" "dispatcher_id \<noteq> rt_token_program rt"
    and acc: "fund_accounts rt infos w = Inr ctx" and prog: "ai_key (fu_adapter_program ctx) = ad_id A"
    and ne: "ty_key (fu_position_usdc_pool ctx) \<noteq> ty_key (fu_owner_usdc_ata ctx)"
    and run: "withdraw rt infos shares w = Inr w'"
  shows "\<exists>w1 a.
     route_withdraw rt (fu_adapter_program ctx) (fu_instructions_sysvar ctx)
       (ty_info (fu_position ctx)) (ty_info (fu_position_usdc_pool ctx)) (fu_adapter_state ctx)
       (fu_remaining ctx) shares [position_seeds (ty_val (fu_position ctx))] w = Inr (a, w1) \<and>
     balance rt w1 (ty_key (fu_position_usdc_pool ctx)) =
       balance rt w (ty_key (fu_position_usdc_pool ctx)) + unat a \<and>
     balance rt w' (ty_key (fu_position_usdc_pool ctx)) =
       balance rt w (ty_key (fu_position_usdc_pool ctx)) \<and>
     balance rt w' (ty_key (fu_owner_usdc_ata ctx)) =
       balance rt w1 (ty_key (fu_owner_usdc_ata ctx)) + unat a \<and>
     (\<forall>k. k \<noteq> ty_key (fu_position_usdc_pool ctx) \<and> k \<noteq> ty_key (fu_owner_usdc_ata ctx) \<and>
          k \<noteq> ty_key (fu_position ctx) \<longrightarrow> accounts w' k = accounts w1 k) \<and>
     last (events w') = (dispatcher_id, Withdrawn (ty_key (fu_position ctx)) shares a)"
proof -
  let ?p = "ty_key (fu_position_usdc_pool ctx)" and ?o = "ty_key (fu_owner_usdc_ata ctx)"
  from run acc obtain w4 where h: "withdraw_handler rt ctx shares w = Inr w4" and
    st: "store_account position_codec (ty_key (fu_position ctx)) (ty_val (fu_position ctx)) w4 = Inr w'"
    by (auto simp: withdraw_def withdraw_accounts_def and_then_eq_Inr)
  from h obtain w1 w2 a where
    rd: "route_withdraw rt (fu_adapter_program ctx) (fu_instructions_sysvar ctx)
          (ty_info (fu_position ctx)) (ty_info (fu_position_usdc_pool ctx)) (fu_adapter_state ctx)
          (fu_remaining ctx) shares [position_seeds (ty_val (fu_position ctx))] w = Inr (a, w1)" and
    tr: "(if a > 0
         then rt_token_transfer rt dispatcher_id (ty_info (fu_position_usdc_pool ctx))
                (ty_info (fu_owner_usdc_ata ctx)) (ty_info (fu_position ctx)) a
                [position_seeds (ty_val (fu_position ctx))] w1
         else Inr w1) = Inr w2" and
    w4: "w4 = emit_event dispatcher_id (Withdrawn (ty_key (fu_position ctx)) shares a) w2"
    by (auto simp: withdraw_handler_ok split del: if_split)
  have grow: "balance rt w1 ?p = balance rt w ?p + unat a"
    by (rule routed_withdraw_pays [OF host prog agree(1) _ rd]) (simp add: agree(2) ids)
  have moved: "balance rt w2 ?p + unat a = balance rt w1 ?p \<and> balance rt w2 ?o = balance rt w1 ?o + unat a \<and>
      (\<forall>k. k \<noteq> ?p \<and> k \<noteq> ?o \<longrightarrow> accounts w2 k = accounts w1 k)"
  proof (cases "a > 0")
    case True
    with tr have "rt_token_transfer rt dispatcher_id (ty_info (fu_position_usdc_pool ctx))
                (ty_info (fu_owner_usdc_ata ctx)) (ty_info (fu_position ctx)) a
                [position_seeds (ty_val (fu_position ctx))] w1 = Inr w2" by simp
    from token_movesD(1-3) [OF tok this] ne show ?thesis by fastforce
  next
    case False
    then have "a = 0" by (simp add: word_gt_0)
    with tr show ?thesis by simp
  qed
  from acc [unfolded fund_accounts_ok]
  have pos: "load_account position_codec dispatcher_id (ty_key (fu_position ctx)) w =
      Inr (ty_val (fu_position ctx))" and pool: "load_token rt ?p w = Inr (ty_val (fu_position_usdc_pool ctx))"
    and ata: "load_token rt ?o w = Inr (ty_val (fu_owner_usdc_ata ctx))"
    by blast+
  have "?p \<noteq> ty_key (fu_position ctx)" by (rule token_and_state_differ [OF pool pos ids(2)])
  moreover have "?o \<noteq> ty_key (fu_position ctx)" by (rule token_and_state_differ [OF ata pos ids(2)])
  ultimately have "balance rt w' ?p = balance rt w2 ?p" and "balance rt w' ?o = balance rt w2 ?o"
    using store_other_account [OF st] by (auto intro!: balance_same simp: w4)
  moreover have "last (events w') = (dispatcher_id, Withdrawn (ty_key (fu_position ctx)) shares a)"
    using store_keeps_log [OF st] by (simp add: w4)
  moreover have "accounts w' k = accounts w2 k" if "k \<noteq> ty_key (fu_position ctx)" for k
    using store_other_account [OF st that] by (simp add: w4)
  ultimately show ?thesis using grow moved rd by (intro exI [of _ w1] exI [of _ a]) simp
qed

end

text \<open>A deposit puts exactly the amount into the pool before the adapter is called.\<close>

lemma deposit_escrows:
  assumes "token_moves rt" and "deposit_handler rt ctx amount w = Inr w'"
    and "ty_key (fu_position_usdc_pool ctx) \<noteq> ty_key (fu_owner_usdc_ata ctx)"
  shows "\<exists>w1 w2 m.
     balance rt w1 (ty_key (fu_owner_usdc_ata ctx)) + unat amount =
       balance rt w (ty_key (fu_owner_usdc_ata ctx)) \<and>
     balance rt w1 (ty_key (fu_position_usdc_pool ctx)) =
       balance rt w (ty_key (fu_position_usdc_pool ctx)) + unat amount \<and>
     (\<forall>k. k \<noteq> ty_key (fu_owner_usdc_ata ctx) \<and> k \<noteq> ty_key (fu_position_usdc_pool ctx) \<longrightarrow>
        accounts w1 k = accounts w k) \<and>
     route_deposit rt (fu_adapter_program ctx) (fu_instructions_sysvar ctx)
       (ty_info (fu_position ctx)) (ty_info (fu_position_usdc_pool ctx)) (fu_adapter_state ctx)
       (fu_remaining ctx) amount [position_seeds (ty_val (fu_position ctx))] w1 = Inr (m, w2) \<and>
     w' = emit_event dispatcher_id (Deposited (ty_key (fu_position ctx)) amount m) w2"
proof -
  from assms(2) obtain w1 w2 m where
    tr: "rt_token_transfer rt dispatcher_id (ty_info (fu_owner_usdc_ata ctx))
          (ty_info (fu_position_usdc_pool ctx)) (fu_owner ctx) amount [] w = Inr w1" and
    rest: "route_deposit rt (fu_adapter_program ctx) (fu_instructions_sysvar ctx)
          (ty_info (fu_position ctx)) (ty_info (fu_position_usdc_pool ctx)) (fu_adapter_state ctx)
          (fu_remaining ctx) amount [position_seeds (ty_val (fu_position ctx))] w1 = Inr (m, w2)"
      "w' = emit_event dispatcher_id (Deposited (ty_key (fu_position ctx)) amount m) w2"
    by (auto simp: deposit_handler_ok)
  note d = token_movesD [OF assms(1) tr]
  from d(3) have "\<forall>k. k \<noteq> ty_key (fu_owner_usdc_ata ctx) \<and> k \<noteq> ty_key (fu_position_usdc_pool ctx) \<longrightarrow>
        accounts w1 k = accounts w k" by auto
  with d(1,2) rest assms(3) show ?thesis
    by (intro exI [of _ w1] exI [of _ w2] exI [of _ m]) simp
qed

end
