(* ===== verification/Demo_Adapters.thy ===== *)
theory Demo_Adapters
  imports Demo_Runs Demo_Data Payouts
begin

text \<open>Further runs on the concrete runtime: pausing, and a klend that pays.\<close>

section \<open>Pausing\<close>

definition w_paused :: world where
  "w_paused =
     emit_event dispatcher_id (AdapterPaused marginfi_id False)
       (set_account_data k_entry (held entry_codec dispatcher_id (demo_entry\<lparr>ent_is_active := False\<rparr>) 29)
          w_opened)"

lemma run_pause: "pause_adapter demo [sg k_owner, ro k_registry, wr k_entry] True w_opened = Inr w_paused"
proof -
  let ?e = "demo_entry\<lparr>ent_is_active := False\<rparr>"
  let ?w = "emit_event dispatcher_id (AdapterPaused marginfi_id False) w_opened"
  have reg: "load_account registry_codec dispatcher_id k_registry w_opened = Inr (demo_registry 1)"
    by (rule registry.load_held) (simp_all add: w_opened_def w_approved_def)
  have ent: "load_account entry_codec dispatcher_id k_entry w_opened = Inr demo_entry"
    by (rule entry.load_held) (simp_all add: demo_wf)
  have st: "store_account entry_codec k_entry ?e ?w = Inr w_paused"
  proof -
    have "store_account entry_codec k_entry ?e ?w =
        Inr (set_account_data k_entry (held entry_codec dispatcher_id ?e 29) ?w)"
      by (rule entry.store_held) (simp_all add: entry_codec_def)
    moreover have "set_account_data k_entry (held entry_codec dispatcher_id ?e 29) ?w = w_paused"
      by (rule world_eqI) (simp_all add: w_paused_def)
    ultimately show ?thesis by simp
  qed
  have id: "ent_adapter_program demo_entry = marginfi_id" "reg_admin (demo_registry 1) = k_owner"
    "reg_bump (demo_registry 1) = 255"
    by (simp_all add: demo_entry_def demo_registry_def)
  show ?thesis using st
    by (simp add: pause_adapter_def pause_adapter_accounts_def pause_adapter_handler_def Let_def
        reg ent run_simps id)
qed

section \<open>A klend that pays\<close>

text \<open>Every call brings the pool to 12 and the collateral vault to 30.\<close>

definition demo_paying :: runtime where
  "demo_paying = demo_callee
     \<lparr>rt_invoke := (\<lambda>_ _ _ _ w. Inr (w\<lparr>accounts := (accounts w)
        (k_pool \<mapsto> token_held k_mint k_position 12, k_vault \<mapsto> token_held k_mint k_position 30)\<rparr>))\<rparr>"

definition demo_kamino :: "u64 \<Rightarrow> kamino_state" where
  "demo_kamino n =
     \<lparr>ks_header = \<lparr>hdr_position = k_position, hdr_adapter_program = kamino_id,
                   hdr_created_at = 1700000000, hdr_total_shares = n\<rparr>,
      ks_kamino_reserve = k_bank, ks_collateral_vault = k_vault, ks_bump = 255\<rparr>"

definition w_kamino :: world where
  "w_kamino = w_genesis\<lparr>accounts := (accounts w_genesis)
     (k_bank \<mapsto> \<lparr>acc_owner = k_protocol, acc_executable = False, acc_data = demo_reserve\<rparr>,
      k_state \<mapsto> held kamino_codec kamino_id (demo_kamino 20) 0,
      k_pool \<mapsto> token_held k_mint k_position 5, k_vault \<mapsto> token_held k_mint k_position 20)\<rparr>"

definition kamino_infos :: "account_info list" where
  "kamino_infos =
     [ro k_sysvar, sg k_position, wr k_pool, wr k_state, wr k_bank, ro k_other, ro k_other, ro k_mint,
      wr k_other, wr k_other, wr k_vault, ro k_token, ro k_token, ro k_other, ro k_protocol]"

definition kamino_ctx :: kamino_fund_ctx where
  "kamino_ctx =
     \<lparr>kf_instructions_sysvar = ro k_sysvar, kf_position = sg k_position,
      kf_position_usdc_pool = Typed (wr k_pool)
        \<lparr>tok_mint = k_mint, tok_owner = k_position, tok_amount = 5\<rparr>,
      kf_adapter_state = Typed (wr k_state) (demo_kamino 20), kf_reserve = wr k_bank,
      kf_lending_market = ro k_other, kf_lending_market_authority = ro k_other,
      kf_reserve_liquidity_mint = ro k_mint, kf_reserve_liquidity_supply = wr k_other,
      kf_reserve_collateral_mint = wr k_other,
      kf_collateral_vault = Typed (wr k_vault)
        \<lparr>tok_mint = k_mint, tok_owner = k_position, tok_amount = 20\<rparr>,
      kf_collateral_token_program = ro k_token, kf_liquidity_token_program = ro k_token,
      kf_scope_prices = ro k_other, kf_klend_program = ro k_protocol\<rparr>"

lemma demo_paying_sel [simp]:
  "rt_token_program demo_paying = k_token" "rt_token_unpack demo_paying = demo_unpack"
  "rt_instructions_sysvar demo_paying = k_sysvar" "rt_clock demo_paying = rt_clock demo_callee"
  "rt_create_program_address demo_paying = rt_create_program_address demo_callee"
  "rt_invoke demo_paying c ix infos seeds w = Inr (w\<lparr>accounts := (accounts w)
     (k_pool \<mapsto> token_held k_mint k_position 12, k_vault \<mapsto> token_held k_mint k_position 30)\<rparr>)"
  by (simp_all add: demo_paying_def)

lemma demo_paying_caller: "caller_ok demo_paying"
  by (simp add: caller_ok_def demo_paying_def demo_callee_def)

lemma demo_kamino_sel [simp]:
  "hdr_position (ks_header (demo_kamino n)) = k_position"
  "hdr_total_shares (ks_header (demo_kamino n)) = n"
  "ks_kamino_reserve (demo_kamino n) = k_bank" "ks_collateral_vault (demo_kamino n) = k_vault"
  "ks_bump (demo_kamino n) = 255"
  by (simp_all add: demo_kamino_def)

lemma bank_ne [simp]:
  "k_bank \<noteq> k_state" "k_bank \<noteq> k_pool" "k_bank \<noteq> k_vault" "k_protocol \<noteq> k_bank"
  by (simp_all add: demo_keys)

lemma kamino_load: "load_account kamino_codec kamino_id k_state w_kamino = Inr (demo_kamino 20)"
  by (rule kamino_state.load_held) (simp_all add: w_kamino_def)

lemma run_kamino_accounts: "kamino_fund_accounts demo_paying kamino_infos w_kamino = Inr kamino_ctx"
  unfolding kamino_fund_accounts_ok
  by (simp add: kamino_infos_def kamino_ctx_def kamino_load)
    (simp add: w_kamino_def load_token_def account_executable_def adapter_seeds_def demo_addresses
      info_owner_def)

text \<open>A deposit of 3 mints 10 shares; a withdrawal of 8 shares pays 7.\<close>

lemma demo_paying_klend:
  "refresh_reserve demo_paying p r m s w = Inr (w\<lparr>accounts := (accounts w)
     (k_pool \<mapsto> token_held k_mint k_position 12, k_vault \<mapsto> token_held k_mint k_position 30)\<rparr>)"
  "deposit_reserve_liquidity demo_paying a n w = Inr (w\<lparr>accounts := (accounts w)
     (k_pool \<mapsto> token_held k_mint k_position 12, k_vault \<mapsto> token_held k_mint k_position 30)\<rparr>)"
  "redeem_reserve_collateral demo_paying a n w = Inr (w\<lparr>accounts := (accounts w)
     (k_pool \<mapsto> token_held k_mint k_position 12, k_vault \<mapsto> token_held k_mint k_position 30)\<rparr>)"
  by (simp_all add: refresh_reserve_def deposit_reserve_liquidity_def redeem_reserve_collateral_def)

lemma kamino_ctx_sel [simp]:
  "kf_instructions_sysvar kamino_ctx = ro k_sysvar" "kf_adapter_state kamino_ctx = Typed (wr k_state) (demo_kamino 20)"
  "kf_position_usdc_pool kamino_ctx = Typed (wr k_pool)
     \<lparr>tok_mint = k_mint, tok_owner = k_position, tok_amount = 5\<rparr>"
  "kf_collateral_vault kamino_ctx = Typed (wr k_vault)
     \<lparr>tok_mint = k_mint, tok_owner = k_position, tok_amount = 20\<rparr>"
  by (simp_all add: kamino_ctx_def)

lemma run_kamino_fund:
  "\<exists>w. kamino_deposit demo_paying kamino_infos 3 [] w_kamino = Inr w"
  "\<exists>w. kamino_withdraw demo_paying kamino_infos 8 [] w_kamino = Inr w"
proof -
  define w2 where "w2 = w_kamino\<lparr>accounts := (accounts w_kamino)
     (k_pool \<mapsto> token_held k_mint k_position 12, k_vault \<mapsto> token_held k_mint k_position 30)\<rparr>"
  have idem: "w2\<lparr>accounts := (accounts w2)
     (k_pool \<mapsto> token_held k_mint k_position 12, k_vault \<mapsto> token_held k_mint k_position 30)\<rparr> = w2"
    by (rule world_eqI) (simp_all add: w2_def)
  have pool: "account_data w2 k_pool = acc_data (token_held k_mint k_position 12)"
    and vault: "account_data w2 k_vault = acc_data (token_held k_mint k_position 30)"
    by (simp_all add: w2_def account_data_def)
  have st: "\<exists>w'. store_account kamino_codec k_state y (emit_event kamino_id e (set_u64_return kamino_id n w2)) = Inr w'"
    for y e n
  proof -
    have "accounts (emit_event kamino_id e (set_u64_return kamino_id n w2)) k_state =
        Some (held kamino_codec kamino_id (demo_kamino 20) 0)"
      by (simp add: w2_def w_kamino_def)
    from kamino_state.store_held [OF this, of y] show ?thesis by (simp add: kamino_codec_def)
  qed
  have sv: "ai_key (kf_instructions_sysvar kamino_ctx) = rt_instructions_sysvar demo_paying" by simp
  have "kamino_deposit_handler demo_paying kamino_ctx 3 [] w_kamino =
      Inr (kamino_book 30 (demo_kamino 20),
           emit_event kamino_id (AdapterDepositEvent k_position 3 10) (set_u64_return kamino_id 10 w2))"
    unfolding kamino_deposit_handler_ok [OF sv] demo_paying_klend
    by (simp add: data_fits_def MAX_ADAPTER_DATA_LEN_def demo_paying_caller w2_def [symmetric] idem
        vault checked_sub_def checked_add_def)
  then show "\<exists>w. kamino_deposit demo_paying kamino_infos 3 [] w_kamino = Inr w"
    using st by (simp add: kamino_deposit_def kamino_deposit_accounts_def run_kamino_accounts)
  have "kamino_withdraw_handler demo_paying kamino_ctx 8 [] w_kamino =
      Inr (kamino_book 12 (demo_kamino 20),
           emit_event kamino_id (AdapterWithdrawEvent k_position 8 7) (set_u64_return kamino_id 7 w2))"
    unfolding kamino_withdraw_handler_ok [OF sv] demo_paying_klend
    by (simp add: data_fits_def MAX_ADAPTER_DATA_LEN_def demo_paying_caller w2_def [symmetric] idem
        pool checked_sub_def)
  then show "\<exists>w. kamino_withdraw demo_paying kamino_infos 8 [] w_kamino = Inr w"
    using st by (simp add: kamino_withdraw_def kamino_withdraw_accounts_def run_kamino_accounts)
qed

section \<open>Starting points\<close>

lemma run_demo_accounts:
  "fund_accounts demo deposit_infos w_opened =
     Inr (demo_fund_ctx w_opened 0 1000 (adapter_tail @ [wr k_vault, ro k_token]))"
  "fund_accounts demo withdraw_infos w_deposited =
     Inr (demo_fund_ctx w_deposited 50 950 (adapter_tail @ [ro k_other, wr k_vault, ro k_token, ro k_other]))"
  unfolding deposit_infos_def withdraw_infos_def
  using run_fund_accounts [of w_opened 0 1000] run_fund_accounts [of w_deposited 50 950] by simp_all

context adapter_standard
begin

text \<open>The genesis world of the demo, initialised once, is a reachable world with one row.\<close>

lemma demo_started:
  assumes "\<exists>w. ad_initialize A demo_callee infos [] w_genesis = Inr w"
    and "ad_id A \<noteq> k_token" and "ad_id A \<noteq> k_system"
  shows "\<exists>w h. adapter_reachable A {demo_callee} w \<and> ledger_of A w k_state = Some h"
proof -
  from assms(1) obtain w where r: "ad_initialize A demo_callee infos [] w_genesis = Inr w" by blast
  have "ledger_of A w_genesis = Map.empty"
    by (rule ext) (simp add: ledger_of_def genesis_views assms(2,3))
  from initialized_reachable [OF r singletonI demo_system_creates(1) demo_callee_isolates [OF assms(2)] this]
  show ?thesis by (auto simp: demo_row_address)
qed

end

lemma system_ids:
  "kamino_id \<noteq> k_system" "jupiter_id \<noteq> k_system" "maple_id \<noteq> k_system" "drift_id \<noteq> k_system"
  by (simp_all add: id_values k_system_def)

lemmas demo_starts =
  kamino.demo_started [simplified, OF run_kamino program_ids(2) system_ids(1)]
  jupiter.demo_started [simplified, OF run_jupiter program_ids(4) system_ids(2)]
  maple.demo_started [simplified, OF run_maple program_ids(5) system_ids(3)]
  drift.demo_started [simplified, OF run_drift program_ids(6) system_ids(4)]

end
