(* ===== verification/Valuation.thy ===== *)
theory Valuation
  imports Payouts
begin

text \<open>
  What the reported values are.  The worth of a MarginFi, Jupiter or Maple position is a function
  of the adapter's state and of the accounts that the state names; the caller of \<open>current_value\<close>
  supplies account handles but cannot choose other accounts.  In the other two the caller has a
  part in the price, which the types show.  The Kamino reserve is named by the state but refreshed
  first, by a call that takes handles of the caller; and the Drift price has as a factor the
  balance of an account that the caller passes and the state does not name.

  The locale \<open>valued_adapter\<close> extends the standard with the promise that the reported value is the
  worth.
\<close>

section \<open>The worth of a position\<close>

definition kamino_worth :: "kamino_state \<Rightarrow> world \<Rightarrow> u64 res" where
  "kamino_worth s w =
     collateral_value_usdc (account_data w (ks_kamino_reserve s)) (hdr_total_shares (ks_header s))"

definition marginfi_worth :: "marginfi_state \<Rightarrow> world \<Rightarrow> u64 res" where
  "marginfi_worth s w =
     and_then (account_asset_shares (account_data w (ms_marginfi_account s)) (ms_bank s)) (\<lambda>shares.
     and_then (bank_asset_share_value (account_data w (ms_bank s))) (\<lambda>share_value.
     shares_to_usdc shares share_value))"

definition jupiter_worth :: "jupiter_state \<Rightarrow> world \<Rightarrow> u64 res" where
  "jupiter_worth s w =
     and_then (jup_token_amount (account_data w (js_lp_token_account s)))
       (lp_value_usdc (account_data w (js_pool s)) (account_data w (js_lp_mint s)))"

definition maple_worth :: "maple_state \<Rightarrow> world \<Rightarrow> u64 res" where
  "maple_worth s w =
     and_then (orca_token_amount (account_data w (ys_syrup_token_account s)))
       (whirlpool_value_usdc (account_data w (ys_whirlpool s)))"

text \<open>\<open>vault\<close> is the account given in the last slot: \<open>drift_state\<close> has no field for it.\<close>

definition drift_worth :: "pubkey \<Rightarrow> drift_state \<Rightarrow> world \<Rightarrow> u64 res" where
  "drift_worth vault s w =
     stake_value_usdc (account_data w (fs_insurance_fund_stake s)) (account_data w (fs_spot_market s))
       (account_data w vault)"

section \<open>The promise\<close>

definition reports_worth ::
  "'a adapter \<Rightarrow> (runtime \<Rightarrow> account_info list \<Rightarrow> 'a \<Rightarrow> world \<Rightarrow> u64 res) \<Rightarrow> runtime \<Rightarrow>
   account_info list \<Rightarrow> world \<Rightarrow> world \<Rightarrow> bool" where
  "reports_worth A worth rt infos w w' \<longleftrightarrow>
     (\<exists>s v. load_account (ad_codec A) (ad_id A) (ai_key (infos ! 2)) w = Inr s \<and>
        hdr_position (ad_header A s) = slot_position infos \<and>
        worth rt infos s w = Inr v \<and> get_u64_return (ad_id A) w' = Some v)"

locale valued_adapter = adapter_standard A for A :: "'a adapter" +
  fixes worth :: "runtime \<Rightarrow> account_info list \<Rightarrow> 'a \<Rightarrow> world \<Rightarrow> u64 res"
  assumes value_worth: "ad_current_value A rt infos data w = Inr w' \<Longrightarrow>
      reports_worth A worth rt infos w w'"

text \<open>The reserve that is refreshed is the one the state names, at the program that owns it.\<close>

definition kamino_refreshed_worth ::
  "runtime \<Rightarrow> account_info list \<Rightarrow> kamino_state \<Rightarrow> world \<Rightarrow> u64 res" where
  "kamino_refreshed_worth rt infos s w =
     and_then (refresh_reserve rt (infos ! 6) (infos ! 3) (infos ! 4) (infos ! 5) w) (kamino_worth s)"

lemma kamino_value_worth:
  assumes "kamino_current_value rt infos data w = Inr w'"
  shows "reports_worth kamino kamino_refreshed_worth rt infos w w'"
  using assms
  by (auto simp: kamino_current_value_def and_then_eq_Inr kamino_value_accounts_ok
      kamino_value_handler_ok reports_worth_def kamino_refreshed_worth_def kamino_worth_def
      slot_position_def get_set_u64_return)

lemma kamino_reserve_bound:
  assumes "kamino_current_value rt infos data w = Inr w'"
    and "load_account kamino_codec kamino_id (ai_key (infos ! 2)) w = Inr s"
  shows "ai_key (infos ! 3) = ks_kamino_reserve s"
    and "info_owner rt w (ks_kamino_reserve s) = ai_key (infos ! 6)"
  using assms
  by (auto simp: kamino_current_value_def and_then_eq_Inr kamino_value_accounts_ok)

lemma marginfi_value_worth:
  assumes "marginfi_current_value rt infos data w = Inr w'"
  shows "reports_worth marginfi (\<lambda>_ _. marginfi_worth) rt infos w w'"
  using assms
  by (auto simp: marginfi_current_value_def and_then_eq_Inr marginfi_value_accounts_ok
      marginfi_value_handler_ok reports_worth_def marginfi_worth_def slot_position_def get_set_u64_return)

lemma jupiter_value_worth:
  assumes "jupiter_current_value rt infos data w = Inr w'"
  shows "reports_worth jupiter (\<lambda>_ _. jupiter_worth) rt infos w w'"
  using assms
  by (auto simp: jupiter_current_value_def and_then_eq_Inr jupiter_value_accounts_ok
      jupiter_value_handler_ok reports_worth_def jupiter_worth_def slot_position_def get_set_u64_return)

lemma maple_value_worth:
  assumes "maple_current_value rt infos data w = Inr w'"
  shows "reports_worth maple (\<lambda>_ _. maple_worth) rt infos w w'"
  using assms
  by (auto simp: maple_current_value_def and_then_eq_Inr maple_value_accounts_ok
      maple_value_handler_ok reports_worth_def maple_worth_def slot_position_def get_set_u64_return)

lemma drift_value_worth:
  assumes "drift_current_value rt infos data w = Inr w'"
  shows "reports_worth drift (\<lambda>_ infos. drift_worth (ai_key (infos ! 5))) rt infos w w'"
  using assms
  by (auto simp: drift_current_value_def and_then_eq_Inr drift_value_accounts_ok
      drift_value_handler_ok reports_worth_def drift_worth_def slot_position_def get_set_u64_return)

interpretation kamino_values: valued_adapter kamino kamino_refreshed_worth
  by unfold_locales (use kamino_value_worth in simp)

interpretation marginfi_values: valued_adapter marginfi "\<lambda>_ _. marginfi_worth"
  by unfold_locales (use marginfi_value_worth in simp)

interpretation jupiter_values: valued_adapter jupiter "\<lambda>_ _. jupiter_worth"
  by unfold_locales (use jupiter_value_worth in simp)

interpretation maple_values: valued_adapter maple "\<lambda>_ _. maple_worth"
  by unfold_locales (use maple_value_worth in simp)

interpretation drift_values: valued_adapter drift "\<lambda>_ infos. drift_worth (ai_key (infos ! 5))"
  by unfold_locales (use drift_value_worth in simp)

section \<open>A value read through the dispatcher\<close>

context valued_adapter
begin

lemma dispatcher_relays_worth:
  assumes "hosts rt r A"
    and "current_value_accounts rt infos w = Inr ctx" and "ai_key (cv_adapter_program ctx) = ad_id A"
    and "current_value rt infos w = Inr w'"
  shows "\<exists>infos' s v.
     map ai_key infos' = map ai_key (cv_instructions_sysvar ctx # ty_info (cv_position ctx) #
       cv_adapter_state ctx # cv_remaining ctx) \<and>
     load_account (ad_codec A) (ad_id A) (ai_key (cv_adapter_state ctx)) w = Inr s \<and>
     hdr_position (ad_header A s) = ty_key (cv_position ctx) \<and>
     worth r infos' s (w\<lparr>return_data := None\<rparr>) = Inr v \<and>
     return_data w' = Some (dispatcher_id, to_le_bytes 8 v) \<and>
     last (events w') = (dispatcher_id, ValueRead (ty_key (cv_position ctx)) v)"
proof -
  let ?w = "w\<lparr>return_data := None\<rparr>"
  let ?call = "value_call (cv_adapter_program ctx) (cv_instructions_sysvar ctx)
      (ty_info (cv_position ctx)) (cv_adapter_state ctx) (cv_remaining ctx)"
  from assms(2,4) obtain w1 v where
    inv: "rt_invoke rt dispatcher_id ?call ([cv_adapter_program ctx, cv_instructions_sysvar ctx,
        ty_info (cv_position ctx), cv_adapter_state ctx] @ cv_remaining ctx) [] w = Inr w1" and
    ret: "get_u64_return (ad_id A) w1 = Some v" and
    w': "w' = emit_event dispatcher_id (ValueRead (ty_key (cv_position ctx)) v)
               (set_return_data dispatcher_id (to_le_bytes 8 v) w1)"
    by (auto simp: current_value_def current_value_handler_ok route_current_value_ok assms(3))
  from hosted_entry [OF assms(1) _ inv] obtain infos' where
    "map ai_key infos' = map am_pubkey (ix_accounts ?call)" and
    run: "adapter_entry A r infos' (encode_current_value []) ?w = Inr w1"
    by (auto simp: value_call_def assms(3))
  then have keys: "map ai_key infos' = map ai_key (cv_instructions_sysvar ctx #
      ty_info (cv_position ctx) # cv_adapter_state ctx # cv_remaining ctx)"
    by (simp add: value_call_def meta_readonly_def meta_new_def meta_of_info_def)
  from keys have "slot_position infos' = ty_key (cv_position ctx)"
    and "ai_key (infos' ! 2) = ai_key (cv_adapter_state ctx)"
    by (auto simp: slot_position_def map_eq_Cons_conv)
  moreover from run have "ad_current_value A r infos' [] ?w = Inr w1"
    by (simp add: adapter_entry_def decode_encode)
  ultimately show ?thesis
    using value_worth keys ret
    by (fastforce simp: reports_worth_def w' load_account_def)
qed

end

end
