(* ===== verification/Demo_Values.thy ===== *)
theory Demo_Values
  imports Demo_Adapters Valuation
begin

text \<open>Values read on the concrete runtime.\<close>

lemma demo_adapter_isolates: "calls_isolate demo marginfi_id"
proof -
  have "marginfi_id \<noteq> dispatcher_id" by (rule program_ids(7))
  then have "rt_invoke demo marginfi_id = rt_invoke demo_callee marginfi_id"
    by (simp add: demo_def fun_eq_iff)
  with demo_callee_isolates [OF program_ids(3)] show ?thesis by (simp add: calls_isolate_def)
qed

section \<open>Through the dispatcher\<close>

definition raw :: "bytes \<Rightarrow> account" where
  "raw d = \<lparr>acc_owner = k_protocol, acc_executable = False, acc_data = d\<rparr>"

definition w_priced :: world where
  "w_priced = w_deposited\<lparr>accounts := (accounts w_deposited)
     (k_mfi_account \<mapsto> raw demo_balances, k_bank \<mapsto> raw demo_bank), return_data := None\<rparr>"

definition value_infos :: "account_info list" where
  "value_infos = [ro k_entry, ro marginfi_id, ro k_position, ro k_state, ro k_sysvar,
                  ro k_mfi_account, ro k_bank]"

definition value_ctx :: current_value_ctx where
  "value_ctx =
     \<lparr>cv_adapter_entry = Typed (ro k_entry) demo_entry, cv_adapter_program = ro marginfi_id,
      cv_position = Typed (ro k_position) demo_position, cv_adapter_state = ro k_state,
      cv_instructions_sysvar = ro k_sysvar, cv_remaining = [ro k_mfi_account, ro k_bank]\<rparr>"

definition w_valued :: world where
  "w_valued =
     \<lparr>accounts = accounts w_priced, return_data = Some (dispatcher_id, to_le_bytes 8 (4096 :: u64)),
      events = events w_deposited @ [(marginfi_id, AdapterValueEvent k_position 4096 100),
                                     (dispatcher_id, ValueRead k_position 4096)]\<rparr>"

lemma value_keys:
  "distinct [k_mfi_account, k_bank, k_entry, k_position, k_state, marginfi_id, k_sysvar]"
  "distinct [k_sysvar, marginfi_id, k_state, k_position, k_entry, k_bank, k_mfi_account]"
  by (simp_all add: demo_keys marginfi_id_value)

lemmas value_key_ne [simp] = value_keys [simplified]

lemma priced_accounts [simp]:
  "accounts w_priced k_entry = Some (held entry_codec dispatcher_id demo_entry 29)"
  "accounts w_priced k_position = Some (held position_codec dispatcher_id demo_position 0)"
  "accounts w_priced k_state = Some (held marginfi_codec marginfi_id (demo_state 50) 0)"
  "accounts w_priced marginfi_id = Some program_account"
  "account_data w_priced k_mfi_account = demo_balances"
  "account_data w_priced k_bank = demo_bank"
  by (simp_all add: w_priced_def account_data_def raw_def)

lemma run_value_accounts: "current_value_accounts demo value_infos w_priced = Inr value_ctx"
proof -
  have "load_account entry_codec dispatcher_id k_entry w_priced = Inr demo_entry"
    by (rule entry.load_held) (simp_all add: demo_wf)
  moreover have "load_account position_codec dispatcher_id k_position w_priced = Inr demo_position"
    by (rule position.load_held) simp_all
  ultimately show ?thesis
    unfolding current_value_accounts_ok
    by (simp add: value_infos_def value_ctx_def account_executable_def demo_addresses)
qed

lemma run_marginfi_value:
  "marginfi_current_value demo_callee [ro k_sysvar, ro k_position, ro k_state, ro k_mfi_account, ro k_bank]
     [] w_priced =
   Inr (emit_event marginfi_id (AdapterValueEvent k_position 4096 100)
          (set_u64_return marginfi_id 4096 w_priced))"
proof -
  define ctx where "ctx =
    \<lparr>mv_instructions_sysvar = ro k_sysvar, mv_position = ro k_position,
     mv_adapter_state = Typed (ro k_state) (demo_state 50), mv_marginfi_account = ro k_mfi_account,
     mv_bank = ro k_bank\<rparr>"
  have "load_account marginfi_codec marginfi_id k_state w_priced = Inr (demo_state 50)"
    by (rule marginfi_state.load_held) simp_all
  then have acc: "marginfi_value_accounts demo_callee
      [ro k_sysvar, ro k_position, ro k_state, ro k_mfi_account, ro k_bank] w_priced = Inr ctx"
    unfolding marginfi_value_accounts_ok
    by (simp add: ctx_def adapter_seeds_def demo_addresses)
  have "account_asset_shares demo_balances k_bank = Inr (2 ^ 60)"
    using demo_balances_shares by (simp add: k_bank_def)
  then have "marginfi_value_handler demo_callee ctx [] w_priced =
      Inr (emit_event marginfi_id (AdapterValueEvent k_position 4096 100)
          (set_u64_return marginfi_id 4096 w_priced))"
    by (simp add: marginfi_value_handler_def ctx_def MAX_ADAPTER_DATA_LEN_def demo_verify
        demo_bank_value demo_marginfi_value [simplified] Let_def)
  with acc show ?thesis by (simp add: marginfi_current_value_def)
qed

lemma run_value: "current_value demo value_infos w_priced = Inr w_valued"
proof -
  let ?w = "emit_event marginfi_id (AdapterValueEvent k_position 4096 100)
     (set_u64_return marginfi_id 4096 w_priced)"
  have "w_priced\<lparr>return_data := None\<rparr> = w_priced" by (simp add: w_priced_def)
  then have "rt_invoke demo dispatcher_id (value_call (ro marginfi_id) (ro k_sysvar) (ro k_position)
      (ro k_state) [ro k_mfi_account, ro k_bank]) infos seeds w_priced = Inr ?w" for infos seeds
    using run_marginfi_value
    by (simp add: demo_def value_call_def adapter_entry_def decode_encode meta_readonly_def
        meta_of_info_def ro_def)
  then have "route_current_value demo (ro marginfi_id) (ro k_sysvar) (ro k_position) (ro k_state)
      [ro k_mfi_account, ro k_bank] w_priced = Inr (4096, ?w)"
    by (simp add: route_current_value_ok get_set_u64_return get_u64_return_emit)
  then have "current_value_handler demo value_ctx w_priced = Inr
      (emit_event dispatcher_id (ValueRead k_position 4096)
         (set_return_data dispatcher_id (to_le_bytes 8 (4096 :: u64)) ?w))"
    by (simp add: current_value_handler_def value_ctx_def ADAPTER_INTERFACE_VERSION_def)
  also have "emit_event dispatcher_id (ValueRead k_position 4096)
         (set_return_data dispatcher_id (to_le_bytes 8 (4096 :: u64)) ?w) = w_valued"
    by (rule world_eqI) (simp_all add: w_valued_def w_priced_def)
  finally show ?thesis by (simp add: current_value_def run_value_accounts)
qed

section \<open>The other four adapters\<close>

text \<open>A state account, and three accounts the price is read from.\<close>

definition w_market :: "account \<Rightarrow> account \<Rightarrow> account \<Rightarrow> account \<Rightarrow> world" where
  "w_market st a b c = w_genesis\<lparr>accounts := (accounts w_genesis)
     (k_state \<mapsto> st, k_pool \<mapsto> a, k_bank \<mapsto> b, k_other \<mapsto> c)\<rparr>"

definition demo_header :: "pubkey \<Rightarrow> adapter_state_header" where
  "demo_header p = \<lparr>hdr_position = k_position, hdr_adapter_program = p,
     hdr_created_at = 1700000000, hdr_total_shares = 20\<rparr>"

definition demo_jupiter :: jupiter_state where
  "demo_jupiter = \<lparr>js_header = demo_header jupiter_id, js_pool = k_bank, js_custody = k_group,
     js_lp_token_account = k_pool, js_lp_mint = k_other, js_bump = 255\<rparr>"

definition demo_maple :: maple_state where
  "demo_maple = \<lparr>ys_header = demo_header maple_id, ys_whirlpool = k_bank,
     ys_syrup_token_account = k_pool, ys_bump = 255\<rparr>"

definition demo_drift :: drift_state where
  "demo_drift = \<lparr>fs_header = demo_header drift_id, fs_spot_market = k_bank,
     fs_insurance_fund_stake = k_pool, fs_user_stats = k_group, fs_bump = 255\<rparr>"

lemma market_keys: "distinct [k_state, k_pool, k_bank, k_other]" "distinct [k_other, k_bank, k_pool, k_state]"
  by (simp_all add: demo_keys)

lemma market_accounts [simp]:
  "accounts (w_market st a b c) k_state = Some st"
  "account_data (w_market st a b c) k_pool = acc_data a"
  "account_data (w_market st a b c) k_bank = acc_data b"
  "account_data (w_market st a b c) k_other = acc_data c"
  using market_keys by (simp_all add: w_market_def account_data_def)

lemma held_amount:
  "jup_token_amount (acc_data (token_held m a n)) = Inr n"
  "orca_token_amount (acc_data (token_held m a n)) = Inr n"
  "fund_balance (acc_data (token_held m a n)) = unat n"
  "length (acc_data (token_held m a n)) = 165"
  by (simp_all add: jup_token_amount_def orca_token_amount_def fund_balance_def read_u64_eq
      TOKEN_AMOUNT_def ORCA_TOKEN_AMOUNT_def token_held_def demo_pack_def from_to_le_widths
      le_to_nat_word)

text \<open>Nine JLP of a pool with AUM 6 and supply 3; nine syrupUSDC at price one; half a fund of 10.\<close>

lemma run_jupiter_value:
  "\<exists>w. jupiter_current_value demo_callee [ro k_sysvar, ro k_position, ro k_state, ro k_pool, ro k_bank, ro k_other]
     [] (w_market (held jupiter_codec jupiter_id demo_jupiter 0) (token_held k_mint k_position 9)
       (raw (replicate 180 0 @ to_le_bytes 16 (6 :: u128))) (raw (replicate 36 0 @ to_le_bytes 8 (3 :: u64)))) = Inr w \<and>
     get_u64_return jupiter_id w = Some 18"
proof -
  let ?w = "w_market (held jupiter_codec jupiter_id demo_jupiter 0) (token_held k_mint k_position 9)
       (raw (replicate 180 0 @ to_le_bytes 16 (6 :: u128))) (raw (replicate 36 0 @ to_le_bytes 8 (3 :: u64)))"
  have "load_account jupiter_codec jupiter_id k_state ?w = Inr demo_jupiter"
    by (rule jupiter_state.load_held) simp_all
  moreover have "lp_value_usdc (replicate 180 0 @ to_le_bytes 16 (6 :: u128))
      (replicate 36 0 @ to_le_bytes 8 (3 :: u64)) 9 = Inr 18"
    by (simp add: lp_value_usdc_spec pool_aum_def mint_supply_def le_to_nat_word pro_rata_def)
  ultimately show ?thesis
    by (simp add: jupiter_current_value_def jupiter_value_accounts_def jupiter_value_handler_def
        run_simps adapter_seeds_def demo_jupiter_def demo_header_def MAX_ADAPTER_DATA_LEN_def
        demo_verify held_amount raw_def get_set_u64_return get_u64_return_emit)
qed

lemma run_maple_value:
  "\<exists>w. maple_current_value demo_callee [ro k_sysvar, ro k_position, ro k_state, ro k_pool, ro k_bank]
     [] (w_market (held maple_codec maple_id demo_maple 0) (token_held k_mint k_position 9)
       (raw demo_whirlpool) (raw [])) = Inr w \<and>
     get_u64_return maple_id w = Some 9"
proof -
  let ?w = "w_market (held maple_codec maple_id demo_maple 0) (token_held k_mint k_position 9)
       (raw demo_whirlpool) (raw [])"
  have "load_account maple_codec maple_id k_state ?w = Inr demo_maple"
    by (rule maple_state.load_held) simp_all
  then show ?thesis
    by (simp add: maple_current_value_def maple_value_accounts_def maple_value_handler_def
        run_simps adapter_seeds_def demo_maple_def demo_header_def MAX_ADAPTER_DATA_LEN_def
        demo_verify held_amount raw_def demo_whirlpool_value get_set_u64_return get_u64_return_emit)
qed

lemma run_drift_value:
  "\<exists>w. drift_current_value demo_callee [ro k_sysvar, ro k_position, ro k_state, ro k_pool, ro k_bank, ro k_other]
     [] (w_market (held drift_codec drift_id demo_drift 0)
       (raw (replicate 40 0 @ to_le_bytes 16 (4 :: u128))) (raw (replicate 336 0 @ to_le_bytes 16 (8 :: u128)))
       (token_held k_mint k_protocol 10)) = Inr w \<and>
     get_u64_return drift_id w = Some 5"
proof -
  let ?w = "w_market (held drift_codec drift_id demo_drift 0)
       (raw (replicate 40 0 @ to_le_bytes 16 (4 :: u128))) (raw (replicate 336 0 @ to_le_bytes 16 (8 :: u128)))
       (token_held k_mint k_protocol 10)"
  have "load_account drift_codec drift_id k_state ?w = Inr demo_drift"
    by (rule drift_state.load_held) simp_all
  moreover have "stake_value_usdc (replicate 40 0 @ to_le_bytes 16 (4 :: u128))
      (replicate 336 0 @ to_le_bytes 16 (8 :: u128)) (acc_data (token_held k_mint k_protocol 10)) = Inr 5"
    by (simp add: stake_value_usdc_spec stake_shares_of_def fund_shares_def held_amount le_to_nat_word
        pro_rata_def)
  ultimately show ?thesis
    by (simp add: drift_current_value_def drift_value_accounts_def drift_value_handler_def
        run_simps adapter_seeds_def demo_drift_def demo_header_def MAX_ADAPTER_DATA_LEN_def
        demo_verify raw_def get_set_u64_return get_u64_return_emit)
qed

text \<open>Twenty cTokens of the reserve of 3 over 2.\<close>

lemma run_kamino_value:
  "\<exists>w. kamino_current_value demo_paying [ro k_sysvar, ro k_position, ro k_state, wr k_bank, ro k_other,
       ro k_other, ro k_protocol] [] w_kamino = Inr w \<and>
     get_u64_return kamino_id w = Some 30"
proof -
  have "collateral_value_usdc demo_reserve 20 = Inr 30"
    by (simp add: collateral_value_usdc_spec demo_reserve_reads pro_rata_def)
  moreover have "reserve_last_update_slot demo_reserve = Inr 0"
    by (simp add: reserve_last_update_slot_def read_u64_eq OFF_LAST_UPDATE_SLOT_def demo_reserve_reads)
      (simp add: demo_reserve_def from_le_bytes_def)
  moreover have "accounts w_kamino k_bank = Some (raw demo_reserve)"
    "accounts w_kamino k_protocol = Some program_account"
    by (simp_all add: w_kamino_def raw_def)
  moreover have "verify_caller_is_dispatcher demo_paying (ro k_sysvar) DISPATCHER_ID = Inr ()"
    using verify_caller_ok [of "ro k_sysvar" demo_paying] demo_paying_caller by simp
  ultimately show ?thesis
    using kamino_load
    by (simp add: kamino_current_value_def kamino_value_accounts_def kamino_value_handler_def
        run_simps adapter_seeds_def demo_paying_klend MAX_ADAPTER_DATA_LEN_def raw_def
        account_data_def info_owner_def program_account_def get_set_u64_return get_u64_return_emit)
qed

end
