(* ===== verification/Demo_Deposits.thy ===== *)
theory Demo_Deposits
  imports Demo_Values
begin

text \<open>Deposits of the Jupiter and the Maple adapter on the concrete runtime.\<close>

section \<open>A protocol that pays out receipts\<close>

text \<open>The receipt account is \<open>k_vault\<close>, which every call of \<open>demo_paying\<close> brings from 20 to 30.\<close>

definition w_paid_out :: world where
  "w_paid_out = w_kamino\<lparr>accounts := (accounts w_kamino)
     (k_pool \<mapsto> token_held k_mint k_position 12, k_vault \<mapsto> token_held k_mint k_position 30)\<rparr>"

definition with_state :: "account \<Rightarrow> world \<Rightarrow> world" where
  "with_state a w = w\<lparr>accounts := (accounts w)(k_state \<mapsto> a)\<rparr>"

lemma with_state_accounts:
  "accounts (with_state a w) k_state = Some a"
  "k \<noteq> k_state \<Longrightarrow> accounts (with_state a w) k = accounts w k"
  by (simp_all add: with_state_def)

lemma paid_out_vault: "account_data (with_state a w_paid_out) k_vault = acc_data (token_held k_mint k_position 30)"
  by (simp add: with_state_def w_paid_out_def account_data_def)

lemma demo_paying_calls:
  "orca_swap demo_paying a n b (with_state s w_kamino) = Inr (with_state s w_paid_out)"
  "add_liquidity demo_paying l n extra (with_state s w_kamino) = Inr (with_state s w_paid_out)"
proof -
  have "(with_state s w_kamino)\<lparr>accounts := (accounts (with_state s w_kamino))
     (k_pool \<mapsto> token_held k_mint k_position 12, k_vault \<mapsto> token_held k_mint k_position 30)\<rparr> =
     with_state s w_paid_out"
    by (rule world_eqI) (simp_all add: with_state_def w_paid_out_def)
  then show "orca_swap demo_paying a n b (with_state s w_kamino) = Inr (with_state s w_paid_out)"
    and "add_liquidity demo_paying l n extra (with_state s w_kamino) = Inr (with_state s w_paid_out)"
    by (simp_all add: orca_swap_def add_liquidity_def Let_def split: prod.splits)
qed

lemma demo_paying_token:
  "load_token demo_paying k_pool (with_state a w_kamino) =
     Inr \<lparr>tok_mint = k_mint, tok_owner = k_position, tok_amount = 5\<rparr>"
  "load_token demo_paying k_vault (with_state a w_kamino) =
     Inr \<lparr>tok_mint = k_mint, tok_owner = k_position, tok_amount = 20\<rparr>"
  "account_executable (with_state a w_kamino) k_protocol"
  by (simp_all add: with_state_def w_kamino_def load_token_def account_executable_def)

definition jupiter_infos :: "account_info list" where
  "jupiter_infos =
     [ro k_sysvar, sg k_position, wr k_pool, wr k_state, ro k_protocol, ro k_other, ro k_other, wr k_bank,
      wr k_group, ro k_other, ro k_other, wr k_other, wr k_other, wr k_vault, ro k_token, ro k_other]"

definition w_jupiter :: world where
  "w_jupiter = with_state (held jupiter_codec jupiter_id
     (demo_jupiter\<lparr>js_lp_token_account := k_vault\<rparr>) 0) w_kamino"

lemma run_jupiter_deposit: "\<exists>w. jupiter_deposit demo_paying jupiter_infos 3 [] w_jupiter = Inr w"
proof -
  let ?s = "demo_jupiter\<lparr>js_lp_token_account := k_vault\<rparr>"
  let ?a = "held jupiter_codec jupiter_id ?s 0"
  define ctx where "ctx =
    \<lparr>jf_instructions_sysvar = ro k_sysvar, jf_position = sg k_position,
     jf_position_usdc_pool = Typed (wr k_pool) \<lparr>tok_mint = k_mint, tok_owner = k_position, tok_amount = 5\<rparr>,
     jf_adapter_state = Typed (wr k_state) ?s, jf_jupiter_program = ro k_protocol,
     jf_transfer_authority = ro k_other, jf_perpetuals = ro k_other, jf_pool = wr k_bank,
     jf_custody = wr k_group, jf_doves_price = ro k_other, jf_pythnet_price = ro k_other,
     jf_custody_token_account = wr k_other, jf_lp_token_mint = wr k_other,
     jf_lp_token_account = Typed (wr k_vault) \<lparr>tok_mint = k_mint, tok_owner = k_position, tok_amount = 20\<rparr>,
     jf_token_program = ro k_token, jf_event_authority = ro k_other, jf_remaining = []\<rparr>"
  have ld: "load_account jupiter_codec jupiter_id k_state (with_state ?a w_kamino) = Inr ?s"
    by (rule jupiter_state.load_held) (simp_all add: with_state_accounts)
  have acc: "jupiter_fund_accounts demo_paying jupiter_infos w_jupiter = Inr ctx"
    unfolding jupiter_fund_accounts_ok w_jupiter_def
    by (simp add: ctx_def jupiter_infos_def ld demo_paying_token)
      (simp add: adapter_seeds_def demo_addresses demo_jupiter_def demo_header_def)
  have sv: "ai_key (jf_instructions_sysvar ctx) = rt_instructions_sysvar demo_paying"
    by (simp add: ctx_def)
  define w2 where "w2 = emit_event jupiter_id (AdapterDepositEvent k_position 3 10)
     (set_u64_return jupiter_id 10 (with_state ?a w_paid_out))"
  have h: "jupiter_deposit_handler demo_paying ctx 3 [] w_jupiter = Inr (jupiter_book 30 ?s, w2)"
    unfolding jupiter_deposit_handler_ok [OF sv] w_jupiter_def
    by (simp add: ctx_def demo_paying_calls paid_out_vault data_fits_def MAX_ADAPTER_DATA_LEN_def
        demo_paying_caller checked_sub_def checked_add_def w2_def demo_jupiter_def demo_header_def)
  have "accounts w2 k_state = Some ?a" by (simp add: w2_def with_state_accounts)
  from jupiter_state.store_held [OF this, of "jupiter_book 30 ?s"] acc h show ?thesis
    by (simp add: jupiter_deposit_def jupiter_deposit_accounts_def jupiter_codec_def)
      (simp add: ctx_def)
qed

definition maple_infos :: "account_info list" where
  "maple_infos =
     [ro k_sysvar, sg k_position, wr k_pool, wr k_state, ro k_protocol, wr k_bank, wr k_vault, wr k_other,
      wr k_other, wr k_other, wr k_other, wr k_other, wr k_other, ro k_token]"

definition w_maple :: world where
  "w_maple = with_state (held maple_codec maple_id
     (demo_maple\<lparr>ys_syrup_token_account := k_vault\<rparr>) 0) w_kamino"

lemma run_maple_deposit: "\<exists>w. maple_deposit demo_paying maple_infos 3 [] w_maple = Inr w"
proof -
  let ?s = "demo_maple\<lparr>ys_syrup_token_account := k_vault\<rparr>"
  let ?a = "held maple_codec maple_id ?s 0"
  define ctx where "ctx =
    \<lparr>yf_instructions_sysvar = ro k_sysvar, yf_position = sg k_position,
     yf_position_usdc_pool = Typed (wr k_pool) \<lparr>tok_mint = k_mint, tok_owner = k_position, tok_amount = 5\<rparr>,
     yf_adapter_state = Typed (wr k_state) ?s, yf_orca_program = ro k_protocol, yf_whirlpool = wr k_bank,
     yf_syrup_token_account = Typed (wr k_vault) \<lparr>tok_mint = k_mint, tok_owner = k_position, tok_amount = 20\<rparr>,
     yf_vault_a = wr k_other, yf_vault_b = wr k_other, yf_tick_array_0 = wr k_other,
     yf_tick_array_1 = wr k_other, yf_tick_array_2 = wr k_other, yf_oracle = wr k_other,
     yf_token_program = ro k_token\<rparr>"
  have ld: "load_account maple_codec maple_id k_state (with_state ?a w_kamino) = Inr ?s"
    by (rule maple_state.load_held) (simp_all add: with_state_accounts)
  have acc: "maple_fund_accounts demo_paying maple_infos w_maple = Inr ctx"
    unfolding maple_fund_accounts_ok w_maple_def
    by (simp add: ctx_def maple_infos_def ld demo_paying_token)
      (simp add: adapter_seeds_def demo_addresses demo_maple_def demo_header_def)
  have sv: "ai_key (yf_instructions_sysvar ctx) = rt_instructions_sysvar demo_paying"
    by (simp add: ctx_def)
  define w2 where "w2 = emit_event maple_id (AdapterDepositEvent k_position 3 10)
     (set_u64_return maple_id 10 (with_state ?a w_paid_out))"
  have h: "maple_deposit_handler demo_paying ctx 3 [] w_maple = Inr (maple_book 30 ?s, w2)"
    unfolding maple_deposit_handler_ok [OF sv] w_maple_def
    by (simp add: ctx_def demo_paying_calls paid_out_vault data_fits_def MAX_ADAPTER_DATA_LEN_def
        demo_paying_caller checked_sub_def checked_add_def w2_def demo_maple_def demo_header_def)
  have "accounts w2 k_state = Some ?a" by (simp add: w2_def with_state_accounts)
  from maple_state.store_held [OF this, of "maple_book 30 ?s"] acc h show ?thesis
    by (simp add: maple_deposit_def maple_deposit_accounts_def maple_codec_def)
      (simp add: ctx_def)
qed

end
