(* ===== verification/Spec2Isabelle.thy ===== *)
theory Spec2Isabelle
  imports Demo_Deposits
begin

text \<open>
  A verification library for the Solana yield-adapter standard: the interface crate
  (crates/adapter-interface), the dispatcher program (programs/dispatcher) and the five adapter
  programs (programs/kamino-usdc, marginfi-usdc, jupiter-lp, maple-syrup, drift-if).

  The program.  A user deposits USDC with the dispatcher, which moves it into a pool owned by the
  user's position (a program-derived account) and calls the adapter program the position was
  opened with; the adapter deposits into its yield protocol, books the shares it received in a
  state account of its own (one per position, beginning with a common header) and returns them.
  A withdrawal runs the other way.  An admin keeps a registry of the adapters the dispatcher may
  call, and can pause each of them.

  Parts.

  Prelude: machine integers, results, checked arithmetic, slices and little-endian codecs.
  Errors: the two error enums with their Anchor codes.
  Runtime: accounts, instructions, events, and the record \<open>runtime\<close> of everything the source
  calls outside the repository (CPI, program addresses, the token, System and ATA programs, the
  clock and the instructions sysvar), which is an argument of every operation that uses it.
  Anchor: the part of the framework the source uses: Borsh codecs, account discriminators, the
  account wrappers, the constraint attributes, the write-back at the end of an instruction; and
  the views of a world as maps from addresses to typed accounts.

  Interface: the interface crate; discriminators, argument encoders, the derived decoder, the
  header, return data, the caller check.
  Dispatcher_State, Registry, Routing, Dispatcher: the dispatcher's state.rs and constants.rs, its
  three governance instructions, routing.rs, and its four routed instructions.  An instruction
  \<open>x\<close> is \<open>x_accounts\<close> (what \<open>#[derive(Accounts)]\<close> checks, in its order), \<open>x_handler\<close> (the
  handler) and their composition \<open>x\<close> (the entry in \<open>#[program]\<close>) with the write-back.
  Dispatcher_Safety: the dispatcher as a transition system.

  Pricing, Adapter: what the adapters share; reading integers out of account data, the pro-rata
  price, the record \<open>adapter\<close> of a program that offers the four instructions.
  Klend, Marginfi_Cpi, Jup_Cpi, Orca_Cpi, Drift_Cpi: the protocol modules (klend_cpi.rs and its
  counterparts): byte offsets, price functions, CPI builders.
  Kamino, Marginfi, Jupiter, Maple, Drift: each adapter's state.rs and its four instructions.

  System, Payouts, Valuation: the dispatcher calling an adapter; where reported amounts and values
  come from.
  Demo, Demo_Data, Demo_Runs, Demo_Adapters, Demo_Values, Demo_Deposits: a concrete runtime
  and concrete runs on it.

  Interfaces.  \<open>borsh_type\<close> and \<open>anchor_account\<close> (Anchor) are the contracts of a serialised type
  and an account type, interpreted for the header and all eight account types.  \<open>share_pricing\<close>
  (Pricing) is the contract of a price of shares, interpreted for the reference \<open>pro_rata\<close> and
  for the Kamino, Jupiter and Maple prices.  \<open>adapter_standard\<close> (Adapter) is the promise of
  docs/SPEC.md: each instruction is a step of an abstract share ledger, refuses callers other
  than the dispatcher and reports its result; \<open>paying_adapter\<close> (Payouts) adds that the amount a
  withdrawal reports is what the pool received, \<open>valued_adapter\<close> (Valuation) that the value
  reported is the worth of the holdings the adapter's state records.  All five adapters are
  interpretations of the three.  \<open>guarded_adapter\<close> (Adapter) adds that a withdrawal burns exactly the
  shares it is given; Kamino, Jupiter, Maple and Drift are interpretations of it.  MarginFi is not:
  it accepts a withdrawal of more shares than are booked, empties the row and logs the request.

  Lemma groups.  In each component: inversion lemmas (\<open>..._ok\<close>) that say what success of an
  operation means, which cover every guard of the code; what an operation does to the views of the
  world; equality of the price functions with reference formulas over the naturals on all
  inputs, errors included.  In Registry: the abstract governance state, its three signed steps, an
  invariant, and the refinement of each instruction to a step.  In Adapter: the share ledger, its
  four steps, an invariant linking the ledger with the log of events, and its preservation along
  every run of an adapter; the log is read as sums (\<open>minted\<close>, \<open>requested\<close>), and \<open>overdrawn\<close> is what
  withdrawals stated beyond the shares then booked, which is zero for a guarded adapter.  In Dispatcher_Safety: the invariant and the permanence of positions
  along every run of the dispatcher, interleaved with anything else the chain does.  In System,
  Payouts and Valuation: what a whole instruction of the dispatcher does (opening, deposit,
  withdrawal, reading a value), from its entry to the adapter's ledger, the token balances, the
  return data and the events.

  Assumptions on code outside the repository.  They are hypotheses of the theorems that need
  them: \<open>calls_isolate\<close> (a program called by CPI does not write the accounts of its caller),
  \<open>system_creates\<close> (account creation fails on an address in use and otherwise makes an empty
  account of the given owner and size), \<open>token_moves\<close> (a token transfer moves the amount between
  the two accounts and touches nothing else), \<open>hosts\<close> (a CPI to a deployed adapter runs its entry
  point), \<open>sysvar_reports\<close> (the instructions sysvar lists the top-level instructions of the
  transaction), and \<open>chain\<close> (the previous laws for every runtime a run meets, since the clock and
  the sysvar differ between transactions).  Demo proves that one concrete runtime satisfies
  all of them.  Reachability has no bound on the number of steps; nothing here uses fuel, and
  every loop of the source is bounded (the sixteen balances of a MarginFi account, the lists of
  accounts), so every operation is a total function.

  Conventions.  An address that holds no account and one that holds only lamports are the same.
  A \<open>Pubkey\<close> is a number; a signed integer is a word read with \<open>sint\<close>; a \<open>String\<close> is its UTF-8
  bytes.  A failed instruction has no world: the transaction's effects are undone, as on chain.
  Offsets, discriminators and program ids are the literals of the source.

  Not modelled: lamports and rent, compute units and the heap, the log lines of \<open>msg!\<close>, and the
  memory aliasing that the runtime checks at CPI (a borrow held across an invoke).  Solana,
  Anchor's macros beyond the behaviour above, the SPL programs and the five protocols are
  parameters.  The module files (mod.rs), the IDL under target/, the tests under tests/ and the
  scripts have no logic of the program.  The rows of the adapters are not tied to the open positions
  of the dispatcher by an invariant: the caller check of the adapters does not exclude other
  programs called in a dispatcher transaction, so no such invariant holds.
\<close>

section \<open>The dispatcher and an adapter together\<close>

text \<open>
  C1: a deposit through the dispatcher into any program that implements the adapter standard adds
  exactly the reported shares to the one ledger row of the position, changes no other row, and
  ends the log with the adapter's and the dispatcher's events of the same amount and shares.
\<close>

theorem deposit_books_shares:
  assumes "adapter_standard A" and "hosts rt r A" and "calls_isolate r (ad_id A)"
    and "calls_isolate rt dispatcher_id" and "token_moves rt"
    and "ad_id A \<noteq> dispatcher_id" and "ad_id A \<noteq> rt_token_program rt"
    and "fund_accounts rt infos w = Inr ctx" and "ai_key (fu_adapter_program ctx) = ad_id A"
    and "deposit rt infos amount w = Inr w'"
  shows "\<exists>k h m n es.
     ledger_of A w k = Some h \<and> hdr_position h = ty_key (fu_position ctx) \<and>
     unat n = unat (hdr_total_shares h) + unat m \<and>
     ledger_of A w' = (ledger_of A w)(k \<mapsto> book n h) \<and>
     events w' = events w @ es @
       [(ad_id A, AdapterDepositEvent (ty_key (fu_position ctx)) amount m),
        (dispatcher_id, Deposited (ty_key (fu_position ctx)) amount m)]"
  by (rule adapter_standard.deposit_end_to_end [OF assms])

theorem deposit_books_shares_witness:
  "\<exists>k h m n es.
     ledger_of marginfi w_opened k = Some h \<and> hdr_position h = k_position \<and>
     unat n = unat (hdr_total_shares h) + unat m \<and>
     ledger_of marginfi w_deposited = (ledger_of marginfi w_opened)(k \<mapsto> book n h) \<and>
     events w_deposited = events w_opened @ es @
       [(marginfi_id, AdapterDepositEvent k_position 50 m), (dispatcher_id, Deposited k_position 50 m)]"
  using deposit_books_shares [OF marginfi.adapter_standard_axioms demo_hosts _ demo_isolates
      demo_token_moves _ _ run_demo_accounts(1) _ run_deposit]
    demo_callee_isolates [OF program_ids(3)] program_ids
  by (simp add: demo_fund_ctx_def)

text \<open>
  C6: a withdrawal through the dispatcher takes exactly the given shares off the one ledger row of
  the position when that many are booked; when fewer are booked it empties the row, and this can
  only happen with an adapter that does not guard its withdrawals (MarginFi).  No other row changes,
  and the log ends with the adapter's and the dispatcher's events of the same shares and payout.
\<close>

theorem withdraw_burns_shares:
  assumes "adapter_standard A" and "hosts rt r A" and "calls_isolate r (ad_id A)"
    and "calls_isolate rt dispatcher_id" and "token_moves rt"
    and "ad_id A \<noteq> dispatcher_id" and "ad_id A \<noteq> rt_token_program rt"
    and "fund_accounts rt infos w = Inr ctx" and "ai_key (fu_adapter_program ctx) = ad_id A"
    and "withdraw rt infos shares w = Inr w'"
  shows "\<exists>k h a n es.
     ledger_of A w k = Some h \<and> hdr_position h = ty_key (fu_position ctx) \<and>
     (shares \<le> hdr_total_shares h \<longrightarrow> unat n + unat shares = unat (hdr_total_shares h)) \<and>
     (hdr_total_shares h < shares \<longrightarrow> n = 0) \<and>
     (guarded_adapter A \<longrightarrow> shares \<le> hdr_total_shares h) \<and>
     ledger_of A w' = (ledger_of A w)(k \<mapsto> book n h) \<and>
     events w' = events w @ es @
       [(ad_id A, AdapterWithdrawEvent (ty_key (fu_position ctx)) shares a),
        (dispatcher_id, Withdrawn (ty_key (fu_position ctx)) shares a)]"
  by (rule adapter_standard.withdraw_end_to_end [OF assms])

theorem withdraw_burns_shares_witness:
  "\<exists>k h a n es.
     ledger_of marginfi w_deposited k = Some h \<and> hdr_position h = k_position \<and>
     (30 \<le> hdr_total_shares h \<longrightarrow> unat n + 30 = unat (hdr_total_shares h)) \<and>
     ledger_of marginfi w_withdrawn = (ledger_of marginfi w_deposited)(k \<mapsto> book n h) \<and>
     events w_withdrawn = events w_deposited @ es @
       [(marginfi_id, AdapterWithdrawEvent k_position 30 a), (dispatcher_id, Withdrawn k_position 30 a)]"
  using withdraw_burns_shares [OF marginfi.adapter_standard_axioms demo_hosts _ demo_isolates
      demo_token_moves _ _ run_demo_accounts(2) _ run_withdraw]
    demo_callee_isolates [OF program_ids(3)] program_ids
  by (simp add: demo_fund_ctx_def) blast

text \<open>
  C2: a withdrawal pays the owner exactly what the protocol paid into the position's pool during
  the adapter's call.  \<open>w1\<close> is the world that the one call of the adapter, on the world before the
  instruction and signed for by the position, leaves, and \<open>a\<close> its result: the pool has grown by \<open>a\<close> in
  \<open>w1\<close> and ends where it started, the owner's token account ends \<open>a\<close> above its balance in \<open>w1\<close>, no
  account but these two and the position differs from \<open>w1\<close>, and the event states \<open>a\<close>.
\<close>

theorem withdraw_pays_exactly:
  assumes "paying_adapter A" and "hosts rt r A" and "token_moves rt"
    and "rt_token_unpack r = rt_token_unpack rt" and "rt_token_program r = rt_token_program rt"
    and "ad_id A \<noteq> rt_token_program rt" and "dispatcher_id \<noteq> rt_token_program rt"
    and "fund_accounts rt infos w = Inr ctx" and "ai_key (fu_adapter_program ctx) = ad_id A"
    and "ty_key (fu_position_usdc_pool ctx) \<noteq> ty_key (fu_owner_usdc_ata ctx)"
    and "withdraw rt infos shares w = Inr w'"
  shows "\<exists>w1 a.
     route_withdraw rt (fu_adapter_program ctx) (fu_instructions_sysvar ctx)
       (ty_info (fu_position ctx)) (ty_info (fu_position_usdc_pool ctx)) (fu_adapter_state ctx)
       (fu_remaining ctx) shares [position_seeds (ty_val (fu_position ctx))] w = Inr (a, w1) \<and>
     balance rt w1 (ty_key (fu_position_usdc_pool ctx)) =
       balance rt w (ty_key (fu_position_usdc_pool ctx)) + unat a \<and>
     balance rt w' (ty_key (fu_position_usdc_pool ctx)) =
       balance rt w (ty_key (fu_position_usdc_pool ctx)) \<and>
     balance rt w' (ty_key (fu_owner_usdc_ata ctx)) =
       balance rt w1 (ty_key (fu_owner_usdc_ata ctx)) + unat a \<and>
     (\<forall>k. k \<noteq> ty_key (fu_position_usdc_pool ctx) \<and> k \<noteq> ty_key (fu_owner_usdc_ata ctx) \<and>
          k \<noteq> ty_key (fu_position ctx) \<longrightarrow> accounts w' k = accounts w1 k) \<and>
     last (events w') = (dispatcher_id, Withdrawn (ty_key (fu_position ctx)) shares a)"
  by (rule paying_adapter.withdraw_pays_owner [OF assms])

theorem withdraw_pays_exactly_witness:
  "\<exists>w1 a. route_withdraw demo (ro marginfi_id) (ro k_sysvar) (wr k_position) (wr k_pool) (wr k_state)
       (adapter_tail @ [ro k_other, wr k_vault, ro k_token, ro k_other]) 30
       [position_seeds demo_position] w_deposited = Inr (a, w1) \<and>
     balance demo w1 k_pool = balance demo w_deposited k_pool + unat a \<and>
     balance demo w_withdrawn k_pool = balance demo w_deposited k_pool \<and>
     balance demo w_withdrawn k_owner_ata = balance demo w1 k_owner_ata + unat a \<and>
     last (events w_withdrawn) = (dispatcher_id, Withdrawn k_position 30 a)"
  using withdraw_pays_exactly [OF marginfi_pays.paying_adapter_axioms demo_hosts demo_token_moves
      _ _ _ _ run_demo_accounts(2) _ _ run_withdraw] program_ids
  by (simp add: demo_fund_ctx_def) blast

text \<open>
  C7: before the adapter is called, exactly the deposited amount has moved from the owner's token
  account into the position's pool and no other account has changed; the call runs on that world,
  signed with the seeds of the position.
\<close>

theorem deposit_escrows_amount:
  assumes "token_moves rt" and "deposit_handler rt ctx amount w = Inr w'"
    and "ty_key (fu_position_usdc_pool ctx) \<noteq> ty_key (fu_owner_usdc_ata ctx)"
  shows "\<exists>w1 w2 m.
     balance rt w1 (ty_key (fu_owner_usdc_ata ctx)) + unat amount =
       balance rt w (ty_key (fu_owner_usdc_ata ctx)) \<and>
     balance rt w1 (ty_key (fu_position_usdc_pool ctx)) =
       balance rt w (ty_key (fu_position_usdc_pool ctx)) + unat amount \<and>
     (\<forall>k. k \<noteq> ty_key (fu_owner_usdc_ata ctx) \<and> k \<noteq> ty_key (fu_position_usdc_pool ctx) \<longrightarrow>
        accounts w1 k = accounts w k) \<and>
     route_deposit rt (fu_adapter_program ctx) (fu_instructions_sysvar ctx)
       (ty_info (fu_position ctx)) (ty_info (fu_position_usdc_pool ctx)) (fu_adapter_state ctx)
       (fu_remaining ctx) amount [position_seeds (ty_val (fu_position ctx))] w1 = Inr (m, w2) \<and>
     w' = emit_event dispatcher_id (Deposited (ty_key (fu_position ctx)) amount m) w2"
  by (rule deposit_escrows [OF assms])

theorem deposit_escrows_amount_witness:
  "\<exists>w1. balance demo w1 k_owner_ata + 50 = balance demo w_opened k_owner_ata \<and>
        balance demo w1 k_pool = balance demo w_opened k_pool + 50"
proof -
  from run_deposit run_demo_accounts(1) obtain w' where
    "deposit_handler demo (demo_fund_ctx w_opened 0 1000 (adapter_tail @ [wr k_vault, ro k_token])) 50
       w_opened = Inr w'"
    by (auto simp: deposit_def deposit_accounts_def and_then_eq_Inr)
  from deposit_escrows_amount [OF demo_token_moves this] show ?thesis
    by (auto simp: demo_fund_ctx_def)
qed

section \<open>Opening a position and reading its value\<close>

text \<open>
  C8: opening a position creates the position, with its fields, at its own address, and one empty
  row in the ledger of the adapter, at the address derived from the position; both were free, and
  no other position and no other row changes.
\<close>

theorem open_position_creates_row:
  assumes "adapter_standard A" and "hosts rt r A" and "calls_isolate r (ad_id A)"
    and "calls_isolate rt (ad_id A)" and "calls_isolate rt dispatcher_id"
    and "system_creates rt" and "system_creates r" and "ad_id A \<noteq> dispatcher_id"
    and "open_position_accounts rt infos w = Inr (ctx, w2)"
    and "ai_key (op_adapter_program ctx) = ad_id A" and "open_position rt infos w = Inr w'"
  shows "positions_of w (ai_key (op_position ctx)) = None \<and>
     positions_of w' = (positions_of w)(ai_key (op_position ctx) \<mapsto> opened_position rt ctx) \<and>
     ledger_of A w (adapter_address r (ad_id A) (ai_key (op_position ctx))) = None \<and>
     ledger_of A w' = (ledger_of A w)(adapter_address r (ad_id A) (ai_key (op_position ctx)) \<mapsto>
       \<lparr>hdr_position = ai_key (op_position ctx), hdr_adapter_program = ad_id A,
        hdr_created_at = clock_unix_timestamp (rt_clock r), hdr_total_shares = 0\<rparr>) \<and>
     last (events w') = (dispatcher_id,
       PositionOpened (ai_key (op_owner ctx)) (ad_id A) (ai_key (op_position ctx)))"
  by (rule adapter_standard.open_position_end_to_end [OF assms])

theorem open_position_creates_row_witness:
  "positions_of w_opened k_position = Some demo_position \<and>
   (\<exists>h. ledger_of marginfi w_opened k_state = Some h \<and> hdr_total_shares h = 0)"
proof -
  from run_open_position obtain ctx w2 where acc: "open_position_accounts demo
     [sg k_owner, ro k_entry, ro marginfi_id, wr k_position, ro k_mint, wr k_pool, wr k_state,
      ro k_sysvar, ro k_system, ro k_token, ro k_ata, ro k_protocol, ro k_group, wr k_mfi_account,
      ro k_bank] w_approved = Inr (ctx, w2)"
    by (auto simp: open_position_def and_then_eq_Inr)
  then have "op_owner ctx = sg k_owner" "op_adapter_program ctx = ro marginfi_id"
    "op_position ctx = wr k_position" "op_usdc_mint ctx = ro k_mint"
    "op_position_usdc_pool ctx = wr k_pool" "op_position_bump ctx = 255"
    by (auto simp: open_position_accounts_ok)
  then have "ai_key (op_adapter_program ctx) = ad_id marginfi" "ai_key (op_position ctx) = k_position"
    "opened_position demo ctx = demo_position"
    by (simp_all add: opened_position_def demo_position_def)
  with open_position_creates_row [OF marginfi.adapter_standard_axioms demo_hosts _ _ demo_isolates
      demo_system_creates(2,1) _ acc _ run_open_position] program_ids
    demo_callee_isolates [OF program_ids(3)] demo_adapter_isolates
  show ?thesis by (simp add: demo_row_address)
qed

text \<open>
  C11: reading a value through the dispatcher returns, as the dispatcher's own return data, exactly
  the value that the adapter reports for the position in its event, and books nothing.
\<close>

theorem current_value_is_relayed:
  assumes "adapter_standard A" and "hosts rt r A" and "calls_isolate r (ad_id A)"
    and "current_value_accounts rt infos w = Inr ctx" and "ai_key (cv_adapter_program ctx) = ad_id A"
    and "current_value rt infos w = Inr w'"
  shows "\<exists>h v slot es.
     h \<in> ran (ledger_of A w) \<and> hdr_position h = ty_key (cv_position ctx) \<and>
     ledger_of A w' = ledger_of A w \<and>
     return_data w' = Some (dispatcher_id, to_le_bytes 8 v) \<and>
     events w' = events w @ es @
       [(ad_id A, AdapterValueEvent (ty_key (cv_position ctx)) v slot),
        (dispatcher_id, ValueRead (ty_key (cv_position ctx)) v)]"
  by (rule adapter_standard.current_value_end_to_end [OF assms])

theorem current_value_is_relayed_witness:
  "\<exists>v. return_data w_valued = Some (dispatcher_id, to_le_bytes 8 (v :: u64)) \<and>
       ledger_of marginfi w_valued = ledger_of marginfi w_priced"
  using current_value_is_relayed [OF marginfi.adapter_standard_axioms demo_hosts _ run_value_accounts
      _ run_value] demo_callee_isolates [OF program_ids(3)]
  by (auto simp: value_ctx_def)

text \<open>
  C10: the value the dispatcher returns for a MarginFi position is the fixed-point product of the
  shares that the MarginFi account named in the position's own state holds at the bank named there,
  and that bank's share value: no account the caller passes can change it.
\<close>

theorem marginfi_value_through_dispatcher:
  assumes "hosts rt r marginfi"
    and "current_value_accounts rt infos w = Inr ctx" and "ai_key (cv_adapter_program ctx) = marginfi_id"
    and "current_value rt infos w = Inr w'"
  shows "\<exists>s shares share_value v.
     load_account marginfi_codec marginfi_id (ai_key (cv_adapter_state ctx)) w = Inr s \<and>
     hdr_position (ms_header s) = ty_key (cv_position ctx) \<and>
     account_asset_shares (account_data w (ms_marginfi_account s)) (ms_bank s) = Inr shares \<and>
     bank_asset_share_value (account_data w (ms_bank s)) = Inr share_value \<and>
     shares_to_usdc shares share_value = Inr v \<and>
     return_data w' = Some (dispatcher_id, to_le_bytes 8 v)"
proof -
  have data: "account_data (w\<lparr>return_data := None\<rparr>) k = account_data w k" for k
    by (simp add: account_data_def)
  show ?thesis
    using marginfi_values.dispatcher_relays_worth [OF assms(1,2) _ assms(4)] assms(3)
    by (fastforce simp: marginfi_worth_def and_then_eq_Inr data)
qed

theorem marginfi_value_through_dispatcher_witness:
  "\<exists>v. return_data w_valued = Some (dispatcher_id, to_le_bytes 8 (v :: u64))"
  using marginfi_value_through_dispatcher [OF demo_hosts run_value_accounts _ run_value]
  by (auto simp: value_ctx_def)

text \<open>
  C9: the value that the MarginFi, Jupiter and Maple adapters report is the worth of the holdings of
  the position's own state, a function of that state and of the accounts named in it: the MarginFi
  shares at the bank's share value, the JLP balance at the pool's price, the syrupUSDC balance at the
  whirlpool's price.  No account the caller passes has a part in it.
\<close>

theorem values_are_worth:
  "(marginfi_current_value rt infos data w = Inr w' \<longrightarrow>
      reports_worth marginfi (\<lambda>_ _. marginfi_worth) rt infos w w') \<and>
   (jupiter_current_value rt infos data w = Inr w' \<longrightarrow>
      reports_worth jupiter (\<lambda>_ _. jupiter_worth) rt infos w w') \<and>
   (maple_current_value rt infos data w = Inr w' \<longrightarrow>
      reports_worth maple (\<lambda>_ _. maple_worth) rt infos w w')"
  using marginfi_values.value_worth jupiter_values.value_worth maple_values.value_worth by simp

theorem values_are_worth_witness:
  "(\<exists>rt infos w w'. reports_worth marginfi (\<lambda>_ _. marginfi_worth) rt infos w w') \<and>
   (\<exists>rt infos w w'. reports_worth jupiter (\<lambda>_ _. jupiter_worth) rt infos w w' \<and>
      get_u64_return jupiter_id w' = Some 18) \<and>
   (\<exists>rt infos w w'. reports_worth maple (\<lambda>_ _. maple_worth) rt infos w w' \<and>
      get_u64_return maple_id w' = Some 9)"
  using run_marginfi_value run_jupiter_value run_maple_value values_are_worth by metis

text \<open>
  C39: the values in which the caller has a part.  The Kamino value is the price of the booked shares
  in the reserve the state names, as a refresh of that reserve by the program that owns it leaves
  it; the lending market and the price feed of that call are the caller's.  The Drift value prices
  the stake and the market that the state names against the balance of the account the caller
  passes as vault, which nothing binds to the state.
\<close>

theorem caller_dependent_values:
  "(kamino_current_value rt infos data w = Inr w' \<longrightarrow>
      (\<exists>s w1 v. load_account kamino_codec kamino_id (ai_key (infos ! 2)) w = Inr s \<and>
         hdr_position (ks_header s) = slot_position infos \<and>
         ai_key (infos ! 3) = ks_kamino_reserve s \<and>
         info_owner rt w (ks_kamino_reserve s) = ai_key (infos ! 6) \<and>
         refresh_reserve rt (infos ! 6) (infos ! 3) (infos ! 4) (infos ! 5) w = Inr w1 \<and>
         kamino_worth s w1 = Inr v \<and> get_u64_return kamino_id w' = Some v)) \<and>
   (drift_current_value rt infos data w = Inr w' \<longrightarrow>
      (\<exists>s v. load_account drift_codec drift_id (ai_key (infos ! 2)) w = Inr s \<and>
         hdr_position (fs_header s) = slot_position infos \<and>
         drift_worth (ai_key (infos ! 5)) s w = Inr v \<and> get_u64_return drift_id w' = Some v))"
  using kamino_value_worth [of rt infos data w w'] drift_value_worth [of rt infos data w w']
    kamino_reserve_bound [of rt infos data w w']
  by (fastforce simp: reports_worth_def kamino_refreshed_worth_def and_then_eq_Inr)

theorem caller_dependent_values_witness:
  "(\<exists>(s :: kamino_state) w1. kamino_worth s w1 = Inr 30) \<and>
   (\<exists>vault (s :: drift_state) w. drift_worth vault s w = Inr 5)"
proof -
  from run_kamino_value obtain w where
    k: "kamino_current_value demo_paying [ro k_sysvar, ro k_position, ro k_state, wr k_bank, ro k_other,
       ro k_other, ro k_protocol] [] w_kamino = Inr w" and v: "get_u64_return kamino_id w = Some 30"
    by blast
  from caller_dependent_values [THEN conjunct1, rule_format, OF k] v
  have "\<exists>(s :: kamino_state) w1. kamino_worth s w1 = Inr 30" by auto
  moreover from run_drift_value obtain rt infos w0 w1 where
    d: "drift_current_value rt infos [] w0 = Inr w1" and u: "get_u64_return drift_id w1 = Some 5"
    by blast
  from caller_dependent_values [THEN conjunct2, rule_format, OF d] u
  have "\<exists>vault (s :: drift_state) w. drift_worth vault s w = Inr 5" by auto
  ultimately show ?thesis by blast
qed

section \<open>Every reachable world\<close>

text \<open>
  C4: in every world the dispatcher can reach, whatever the rest of the chain does, the only
  registry is the canonical one, it counts the whitelist entries, there are at most 256 of them,
  and every entry sits at the address of the program it approves, at this interface version.
\<close>

theorem registry_invariant:
  assumes "chain dispatcher_id rt R" and "dispatcher_reachable R w"
  shows "governance_inv rt (governance_of w)"
  by (rule dispatcher_reachable_inv [OF assms])

theorem registry_invariant_witness:
  "governance_inv demo (governance_of w_withdrawn)"
  by (rule registry_invariant [OF demo_chain demo_run_reachable(4)])

text \<open>
  C15: every step of the dispatcher refines the governance specification: it leaves registry and
  whitelist alone, or is a step signed by the recorded admin (or the creation of the registry).
\<close>

theorem dispatcher_refines_governance:
  assumes "system_creates rt" and "calls_isolate rt dispatcher_id"
    and "dispatcher_step rt w w'" and "governance_inv rt (governance_of w)"
  shows "governance_of w' = governance_of w \<or>
         (\<exists>s. governance_step rt s (governance_of w) (governance_of w'))"
  by (rule dispatcher_step_refines [OF assms])

theorem dispatcher_refines_governance_witness:
  "governance_of w_approved = governance_of w_registry \<or>
   (\<exists>s. governance_step demo s (governance_of w_registry) (governance_of w_approved))"
  by (rule dispatcher_refines_governance [OF demo_system_creates(2) demo_isolates
        dispatcher_step.whitelist_adapter [OF run_whitelist_adapter]
        dispatcher_reachable_inv [OF demo_chain demo_run_reachable(1)]])

text \<open>
  C16: only the admin changes the whitelist: whitelisting and pausing succeed only when the first
  account signs, and the change is a governance step of that signer, which the specification
  allows to the admin recorded in the registry only.
\<close>

theorem whitelist_needs_admin:
  assumes "system_creates rt" and "governance_inv rt (governance_of w)"
    and "whitelist_adapter rt infos name v w = Inr w' \<or> pause_adapter rt infos paused w = Inr w'"
  shows "\<exists>admin rest. infos = admin # rest \<and> ai_signer admin \<and>
           governance_step rt (ai_key admin) (governance_of w) (governance_of w')"
  using assms whitelist_adapter_refines pause_adapter_refines by blast

theorem whitelist_needs_admin_witness:
  "governance_step demo k_owner (governance_of w_registry) (governance_of w_approved)"
  using whitelist_needs_admin [OF demo_system_creates(2)
      dispatcher_reachable_inv [OF demo_chain demo_run_reachable(1)] disjI1 [OF run_whitelist_adapter]]
  by auto

text \<open>
  C18: no step of the dispatcher, and nothing the rest of the chain does, changes or removes a
  position once it is open.
\<close>

theorem positions_are_permanent:
  assumes "system_creates rt" and "calls_isolate rt dispatcher_id" and "dispatcher_step rt w w'"
  shows "positions_of w \<subseteq>\<^sub>m positions_of w'"
  by (rule dispatcher_step_positions [OF assms])

theorem positions_are_permanent_witness:
  "positions_of w_opened \<subseteq>\<^sub>m positions_of w_deposited \<and> positions_of w_opened k_position = Some demo_position"
proof -
  have "load_account position_codec dispatcher_id k_position w_opened = Inr demo_position"
    by (rule position.load_held) simp_all
  moreover have "positions_of w_opened \<subseteq>\<^sub>m positions_of w_deposited"
    by (rule positions_are_permanent [OF demo_system_creates(2) demo_isolates
          dispatcher_step.deposit [OF run_deposit]])
  ultimately show ?thesis by (simp add: positions_of_def account_view_eq_Some)
qed

text \<open>
  C12: in every world the Kamino adapter can reach, whatever runs in between, the shares booked for a
  position are what the adapter's own events for it replay to, and also plainly the sum of its
  deposit events less the sum of its withdrawal events; the row names this program and sits at the
  position's address.
\<close>

theorem kamino_shares_are_replay:
  assumes "chain kamino_id rt R" and "adapter_reachable kamino R w" and "ledger_of kamino w k = Some h"
  shows "unat (hdr_total_shares h) = replay kamino_id (hdr_position h) (events w) \<and>
         unat (hdr_total_shares h) + requested kamino_id (hdr_position h) (events w) =
           minted kamino_id (hdr_position h) (events w) \<and>
         hdr_adapter_program h = kamino_id \<and> k = adapter_address rt kamino_id (hdr_position h)"
  using kamino.shares_are_replay [of rt R w k h] kamino.shares_are_sum [of rt R w k h] assms by simp

theorem kamino_shares_are_replay_witness:
  "\<exists>w h. adapter_reachable kamino {demo_callee} w \<and> ledger_of kamino w k_state = Some h \<and>
     unat (hdr_total_shares h) = replay kamino_id (hdr_position h) (events w)"
  using demo_starts(1) kamino_shares_are_replay [OF demo_callee_chain [OF program_ids(2)]] by metis

text \<open>
  C13: in every world the MarginFi adapter can reach, whatever runs in between, the shares booked for a
  position are its deposit events less its withdrawal events, plus what those withdrawals asked for
  beyond the shares then booked.  The row names this program and sits at the position's address.
\<close>

theorem marginfi_shares_and_overdrafts:
  assumes "chain marginfi_id rt R" and "adapter_reachable marginfi R w" and "ledger_of marginfi w k = Some h"
  shows "unat (hdr_total_shares h) + requested marginfi_id (hdr_position h) (events w) =
           minted marginfi_id (hdr_position h) (events w) + overdrawn marginfi_id (hdr_position h) (events w) \<and>
         hdr_adapter_program h = marginfi_id \<and> k = adapter_address rt marginfi_id (hdr_position h)"
  using marginfi.shares_are_replay [of rt R w k h] replay_sum [of marginfi_id "hdr_position h" "events w"]
    assms by simp

theorem marginfi_shares_and_overdrafts_witness:
  "20 + requested marginfi_id k_position (events w_burned) =
     minted marginfi_id k_position (events w_burned) + overdrawn marginfi_id k_position (events w_burned) \<and>
   (\<exists>w. adapter_reachable marginfi {demo_callee} w \<and>
      requested marginfi_id k_position (events w) =
        minted marginfi_id k_position (events w) + overdrawn marginfi_id k_position (events w) \<and>
      overdrawn marginfi_id k_position (events w) = 10)"
proof -
  note chain = demo_callee_chain [OF program_ids(3)]
  obtain w where r: "adapter_reachable marginfi {demo_callee} w"
    and row: "ledger_of marginfi w k_state = Some (ms_header (demo_state 0))"
    and ev: "events w = events w_deposited @ [(marginfi_id, AdapterWithdrawEvent k_position 60 7)]"
    using marginfi_overdrawn_reachable by blast
  have "replay marginfi_id k_position (events w_deposited) = 50 \<and>
        overdrawn marginfi_id k_position (events w_deposited) = 0"
    by (rule deposited_replay)
  then have "overdrawn marginfi_id k_position (events w) = 10" unfolding ev by (simp add: overdrawn_snoc)
  then show ?thesis
    using marginfi_shares_and_overdrafts [OF chain marginfi_run_reachable]
      marginfi_shares_and_overdrafts [OF chain r row] r
    by (auto simp: demo_state_def)
qed

text \<open>
  C14: in every world the Jupiter, Maple and Drift adapters can reach, the shares booked for a position
  are what their events for it replay to and the difference of the sums of its deposit and
  withdrawal events, and the row names the program and sits at the position's address.
\<close>

theorem receipt_adapters_shares_are_replay:
  "(chain jupiter_id rt R \<and> adapter_reachable jupiter R w \<and> ledger_of jupiter w k = Some h \<longrightarrow>
      unat (hdr_total_shares h) = replay jupiter_id (hdr_position h) (events w) \<and>
      unat (hdr_total_shares h) + requested jupiter_id (hdr_position h) (events w) =
        minted jupiter_id (hdr_position h) (events w) \<and>
      hdr_adapter_program h = jupiter_id \<and> k = adapter_address rt jupiter_id (hdr_position h)) \<and>
   (chain maple_id rt R \<and> adapter_reachable maple R w \<and> ledger_of maple w k = Some h \<longrightarrow>
      unat (hdr_total_shares h) = replay maple_id (hdr_position h) (events w) \<and>
      unat (hdr_total_shares h) + requested maple_id (hdr_position h) (events w) =
        minted maple_id (hdr_position h) (events w) \<and>
      hdr_adapter_program h = maple_id \<and> k = adapter_address rt maple_id (hdr_position h)) \<and>
   (chain drift_id rt R \<and> adapter_reachable drift R w \<and> ledger_of drift w k = Some h \<longrightarrow>
      unat (hdr_total_shares h) = replay drift_id (hdr_position h) (events w) \<and>
      unat (hdr_total_shares h) + requested drift_id (hdr_position h) (events w) =
        minted drift_id (hdr_position h) (events w) \<and>
      hdr_adapter_program h = drift_id \<and> k = adapter_address rt drift_id (hdr_position h))"
  using jupiter.shares_are_replay [of rt R w k h] maple.shares_are_replay [of rt R w k h]
    drift.shares_are_replay [of rt R w k h] jupiter.shares_are_sum [of rt R w k h]
    maple.shares_are_sum [of rt R w k h] drift.shares_are_sum [of rt R w k h] by simp

theorem receipt_adapters_shares_are_replay_witness:
  "(\<exists>w h. adapter_reachable jupiter {demo_callee} w \<and> ledger_of jupiter w k_state = Some h \<and>
      unat (hdr_total_shares h) = replay jupiter_id (hdr_position h) (events w)) \<and>
   (\<exists>w h. adapter_reachable maple {demo_callee} w \<and> ledger_of maple w k_state = Some h \<and>
      unat (hdr_total_shares h) = replay maple_id (hdr_position h) (events w)) \<and>
   (\<exists>w h. adapter_reachable drift {demo_callee} w \<and> ledger_of drift w k_state = Some h \<and>
      unat (hdr_total_shares h) = replay drift_id (hdr_position h) (events w))"
proof -
  note replay = receipt_adapters_shares_are_replay [of demo_callee "{demo_callee}" _ k_state]
  from demo_starts(2) replay demo_callee_chain [OF program_ids(4)]
  have "\<exists>w h. adapter_reachable jupiter {demo_callee} w \<and> ledger_of jupiter w k_state = Some h \<and>
      unat (hdr_total_shares h) = replay jupiter_id (hdr_position h) (events w)" by blast
  moreover from demo_starts(3) replay demo_callee_chain [OF program_ids(5)]
  have "\<exists>w h. adapter_reachable maple {demo_callee} w \<and> ledger_of maple w k_state = Some h \<and>
      unat (hdr_total_shares h) = replay maple_id (hdr_position h) (events w)" by blast
  moreover from demo_starts(4) replay demo_callee_chain [OF program_ids(6)]
  have "\<exists>w h. adapter_reachable drift {demo_callee} w \<and> ledger_of drift w k_state = Some h \<and>
      unat (hdr_total_shares h) = replay drift_id (hdr_position h) (events w)" by blast
  ultimately show ?thesis by simp
qed

section \<open>Access\<close>

text \<open>
  C28: whatever program implements the standard, its instructions succeed only in a transaction
  whose current top-level instruction is one of the dispatcher; so \<open>current_value\<close> cannot be read
  from another program's instruction, through the dispatcher or not.
\<close>

theorem only_in_dispatcher_transactions:
  assumes "adapter_standard A" and "sysvar_reports rt tx i" and "adapter_entry A rt infos data w = Inr w'"
  shows "ix_program (tx ! i) = DISPATCHER_ID"
  using adapter_standard.entry_caller [OF assms(1,3)] assms(2)
  by (auto simp: caller_ok_def sysvar_reports_def)

theorem only_in_dispatcher_transactions_witness:
  "\<exists>w. adapter_entry kamino demo_paying kamino_infos (encode_deposit 3 []) w_kamino = Inr w \<and>
       ix_program ([\<lparr>ix_program = DISPATCHER_ID, ix_accounts = [], ix_data = []\<rparr>] ! 0) = DISPATCHER_ID"
proof -
  let ?tx = "[\<lparr>ix_program = DISPATCHER_ID, ix_accounts = [], ix_data = []\<rparr>]"
  from run_kamino_fund(1) obtain w where
    e: "adapter_entry kamino demo_paying kamino_infos (encode_deposit 3 []) w_kamino = Inr w"
    by (auto simp: adapter_entry_def decode_encode)
  moreover have "sysvar_reports demo_paying ?tx 0"
    by (simp add: sysvar_reports_def demo_paying_def demo_callee_def)
  ultimately show ?thesis
    using only_in_dispatcher_transactions [OF kamino.adapter_standard_axioms _ e] by blast
qed

text \<open>
  C17: once the admin has paused an adapter, no position can be opened, no deposit and no
  withdrawal made through its entry.
\<close>

theorem paused_adapter_is_not_routed:
  assumes "governance_inv rt (governance_of w)" and "pause_adapter rt pinfos True w = Inr w'"
    and "ai_key (infos ! 1) = ai_key (pinfos ! 2)"
  shows "\<not> is_ok (open_position rt infos w') \<and> \<not> is_ok (deposit rt infos n w') \<and>
         \<not> is_ok (withdraw rt infos n w')"
proof -
  from assms(2) assms(1) obtain ctx where "pause_adapter_accounts rt pinfos w = Inr ctx"
    and g: "governance_of w' = (governance_of w)
           \<lparr>gov_entries := (gov_entries (governance_of w))
              (ty_key (pa_adapter_entry ctx) \<mapsto>
                 (ty_val (pa_adapter_entry ctx))\<lparr>ent_is_active := \<not> True\<rparr>)\<rparr>"
    by (rule pause_adapter_effect)
  then have "ai_key (infos ! 1) = ty_key (pa_adapter_entry ctx)"
    using assms(3) by (auto simp: pause_accounts_ok)
  then have "gov_entries (governance_of w') (ai_key (infos ! 1)) =
      Some ((ty_val (pa_adapter_entry ctx))\<lparr>ent_is_active := False\<rparr>)" by (simp add: g)
  then have ld: "load_account entry_codec dispatcher_id (ai_key (infos ! 1)) w' =
      Inr ((ty_val (pa_adapter_entry ctx))\<lparr>ent_is_active := False\<rparr>)"
    by (simp add: governance_lookup)
  show ?thesis using ld
    by (auto simp: is_ok_iff open_position_def deposit_def withdraw_def deposit_accounts_def
        withdraw_accounts_def and_then_eq_Inr open_position_accounts_ok fund_accounts_ok)
qed

theorem paused_adapter_is_not_routed_witness:
  "\<not> is_ok (deposit demo deposit_infos 50 w_paused) \<and> is_ok (deposit demo deposit_infos 50 w_opened)"
proof -
  have "ai_key (deposit_infos ! 1) = ai_key ([sg k_owner, ro k_registry, wr k_entry] ! 2)"
    by (simp add: deposit_infos_def)
  from paused_adapter_is_not_routed [OF dispatcher_reachable_inv [OF demo_chain demo_run_reachable(3)]
      run_pause this, of 50]
  show ?thesis using run_deposit by simp
qed

text \<open>
  C5: a deposit or a withdrawal succeeds only for the owner of the position, who signs; the
  program called is the one the position was opened with, the pool is the position's, the owner's
  token account belongs to the owner and holds the position's mint, the entry is active at this
  version, and the seeds that sign the calls derive the position's own address.
\<close>

theorem only_the_owner_moves_funds:
  assumes "is_ok (deposit rt infos n w) \<or> is_ok (withdraw rt infos n w)"
  shows "\<exists>p e t. positions_of w (ai_key (infos ! 3)) = Some p \<and>
     ai_signer (infos ! 0) \<and> pos_owner p = ai_key (infos ! 0) \<and>
     pos_adapter_program p = ai_key (infos ! 2) \<and> pos_usdc_pool p = ai_key (infos ! 4) \<and>
     load_token rt (ai_key (infos ! 5)) w = Inr t \<and>
     tok_owner t = ai_key (infos ! 0) \<and> tok_mint t = pos_usdc_mint p \<and>
     gov_entries (governance_of w) (ai_key (infos ! 1)) = Some e \<and>
     ent_is_active e \<and> ent_interface_version e = 1 \<and> 0 < n \<and>
     rt_create_program_address rt (position_seeds p) dispatcher_id = Some (ai_key (infos ! 3))"
proof -
  from assms obtain ctx where acc: "fund_accounts rt infos w = Inr ctx" and
    h: "0 < n" "ent_interface_version (ty_val (fu_adapter_entry ctx)) = ADAPTER_INTERFACE_VERSION"
    by (auto simp: is_ok_iff deposit_def withdraw_def deposit_accounts_def withdraw_accounts_def
        and_then_eq_Inr deposit_handler_ok withdraw_handler_ok)
  from acc [unfolded fund_accounts_ok] h show ?thesis
    by (intro exI [of _ "ty_val (fu_position ctx)"] exI [of _ "ty_val (fu_adapter_entry ctx)"]
        exI [of _ "ty_val (fu_owner_usdc_ata ctx)"])
      (auto simp: positions_of_def account_view_eq_Some governance_lookup position_seeds_def
        ADAPTER_INTERFACE_VERSION_def)
qed

theorem only_the_owner_moves_funds_witness:
  "\<exists>p. positions_of w_deposited k_position = Some p \<and> pos_owner p = k_owner \<and> ai_signer (sg k_owner)"
  using only_the_owner_moves_funds [of demo withdraw_infos 30 w_deposited] run_withdraw
  by (auto simp: withdraw_infos_def adapter_tail_def)

text \<open>
  C32: an adapter's \<open>adapter_initialize\<close> fails when the state account of the position exists
  already: it is not idempotent.
\<close>

theorem initialize_only_once:
  assumes "adapter_standard A" and "system_creates rt" and "calls_isolate rt (ad_id A)"
    and "accounts w (adapter_address rt (ad_id A) (slot_position infos)) \<noteq> None"
  shows "\<not> is_ok (ad_initialize A rt infos data w)"
  using adapter_standard.initialize_law [OF assms(1), of rt infos data w] assms(2-4)
  by (auto simp: is_ok_iff opens_row_def)

theorem initialize_only_once_witness:
  "\<not> is_ok (marginfi_initialize demo_callee [ro k_sysvar, sg k_position, wr k_state] [] w_opened)"
  using initialize_only_once [OF marginfi.adapter_standard_axioms demo_system_creates(1), of w_opened
      "[ro k_sysvar, sg k_position, wr k_state]" "[]"] demo_callee_isolates [OF program_ids(3)]
  by (simp add: demo_row_address)

text \<open>
  C33: the state account of each of the five adapters begins, after its discriminator, with the
  common header, so one off-chain reader serves them all.
\<close>

theorem every_header_is_readable:
  "read_header (account_image kamino_codec k) = Some (ks_header k) \<and>
   read_header (account_image marginfi_codec m) = Some (ms_header m) \<and>
   read_header (account_image jupiter_codec j) = Some (js_header j) \<and>
   read_header (account_image maple_codec y) = Some (ys_header y) \<and>
   read_header (account_image drift_codec d) = Some (fs_header d)"
  using kamino.header_readable [of k] marginfi.header_readable [of m] jupiter.header_readable [of j]
    maple.header_readable [of y] drift.header_readable [of d]
  by simp

text \<open>
  C40: every account type of the dispatcher and the adapters is read back from the bytes it is
  written as, whatever follows them, and those bytes fit the space its accounts are created with.
\<close>

theorem account_types_fit:
  "try_deserialize registry_codec (account_image registry_codec r @ z) = Inr r \<and>
   try_deserialize position_codec (account_image position_codec p @ z) = Inr p \<and>
   (length (ent_name e) \<le> 32 \<longrightarrow> try_deserialize entry_codec (account_image entry_codec e @ z) = Inr e) \<and>
   try_deserialize kamino_codec (account_image kamino_codec k @ z) = Inr k \<and>
   try_deserialize marginfi_codec (account_image marginfi_codec m @ z) = Inr m \<and>
   try_deserialize jupiter_codec (account_image jupiter_codec j @ z) = Inr j \<and>
   try_deserialize maple_codec (account_image maple_codec y @ z) = Inr y \<and>
   try_deserialize drift_codec (account_image drift_codec d @ z) = Inr d \<and>
   length (account_image registry_codec r) \<le> co_space registry_codec \<and>
   length (account_image position_codec p) \<le> co_space position_codec \<and>
   (length (ent_name e) \<le> 32 \<longrightarrow> length (account_image entry_codec e) \<le> co_space entry_codec) \<and>
   length (account_image kamino_codec k) \<le> co_space kamino_codec \<and>
   length (account_image marginfi_codec m) \<le> co_space marginfi_codec \<and>
   length (account_image jupiter_codec j) \<le> co_space jupiter_codec \<and>
   length (account_image maple_codec y) \<le> co_space maple_codec \<and>
   length (account_image drift_codec d) \<le> co_space drift_codec"
  by (simp add: registry.deserialize_image position.deserialize_image entry.deserialize_image
      kamino_state.deserialize_image marginfi_state.deserialize_image jupiter_state.deserialize_image
      maple_state.deserialize_image drift_state.deserialize_image registry.image_in_space
      position.image_in_space entry.image_in_space kamino_state.image_in_space
      marginfi_state.image_in_space jupiter_state.image_in_space maple_state.image_in_space
      drift_state.image_in_space entry_wf_def MAX_NAME_LEN_def)

theorem account_types_fit_witness:
  "try_deserialize entry_codec (account_image entry_codec demo_entry @ replicate 29 0) = Inr demo_entry"
  using account_types_fit [of _ "replicate 29 0" _ demo_entry] by (simp add: demo_entry_def)

text \<open>
  C3: the shares a deposit mints are exactly the growth of the receipt account recorded in the
  state of the position: the cToken vault (Kamino), the JLP account (Jupiter), the syrupUSDC account
  (Maple).
\<close>

theorem deposits_mint_growth:
  assumes "kamino_id \<noteq> rt_token_program rt" and "jupiter_id \<noteq> rt_token_program rt"
    and "maple_id \<noteq> rt_token_program rt"
  shows "(kamino_deposit rt infos amount data w = Inr w' \<longrightarrow>
            (\<exists>s m. load_account kamino_codec kamino_id (ai_key (infos ! 3)) w = Inr s \<and>
               get_u64_return kamino_id w' = Some m \<and>
               balance rt w (ks_collateral_vault s) + unat m = balance rt w' (ks_collateral_vault s))) \<and>
         (jupiter_deposit rt infos amount data w = Inr w' \<longrightarrow>
            (\<exists>s m. load_account jupiter_codec jupiter_id (ai_key (infos ! 3)) w = Inr s \<and>
               get_u64_return jupiter_id w' = Some m \<and>
               balance rt w (js_lp_token_account s) + unat m = balance rt w' (js_lp_token_account s))) \<and>
         (maple_deposit rt infos amount data w = Inr w' \<longrightarrow>
            (\<exists>s m. load_account maple_codec maple_id (ai_key (infos ! 3)) w = Inr s \<and>
               get_u64_return maple_id w' = Some m \<and>
               balance rt w (ys_syrup_token_account s) + unat m = balance rt w' (ys_syrup_token_account s)))"
  using kamino_deposit_mints [OF _ assms(1), of infos amount data w w']
    jupiter_deposit_mints [OF _ assms(2), of infos amount data w w']
    maple_deposit_mints [OF _ assms(3), of infos amount data w w']
  by (auto simp: reports_growth_def)

theorem deposits_mint_growth_witness:
  "(\<exists>w' (s :: kamino_state) m. kamino_deposit demo_paying kamino_infos 3 [] w_kamino = Inr w' \<and>
      get_u64_return kamino_id w' = Some m \<and>
      balance demo_paying w_kamino (ks_collateral_vault s) + unat m = balance demo_paying w' (ks_collateral_vault s)) \<and>
   (\<exists>w' (s :: jupiter_state) m. jupiter_deposit demo_paying jupiter_infos 3 [] w_jupiter = Inr w' \<and>
      get_u64_return jupiter_id w' = Some m \<and>
      balance demo_paying w_jupiter (js_lp_token_account s) + unat m = balance demo_paying w' (js_lp_token_account s)) \<and>
   (\<exists>w' (s :: maple_state) m. maple_deposit demo_paying maple_infos 3 [] w_maple = Inr w' \<and>
      get_u64_return maple_id w' = Some m \<and>
      balance demo_paying w_maple (ys_syrup_token_account s) + unat m = balance demo_paying w' (ys_syrup_token_account s))"
proof -
  have "kamino_id \<noteq> rt_token_program demo_paying" "jupiter_id \<noteq> rt_token_program demo_paying"
    "maple_id \<noteq> rt_token_program demo_paying" using program_ids by simp_all
  note growth = deposits_mint_growth [OF this]
  from run_kamino_fund(1) run_jupiter_deposit run_maple_deposit obtain wk wj wm where
    k: "kamino_deposit demo_paying kamino_infos 3 [] w_kamino = Inr wk" and
    j: "jupiter_deposit demo_paying jupiter_infos 3 [] w_jupiter = Inr wj" and
    m: "maple_deposit demo_paying maple_infos 3 [] w_maple = Inr wm" by blast
  note facts = growth [THEN conjunct1, rule_format, OF k]
    growth [THEN conjunct2, THEN conjunct1, rule_format, OF j]
    growth [THEN conjunct2, THEN conjunct2, rule_format, OF m]
  show ?thesis using k j m facts(1) facts(2) facts(3) by (intro conjI) blast+
qed

text \<open>
  C19: in the Kamino, Jupiter, Maple and Drift adapters a withdrawal with valid accounts of no shares
  fails with \<open>ZeroAmount\<close>, and of more shares than are booked with \<open>InsufficientShares\<close>, before any
  protocol is called.
\<close>

theorem over_withdrawal_refused:
  assumes "length data \<le> 256"
  shows "(kamino_withdraw_accounts rt infos w = Inr k \<longrightarrow>
            kamino_withdraw rt infos 0 data w = Inl (AdapterErr adapter_error.ZeroAmount) \<and>
            (hdr_total_shares (ks_header (ty_val (kf_adapter_state k))) < n \<longrightarrow>
             kamino_withdraw rt infos n data w = Inl (AdapterErr InsufficientShares))) \<and>
         (jupiter_withdraw_accounts rt infos w = Inr j \<longrightarrow>
            jupiter_withdraw rt infos 0 data w = Inl (AdapterErr adapter_error.ZeroAmount) \<and>
            (hdr_total_shares (js_header (ty_val (jf_adapter_state j))) < n \<longrightarrow>
             jupiter_withdraw rt infos n data w = Inl (AdapterErr InsufficientShares))) \<and>
         (maple_withdraw_accounts rt infos w = Inr y \<longrightarrow>
            maple_withdraw rt infos 0 data w = Inl (AdapterErr adapter_error.ZeroAmount) \<and>
            (hdr_total_shares (ys_header (ty_val (yf_adapter_state y))) < n \<longrightarrow>
             maple_withdraw rt infos n data w = Inl (AdapterErr InsufficientShares))) \<and>
         (drift_withdraw_accounts rt infos w = Inr f \<longrightarrow>
            drift_withdraw rt infos 0 data w = Inl (AdapterErr adapter_error.ZeroAmount) \<and>
            (hdr_total_shares (fs_header (ty_val (fw_adapter_state f))) < n \<longrightarrow>
             drift_withdraw rt infos n data w = Inl (AdapterErr InsufficientShares)))"
proof -
  have pos: "0 < n" if "t < n" for t n :: u64
    using that by (simp add: word_less_nat_alt)
  show ?thesis
    using assms
    by (auto simp: kamino_withdraw_def kamino_withdraw_handler_def jupiter_withdraw_def
        jupiter_withdraw_handler_def maple_withdraw_def maple_withdraw_handler_def drift_withdraw_def
        drift_withdraw_handler_def MAX_ADAPTER_DATA_LEN_def Let_def require_def dest: pos)
qed

theorem over_withdrawal_refused_witness:
  "kamino_withdraw demo_paying kamino_infos 21 [] w_kamino = Inl (AdapterErr InsufficientShares) \<and>
   kamino_withdraw demo_paying kamino_infos 0 [] w_kamino = Inl (AdapterErr adapter_error.ZeroAmount)"
  using over_withdrawal_refused [of "[]" demo_paying kamino_infos w_kamino kamino_ctx 21]
  by (simp add: kamino_withdraw_accounts_def run_kamino_accounts)

text \<open>
  C20: the MarginFi adapter accepts a withdrawal of more shares than are booked: it empties the row
  at the given state account and logs the requested number of shares, not the booked one.
\<close>

theorem marginfi_over_withdrawal:
  assumes "marginfi_withdraw rt infos n data w = Inr w'" and "calls_isolate rt marginfi_id"
    and "ledger_of marginfi w (ai_key (infos ! 3)) = Some h" and "hdr_total_shares h < n"
  shows "ledger_of marginfi w' = (ledger_of marginfi w)(ai_key (infos ! 3) \<mapsto> book 0 h) \<and>
         (\<exists>a. last (events w') = (marginfi_id, AdapterWithdrawEvent (hdr_position h) n a))"
  using marginfi_withdraw_row [OF assms(1,2)] assms(3,4)
  by (auto simp: word_less_nat_alt unat_eq_zero)

theorem marginfi_over_withdrawal_witness:
  "\<exists>w. marginfi_withdraw demo_callee mfi_withdraw_infos 60 [] (w_deposited\<lparr>return_data := None\<rparr>) = Inr w \<and>
     ledger_of marginfi w k_state = Some (book 0 (ms_header (demo_state 50)))"
proof -
  let ?w = "w_deposited\<lparr>return_data := None\<rparr>"
  obtain w where r: "marginfi_withdraw demo_callee mfi_withdraw_infos 60 [] ?w = Inr w"
    using run_marginfi_withdraw [of 60 0] by simp
  have k: "ai_key (mfi_withdraw_infos ! 3) = k_state" by (simp add: mfi_withdraw_infos_def)
  have "load_account marginfi_codec marginfi_id k_state ?w = Inr (demo_state 50)"
    by (rule marginfi_state.load_held) simp_all
  then have row: "ledger_of marginfi ?w k_state = Some (ms_header (demo_state 50))"
    using ledger_load [of marginfi k_state ?w] by simp
  from marginfi_over_withdrawal [OF r demo_callee_isolates [OF program_ids(3)], unfolded k, OF row] r
  show ?thesis by (auto simp: demo_state_def)
qed

section \<open>Witnesses for the components\<close>

theorem instruction_round_trip_witness:
  "decode_adapter_ix (encode_deposit 7 [1, 2]) = Inr (IxDeposit 7 [1, 2])"
  using instruction_round_trip [of "[1, 2]" 7] by simp

theorem whitelist_progress_witness:
  "is_ok (whitelist_adapter demo [sg k_owner, wr k_registry, wr k_entry, ro marginfi_id, ro k_system]
     [77, 70, 73] 1 w_registry) \<and>
   \<not> is_ok (whitelist_adapter demo [sg k_owner, wr k_registry, wr k_entry, ro marginfi_id, ro k_system]
     [77, 70, 73] 2 w_registry)"
proof -
  from run_whitelist_adapter obtain ctx w1 where "whitelist_adapter_accounts demo
      [sg k_owner, wr k_registry, wr k_entry, ro marginfi_id, ro k_system] w_registry = Inr (ctx, w1)"
    by (auto simp: whitelist_adapter_def and_then_eq_Inr)
  from whitelist_progress [OF demo_system_creates(2) this, of "[77, 70, 73]" 2]
    run_whitelist_adapter
  show ?thesis by simp
qed

theorem fund_instructions_progress_witness:
  "(\<exists>w1. rt_token_transfer demo dispatcher_id (wr k_owner_ata) (wr k_pool) (sg k_owner) 50 [] w_opened = Inr w1) \<and>
   \<not> is_ok (deposit demo deposit_infos 0 w_opened)"
  using fund_instructions_progress [OF run_demo_accounts(1) demo_isolates, of 50]
    fund_instructions_progress [OF run_demo_accounts(1) demo_isolates, of 0] run_deposit
  by (auto simp: demo_fund_ctx_def)

theorem kamino_split_value_witness:
  "\<exists>vs. list_all2 (\<lambda>p x. collateral_value_usdc demo_reserve p = Inr x) [2, 3] vs \<and>
        sum_list (map unat vs) \<le> 7"
  using kamino_split_value [OF demo_reserve_value, of "[2, 3]"] by simp

theorem maple_price_rounding_witness:
  "(9 :: nat) \<le> 9 * 2 ^ 64 * 2 ^ 64 div 2 ^ 128 \<and> sqrt_price demo_whirlpool = 2 ^ 64"
  using maple_price_rounding [OF demo_whirlpool_value] by (simp add: demo_whirlpool_price)

theorem maple_price_below_one_witness:
  "\<exists>v. whirlpool_value_usdc demo_whirlpool 5 = Inr v \<and> v \<le> 5"
  using maple_price_below_one [of demo_whirlpool 5] by (simp add: demo_whirlpool_price)

theorem marginfi_shares_scan_witness:
  "account_asset_shares demo_balances 13 = Inr (2 ^ 60)"
  using marginfi_shares_scan [of demo_balances 13 "2 ^ 60"] demo_balances_slots
  by (auto intro!: exI [of _ 1])

theorem marginfi_value_rounding_witness:
  "\<exists>r. shares_to_usdc (2 ^ 60) (2 ^ 48) = Inr r \<and>
       exact_usdc (2 ^ 60) (2 ^ 48) \<le> unat r + (2 ^ 44 + 2 ^ 32) div 2 ^ 64 + 2"
  using marginfi_value_rounding [OF _ _ demo_marginfi_value] demo_marginfi_value by simp

end
